(* ===== verification/Go_Base.thy ===== *)
theory Go_Base
  imports Main "HOL-Library.Word" "HOL-Library.Code_Target_Nat"
begin

text \<open>
  What the code uses of Go itself: 64-bit signed arithmetic, \<open>fmt.Sprintf\<close> of integers and
  bytes, \<open>strconv.Atoi\<close>, and the functions of package \<open>strings\<close>.  A Go string is a list of
  bytes, so the model's type is \<open>string\<close> (a list of 8-bit characters).
  The named collections at the top are filled by every theory of the development:
  \<open>unfolds\<close> holds the definitions of the straight-line handlers and operations, \<open>frames\<close> the facts that
  an operation leaves a part of the world alone.
\<close>

named_theorems unfolds "definitions of straight-line operations"
named_theorems frames "parts of the world an operation leaves unchanged"

section \<open>Integers\<close>

text \<open>Go's \<open>int\<close>, \<open>int64\<close> and \<open>time.Duration\<close> are 64-bit two's complement: arithmetic wraps.\<close>

definition wrap64 :: "int \<Rightarrow> int" where
  "wrap64 x = sint (word_of_int x :: 64 word)"

definition in_int64 :: "int \<Rightarrow> bool" where
  "in_int64 x \<longleftrightarrow> - (2 ^ 63) \<le> x \<and> x < 2 ^ 63"

lemma wrap64_signed_take_bit: "wrap64 x = signed_take_bit 63 x"
  by (simp add: wrap64_def sint_sbintrunc')

lemma wrap64_range: "in_int64 (wrap64 x)"
  using signed_take_bit_int_less_exp [of 63 x] signed_take_bit_int_greater_eq_minus_exp [of 63 x]
  by (simp add: wrap64_signed_take_bit in_int64_def)

lemma wrap64_id [simp]: "in_int64 x \<Longrightarrow> wrap64 x = x"
  by (simp add: wrap64_signed_take_bit in_int64_def signed_take_bit_int_eq_self)

text \<open>Integer division of Go truncates toward zero.\<close>

definition quot64 :: "int \<Rightarrow> int \<Rightarrow> int" where
  "quot64 a b = sgn a * sgn b * (\<bar>a\<bar> div \<bar>b\<bar>)"

section \<open>Decimal and hexadecimal text\<close>

definition digit_char :: "nat \<Rightarrow> char" where
  "digit_char n = char_of (48 + n)"

fun nat_digits :: "nat \<Rightarrow> string" where
  "nat_digits n = (if n < 10 then [digit_char n] else nat_digits (n div 10) @ [digit_char (n mod 10)])"

declare nat_digits.simps [simp del]

text \<open>\<open>fmt.Sprintf("%d", n)\<close>.\<close>

definition itoa :: "int \<Rightarrow> string" where
  "itoa n = (if n < 0 then CHR ''-'' # nat_digits (nat (- n)) else nat_digits (nat n))"

definition is_digit :: "char \<Rightarrow> bool" where
  "is_digit c \<longleftrightarrow> 48 \<le> (of_char c :: nat) \<and> (of_char c :: nat) \<le> 57"

fun digits_val :: "nat \<Rightarrow> string \<Rightarrow> nat option" where
  "digits_val acc [] = Some acc"
| "digits_val acc (c # cs) =
     (if is_digit c then digits_val (10 * acc + (of_char c - 48)) cs else None)"

text \<open>
  \<open>strconv.Atoi\<close>: an optional sign, then at least one decimal digit and nothing else; a value
  outside the 64-bit range is an error, as is everything that does not parse.
\<close>

definition split_sign :: "string \<Rightarrow> bool \<times> string" where
  "split_sign s =
     (case s of
        [] \<Rightarrow> (False, [])
      | c # r \<Rightarrow> if c = CHR ''-'' then (True, r) else if c = CHR ''+'' then (False, r) else (False, s))"

definition Atoi :: "string \<Rightarrow> int option" where
  "Atoi s =
     (let (neg, ds) = split_sign s
      in if ds = [] then None
         else case digits_val 0 ds of
             None \<Rightarrow> None
           | Some v \<Rightarrow> (let n = (if neg then - int v else int v)
                       in if in_int64 n then Some n else None))"

lemma digit_char_table: "list_all (\<lambda>n. digit_char n = ''0123456789'' ! n) [0..<10]"
  by code_simp

lemma digit_char_code [code]: "digit_char n = (if n < 10 then ''0123456789'' ! n else char_of (48 + n))"
proof (cases "n < 10")
  case True
  then show ?thesis using digit_char_table by (simp add: list_all_iff)
qed (simp add: digit_char_def)

lemma of_char_digit [simp]: "n < 10 \<Longrightarrow> (of_char (digit_char n) :: nat) = 48 + n"
  by (simp add: digit_char_def)

lemma is_digit_digit_char [simp]: "n < 10 \<Longrightarrow> is_digit (digit_char n)"
  by (simp add: is_digit_def)

lemma digits_val_append:
  "digits_val acc (xs @ ys) = Option.bind (digits_val acc xs) (\<lambda>a. digits_val a ys)"
  by (induction xs arbitrary: acc) auto

lemma digits_val_nat_digits [simp]: "digits_val 0 (nat_digits n) = Some n"
proof (induction n rule: nat_digits.induct)
  case (1 n)
  show ?case
  proof (cases "n < 10")
    case True
    then show ?thesis by (simp add: nat_digits.simps)
  next
    case False
    with 1 show ?thesis
      by (subst nat_digits.simps) (simp add: digits_val_append)
  qed
qed

lemma nat_digits_not_Nil [simp]: "nat_digits n \<noteq> []"
  by (subst nat_digits.simps) simp

lemma nat_digits_all_digits: "c \<in> set (nat_digits n) \<Longrightarrow> is_digit c"
proof (induction n rule: nat_digits.induct)
  case (1 n)
  then show ?case by (subst (asm) (2) nat_digits.simps) (auto split: if_splits)
qed

lemma not_digit_signs [simp]: "\<not> is_digit (CHR ''-'')" "\<not> is_digit (CHR ''+'')"
  by (simp_all add: is_digit_def)

lemma nat_digits_Cons: "nat_digits n = c # cs \<Longrightarrow> is_digit c"
  using nat_digits_all_digits [of c n] by simp

lemma split_sign_itoa: "split_sign (itoa n) = (n < 0, nat_digits (nat \<bar>n\<bar>))"
proof (cases "n < 0")
  case True
  then show ?thesis by (simp add: split_sign_def itoa_def)
next
  case False
  obtain c cs where d: "nat_digits (nat n) = c # cs"
    by (cases "nat_digits (nat n)") auto
  then have "is_digit c" by (rule nat_digits_Cons)
  then have "c \<noteq> CHR ''-''" "c \<noteq> CHR ''+''" by (auto simp: is_digit_def)
  with False d show ?thesis by (simp add: split_sign_def itoa_def)
qed

lemma Atoi_itoa [simp]: "in_int64 n \<Longrightarrow> Atoi (itoa n) = Some n"
  by (simp add: Atoi_def split_sign_itoa)

lemma Atoi_in_range: "Atoi s = Some n \<Longrightarrow> in_int64 n"
  by (auto simp: Atoi_def Let_def split: prod.splits if_splits option.splits)

lemma itoa_inj: "itoa m = itoa n \<Longrightarrow> in_int64 m \<Longrightarrow> in_int64 n \<Longrightarrow> m = n"
  using Atoi_itoa by (metis option.inject)

text \<open>\<open>fmt.Sprintf("%x", bytes)\<close>: two lowercase hexadecimal digits per byte.\<close>

definition hex_digit :: "nat \<Rightarrow> char" where
  "hex_digit n = (if n < 10 then char_of (48 + n) else char_of (87 + n))"

definition hex_bytes :: "8 word list \<Rightarrow> string" where
  "hex_bytes bs = concat (map (\<lambda>b. [hex_digit (unat b div 16), hex_digit (unat b mod 16)]) bs)"

text \<open>Words of many bits are evaluated by comparing instead of masking where they are small.\<close>

lemma take_bit_small_code [code]:
  "take_bit n (k :: int) =
     (if 64 \<le> n \<and> 0 \<le> k \<and> k < 18446744073709551616 then k else k mod 2 ^ n)"
proof (cases "64 \<le> n \<and> 0 \<le> k \<and> k < 18446744073709551616")
  case True
  then have "(2 :: int) ^ 64 \<le> 2 ^ n" by (intro power_increasing) auto
  with True have "k < 2 ^ n" by simp
  with True show ?thesis by (simp add: take_bit_int_eq_self)
next
  case False
  show ?thesis unfolding if_not_P [OF False] by (rule take_bit_eq_mod)
qed

end
