(* ===== verification/Go_Strings.thy ===== *)
theory Go_Strings
  imports Go_Base
begin

text \<open>
  The functions of package \<open>strings\<close> and the string conversions the code uses, on byte strings.
\<close>

section \<open>Prefixes and splitting\<close>

definition HasPrefix :: "string \<Rightarrow> string \<Rightarrow> bool" where
  "HasPrefix s p \<longleftrightarrow> take (length p) s = p"

definition TrimPrefix :: "string \<Rightarrow> string \<Rightarrow> string" where
  "TrimPrefix s p = (if HasPrefix s p then drop (length p) s else s)"

text \<open>\<open>strings.CutPrefix\<close>: the rest and whether the prefix was there.\<close>

definition CutPrefix :: "string \<Rightarrow> string \<Rightarrow> string \<times> bool" where
  "CutPrefix s p = (if HasPrefix s p then (drop (length p) s, True) else (s, False))"

lemma HasPrefix_append [simp]: "HasPrefix (p @ s) p"
  by (simp add: HasPrefix_def)

lemma HasPrefix_iff: "HasPrefix s p \<longleftrightarrow> (\<exists>r. s = p @ r)"
  by (auto simp: HasPrefix_def) (metis append_take_drop_id)

lemma TrimPrefix_append [simp]: "TrimPrefix (p @ s) p = s"
  by (simp add: TrimPrefix_def)

text \<open>\<open>strings.Split(s, sep)\<close> for a separator of one byte: never the empty list.\<close>

fun Split :: "char \<Rightarrow> string \<Rightarrow> string list" where
  "Split c [] = [[]]"
| "Split c (x # xs) =
     (if x = c then [] # Split c xs
      else (case Split c xs of [] \<Rightarrow> [[x]] | y # ys \<Rightarrow> (x # y) # ys))"

text \<open>\<open>strings.SplitN(s, sep, 2)\<close>: cut at the first separator only.\<close>

definition SplitN2 :: "char \<Rightarrow> string \<Rightarrow> string list" where
  "SplitN2 c s =
     (if c \<in> set s then [takeWhile (\<lambda>x. x \<noteq> c) s, tl (dropWhile (\<lambda>x. x \<noteq> c) s)] else [s])"

definition join :: "string \<Rightarrow> string list \<Rightarrow> string" where
  "join sep xs = (case xs of [] \<Rightarrow> [] | y # ys \<Rightarrow> y @ concat (map (\<lambda>z. sep @ z) ys))"

lemma Split_not_Nil [simp]: "Split c s \<noteq> []"
  by (induction s) (auto split: list.splits)

lemma Split_hd_takeWhile: "hd (Split c s) = takeWhile (\<lambda>x. x \<noteq> c) s"
proof (induction s)
  case Nil
  then show ?case by simp
next
  case (Cons x s)
  then show ?case by (cases "Split c s") auto
qed

lemma length_Split: "length (Split c s) = Suc (count_list s c)"
proof (induction s)
  case Nil
  then show ?case by simp
next
  case (Cons x s)
  then show ?case by (cases "Split c s") auto
qed

lemma join_Split: "join [c] (Split c s) = s"
proof (induction s)
  case Nil
  then show ?case by (simp add: join_def)
next
  case (Cons x s)
  then show ?case by (cases "Split c s") (auto simp: join_def split: list.splits)
qed

lemma SplitN2_at: "c \<notin> set a \<Longrightarrow> SplitN2 c (a @ c # b) = [a, b]"
  by (induction a) (auto simp: SplitN2_def)

lemma SplitN2_none: "c \<notin> set s \<Longrightarrow> SplitN2 c s = [s]"
  by (simp add: SplitN2_def)

section \<open>Case and white space\<close>

text \<open>\<open>strings.ToLower\<close> on ASCII letters; other bytes stay as they are.\<close>

definition lower_char :: "char \<Rightarrow> char" where
  "lower_char c = (let n = (of_char c :: nat) in if 65 \<le> n \<and> n \<le> 90 then char_of (n + 32) else c)"

definition upper_char :: "char \<Rightarrow> char" where
  "upper_char c = (let n = (of_char c :: nat) in if 97 \<le> n \<and> n \<le> 122 then char_of (n - 32) else c)"

definition ToLower :: "string \<Rightarrow> string" where
  "ToLower s = map lower_char s"

text \<open>
  The UTF-8 encodings of the characters \<open>unicode.IsSpace\<close> accepts; \<open>strings.TrimSpace\<close> strips
  them from both ends.
\<close>

definition space_codes :: "nat list list" where
  "space_codes =
     [[9], [10], [11], [12], [13], [32], [194, 133], [194, 160], [225, 154, 128]] @
     map (\<lambda>k. [226, 128, k]) [128..<139] @
     [[226, 128, 168], [226, 128, 169], [226, 128, 175], [226, 129, 159], [227, 128, 128]]"

definition spaces :: "string list" where
  "spaces = map (map char_of) space_codes"

definition lead_space :: "string list \<Rightarrow> string \<Rightarrow> nat" where
  "lead_space ws s = (case find (HasPrefix s) ws of None \<Rightarrow> 0 | Some p \<Rightarrow> length p)"

function trim_lead :: "string list \<Rightarrow> string \<Rightarrow> string" where
  "trim_lead ws s =
     (if 0 < lead_space ws s \<and> s \<noteq> [] then trim_lead ws (drop (lead_space ws s) s) else s)"
  by pat_completeness auto
termination
  by (relation "measure (\<lambda>(ws, s). length s)") auto

declare trim_lead.simps [simp del]

definition TrimSpace :: "string \<Rightarrow> string" where
  "TrimSpace s = rev (trim_lead (map rev spaces) (rev (trim_lead spaces s)))"

text \<open>\<open>string(b)\<close> for a byte \<open>b\<close>: the UTF-8 encoding of the code point \<open>b\<close>.\<close>

definition byte_string :: "char \<Rightarrow> string" where
  "byte_string c =
     (let n = (of_char c :: nat)
      in if n < 128 then [c] else [char_of (192 + n div 64), char_of (128 + n mod 64)])"

text \<open>The UTF-8 bytes of the dash that some messages contain.\<close>

definition em_dash :: string where
  "em_dash = map char_of [226 :: nat, 128, 148]"

section \<open>Canonical header names\<close>

text \<open>
  \<open>textproto.CanonicalMIMEHeaderKey\<close> on names made of token bytes: upper case at the start and
  after a hyphen, lower case elsewhere.
\<close>

fun canon_from :: "bool \<Rightarrow> string \<Rightarrow> string" where
  "canon_from up [] = []"
| "canon_from up (c # cs) =
     (if up then upper_char c else lower_char c) # canon_from (c = CHR ''-'') cs"

definition canon_key :: "string \<Rightarrow> string" where
  "canon_key k = canon_from True k"

lemma canon_key_example: "canon_key ''X-RateLimit-Limit'' = ''X-Ratelimit-Limit''"
  by code_simp

end
