(* ===== verification/Http.thy ===== *)
theory Http
  imports Go_Strings
begin

text \<open>
  The parts of \<open>net/http\<close> and \<open>encoding/json\<close> the handlers use: JSON values, the decoding of a
  JSON object into a struct, requests with their context values, and the response writer.
  A response writer keeps a snapshot of headers and cookies when the status is written; later
  changes of the header map do not reach the client.
\<close>

section \<open>JSON values\<close>

datatype json =
    JNull
  | JBool bool
  | JInt int
  | JStr string
  | JArr "json list"
  | JObj "(string \<times> json) list"

text \<open>
  \<open>encoding/json\<close> matches an object key with a struct field up to simple case folding.  The
  folding orbits of the ASCII letters contain two more characters: the Kelvin sign
  (bytes 226 132 170, folds to k) and the long s (bytes 197 191, folds to s).
\<close>

fun fold_name :: "string \<Rightarrow> string" where
  "fold_name [] = []"
| "fold_name (a # cs) =
     (if (of_char a :: nat) = 226 \<and> take 2 cs = [char_of (132::nat), char_of (170::nat)]
      then CHR ''K'' # fold_name (drop 2 cs)
      else if (of_char a :: nat) = 197 \<and> take 1 cs = [char_of (191::nat)]
      then CHR ''S'' # fold_name (drop 1 cs)
      else upper_char a # fold_name cs)"

definition key_is :: "string \<Rightarrow> string \<Rightarrow> bool" where
  "key_is field k \<longleftrightarrow> fold_name k = fold_name field"

text \<open>Among names of lower-case letters and underscores the match is equality.\<close>

definition plain_char :: "char \<Rightarrow> bool" where
  "plain_char c \<longleftrightarrow> c = CHR ''_'' \<or> (97 \<le> (of_char c :: nat) \<and> (of_char c :: nat) \<le> 122)"

lemma fold_name_plain: "list_all plain_char s \<Longrightarrow> fold_name s = map upper_char s"
  by (induction s) (auto simp: plain_char_def)

lemma of_char_upper_plain:
  "plain_char c \<Longrightarrow>
   (of_char (upper_char c) :: nat) = (if c = CHR ''_'' then 95 else of_char c - 32) \<and>
   (c \<noteq> CHR ''_'' \<longrightarrow> 97 \<le> (of_char c :: nat) \<and> (of_char c :: nat) \<le> 122)"
  by (auto simp: plain_char_def upper_char_def Let_def)

lemma upper_char_plain_inj:
  assumes "plain_char c" "plain_char d" "upper_char c = upper_char d"
  shows "c = d"
proof (rule ccontr)
  assume "c \<noteq> d"
  then have "(of_char c :: nat) \<noteq> of_char d" by simp
  moreover have "(of_char (upper_char c) :: nat) = of_char (upper_char d)"
    using assms(3) by simp
  ultimately show False
    using of_char_upper_plain [OF assms(1)] of_char_upper_plain [OF assms(2)]
    by (auto split: if_splits simp del: of_char_eq_iff)
qed

lemma key_is_plain:
  assumes "list_all plain_char f" "list_all plain_char k"
  shows "key_is f k \<longleftrightarrow> k = f"
proof -
  have "map upper_char k = map upper_char f \<Longrightarrow> k = f"
    using assms
  proof (induction k arbitrary: f)
    case Nil
    then show ?case by simp
  next
    case (Cons c k)
    then show ?case by (cases f) (auto intro: upper_char_plain_inj)
  qed
  then show ?thesis
    using assms by (auto simp: key_is_def fold_name_plain)
qed

text \<open>
  Decoding one field of a struct from the pairs of an object, in order: \<open>null\<close> leaves a value
  as it is and sets a pointer to nil, another type is an error that the decoder reports after it
  went through the rest; later keys overwrite earlier ones.  \<open>conv\<close> is the field's own decoding.
\<close>

fun dec_field :: "(json \<Rightarrow> 'a option) \<Rightarrow> string \<Rightarrow> (string \<times> json) list \<Rightarrow> 'a \<Rightarrow> bool \<Rightarrow> 'a \<times> bool"
  where
  "dec_field conv f [] v ok = (v, ok)"
| "dec_field conv f ((k, j) # ps) v ok =
     (if key_is f k then
        (if j = JNull then dec_field conv f ps v ok
         else (case conv j of Some x \<Rightarrow> dec_field conv f ps x ok
               | None \<Rightarrow> dec_field conv f ps v False))
      else dec_field conv f ps v ok)"

fun dec_ptr :: "(json \<Rightarrow> 'a option) \<Rightarrow> string \<Rightarrow> (string \<times> json) list \<Rightarrow> 'a option \<Rightarrow> bool \<Rightarrow>
    'a option \<times> bool" where
  "dec_ptr conv f [] v ok = (v, ok)"
| "dec_ptr conv f ((k, j) # ps) v ok =
     (if key_is f k then
        (if j = JNull then dec_ptr conv f ps None ok
         else (case conv j of Some x \<Rightarrow> dec_ptr conv f ps (Some x) ok
               | None \<Rightarrow> dec_ptr conv f ps v False))
      else dec_ptr conv f ps v ok)"

definition json_str :: "json \<Rightarrow> string option" where
  "json_str j = (case j of JStr s \<Rightarrow> Some s | _ \<Rightarrow> None)"

definition json_bool :: "json \<Rightarrow> bool option" where
  "json_bool j = (case j of JBool b \<Rightarrow> Some b | _ \<Rightarrow> None)"

text \<open>The pairs of a decoded value: \<open>null\<close> decodes into a struct without effect, a value that is
  no object is an error.\<close>

definition obj_pairs :: "json \<Rightarrow> (string \<times> json) list option" where
  "obj_pairs j = (case j of JObj ps \<Rightarrow> Some ps | JNull \<Rightarrow> Some [] | _ \<Rightarrow> None)"

section \<open>Requests\<close>

type_synonym uuid = "128 word"

text \<open>The context values that the middleware sets; \<open>None\<close> when the key is absent.\<close>

record rctx =
  c_userID :: "string option"
  c_role :: "string option"
  c_jti :: "string option"
  c_ip :: "string option"
  c_ua :: "string option"
  c_tenantID :: "uuid option"
  c_tenantSvc :: bool
  c_pattern :: string

definition empty_ctx :: rctx where
  "empty_ctx = \<lparr>c_userID = None, c_role = None, c_jti = None, c_ip = None, c_ua = None,
     c_tenantID = None, c_tenantSvc = False, c_pattern = []\<rparr>"

record request =
  q_method :: string
  q_path :: string
  q_host :: string
  q_remote :: string
  q_headers :: "(string \<times> string) list"
  q_query :: "(string \<times> string) list"
  q_params :: "(string \<times> string) list"
  q_cookies :: "(string \<times> string) list"
  q_body :: "json option"
  q_ctx :: rctx

text \<open>\<open>Header.Get\<close>, \<open>Query().Get\<close> and \<open>chi.URLParam\<close>: the first value or the empty string.\<close>

definition get_first :: "(string \<times> string) list \<Rightarrow> string \<Rightarrow> string" where
  "get_first ps k = (case map_of ps k of None \<Rightarrow> [] | Some v \<Rightarrow> v)"

definition Header_Get :: "request \<Rightarrow> string \<Rightarrow> string" where
  "Header_Get r k = get_first (q_headers r) (canon_key k)"

definition Query_Get :: "request \<Rightarrow> string \<Rightarrow> string" where
  "Query_Get r k = get_first (q_query r) k"

definition URLParam :: "request \<Rightarrow> string \<Rightarrow> string" where
  "URLParam r k = get_first (q_params r) k"

section \<open>The response writer\<close>

record cookie =
  ck_Name :: string
  ck_Value :: string
  ck_Path :: string
  ck_HttpOnly :: bool
  ck_Secure :: bool
  ck_SameSiteStrict :: bool
  ck_Expires :: "int option"
  ck_MaxAge :: int

datatype body =
    BJson json
  | BText string
  | BPage string "json"

record rw =
  rw_headers :: "(string \<times> string) list"
  rw_cookies :: "cookie list"
  rw_sent :: "(int \<times> (string \<times> string) list \<times> cookie list) option"
  rw_body :: "body list"

definition new_rw :: rw where
  "new_rw = \<lparr>rw_headers = [], rw_cookies = [], rw_sent = None, rw_body = []\<rparr>"

definition hset :: "string \<Rightarrow> string \<Rightarrow> (string \<times> string) list \<Rightarrow> (string \<times> string) list" where
  "hset k v hs = (canon_key k, v) # filter (\<lambda>p. fst p \<noteq> canon_key k) hs"

definition Set_Header :: "string \<Rightarrow> string \<Rightarrow> rw \<Rightarrow> rw" where
  "Set_Header k v w = w\<lparr>rw_headers := hset k v (rw_headers w)\<rparr>"

definition SetCookie :: "cookie \<Rightarrow> rw \<Rightarrow> rw" where
  "SetCookie c w = w\<lparr>rw_cookies := rw_cookies w @ [c]\<rparr>"

text \<open>The first status wins; a later \<open>WriteHeader\<close> is ignored.\<close>

definition WriteHeader :: "int \<Rightarrow> rw \<Rightarrow> rw" where
  "WriteHeader code w =
     (case rw_sent w of
        Some _ \<Rightarrow> w
      | None \<Rightarrow> w\<lparr>rw_sent := Some (code, rw_headers w, rw_cookies w)\<rparr>)"

text \<open>A write without a status sends 200 first.\<close>

definition Write :: "body \<Rightarrow> rw \<Rightarrow> rw" where
  "Write b w = (let w' = WriteHeader 200 w in w'\<lparr>rw_body := rw_body w' @ [b]\<rparr>)"

definition http_Error :: "string \<Rightarrow> int \<Rightarrow> rw \<Rightarrow> rw" where
  "http_Error msg code w =
     Write (BText (msg @ [CHR 0x0A]))
       (WriteHeader code
         (Set_Header ''X-Content-Type-Options'' ''nosniff''
           (Set_Header ''Content-Type'' ''text/plain; charset=utf-8'' w)))"

text \<open>What the client sees: status, headers, cookies and body.  A handler that returns without
  writing sends 200 with no body.\<close>

definition status_of :: "rw \<Rightarrow> int" where
  "status_of w = (case rw_sent w of None \<Rightarrow> 200 | Some (c, _) \<Rightarrow> c)"

definition sent_headers :: "rw \<Rightarrow> (string \<times> string) list" where
  "sent_headers w = (case rw_sent w of None \<Rightarrow> rw_headers w | Some (_, h, _) \<Rightarrow> h)"

definition sent_cookies :: "rw \<Rightarrow> cookie list" where
  "sent_cookies w = (case rw_sent w of None \<Rightarrow> rw_cookies w | Some (_, _, c) \<Rightarrow> c)"

definition header_of :: "rw \<Rightarrow> string \<Rightarrow> string option" where
  "header_of w k = map_of (sent_headers w) (canon_key k)"

lemmas rw_defs = Set_Header_def SetCookie_def WriteHeader_def Write_def http_Error_def Let_def

lemma map_of_filter_neq: "k' \<noteq> k \<Longrightarrow> map_of (filter (\<lambda>p. fst p \<noteq> k) hs) k' = map_of hs k'"
  by (induction hs) auto

lemma map_of_hset [simp]:
  "map_of (hset k v hs) k' = (if k' = canon_key k then Some v else map_of hs k')"
  by (simp add: hset_def map_of_filter_neq)

end
