(* ===== verification/Apperror.thy ===== *)
theory Apperror
  imports Http
begin

text \<open>
  Package \<open>pkg/apperror\<close>: the typed error that flows through all layers, its constructors and
  predicates, and \<open>WriteError\<close>.  The datatype below is Go's \<open>error\<close> interface with the
  concrete errors the code meets: an \<open>AppError\<close>, an error wrapped by \<open>fmt.Errorf("...%w")\<close>, a
  plain error, and the sentinel and typed errors of the Redis, Postgres and JWT libraries that
  the code tests for.
\<close>

datatype goerr =
    AppErr int string "goerr option"
  | Wrapf string goerr
  | Errorf string
  | RedisNil
  | PgError string
  | ErrNoRows
  | ErrTokenExpired
  | ExtErr string

text \<open>The method \<open>Error() string\<close>.\<close>

fun Error :: "goerr \<Rightarrow> string" where
  "Error (AppErr c m i) = m"
| "Error (Wrapf p e) = p @ Error e"
| "Error (Errorf m) = m"
| "Error RedisNil = ''redis: nil''"
| "Error (PgError c) = ''SQLSTATE '' @ c"
| "Error ErrNoRows = ''no rows in result set''"
| "Error ErrTokenExpired = ''token is expired''"
| "Error (ExtErr m) = m"

text \<open>The method \<open>Unwrap() error\<close>.\<close>

fun Unwrap :: "goerr \<Rightarrow> goerr option" where
  "Unwrap (AppErr c m i) = i"
| "Unwrap (Wrapf p e) = Some e"
| "Unwrap _ = None"

text \<open>\<open>errors.As(err, &ae)\<close> for \<open>*AppError\<close>: the outermost one of the chain.\<close>

fun as_AppError :: "goerr \<Rightarrow> (int \<times> string \<times> goerr option) option" where
  "as_AppError (AppErr c m i) = Some (c, m, i)"
| "as_AppError (Wrapf p e) = as_AppError e"
| "as_AppError _ = None"

text \<open>\<open>errors.As(err, &pgErr)\<close> for \<open>*pgconn.PgError\<close>, giving its code, and \<open>errors.Is\<close> for the
  sentinels.\<close>

fun as_PgError :: "goerr \<Rightarrow> string option" where
  "as_PgError (PgError c) = Some c"
| "as_PgError (Wrapf p e) = as_PgError e"
| "as_PgError (AppErr c m (Some e)) = as_PgError e"
| "as_PgError _ = None"

fun errors_Is :: "goerr \<Rightarrow> goerr \<Rightarrow> bool" where
  "errors_Is target (Wrapf p e) \<longleftrightarrow> target = Wrapf p e \<or> errors_Is target e"
| "errors_Is target (AppErr c m (Some e)) \<longleftrightarrow> target = AppErr c m (Some e) \<or> errors_Is target e"
| "errors_Is target e \<longleftrightarrow> target = e"

section \<open>Constructors\<close>

definition New :: "int \<Rightarrow> string \<Rightarrow> goerr option \<Rightarrow> goerr" where
  "New code msg cause = AppErr code msg cause"

definition NotFound :: "string \<Rightarrow> goerr" where
  "NotFound resource = New 404 (resource @ '' not found'') None"

definition Unauthorized :: "string \<Rightarrow> goerr" where
  "Unauthorized msg = New 401 msg None"

definition Forbidden :: "string \<Rightarrow> goerr" where
  "Forbidden msg = New 403 msg None"

definition BadRequest :: "string \<Rightarrow> goerr option \<Rightarrow> goerr" where
  "BadRequest msg cause = New 400 msg cause"

definition Conflict :: "string \<Rightarrow> goerr" where
  "Conflict msg = New 409 msg None"

definition TooManyRequests :: goerr where
  "TooManyRequests = New 429 ''too many requests'' None"

definition Internal :: "goerr option \<Rightarrow> goerr" where
  "Internal cause = New 500 ''internal server error'' cause"

lemmas app_defs = New_def NotFound_def Unauthorized_def Forbidden_def BadRequest_def
  Conflict_def TooManyRequests_def Internal_def

section \<open>Predicates\<close>

definition has_code :: "int \<Rightarrow> goerr \<Rightarrow> bool" where
  "has_code c err = (case as_AppError err of None \<Rightarrow> False | Some (c', _) \<Rightarrow> c' = c)"

definition IsNotFound :: "goerr \<Rightarrow> bool" where
  "IsNotFound err = has_code 404 err"

definition IsUnauthorized :: "goerr \<Rightarrow> bool" where
  "IsUnauthorized err = has_code 401 err"

definition IsConflict :: "goerr \<Rightarrow> bool" where
  "IsConflict err = has_code 409 err"

lemmas is_defs = IsNotFound_def IsUnauthorized_def IsConflict_def has_code_def

section \<open>Writing an error response\<close>

definition ErrorResponse :: "int \<Rightarrow> string \<Rightarrow> json" where
  "ErrorResponse code msg = JObj [(''error'', JObj [(''code'', JInt code), (''message'', JStr msg)])]"

definition WriteError :: "goerr \<Rightarrow> rw \<Rightarrow> rw" where
  "WriteError err w =
     (let (code, msg, _) = (case as_AppError err of
              Some ae \<Rightarrow> ae
            | None \<Rightarrow> (500, ''internal server error'', Some err))
      in Write (BJson (ErrorResponse code msg))
           (WriteHeader code (Set_Header ''Content-Type'' ''application/json'' w)))"

text \<open>What the client learns from an error: the code and message of the outermost application
  error, or the fixed 500 message.\<close>

definition public_view :: "goerr \<Rightarrow> int \<times> string" where
  "public_view err = (case as_AppError err of
      Some (c, m, _) \<Rightarrow> (c, m) | None \<Rightarrow> (500, ''internal server error''))"

lemma WriteError_public: "public_view e = public_view e' \<Longrightarrow> WriteError e w = WriteError e' w"
  by (auto simp: public_view_def WriteError_def split: option.splits)

lemma WriteError_fresh:
  assumes "rw_sent w = None"
  shows "status_of (WriteError e w) = fst (public_view e)"
    and "rw_body (WriteError e w) = rw_body w @ [BJson (ErrorResponse (fst (public_view e)) (snd (public_view e)))]"
  using assms
  by (auto simp: WriteError_def public_view_def rw_defs status_of_def split: option.splits)

lemma public_view_simps [simp]:
  "public_view (AppErr c m i) = (c, m)"
  "public_view (Wrapf p e) = public_view e"
  "public_view (Errorf m) = (500, ''internal server error'')"
  "public_view RedisNil = (500, ''internal server error'')"
  "public_view (PgError q) = (500, ''internal server error'')"
  "public_view ErrNoRows = (500, ''internal server error'')"
  "public_view ErrTokenExpired = (500, ''internal server error'')"
  "public_view (ExtErr m) = (500, ''internal server error'')"
  by (simp_all add: public_view_def split: option.splits)

text \<open>
  An error response never carries internal detail: whatever chain of wrapped causes an error
  has, the status and body written for it are those of the outermost application error, and for a
  chain without one the fixed 500 body; so replacing every internal cause changes nothing.
\<close>

theorem WriteError_hides_internals:
  "WriteError (AppErr c m (Some cause)) w = WriteError (AppErr c m None) w \<and>
   WriteError (Wrapf p (AppErr c m (Some cause))) w = WriteError (AppErr c m None) w \<and>
   (as_AppError e = None \<longrightarrow> WriteError e w = WriteError (Internal None) w)"
  by (auto simp: WriteError_def Internal_def New_def)

theorem WriteError_hides_internals_witness:
  "WriteError (Wrapf ''find user by id: '' (PgError ''57P01'')) new_rw = WriteError (Internal None) new_rw"
  using WriteError_hides_internals
    [of 500 "''x''" "ExtErr ''y''" new_rw "[]" "Wrapf ''find user by id: '' (PgError ''57P01'')"]
  by simp

end
