(* ===== verification/Domain.thy ===== *)
theory Domain
  imports Apperror
begin

text \<open>
  Package \<open>internal/model\<close>: users and tenants, the public shapes derived from them, and their JSON
  forms as the struct tags give them.  The text forms of identifiers (package google/uuid), of
  times and of whole JSON documents are fields of the record \<open>codec\<close>, an argument of the
  definitions that use them.  A time is its number of nanoseconds since the Unix epoch.
\<close>

record codec =
  uuidString :: "uuid \<Rightarrow> string"
  uuidParse :: "string \<Rightarrow> uuid option"
  timeText :: "int \<Rightarrow> string"
  timeParse :: "string \<Rightarrow> int option"
  jsonText :: "json \<Rightarrow> string option"
  jsonParse :: "string \<Rightarrow> json option"

text \<open>The zero value of \<open>time.Time\<close>: 1 January of year 1.\<close>

definition time_zero :: int where
  "time_zero = - 62135596800 * 1000000000"

definition uuid_Nil :: uuid where
  "uuid_Nil = 0"

section \<open>Users\<close>

record user =
  u_ID :: uuid
  u_TenantID :: "uuid option"
  u_Email :: string
  u_PasswordHash :: string
  u_Role :: string
  u_IsActive :: bool
  u_CreatedAt :: int
  u_UpdatedAt :: int

record user_response =
  r_ID :: uuid
  r_Email :: string
  r_Role :: string
  r_IsActive :: bool
  r_CreatedAt :: int

record update_user_request =
  p_Email :: "string option"
  p_Role :: "string option"
  p_IsActive :: "bool option"

definition User_ToResponse :: "user \<Rightarrow> user_response" where
  "User_ToResponse u = \<lparr>r_ID = u_ID u, r_Email = u_Email u, r_Role = u_Role u,
     r_IsActive = u_IsActive u, r_CreatedAt = u_CreatedAt u\<rparr>"

text \<open>The zero value of the struct \<open>User\<close>.\<close>

definition zero_user :: user where
  "zero_user = \<lparr>u_ID = uuid_Nil, u_TenantID = None, u_Email = [], u_PasswordHash = [], u_Role = [],
     u_IsActive = False, u_CreatedAt = time_zero, u_UpdatedAt = time_zero\<rparr>"

text \<open>The JSON object of a user: \<open>tenant_id\<close> is omitted when nil and the password hash always.\<close>

definition User_json :: "'a codec_scheme \<Rightarrow> user \<Rightarrow> json" where
  "User_json C u = JObj
     ([(''id'', JStr (uuidString C (u_ID u)))] @
      (case u_TenantID u of None \<Rightarrow> [] | Some t \<Rightarrow> [(''tenant_id'', JStr (uuidString C t))]) @
      [(''email'', JStr (u_Email u)), (''role'', JStr (u_Role u)), (''is_active'', JBool (u_IsActive u)),
       (''created_at'', JStr (timeText C (u_CreatedAt u))),
       (''updated_at'', JStr (timeText C (u_UpdatedAt u)))])"

definition dec_uuid :: "'a codec_scheme \<Rightarrow> json \<Rightarrow> uuid option" where
  "dec_uuid C j = (case j of JStr s \<Rightarrow> uuidParse C s | _ \<Rightarrow> None)"

definition dec_time :: "'a codec_scheme \<Rightarrow> json \<Rightarrow> int option" where
  "dec_time C j = (case j of JStr s \<Rightarrow> timeParse C s | _ \<Rightarrow> None)"

text \<open>Decoding into a fresh \<open>User\<close>; \<open>None\<close> is the decoder's error.\<close>

definition User_decode :: "'a codec_scheme \<Rightarrow> json \<Rightarrow> user option" where
  "User_decode C j =
     (case obj_pairs j of
        None \<Rightarrow> None
      | Some ps \<Rightarrow>
          let (i, ok1) = dec_field (dec_uuid C) ''id'' ps uuid_Nil True;
              (t, ok2) = dec_ptr (dec_uuid C) ''tenant_id'' ps None ok1;
              (e, ok3) = dec_field json_str ''email'' ps [] ok2;
              (r, ok4) = dec_field json_str ''role'' ps [] ok3;
              (a, ok5) = dec_field json_bool ''is_active'' ps False ok4;
              (c, ok6) = dec_field (dec_time C) ''created_at'' ps time_zero ok5;
              (u, ok7) = dec_field (dec_time C) ''updated_at'' ps time_zero ok6
          in if ok7 then Some \<lparr>u_ID = i, u_TenantID = t, u_Email = e, u_PasswordHash = [], u_Role = r,
               u_IsActive = a, u_CreatedAt = c, u_UpdatedAt = u\<rparr> else None)"

definition UserResponse_json :: "'a codec_scheme \<Rightarrow> user_response \<Rightarrow> json" where
  "UserResponse_json C r = JObj
     [(''id'', JStr (uuidString C (r_ID r))), (''email'', JStr (r_Email r)), (''role'', JStr (r_Role r)),
      (''is_active'', JBool (r_IsActive r)), (''created_at'', JStr (timeText C (r_CreatedAt r)))]"

text \<open>Decoding the body of \<open>PUT /users/{id}\<close>: every field a pointer, nil when absent or null.\<close>

definition UpdateUserRequest_decode :: "json \<Rightarrow> update_user_request option" where
  "UpdateUserRequest_decode j =
     (case obj_pairs j of
        None \<Rightarrow> None
      | Some ps \<Rightarrow>
          let (e, ok1) = dec_ptr json_str ''email'' ps None True;
              (r, ok2) = dec_ptr json_str ''role'' ps None ok1;
              (a, ok3) = dec_ptr json_bool ''is_active'' ps None ok2
          in if ok3 then Some \<lparr>p_Email = e, p_Role = r, p_IsActive = a\<rparr> else None)"

lemmas user_keys = key_is_plain plain_char_def

text \<open>What survives a round trip through the cache: everything but the password hash.\<close>

definition strip_hash :: "user \<Rightarrow> user" where
  "strip_hash u = u\<lparr>u_PasswordHash := []\<rparr>"

definition uuid_roundtrip :: "'a codec_scheme \<Rightarrow> bool" where
  "uuid_roundtrip C \<longleftrightarrow> (\<forall>u. uuidParse C (uuidString C u) = Some u)"

definition time_roundtrip :: "'a codec_scheme \<Rightarrow> user \<Rightarrow> bool" where
  "time_roundtrip C u \<longleftrightarrow> timeParse C (timeText C (u_CreatedAt u)) = Some (u_CreatedAt u) \<and>
     timeParse C (timeText C (u_UpdatedAt u)) = Some (u_UpdatedAt u)"

lemma User_decode_json:
  assumes "uuid_roundtrip C" and "time_roundtrip C u"
  shows "User_decode C (User_json C u) = Some (strip_hash u)"
proof -
  have [simp]: "uuidParse C (uuidString C i) = Some i" for i
    using assms(1) by (simp add: uuid_roundtrip_def)
  have [simp]: "timeParse C (timeText C (u_CreatedAt u)) = Some (u_CreatedAt u)"
    "timeParse C (timeText C (u_UpdatedAt u)) = Some (u_UpdatedAt u)"
    using assms(2) by (simp_all add: time_roundtrip_def)
  show ?thesis
    by (cases "u_TenantID u")
      (simp_all add: User_decode_def User_json_def obj_pairs_def dec_uuid_def dec_time_def
        json_str_def json_bool_def strip_hash_def Let_def user_keys)
qed

lemma strip_hash_simps [simp]:
  "u_ID (strip_hash u) = u_ID u" "u_Email (strip_hash u) = u_Email u"
  "u_Role (strip_hash u) = u_Role u" "u_IsActive (strip_hash u) = u_IsActive u"
  "u_PasswordHash (strip_hash u) = []"
  by (simp_all add: strip_hash_def)

lemma ToResponse_strip_hash [simp]: "User_ToResponse (strip_hash u) = User_ToResponse u"
  by (simp add: User_ToResponse_def strip_hash_def)

section \<open>Tenants\<close>

record tenant =
  t_ID :: uuid
  t_Name :: string
  t_Slug :: string
  t_Settings :: json
  t_IsActive :: bool
  t_CreatedAt :: int
  t_UpdatedAt :: int

record tenant_response =
  tr_ID :: uuid
  tr_Name :: string
  tr_Slug :: string
  tr_Settings :: json
  tr_IsActive :: bool
  tr_CreatedAt :: int

definition Tenant_ToResponse :: "tenant \<Rightarrow> tenant_response" where
  "Tenant_ToResponse t = \<lparr>tr_ID = t_ID t, tr_Name = t_Name t, tr_Slug = t_Slug t,
     tr_Settings = t_Settings t, tr_IsActive = t_IsActive t, tr_CreatedAt = t_CreatedAt t\<rparr>"

definition TenantResponse_json :: "'a codec_scheme \<Rightarrow> tenant_response \<Rightarrow> json" where
  "TenantResponse_json C r = JObj
     [(''id'', JStr (uuidString C (tr_ID r))), (''name'', JStr (tr_Name r)), (''slug'', JStr (tr_Slug r)),
      (''settings'', tr_Settings r), (''is_active'', JBool (tr_IsActive r)),
      (''created_at'', JStr (timeText C (tr_CreatedAt r)))]"

end
