(* ===== verification/Redis_Api.thy ===== *)
theory Redis_Api
  imports Domain
begin

text \<open>
  The Redis commands the code sends, as data, and what the Redis documentation says each of them
  replies and does to the key space.  The server itself is not code of the repository: it is the
  function \<open>redisExec\<close> of the environment (theory \<open>Runtime\<close>), and the functions below are only used to
  state, in the locale \<open>redis_server\<close>, what is assumed of it.  An entry is a value with an optional absolute
  expiry time; an entry whose time has come is as good as absent.
\<close>

datatype rcmd =
    SET string string int
  | GET string
  | DEL "string list"
  | EXISTS string
  | INCR string
  | EXPIRE string int
  | ZREMRANGEBYSCORE string int int
  | ZADD string int int
  | ZCARD string

datatype rreply =
    RStatus
  | RNil
  | RBulk string
  | RInt int
  | RError string

datatype rval = VStr string | VZSet "(int \<times> int) list"

type_synonym entry = "rval \<times> int option"
type_synonym store = "string \<Rightarrow> entry option"

definition live :: "int \<Rightarrow> store \<Rightarrow> string \<Rightarrow> entry option" where
  "live t st k =
     (case st k of
        None \<Rightarrow> None
      | Some (v, None) \<Rightarrow> Some (v, None)
      | Some (v, Some e) \<Rightarrow> if t < e then Some (v, Some e) else None)"

definition live_str :: "int \<Rightarrow> store \<Rightarrow> string \<Rightarrow> string option" where
  "live_str t st k = (case live t st k of Some (VStr v, _) \<Rightarrow> Some v | _ \<Rightarrow> None)"

definition wrongtype :: rreply where
  "wrongtype = RError ''WRONGTYPE Operation against a key holding the wrong kind of value''"

definition put_zset :: "string \<Rightarrow> (int \<times> int) list \<Rightarrow> int option \<Rightarrow> store \<Rightarrow> store" where
  "put_zset k zs ex st = st(k := if zs = [] then None else Some (VZSet zs, ex))"

text \<open>A sorted set is kept as its (member, score) pairs.\<close>

fun redis_step :: "int \<Rightarrow> rcmd \<Rightarrow> store \<Rightarrow> rreply \<times> store" where
  "redis_step t (SET k v ttl) st = (RStatus, st(k \<mapsto> (VStr v, if 0 < ttl then Some (t + ttl) else None)))"
| "redis_step t (GET k) st =
     (case live t st k of
        None \<Rightarrow> (RNil, st) | Some (VStr v, _) \<Rightarrow> (RBulk v, st) | Some (VZSet _, _) \<Rightarrow> (wrongtype, st))"
| "redis_step t (DEL ks) st =
     (RInt (int (length (filter (\<lambda>k. live t st k \<noteq> None) (remdups ks)))),
      (\<lambda>k. if k \<in> set ks then None else st k))"
| "redis_step t (EXISTS k) st = (RInt (if live t st k = None then 0 else 1), st)"
| "redis_step t (INCR k) st =
     (case live t st k of
        None \<Rightarrow> (RInt 1, st(k \<mapsto> (VStr (itoa 1), None)))
      | Some (VZSet _, _) \<Rightarrow> (wrongtype, st)
      | Some (VStr v, ex) \<Rightarrow>
          (case Atoi v of
             Some n \<Rightarrow> if in_int64 (n + 1) then (RInt (n + 1), st(k \<mapsto> (VStr (itoa (n + 1)), ex)))
                       else (RError ''ERR increment or decrement would overflow'', st)
           | None \<Rightarrow> (RError ''ERR value is not an integer or out of range'', st)))"
| "redis_step t (EXPIRE k d) st =
     (case live t st k of
        None \<Rightarrow> (RInt 0, st)
      | Some (v, _) \<Rightarrow> (RInt 1, if 0 < d then st(k \<mapsto> (v, Some (t + d))) else st(k := None)))"
| "redis_step t (ZREMRANGEBYSCORE k lo hi) st =
     (case live t st k of
        None \<Rightarrow> (RInt 0, st)
      | Some (VStr _, _) \<Rightarrow> (wrongtype, st)
      | Some (VZSet zs, ex) \<Rightarrow>
          (let out = filter (\<lambda>(m, s). lo \<le> s \<and> s \<le> hi) zs;
               rest = filter (\<lambda>(m, s). \<not> (lo \<le> s \<and> s \<le> hi)) zs
           in (RInt (int (length out)), put_zset k rest ex st)))"
| "redis_step t (ZADD k score m) st =
     (case live t st k of
        None \<Rightarrow> (RInt 1, put_zset k [(m, score)] None st)
      | Some (VStr _, _) \<Rightarrow> (wrongtype, st)
      | Some (VZSet zs, ex) \<Rightarrow>
          (RInt (if m \<in> fst ` set zs then 0 else 1),
           put_zset k ((m, score) # filter (\<lambda>p. fst p \<noteq> m) zs) ex st))"
| "redis_step t (ZCARD k) st =
     (case live t st k of
        None \<Rightarrow> (RInt 0, st)
      | Some (VStr _, _) \<Rightarrow> (wrongtype, st)
      | Some (VZSet zs, _) \<Rightarrow> (RInt (int (length zs)), st))"

fun redis_run :: "int \<Rightarrow> rcmd list \<Rightarrow> store \<Rightarrow> rreply list \<times> store" where
  "redis_run t [] st = ([], st)"
| "redis_run t (c # cs) st =
     (let (r, st1) = redis_step t c st; (rs, st2) = redis_run t cs st1 in (r # rs, st2))"

fun cmd_keys :: "rcmd \<Rightarrow> string set" where
  "cmd_keys (SET k v d) = {k}"
| "cmd_keys (GET k) = {k}"
| "cmd_keys (DEL ks) = set ks"
| "cmd_keys (EXISTS k) = {k}"
| "cmd_keys (INCR k) = {k}"
| "cmd_keys (EXPIRE k d) = {k}"
| "cmd_keys (ZREMRANGEBYSCORE k a b) = {k}"
| "cmd_keys (ZADD k s m) = {k}"
| "cmd_keys (ZCARD k) = {k}"

text \<open>A command changes nothing but its own keys.\<close>

lemma redis_step_other: "k \<notin> cmd_keys c \<Longrightarrow> snd (redis_step t c st) k = st k"
  by (cases c) (auto simp: put_zset_def Let_def split: option.splits rval.splits prod.splits)

lemma snd_redis_run_Cons:
  "snd (redis_run t (c # cs) st) = snd (redis_run t cs (snd (redis_step t c st)))"
  by (simp split: prod.splits)

lemma redis_run_other:
  "\<forall>c \<in> set cs. k \<notin> cmd_keys c \<Longrightarrow> snd (redis_run t cs st) k = st k"
  by (induction cs arbitrary: st)
    (simp_all add: snd_redis_run_Cons redis_step_other del: redis_run.simps(2))

lemma live_cong: "st k = st' k \<Longrightarrow> live t st k = live t st' k"
  by (simp add: live_def)

lemma live_str_cong: "st k = st' k \<Longrightarrow> live_str t st k = live_str t st' k"
  by (simp add: live_str_def live_def)

lemma live_upd [simp]:
  "live t (st(k := None)) k = None"
  "live t (st(k \<mapsto> (v, None))) k = Some (v, None)"
  "live t (st(k \<mapsto> (v, Some e))) k = (if t < e then Some (v, Some e) else None)"
  by (simp_all add: live_def)

lemma live_upd_other [simp]: "k' \<noteq> k \<Longrightarrow> live t (st(k := e)) k' = live t st k'"
  by (simp add: live_def)

lemma live_str_upd [simp]:
  "live_str t (st(k := None)) k = None"
  "live_str t (st(k \<mapsto> (VStr v, None))) k = Some v"
  "live_str t (st(k \<mapsto> (VStr v, Some e))) k = (if t < e then Some v else None)"
  "live_str t (st(k \<mapsto> (VZSet z, x))) k = None"
  by (auto simp: live_str_def live_def split: option.splits)

lemma live_str_upd_other [simp]: "k' \<noteq> k \<Longrightarrow> live_str t (st(k := e)) k' = live_str t st k'"
  by (simp add: live_str_def)

lemma live_antimono: "t \<le> t' \<Longrightarrow> live t st k = None \<Longrightarrow> live t' st k = None"
  by (auto simp: live_def split: option.splits prod.splits if_splits)

lemma live_str_antimono: "live_str t st k = None \<Longrightarrow> t \<le> t' \<Longrightarrow> live_str t' st k = None"
  by (auto simp: live_str_def live_def split: option.splits prod.splits if_splits rval.splits)

end
