(* ===== verification/Postgres_Api.thy ===== *)
theory Postgres_Api
  imports Domain "HOL-Library.Multiset"
begin

text \<open>
  The SQL statements of \<open>internal/repository/postgres\<close>, one constructor per statement text, and
  what they mean for the two tables of \<open>migrations/\<close>: unique and check constraints, the soft-delete filters,
  the trigger that sets \<open>updated_at\<close>, and the ordering and paging of the list queries.  The database
  server itself is the function \<open>pgQuery\<close> of the environment; the relation \<open>pg_answer\<close> states, in the locale \<open>postgres\<close>,
  what is assumed of it.  \<open>ORDER BY\<close> fixes no order among rows with equal keys, so \<open>pg_answer\<close>
  allows every such order.
\<close>

datatype sql =
    InsertUser user
  | SelectUserByID uuid
  | SelectUserByEmail string
  | UpdateUserRow string string bool uuid
  | UpdatePasswordRow string uuid
  | SoftDeleteUser uuid
  | CountUsers
  | ListUsers int int
  | InsertTenant tenant
  | SelectTenantByID uuid
  | SelectTenantBySlug string
  | ListTenants

datatype sqlres =
    SqlTag int
  | SqlUsers "user list"
  | SqlCount int
  | SqlTenants "tenant list"
  | SqlState string
  | SqlFail string

record tables =
  users :: "user list"
  tenants :: "tenant list"

text \<open>A \<open>TIMESTAMPTZ\<close> holds microseconds.\<close>

definition to_us :: "int \<Rightarrow> int" where
  "to_us t = t - t mod 1000"

definition roles :: "string list" where
  "roles = [''user'', ''admin'', ''moderator'']"

definition stored_user :: "user \<Rightarrow> user" where
  "stored_user u = u\<lparr>u_CreatedAt := to_us (u_CreatedAt u), u_UpdatedAt := to_us (u_UpdatedAt u)\<rparr>"

text \<open>Constraints of an insert: the role check, the unique keys, the tenant reference.\<close>

definition insert_violation :: "tables \<Rightarrow> user \<Rightarrow> string option" where
  "insert_violation T u =
     (if u_Role u \<notin> set roles then Some ''23514''
      else if u_ID u \<in> u_ID ` set (users T) \<or> u_Email u \<in> u_Email ` set (users T) then Some ''23505''
      else case u_TenantID u of
          None \<Rightarrow> None
        | Some t \<Rightarrow> if t \<in> t_ID ` set (tenants T) then None else Some ''23503'')"

definition update_violation :: "tables \<Rightarrow> uuid \<Rightarrow> string \<Rightarrow> string \<Rightarrow> string option" where
  "update_violation T i email role =
     (if i \<notin> u_ID ` set (users T) then None
      else if role \<notin> set roles then Some ''23514''
      else if \<exists>v \<in> set (users T). u_ID v \<noteq> i \<and> u_Email v = email then Some ''23505''
      else None)"

definition map_user :: "uuid \<Rightarrow> (user \<Rightarrow> user) \<Rightarrow> tables \<Rightarrow> tables" where
  "map_user i f T = T\<lparr>users := map (\<lambda>v. if u_ID v = i then f v else v) (users T)\<rparr>"

definition affected :: "uuid \<Rightarrow> tables \<Rightarrow> int" where
  "affected i T = int (length (filter (\<lambda>v. u_ID v = i) (users T)))"

text \<open>The statements whose answer is determined.\<close>

fun pg_eval :: "int \<Rightarrow> sql \<Rightarrow> tables \<Rightarrow> sqlres \<times> tables" where
  "pg_eval now (InsertUser u) T =
     (case insert_violation T u of
        Some c \<Rightarrow> (SqlState c, T)
      | None \<Rightarrow> (SqlTag 1, T\<lparr>users := users T @ [stored_user u]\<rparr>))"
| "pg_eval now (SelectUserByID i) T =
     (SqlUsers (filter (\<lambda>v. u_ID v = i \<and> u_IsActive v) (users T)), T)"
| "pg_eval now (SelectUserByEmail e) T = (SqlUsers (filter (\<lambda>v. u_Email v = e) (users T)), T)"
| "pg_eval now (UpdateUserRow e r a i) T =
     (case update_violation T i e r of
        Some c \<Rightarrow> (SqlState c, T)
      | None \<Rightarrow> (SqlTag (affected i T),
                 map_user i (\<lambda>v. v\<lparr>u_Email := e, u_Role := r, u_IsActive := a, u_UpdatedAt := to_us now\<rparr>) T))"
| "pg_eval now (UpdatePasswordRow h i) T =
     (SqlTag (affected i T), map_user i (\<lambda>v. v\<lparr>u_PasswordHash := h, u_UpdatedAt := to_us now\<rparr>) T)"
| "pg_eval now (SoftDeleteUser i) T =
     (SqlTag (affected i T), map_user i (\<lambda>v. v\<lparr>u_IsActive := False, u_UpdatedAt := to_us now\<rparr>) T)"
| "pg_eval now CountUsers T = (SqlCount (int (length (users T))), T)"
| "pg_eval now (ListUsers l off) T =
     (if l < 0 then (SqlState ''2201W'', T) else if off < 0 then (SqlState ''2201X'', T)
      else (SqlUsers (map strip_hash
              (take (nat l) (drop (nat off) (rev (sort_key u_CreatedAt (users T)))))), T))"
| "pg_eval now (InsertTenant t) T =
     (if t_ID t \<in> t_ID ` set (tenants T) \<or> t_Slug t \<in> t_Slug ` set (tenants T) then (SqlState ''23505'', T)
      else (SqlTag 1, T\<lparr>tenants := tenants T @
             [t\<lparr>t_CreatedAt := to_us (t_CreatedAt t), t_UpdatedAt := to_us (t_UpdatedAt t)\<rparr>]\<rparr>))"
| "pg_eval now (SelectTenantByID i) T =
     (SqlTenants (filter (\<lambda>v. t_ID v = i \<and> t_IsActive v) (tenants T)), T)"
| "pg_eval now (SelectTenantBySlug s) T =
     (SqlTenants (filter (\<lambda>v. t_Slug v = s \<and> t_IsActive v) (tenants T)), T)"
| "pg_eval now ListTenants T = (SqlTenants (filter t_IsActive (tenants T)), T)"

text \<open>All answers: the two list queries may return tied rows in any order (and \<open>ORDER BY name\<close>
  follows the collation of the database, which the code does not fix).\<close>

definition page_of_users :: "int \<Rightarrow> int \<Rightarrow> user list \<Rightarrow> user list \<Rightarrow> bool" where
  "page_of_users l off us rs \<longleftrightarrow>
     (\<exists>ys. mset ys = mset us \<and> sorted_wrt (\<lambda>a b. u_CreatedAt b \<le> u_CreatedAt a) ys \<and>
        rs = map strip_hash (take (nat l) (drop (nat off) ys)))"

fun pg_answer :: "int \<Rightarrow> sql \<Rightarrow> tables \<Rightarrow> sqlres \<Rightarrow> tables \<Rightarrow> bool" where
  "pg_answer now (ListUsers l off) T r T' \<longleftrightarrow>
     T' = T \<and>
     (if l < 0 then r = SqlState ''2201W'' else if off < 0 then r = SqlState ''2201X''
      else \<exists>rs. r = SqlUsers rs \<and> page_of_users l off (users T) rs)"
| "pg_answer now ListTenants T r T' \<longleftrightarrow>
     T' = T \<and> (\<exists>ts. r = SqlTenants ts \<and> mset ts = mset (filter t_IsActive (tenants T)))"
| "pg_answer now q T r T' \<longleftrightarrow> (r, T') = pg_eval now q T"

text \<open>What the schema keeps true of the tables.\<close>

definition tables_ok :: "tables \<Rightarrow> bool" where
  "tables_ok T \<longleftrightarrow>
     distinct (map u_ID (users T)) \<and> distinct (map u_Email (users T)) \<and>
     (\<forall>u \<in> set (users T). u_Role u \<in> set roles) \<and>
     distinct (map t_ID (tenants T)) \<and> distinct (map t_Slug (tenants T))"

text \<open>The row with a key; keys are unique.\<close>

definition user_by_id :: "tables \<Rightarrow> uuid \<Rightarrow> user option" where
  "user_by_id T i = find (\<lambda>v. u_ID v = i) (users T)"

definition user_by_email :: "tables \<Rightarrow> string \<Rightarrow> user option" where
  "user_by_email T e = find (\<lambda>v. u_Email v = e) (users T)"

lemma pg_eval_answer: "pg_eval now q T = (r, T') \<Longrightarrow> pg_answer now q T r T'"
proof (cases q)
  case (ListUsers l off)
  assume e: "pg_eval now q T = (r, T')"
  have "sorted_wrt (\<lambda>a b. u_CreatedAt b \<le> u_CreatedAt a) (rev (sort_key u_CreatedAt (users T)))"
    using sorted_sort_key [of u_CreatedAt "users T"] by (simp add: sorted_wrt_rev sorted_wrt_map)
  then have "page_of_users l off (users T)
      (map strip_hash (take (nat l) (drop (nat off) (rev (sort_key u_CreatedAt (users T))))))"
    unfolding page_of_users_def by (intro exI [of _ "rev (sort_key u_CreatedAt (users T))"]) simp
  with e ListUsers show ?thesis by (auto split: if_splits)
qed (auto split: option.splits if_splits)

lemma find_SomeD: "find P xs = Some x \<Longrightarrow> x \<in> set xs \<and> P x"
  by (induction xs) (auto split: if_splits)

lemma distinct_filter_find:
  "distinct (map f xs) \<Longrightarrow> filter (\<lambda>v. f v = k) xs =
     (case find (\<lambda>v. f v = k) xs of None \<Rightarrow> [] | Some v \<Rightarrow> [v])"
proof (induction xs)
  case Nil
  then show ?case by simp
next
  case (Cons a xs)
  show ?case
  proof (cases "f a = k")
    case True
    with Cons.prems have "filter (\<lambda>v. f v = k) xs = []"
      by (auto simp: filter_empty_conv) (metis image_eqI)
    with True show ?thesis by simp
  next
    case False
    with Cons show ?thesis by simp
  qed
qed

lemma find_filter_active:
  "distinct (map f xs) \<Longrightarrow> filter (\<lambda>v. f v = k \<and> p v) xs =
     (case find (\<lambda>v. f v = k) xs of None \<Rightarrow> [] | Some v \<Rightarrow> if p v then [v] else [])"
proof -
  assume "distinct (map f xs)"
  then have "filter p (filter (\<lambda>v. f v = k) xs) =
      (case find (\<lambda>v. f v = k) xs of None \<Rightarrow> [] | Some v \<Rightarrow> if p v then [v] else [])"
    by (simp add: distinct_filter_find split: option.splits)
  then show ?thesis by (simp add: conj_commute)
qed

lemma user_by_id_Some: "user_by_id T i = Some u \<Longrightarrow> u \<in> set (users T) \<and> u_ID u = i"
  unfolding user_by_id_def by (rule find_SomeD)

lemma user_by_email_Some: "user_by_email T e = Some u \<Longrightarrow> u \<in> set (users T) \<and> u_Email u = e"
  unfolding user_by_email_def by (rule find_SomeD)

lemma find_map_key:
  "(\<And>v. g (h v) = g v) \<Longrightarrow> find (\<lambda>v. g v = j) (map h xs) = map_option h (find (\<lambda>v. g v = j) xs)"
  by (induction xs) auto

lemma user_by_id_map_user:
  "(\<And>v. u_ID (f v) = u_ID v) \<Longrightarrow>
   user_by_id (map_user i f T) j = map_option (\<lambda>v. if u_ID v = i then f v else v) (user_by_id T j)"
  by (simp add: user_by_id_def map_user_def find_map_key)

end
