(* ===== verification/Runtime.thy ===== *)
theory Runtime
  imports Redis_Api Postgres_Api
begin

text \<open>
  The world a request runs in and the environment it calls.  The environment \<open>env\<close> has one function per
  service or third-party package the code uses: the Redis and Postgres servers, SHA-256, bcrypt,
  the UUID and random generators, and the JWT library; every definition takes it as an argument.
  The world holds their state, the clock (constant while one request runs), the position in the
  stream of random draws, and what the process writes: log records, metrics and spans.
  The locales \<open>redis_server\<close> and \<open>postgres\<close> say what is assumed of the two servers: a call that succeeds
  acts as documented; a call that fails may have taken effect in part (a pipeline) or as a whole.
\<close>

section \<open>The JWT library's types\<close>

text \<open>Times in claims are whole seconds, kept in nanoseconds.\<close>

record claims =
  cl_Subject :: string
  cl_IssuedAt :: int
  cl_ExpiresAt :: int
  cl_NotBefore :: int
  cl_ID :: string
  cl_Role :: string

datatype jwt_method = SigningMethodRSA string | SigningMethodHMAC string | OtherMethod string

section \<open>Environment and world\<close>

record ('s, 'd) env = codec +
  redisExec :: "int \<Rightarrow> rcmd list \<Rightarrow> 's \<Rightarrow> (string + rreply list) \<times> 's"
  pgQuery :: "int \<Rightarrow> sql \<Rightarrow> 'd \<Rightarrow> sqlres \<times> 'd"
  sha256 :: "string \<Rightarrow> 8 word list"
  bcryptGenerate :: "string \<Rightarrow> int \<Rightarrow> nat \<Rightarrow> goerr + string"
  bcryptCompare :: "string \<Rightarrow> string \<Rightarrow> goerr option"
  uuidNew :: "nat \<Rightarrow> uuid"
  randRead :: "nat \<Rightarrow> nat \<Rightarrow> goerr + 8 word list"
  jwtSign :: "string \<Rightarrow> claims \<Rightarrow> goerr + string"
  jwtParse :: "(jwt_method \<Rightarrow> goerr + string) \<Rightarrow> int \<Rightarrow> string \<Rightarrow> goerr + (claims \<times> bool)"

datatype level = LDebug | LInfo | LWarn | LError

record logline =
  l_level :: level
  l_msg :: string
  l_attrs :: "(string \<times> string) list"

datatype span_status = Unset | SOk string | SError string

record span =
  sp_name :: string
  sp_attrs :: "(string \<times> string) list"
  sp_error :: "string option"
  sp_status :: span_status

record ('s, 'd) world =
  w_now :: int
  w_redis :: 's
  w_db :: 'd
  w_rand :: nat
  w_log :: "logline list"
  w_metrics :: "string list \<Rightarrow> nat"
  w_spans :: "span list"
  w_inflight :: int

definition log_at :: "level \<Rightarrow> string \<Rightarrow> (string \<times> string) list \<Rightarrow> ('s, 'd) world \<Rightarrow> ('s, 'd) world" where
  "log_at l m as w = w\<lparr>w_log := w_log w @ [\<lparr>l_level = l, l_msg = m, l_attrs = as\<rparr>]\<rparr>"

text \<open>\<open>WithLabelValues(...).Inc()\<close> and \<open>.Observe\<close> of a metric: its name and labels count once more.\<close>

definition count_metric :: "string list \<Rightarrow> ('s, 'd) world \<Rightarrow> ('s, 'd) world" where
  "count_metric k w = w\<lparr>w_metrics := (w_metrics w)(k := Suc (w_metrics w k))\<rparr>"

definition end_span :: "span \<Rightarrow> ('s, 'd) world \<Rightarrow> ('s, 'd) world" where
  "end_span s w = w\<lparr>w_spans := w_spans w @ [s]\<rparr>"

definition draw :: "('s, 'd) world \<Rightarrow> nat \<times> ('s, 'd) world" where
  "draw w = (w_rand w, w\<lparr>w_rand := Suc (w_rand w)\<rparr>)"

section \<open>Calls to the servers\<close>

text \<open>A pipeline: the transport error, or the replies.  \<open>first_error\<close> is the error \<open>Exec\<close> returns.\<close>

definition redis_exec :: "('s, 'd) env \<Rightarrow> rcmd list \<Rightarrow> ('s, 'd) world \<Rightarrow>
    (goerr + rreply list) \<times> ('s, 'd) world" where
  "redis_exec E cs w =
     (let (r, s) = redisExec E (w_now w) cs (w_redis w)
      in (case r of Inl m \<Rightarrow> Inl (ExtErr m) | Inr rs \<Rightarrow> Inr rs, w\<lparr>w_redis := s\<rparr>))"

definition reply_error :: "rreply \<Rightarrow> goerr option" where
  "reply_error r = (case r of RNil \<Rightarrow> Some RedisNil | RError m \<Rightarrow> Some (ExtErr m) | _ \<Rightarrow> None)"

fun first_error :: "rreply list \<Rightarrow> goerr option" where
  "first_error [] = None"
| "first_error (r # rs) = (case reply_error r of Some e \<Rightarrow> Some e | None \<Rightarrow> first_error rs)"

definition nth_reply :: "nat \<Rightarrow> rreply list \<Rightarrow> rreply" where
  "nth_reply i rs = (if i < length rs then rs ! i else RError ''missing reply'')"

text \<open>One command: its error or its reply.\<close>

definition redis_do :: "('s, 'd) env \<Rightarrow> rcmd \<Rightarrow> ('s, 'd) world \<Rightarrow> (goerr + rreply) \<times> ('s, 'd) world" where
  "redis_do E c w =
     (case redis_exec E [c] w of
        (Inl e, w') \<Rightarrow> (Inl e, w')
      | (Inr rs, w') \<Rightarrow>
          (case reply_error (nth_reply 0 rs) of
             Some e \<Rightarrow> (Inl e, w') | None \<Rightarrow> (Inr (nth_reply 0 rs), w')))"

text \<open>\<open>.Err()\<close> of one command.\<close>

definition redis_err :: "('s, 'd) env \<Rightarrow> rcmd \<Rightarrow> ('s, 'd) world \<Rightarrow> goerr option \<times> ('s, 'd) world" where
  "redis_err E c w = (case redis_do E c w of (Inl e, w') \<Rightarrow> (Some e, w') | (Inr _, w') \<Rightarrow> (None, w'))"

definition pg_query :: "('s, 'd) env \<Rightarrow> sql \<Rightarrow> ('s, 'd) world \<Rightarrow> sqlres \<times> ('s, 'd) world" where
  "pg_query E q w = (let (r, d) = pgQuery E (w_now w) q (w_db w) in (r, w\<lparr>w_db := d\<rparr>))"

text \<open>The error of a statement that returns no rows.\<close>

definition sql_error :: "sqlres \<Rightarrow> goerr option" where
  "sql_error r = (case r of SqlState c \<Rightarrow> Some (PgError c) | SqlFail m \<Rightarrow> Some (ExtErr m) | _ \<Rightarrow> None)"

lemma world_upd_simps [simp]:
  "w_now (log_at l m as w) = w_now w" "w_redis (log_at l m as w) = w_redis w"
  "w_db (log_at l m as w) = w_db w" "w_rand (log_at l m as w) = w_rand w"
  "w_metrics (log_at l m as w) = w_metrics w" "w_inflight (log_at l m as w) = w_inflight w"
  "w_now (count_metric k w) = w_now w" "w_redis (count_metric k w) = w_redis w"
  "w_db (count_metric k w) = w_db w" "w_rand (count_metric k w) = w_rand w"
  "w_log (count_metric k w) = w_log w" "w_inflight (count_metric k w) = w_inflight w"
  "w_now (end_span s w) = w_now w" "w_redis (end_span s w) = w_redis w"
  "w_db (end_span s w) = w_db w" "w_rand (end_span s w) = w_rand w"
  "w_log (end_span s w) = w_log w" "w_inflight (end_span s w) = w_inflight w" "w_metrics (end_span s w) = w_metrics w"
  by (simp_all add: log_at_def count_metric_def end_span_def)

lemma redis_exec_frame:
  "redis_exec E cs w = (r, w') \<Longrightarrow> w' = w\<lparr>w_redis := w_redis w'\<rparr>"
  by (auto simp: redis_exec_def split: prod.splits)

lemma redis_do_frame: "redis_do E c w = (r, w') \<Longrightarrow> w' = w\<lparr>w_redis := w_redis w'\<rparr>"
  by (auto simp: redis_do_def split: prod.splits sum.splits option.splits dest: redis_exec_frame)

lemma redis_err_frame: "redis_err E c w = (r, w') \<Longrightarrow> w' = w\<lparr>w_redis := w_redis w'\<rparr>"
  by (auto simp: redis_err_def split: prod.splits sum.splits dest: redis_do_frame)

lemma pg_query_frame: "pg_query E q w = (r, w') \<Longrightarrow> w' = w\<lparr>w_db := w_db w'\<rparr>"
  by (auto simp: pg_query_def split: prod.splits)

section \<open>What is assumed of the servers\<close>

text \<open>\<open>kv\<close> reads the key space of a server state.\<close>

locale redis_server =
  fixes E :: "('s, 'd) env" and kv :: "'s \<Rightarrow> store"
  assumes exec_ok: "redisExec E t cs s = (Inr rs, s') \<Longrightarrow> (rs, kv s') = redis_run t cs (kv s)"
    and exec_fail: "redisExec E t cs s = (Inl m, s') \<Longrightarrow>
      \<exists>n. kv s' = snd (redis_run t (take n cs) (kv s))"
begin

lemma pipeline_ok:
  assumes "redis_exec E cs w = (Inr rs, w')"
  shows "(rs, kv (w_redis w')) = redis_run (w_now w) cs (kv (w_redis w))"
    and "w_now w' = w_now w" and "w_db w' = w_db w"
  using assms exec_ok by (auto simp: redis_exec_def split: prod.splits sum.splits)

lemma pipeline_fail:
  assumes "redis_exec E cs w = (Inl e, w')"
  shows "\<exists>n. kv (w_redis w') = snd (redis_run (w_now w) (take n cs) (kv (w_redis w)))"
    and "\<exists>m. e = ExtErr m"
  using assms exec_fail by (auto simp: redis_exec_def split: prod.splits sum.splits)

text \<open>One command: it either took its documented effect or none at all.\<close>

lemma do_effect:
  assumes "redis_do E c w = (r, w')"
  shows "kv (w_redis w') \<in> {kv (w_redis w), snd (redis_step (w_now w) c (kv (w_redis w)))}"
proof -
  have one: "snd (redis_run t (take n [c]) st) \<in> {st, snd (redis_step t c st)}" for t n st
    by (cases n) (auto split: prod.splits)
  from assms show ?thesis
  proof (cases "fst (redis_exec E [c] w)")
    case (Inl e)
    with assms have "redis_exec E [c] w = (Inl e, w')"
      by (auto simp: redis_do_def split: prod.splits)
    from pipeline_fail(1) [OF this] one show ?thesis by metis
  next
    case (Inr rs)
    with assms have "redis_exec E [c] w = (Inr rs, w')"
      by (auto simp: redis_do_def split: prod.splits option.splits)
    from pipeline_ok(1) [OF this] show ?thesis by (auto split: prod.splits)
  qed
qed

lemma do_ok:
  assumes "redis_do E c w = (Inr r, w')"
  shows "(r, kv (w_redis w')) = redis_step (w_now w) c (kv (w_redis w))"
proof -
  from assms obtain rs where x: "redis_exec E [c] w = (Inr rs, w')" and r: "r = nth_reply 0 rs"
    by (auto simp: redis_do_def split: prod.splits sum.splits option.splits)
  from pipeline_ok(1) [OF x] r show ?thesis
    by (auto simp: nth_reply_def split: prod.splits)
qed

lemma do_nil:
  assumes "redis_do E c w = (Inl RedisNil, w')"
  shows "redis_step (w_now w) c (kv (w_redis w)) = (RNil, kv (w_redis w'))"
proof -
  from assms obtain rs where x: "redis_exec E [c] w = (Inr rs, w')"
    and r: "reply_error (nth_reply 0 rs) = Some RedisNil"
    using pipeline_fail(2) by (fastforce simp: redis_do_def split: prod.splits sum.splits option.splits)
  from r have "nth_reply 0 rs = RNil"
    by (auto simp: reply_error_def split: rreply.splits)
  with pipeline_ok(1) [OF x] show ?thesis
    by (auto simp: nth_reply_def split: prod.splits)
qed

lemma err_none:
  assumes "redis_err E c w = (None, w')"
  shows "\<exists>r. redis_step (w_now w) c (kv (w_redis w)) = (r, kv (w_redis w'))"
proof -
  from assms obtain r where "redis_do E c w = (Inr r, w')"
    by (auto simp: redis_err_def split: prod.splits sum.splits)
  from do_ok [OF this] show ?thesis by metis
qed

lemma err_effect:
  assumes "redis_err E c w = (r, w')"
  shows "kv (w_redis w') \<in> {kv (w_redis w), snd (redis_step (w_now w) c (kv (w_redis w)))}"
  using assms do_effect [of c w] by (auto simp: redis_err_def split: prod.splits sum.splits)

text \<open>Other keys are untouched, whatever the outcome.\<close>

lemma exec_other:
  assumes "redis_exec E cs w = (r, w')" and "\<forall>c \<in> set cs. k \<notin> cmd_keys c"
  shows "kv (w_redis w') k = kv (w_redis w) k"
proof (cases r)
  case (Inl e)
  with assms(1) obtain n where
    "kv (w_redis w') = snd (redis_run (w_now w) (take n cs) (kv (w_redis w)))"
    using pipeline_fail(1) by blast
  moreover have "\<forall>c \<in> set (take n cs). k \<notin> cmd_keys c"
    using assms(2) by (meson in_set_takeD)
  ultimately show ?thesis by (simp add: redis_run_other)
next
  case (Inr rs)
  with assms(1) have "(rs, kv (w_redis w')) = redis_run (w_now w) cs (kv (w_redis w))"
    using pipeline_ok(1) by blast
  then have "kv (w_redis w') = snd (redis_run (w_now w) cs (kv (w_redis w)))"
    by (metis snd_conv)
  with assms(2) show ?thesis by (simp add: redis_run_other)
qed

lemma do_other:
  assumes "redis_do E c w = (r, w')" and "k \<notin> cmd_keys c"
  shows "kv (w_redis w') k = kv (w_redis w) k"
proof -
  obtain r' where "redis_exec E [c] w = (r', w')"
    using assms(1) by (auto simp: redis_do_def split: prod.splits sum.splits option.splits)
  then show ?thesis using exec_other [of "[c]" w r' w' k] assms(2) by simp
qed

lemma err_other:
  assumes "redis_err E c w = (r, w')" and "k \<notin> cmd_keys c"
  shows "kv (w_redis w') k = kv (w_redis w) k"
  using assms do_other [of c w _ w' k] by (auto simp: redis_err_def split: prod.splits sum.splits)

end

text \<open>\<open>tabs\<close> reads the tables of a server state.\<close>

locale postgres =
  fixes E :: "('s, 'd) env" and tabs :: "'d \<Rightarrow> tables"
  assumes query_ok: "pgQuery E t q d = (r, d') \<Longrightarrow> (\<forall>m. r \<noteq> SqlFail m) \<Longrightarrow>
      pg_answer t q (tabs d) r (tabs d')"
    and query_fail: "pgQuery E t q d = (SqlFail m, d') \<Longrightarrow>
      tabs d' = tabs d \<or> (\<exists>r. pg_answer t q (tabs d) r (tabs d'))"
begin

lemma query_cases:
  assumes "pg_query E q w = (r, w')"
  shows "(pg_answer (w_now w) q (tabs (w_db w)) r (tabs (w_db w')) \<and> (\<forall>m. r \<noteq> SqlFail m)) \<or>
    ((\<exists>m. r = SqlFail m) \<and>
     (tabs (w_db w') = tabs (w_db w) \<or> (\<exists>r'. pg_answer (w_now w) q (tabs (w_db w)) r' (tabs (w_db w')))))"
  using assms query_ok query_fail by (auto simp: pg_query_def split: prod.splits) blast+

end

locale backend = redis_server E kv + postgres E tabs
  for E :: "('s, 'd) env" and kv :: "'s \<Rightarrow> store" and tabs :: "'d \<Rightarrow> tables"

end
