(* ===== verification/Session_Repo.thy ===== *)
theory Session_Repo
  imports Runtime
begin

text \<open>
  \<open>internal/repository/redis/session.go\<close>: refresh tokens, the access-token blocklist, login lockout,
  the sliding-window rate limiter and password-reset tokens, all kept in Redis; and the interface
  \<open>SessionRepository\<close> of \<open>internal/repository/interfaces.go\<close> as a record of operations.
\<close>

section \<open>The interface\<close>

record 'w session_repository =
  StoreRefreshToken :: "string \<Rightarrow> string \<Rightarrow> int \<Rightarrow> 'w \<Rightarrow> goerr option \<times> 'w"
  ValidateRefreshToken :: "string \<Rightarrow> 'w \<Rightarrow> (goerr + string) \<times> 'w"
  RevokeRefreshToken :: "string \<Rightarrow> 'w \<Rightarrow> goerr option \<times> 'w"
  BlocklistJTI :: "string \<Rightarrow> int \<Rightarrow> 'w \<Rightarrow> goerr option \<times> 'w"
  IsBlocklisted :: "string \<Rightarrow> 'w \<Rightarrow> (goerr + bool) \<times> 'w"
  RateLimitAllow :: "string \<Rightarrow> int \<Rightarrow> int \<Rightarrow> 'w \<Rightarrow> (bool \<times> int \<times> int \<times> goerr option) \<times> 'w"
  RotateRefreshToken :: "string \<Rightarrow> string \<Rightarrow> string \<Rightarrow> int \<Rightarrow> 'w \<Rightarrow> goerr option \<times> 'w"
  IncrLoginFailure :: "string \<Rightarrow> int \<Rightarrow> 'w \<Rightarrow> (int \<times> goerr option) \<times> 'w"
  GetLoginFailures :: "string \<Rightarrow> 'w \<Rightarrow> (goerr + int) \<times> 'w"
  ClearLoginFailures :: "string \<Rightarrow> 'w \<Rightarrow> goerr option \<times> 'w"
  IsLockedOut :: "string \<Rightarrow> 'w \<Rightarrow> (bool \<times> goerr option) \<times> 'w"
  RateLimitAllowUser :: "string \<Rightarrow> string \<Rightarrow> int \<Rightarrow> int \<Rightarrow> 'w \<Rightarrow> (bool \<times> int \<times> int \<times> goerr option) \<times> 'w"
  StorePasswordResetToken :: "string \<Rightarrow> string \<Rightarrow> 'w \<Rightarrow> goerr option \<times> 'w"
  ConsumePasswordResetToken :: "string \<Rightarrow> 'w \<Rightarrow> (goerr + string) \<times> 'w"

section \<open>Keys\<close>

definition loginLockoutKeyPrefix :: string where
  "loginLockoutKeyPrefix = ''auth:lockout:''"

definition loginLockoutThreshold :: int where
  "loginLockoutThreshold = 10"

definition passwordResetKeyPrefix :: string where
  "passwordResetKeyPrefix = ''auth:reset:''"

text \<open>Durations are nanoseconds.\<close>

definition second :: int where "second = 1000000000"

definition passwordResetTTL :: int where
  "passwordResetTTL = 3600 * second"

definition hashToken :: "('s, 'd) env \<Rightarrow> string \<Rightarrow> string" where
  "hashToken E token = hex_bytes (sha256 E token)"

definition refreshKey :: "('s, 'd) env \<Rightarrow> string \<Rightarrow> string" where
  "refreshKey E token = ''auth:refresh:'' @ hashToken E token"

definition blocklistKey :: "string \<Rightarrow> string" where
  "blocklistKey jti = ''auth:blocklist:'' @ jti"

definition lockoutKey :: "('s, 'd) env \<Rightarrow> string \<Rightarrow> string" where
  "lockoutKey E email = loginLockoutKeyPrefix @ hashToken E email"

definition resetKey :: "('s, 'd) env \<Rightarrow> string \<Rightarrow> string" where
  "resetKey E token = passwordResetKeyPrefix @ hashToken E token"

section \<open>Refresh tokens and the blocklist\<close>

definition wrap_err :: "string \<Rightarrow> goerr option \<Rightarrow> goerr option" where
  "wrap_err p e = map_option (Wrapf p) e"

definition sessionRepo_StoreRefreshToken ::
    "('s, 'd) env \<Rightarrow> string \<Rightarrow> string \<Rightarrow> int \<Rightarrow> ('s, 'd) world \<Rightarrow> goerr option \<times> ('s, 'd) world" where
  "sessionRepo_StoreRefreshToken E token userID ttl w =
     (let (e, w') = redis_err E (SET (refreshKey E token) userID ttl) w
      in (wrap_err ''session: store refresh token: '' e, w'))"

text \<open>The comparison \<open>err == redis.Nil\<close> looks at the error itself, not at its chain.\<close>

definition sessionRepo_ValidateRefreshToken ::
    "('s, 'd) env \<Rightarrow> string \<Rightarrow> ('s, 'd) world \<Rightarrow> (goerr + string) \<times> ('s, 'd) world" where
  "sessionRepo_ValidateRefreshToken E token w =
     (case redis_do E (GET (refreshKey E token)) w of
        (Inl e, w') \<Rightarrow>
          if e = RedisNil then (Inl (Unauthorized ''refresh token invalid or expired''), w')
          else (Inl (Wrapf ''session: validate refresh token: '' e), w')
      | (Inr (RBulk userID), w') \<Rightarrow> (Inr userID, w')
      | (Inr _, w') \<Rightarrow> (Inl (Wrapf ''session: validate refresh token: '' (ExtErr ''unexpected reply'')), w'))"

definition sessionRepo_RevokeRefreshToken ::
    "('s, 'd) env \<Rightarrow> string \<Rightarrow> ('s, 'd) world \<Rightarrow> goerr option \<times> ('s, 'd) world" where
  "sessionRepo_RevokeRefreshToken E token w =
     (let (e, w') = redis_err E (DEL [refreshKey E token]) w
      in (wrap_err ''session: revoke refresh token: '' e, w'))"

definition sessionRepo_BlocklistJTI ::
    "('s, 'd) env \<Rightarrow> string \<Rightarrow> int \<Rightarrow> ('s, 'd) world \<Rightarrow> goerr option \<times> ('s, 'd) world" where
  "sessionRepo_BlocklistJTI E jti ttl w =
     (let (e, w') = redis_err E (SET (blocklistKey jti) ''1'' ttl) w
      in (wrap_err ''session: blocklist jti: '' e, w'))"

definition sessionRepo_IsBlocklisted ::
    "('s, 'd) env \<Rightarrow> string \<Rightarrow> ('s, 'd) world \<Rightarrow> (goerr + bool) \<times> ('s, 'd) world" where
  "sessionRepo_IsBlocklisted E jti w =
     (case redis_do E (EXISTS (blocklistKey jti)) w of
        (Inl e, w') \<Rightarrow> (Inl (Wrapf ''session: check blocklist: '' e), w')
      | (Inr (RInt n), w') \<Rightarrow> (Inr (n > 0), w')
      | (Inr _, w') \<Rightarrow> (Inl (Wrapf ''session: check blocklist: '' (ExtErr ''unexpected reply'')), w'))"

text \<open>A pipeline of a delete and a set; \<open>Exec\<close> reports the first error of the two.\<close>

definition sessionRepo_RotateRefreshToken ::
    "('s, 'd) env \<Rightarrow> string \<Rightarrow> string \<Rightarrow> string \<Rightarrow> int \<Rightarrow> ('s, 'd) world \<Rightarrow>
     goerr option \<times> ('s, 'd) world" where
  "sessionRepo_RotateRefreshToken E oldToken newToken userID ttl w =
     (case redis_exec E [DEL [refreshKey E oldToken], SET (refreshKey E newToken) userID ttl] w of
        (Inl e, w') \<Rightarrow> (Some (Wrapf ''rotate refresh token: '' e), w')
      | (Inr rs, w') \<Rightarrow> (wrap_err ''rotate refresh token: '' (first_error rs), w'))"

section \<open>Brute-force lockout\<close>

definition sessionRepo_IncrLoginFailure ::
    "('s, 'd) env \<Rightarrow> string \<Rightarrow> int \<Rightarrow> ('s, 'd) world \<Rightarrow> (int \<times> goerr option) \<times> ('s, 'd) world" where
  "sessionRepo_IncrLoginFailure E email ttl w =
     (let key = lockoutKey E email
      in case redis_exec E [INCR key, EXPIRE key ttl] w of
           (Inl e, w') \<Rightarrow> ((0, Some (Wrapf ''incr login failure: '' e)), w')
         | (Inr rs, w') \<Rightarrow>
             (case first_error rs of
                Some e \<Rightarrow> ((0, Some (Wrapf ''incr login failure: '' e)), w')
              | None \<Rightarrow> ((case nth_reply 0 rs of RInt n \<Rightarrow> n | _ \<Rightarrow> 0, None), w')))"

definition sessionRepo_GetLoginFailures ::
    "('s, 'd) env \<Rightarrow> string \<Rightarrow> ('s, 'd) world \<Rightarrow> (goerr + int) \<times> ('s, 'd) world" where
  "sessionRepo_GetLoginFailures E email w =
     (case redis_do E (GET (lockoutKey E email)) w of
        (Inl e, w') \<Rightarrow> if e = RedisNil then (Inr 0, w') else (Inl (Wrapf ''get login failures: '' e), w')
      | (Inr (RBulk s), w') \<Rightarrow>
          (case Atoi s of
             Some n \<Rightarrow> (Inr n, w')
           | None \<Rightarrow> (Inl (Wrapf ''get login failures: '' (ExtErr ''invalid syntax'')), w'))
      | (Inr _, w') \<Rightarrow> (Inl (Wrapf ''get login failures: '' (ExtErr ''unexpected reply'')), w'))"

definition sessionRepo_ClearLoginFailures ::
    "('s, 'd) env \<Rightarrow> string \<Rightarrow> ('s, 'd) world \<Rightarrow> goerr option \<times> ('s, 'd) world" where
  "sessionRepo_ClearLoginFailures E email w =
     (let (e, w') = redis_err E (DEL [lockoutKey E email]) w
      in (wrap_err ''clear login failures: '' e, w'))"

definition sessionRepo_IsLockedOut ::
    "('s, 'd) env \<Rightarrow> string \<Rightarrow> ('s, 'd) world \<Rightarrow> (bool \<times> goerr option) \<times> ('s, 'd) world" where
  "sessionRepo_IsLockedOut E email w =
     (case sessionRepo_GetLoginFailures E email w of
        (Inl e, w') \<Rightarrow> ((False, Some e), w')
      | (Inr cnt, w') \<Rightarrow> ((cnt \<ge> loginLockoutThreshold, None), w'))"

section \<open>Rate limiting\<close>

definition UnixMilli :: "int \<Rightarrow> int" where
  "UnixMilli t = t div 1000000"

definition rateLimitByKey ::
    "('s, 'd) env \<Rightarrow> string \<Rightarrow> int \<Rightarrow> int \<Rightarrow> ('s, 'd) world \<Rightarrow>
     (bool \<times> int \<times> int \<times> goerr option) \<times> ('s, 'd) world" where
  "rateLimitByKey E rKey limit window w =
     (let now = w_now w; windowStart = now - window; resetAt = now + window
      in case redis_exec E
             [ZREMRANGEBYSCORE rKey 0 (UnixMilli windowStart),
              ZADD rKey (UnixMilli now) now,
              ZCARD rKey,
              EXPIRE rKey window] w of
           (Inl e, w') \<Rightarrow> ((True, limit, resetAt, None), w')
         | (Inr rs, w') \<Rightarrow>
             (if first_error rs \<noteq> None then ((True, limit, resetAt, None), w')
              else let cnt = (case nth_reply 2 rs of RInt n \<Rightarrow> n | _ \<Rightarrow> 0)
                   in if cnt > limit then ((False, 0, resetAt, None), w')
                      else ((True, limit - cnt, resetAt, None), w')))"

definition sessionRepo_RateLimitAllow ::
    "('s, 'd) env \<Rightarrow> string \<Rightarrow> int \<Rightarrow> int \<Rightarrow> ('s, 'd) world \<Rightarrow>
     (bool \<times> int \<times> int \<times> goerr option) \<times> ('s, 'd) world" where
  "sessionRepo_RateLimitAllow E key limit window w = rateLimitByKey E (''rate:limit:'' @ key) limit window w"

definition sessionRepo_RateLimitAllowUser ::
    "('s, 'd) env \<Rightarrow> string \<Rightarrow> string \<Rightarrow> int \<Rightarrow> int \<Rightarrow> ('s, 'd) world \<Rightarrow>
     (bool \<times> int \<times> int \<times> goerr option) \<times> ('s, 'd) world" where
  "sessionRepo_RateLimitAllowUser E userID endpoint limit window w =
     rateLimitByKey E (''rate:user:'' @ userID @ '':'' @ endpoint) limit window w"

section \<open>Password reset\<close>

definition sessionRepo_StorePasswordResetToken ::
    "('s, 'd) env \<Rightarrow> string \<Rightarrow> string \<Rightarrow> ('s, 'd) world \<Rightarrow> goerr option \<times> ('s, 'd) world" where
  "sessionRepo_StorePasswordResetToken E token userID w =
     (let (e, w') = redis_err E (SET (resetKey E token) userID passwordResetTTL) w
      in (wrap_err ''store reset token: '' e, w'))"

text \<open>\<open>Exec\<close> reports \<open>redis.Nil\<close> for the get of a missing key; the code lets that pass and reads
  the get's own result.\<close>

definition sessionRepo_ConsumePasswordResetToken ::
    "('s, 'd) env \<Rightarrow> string \<Rightarrow> ('s, 'd) world \<Rightarrow> (goerr + string) \<times> ('s, 'd) world" where
  "sessionRepo_ConsumePasswordResetToken E token w =
     (let key = resetKey E token
      in case redis_exec E [GET key, DEL [key]] w of
           (Inl e, w') \<Rightarrow> (Inl (Wrapf ''consume reset token: '' e), w')
         | (Inr rs, w') \<Rightarrow>
             (if first_error rs \<notin> {None, Some RedisNil}
              then (Inl (Wrapf ''consume reset token: '' (the (first_error rs))), w')
              else case nth_reply 0 rs of
                  RNil \<Rightarrow> (Inl (Errorf ''reset token not found or already used''), w')
                | RBulk userID \<Rightarrow> (Inr userID, w')
                | RError m \<Rightarrow> (Inl (Wrapf ''get reset token: '' (ExtErr m)), w')
                | _ \<Rightarrow> (Inl (Wrapf ''get reset token: '' (ExtErr ''unexpected reply'')), w')))"

section \<open>The implementation of the interface\<close>

definition NewSessionRepo :: "('s, 'd) env \<Rightarrow> ('s, 'd) world session_repository" where
  "NewSessionRepo E = \<lparr>
     StoreRefreshToken = sessionRepo_StoreRefreshToken E,
     ValidateRefreshToken = sessionRepo_ValidateRefreshToken E,
     RevokeRefreshToken = sessionRepo_RevokeRefreshToken E,
     BlocklistJTI = sessionRepo_BlocklistJTI E,
     IsBlocklisted = sessionRepo_IsBlocklisted E,
     RateLimitAllow = sessionRepo_RateLimitAllow E,
     RotateRefreshToken = sessionRepo_RotateRefreshToken E,
     IncrLoginFailure = sessionRepo_IncrLoginFailure E,
     GetLoginFailures = sessionRepo_GetLoginFailures E,
     ClearLoginFailures = sessionRepo_ClearLoginFailures E,
     IsLockedOut = sessionRepo_IsLockedOut E,
     RateLimitAllowUser = sessionRepo_RateLimitAllowUser E,
     StorePasswordResetToken = sessionRepo_StorePasswordResetToken E,
     ConsumePasswordResetToken = sessionRepo_ConsumePasswordResetToken E\<rparr>"

lemmas session_defs =
  sessionRepo_StoreRefreshToken_def sessionRepo_ValidateRefreshToken_def
  sessionRepo_RevokeRefreshToken_def sessionRepo_BlocklistJTI_def sessionRepo_IsBlocklisted_def
  sessionRepo_RotateRefreshToken_def sessionRepo_IncrLoginFailure_def
  sessionRepo_GetLoginFailures_def sessionRepo_ClearLoginFailures_def
  sessionRepo_IsLockedOut_def sessionRepo_StorePasswordResetToken_def
  sessionRepo_ConsumePasswordResetToken_def

end
