(* ===== verification/Session_Contract.thy ===== *)
theory Session_Contract
  imports Session_Repo
begin

text \<open>
  What \<open>SessionRepository\<close> promises its clients, as a locale over the interface record: an abstract
  session state (which refresh and reset tokens are valid and for whom, which access tokens are
  revoked, how many logins failed) and the law of every operation on it.  The last part shows that
  the Redis implementation keeps this contract on every server that acts as documented.
\<close>

record sess =
  refresh_of :: "string \<Rightarrow> string option"
  blocked :: "string \<Rightarrow> bool"
  failures :: "string \<Rightarrow> int"
  reset_of :: "string \<Rightarrow> string option"

text \<open>Only the session store's part of the world changed.\<close>

definition only_redis :: "('s, 'd) world \<Rightarrow> ('s, 'd) world \<Rightarrow> bool" where
  "only_redis w w' \<longleftrightarrow> w' = w\<lparr>w_redis := w_redis w'\<rparr>"

lemma only_redis_simps:
  assumes "only_redis w w'"
  shows "w_now w' = w_now w" "w_db w' = w_db w" "w_rand w' = w_rand w" "w_log w' = w_log w"
    "w_metrics w' = w_metrics w" "w_spans w' = w_spans w" "w_inflight w' = w_inflight w"
  using assms unfolding only_redis_def by (cases w; cases w'; simp)+

text \<open>\<open>same a b\<close>: the two strings have the same digest, so they name the same entry.\<close>

locale session_contract =
  fixes R :: "('s, 'd) world session_repository"
    and view :: "('s, 'd) world \<Rightarrow> sess"
    and same :: "string \<Rightarrow> string \<Rightarrow> bool"
  assumes same_refl: "same a a"
    and store_ok: "StoreRefreshToken R t u d w = (None, w') \<Longrightarrow> 0 < d \<Longrightarrow>
      view w' = (view w)\<lparr>refresh_of := \<lambda>t'. if same t t' then Some u else refresh_of (view w) t'\<rparr>"
    and store_frame: "only_redis w (snd (StoreRefreshToken R t u d w))"
    and validate_ok: "ValidateRefreshToken R t w = (Inr u, w') \<Longrightarrow> refresh_of (view w) t = Some u"
    and validate_view: "view (snd (ValidateRefreshToken R t w)) = view w"
    and validate_frame: "only_redis w (snd (ValidateRefreshToken R t w))"
    and revoke_ok: "RevokeRefreshToken R t w = (None, w') \<Longrightarrow>
      view w' = (view w)\<lparr>refresh_of := \<lambda>t'. if same t t' then None else refresh_of (view w) t'\<rparr>"
    and revoke_frame: "only_redis w (snd (RevokeRefreshToken R t w))"
    and block_ok: "BlocklistJTI R j d w = (None, w') \<Longrightarrow> 0 < d \<Longrightarrow>
      view w' = (view w)\<lparr>blocked := \<lambda>j'. j' = j \<or> blocked (view w) j'\<rparr>"
    and block_frame: "only_redis w (snd (BlocklistJTI R j d w))"
    and blocked_ok: "IsBlocklisted R j w = (Inr bl, w') \<Longrightarrow> bl = blocked (view w) j"
    and blocked_view: "view (snd (IsBlocklisted R j w)) = view w"
    and blocked_frame: "only_redis w (snd (IsBlocklisted R j w))"
    and rotate_ok: "RotateRefreshToken R a b u d w = (None, w') \<Longrightarrow> 0 < d \<Longrightarrow>
      view w' = (view w)\<lparr>refresh_of := \<lambda>t'. if same b t' then Some u else if same a t' then None
        else refresh_of (view w) t'\<rparr>"
    and rotate_fail: "RotateRefreshToken R a b u d w = (Some e, w') \<Longrightarrow> refresh_of (view w') b = refresh_of (view w) b \<or>
      same b a \<or> refresh_of (view w') a = None"
    and rotate_frame: "only_redis w (snd (RotateRefreshToken R a b u d w))"
    and incr_ok: "IncrLoginFailure R m d w = ((n, None), w') \<Longrightarrow> 0 < d \<Longrightarrow>
      n = failures (view w) m + 1 \<and>
      view w' = (view w)\<lparr>failures := \<lambda>m'. if same m m' then n else failures (view w) m'\<rparr>"
    and incr_frame: "only_redis w (snd (IncrLoginFailure R m d w))"
    and clear_ok: "ClearLoginFailures R m w = (None, w') \<Longrightarrow>
      view w' = (view w)\<lparr>failures := \<lambda>m'. if same m m' then 0 else failures (view w) m'\<rparr>"
    and clear_any: "\<exists>f. view (snd (ClearLoginFailures R m w)) = (view w)\<lparr>failures := f\<rparr>"
    and incr_any: "\<exists>f. view (snd (IncrLoginFailure R m d w)) = (view w)\<lparr>failures := f\<rparr>"
    and reset_any: "\<exists>f. view (snd (StorePasswordResetToken R t u w)) = (view w)\<lparr>reset_of := f\<rparr>"
    and consume_any: "\<exists>f. view (snd (ConsumePasswordResetToken R t w)) = (view w)\<lparr>reset_of := f\<rparr>"
    and store_any: "\<exists>f. view (snd (StoreRefreshToken R t u d w)) = (view w)\<lparr>refresh_of := f\<rparr>"
    and clear_frame: "only_redis w (snd (ClearLoginFailures R m w))"
    and locked_ok: "IsLockedOut R m w = ((lk, None), w') \<Longrightarrow> lk = (10 \<le> failures (view w) m)"
    and locked_fail: "IsLockedOut R m w = ((lk, Some e), w') \<Longrightarrow> \<not> lk"
    and locked_view: "view (snd (IsLockedOut R m w)) = view w"
    and locked_frame: "only_redis w (snd (IsLockedOut R m w))"
    and reset_ok: "StorePasswordResetToken R t u w = (None, w') \<Longrightarrow>
      view w' = (view w)\<lparr>reset_of := \<lambda>t'. if same t t' then Some u else reset_of (view w) t'\<rparr>"
    and reset_frame: "only_redis w (snd (StorePasswordResetToken R t u w))"
    and consume_ok: "ConsumePasswordResetToken R t w = (Inr u, w') \<Longrightarrow>
      reset_of (view w) t = Some u \<and>
      view w' = (view w)\<lparr>reset_of := \<lambda>t'. if same t t' then None else reset_of (view w) t'\<rparr>"
    and consume_frame: "only_redis w (snd (ConsumePasswordResetToken R t w))"
    and view_cong: "w_now w = w_now w' \<Longrightarrow> w_redis w = w_redis w' \<Longrightarrow> view w = view w'"
begin

lemma view_quiet:
  "view (log_at l m as w) = view w" "view (count_metric k w) = view w" "view (end_span sp w) = view w"
  "view (w\<lparr>w_rand := rn\<rparr>) = view w"
  by (rule view_cong, simp, simp)+

lemma validate_revoked:
  "refresh_of (view w) t = None \<Longrightarrow> ValidateRefreshToken R t w = (r, w') \<Longrightarrow> \<exists>e. r = Inl e"
  using validate_ok by (cases r) fastforce+

text \<open>A rotation never leaves both tokens usable, even when the pipeline failed half way.\<close>

lemma rotate_never_both:
  assumes "RotateRefreshToken R a b u d w = (r, w')" and "0 < d" and "\<not> same b a"
    and "refresh_of (view w) b = None"
  shows "refresh_of (view w') a = None \<or> refresh_of (view w') b = None"
proof (cases r)
  case None
  with assms have "RotateRefreshToken R a b u d w = (None, w')" by simp
  from rotate_ok [OF this] assms(2,3) show ?thesis by (simp add: same_refl)
next
  case (Some e)
  with assms have "RotateRefreshToken R a b u d w = (Some e, w')" by simp
  from rotate_fail [OF this] assms(3,4) show ?thesis by auto
qed

text \<open>A consumed reset token cannot be consumed again.\<close>

lemma consume_once:
  assumes "ConsumePasswordResetToken R t w = (Inr u, w1)"
  shows "\<exists>e. fst (ConsumePasswordResetToken R t w1) = Inl e"
proof -
  have "reset_of (view w1) t = None"
    using consume_ok [OF assms] by (simp add: same_refl)
  then show ?thesis
    using consume_ok [of t w1] by (cases "ConsumePasswordResetToken R t w1"; cases "fst (ConsumePasswordResetToken R t w1)") fastforce+
qed

end

section \<open>The Redis implementation keeps the contract\<close>

lemmas key_defs = refreshKey_def blocklistKey_def lockoutKey_def resetKey_def
  loginLockoutKeyPrefix_def passwordResetKeyPrefix_def

text \<open>The key families never meet.\<close>

lemma key_families [simp]:
  "refreshKey E t \<noteq> blocklistKey j" "blocklistKey j \<noteq> refreshKey E t"
  "refreshKey E t \<noteq> lockoutKey E m" "lockoutKey E m \<noteq> refreshKey E t"
  "refreshKey E t \<noteq> resetKey E s" "resetKey E s \<noteq> refreshKey E t"
  "blocklistKey j \<noteq> lockoutKey E m" "lockoutKey E m \<noteq> blocklistKey j"
  "blocklistKey j \<noteq> resetKey E s" "resetKey E s \<noteq> blocklistKey j"
  "lockoutKey E m \<noteq> resetKey E s" "resetKey E s \<noteq> lockoutKey E m"
  by (simp_all add: key_defs)

lemma key_inj [simp]:
  "refreshKey E a = refreshKey E b \<longleftrightarrow> hashToken E a = hashToken E b"
  "blocklistKey i = blocklistKey j \<longleftrightarrow> i = j"
  "lockoutKey E a = lockoutKey E b \<longleftrightarrow> hashToken E a = hashToken E b"
  "resetKey E a = resetKey E b \<longleftrightarrow> hashToken E a = hashToken E b"
  by (simp_all add: key_defs)

definition failure_count :: "string option \<Rightarrow> int" where
  "failure_count v = (case v of None \<Rightarrow> 0 | Some s \<Rightarrow> (case Atoi s of None \<Rightarrow> 0 | Some n \<Rightarrow> n))"

definition store_view :: "('s, 'd) env \<Rightarrow> int \<Rightarrow> store \<Rightarrow> sess" where
  "store_view E t st = \<lparr>
     refresh_of = (\<lambda>a. live_str t st (refreshKey E a)),
     blocked = (\<lambda>j. live t st (blocklistKey j) \<noteq> None),
     failures = (\<lambda>m. failure_count (live_str t st (lockoutKey E m))),
     reset_of = (\<lambda>a. live_str t st (resetKey E a))\<rparr>"

definition session_view :: "('s, 'd) env \<Rightarrow> ('s \<Rightarrow> store) \<Rightarrow> ('s, 'd) world \<Rightarrow> sess" where
  "session_view E kv w = store_view E (w_now w) (kv (w_redis w))"

definition same_digest :: "('s, 'd) env \<Rightarrow> string \<Rightarrow> string \<Rightarrow> bool" where
  "same_digest E a b \<longleftrightarrow> hashToken E a = hashToken E b"

lemma failure_count_simps [simp]:
  "failure_count None = 0" "Atoi s = Some n \<Longrightarrow> failure_count (Some s) = n"
  by (simp_all add: failure_count_def)

lemma session_view_cong:
  assumes "w_now w' = w_now w"
    and "\<And>k. (\<exists>a. k = refreshKey E a) \<or> (\<exists>a. k = blocklistKey a) \<or> (\<exists>a. k = lockoutKey E a) \<or>
           (\<exists>a. k = resetKey E a) \<Longrightarrow> kv (w_redis w') k = kv (w_redis w) k"
  shows "session_view E kv w' = session_view E kv w"
proof -
  have "kv (w_redis w') (refreshKey E a) = kv (w_redis w) (refreshKey E a)"
    "kv (w_redis w') (blocklistKey a) = kv (w_redis w) (blocklistKey a)"
    "kv (w_redis w') (lockoutKey E a) = kv (w_redis w) (lockoutKey E a)"
    "kv (w_redis w') (resetKey E a) = kv (w_redis w) (resetKey E a)" for a
    using assms(2) by blast+
  then show ?thesis
    using assms(1) by (simp add: session_view_def store_view_def live_str_def live_def fun_eq_iff)
qed

lemma session_view_same_store:
  "w_now w' = w_now w \<Longrightarrow> kv (w_redis w') = kv (w_redis w) \<Longrightarrow> session_view E kv w' = session_view E kv w"
  by (simp add: session_view_def)

text \<open>The view after each kind of write.\<close>

lemma store_view_refresh:
  "store_view E t (st(refreshKey E a := e)) =
     (store_view E t st)\<lparr>refresh_of := \<lambda>b. if same_digest E a b then live_str t (st(refreshKey E a := e)) (refreshKey E a)
        else refresh_of (store_view E t st) b\<rparr>"
  by (auto simp: store_view_def same_digest_def fun_eq_iff live_str_def live_def)

lemma store_view_blocklist:
  "store_view E t (st(blocklistKey a := e)) =
     (store_view E t st)\<lparr>blocked := \<lambda>b. if a = b then live t (st(blocklistKey a := e)) (blocklistKey a) \<noteq> None
        else blocked (store_view E t st) b\<rparr>"
  by (auto simp: store_view_def fun_eq_iff live_str_def live_def)

lemma store_view_lockout:
  "store_view E t (st(lockoutKey E a := e)) =
     (store_view E t st)\<lparr>failures := \<lambda>b. if same_digest E a b
        then failure_count (live_str t (st(lockoutKey E a := e)) (lockoutKey E a))
        else failures (store_view E t st) b\<rparr>"
  by (auto simp: store_view_def same_digest_def fun_eq_iff live_str_def live_def)

lemma store_view_reset:
  "store_view E t (st(resetKey E a := e)) =
     (store_view E t st)\<lparr>reset_of := \<lambda>b. if same_digest E a b then live_str t (st(resetKey E a := e)) (resetKey E a)
        else reset_of (store_view E t st) b\<rparr>"
  by (auto simp: store_view_def same_digest_def fun_eq_iff live_str_def live_def)

lemmas store_views = store_view_refresh store_view_blocklist store_view_lockout store_view_reset

lemma del_single: "(\<lambda>k. if k \<in> set [x] then None else st k) = st(x := None)"
  by (simp add: fun_eq_iff)

lemma session_view_log [simp]:
  "session_view E kv (log_at l m as w) = session_view E kv w"
  "session_view E kv (count_metric k w) = session_view E kv w"
  "session_view E kv (end_span sp w) = session_view E kv w"
  "session_view E kv (w\<lparr>w_rand := n\<rparr>) = session_view E kv w"
  by (simp_all add: session_view_def)

lemma only_redisI: "w' = w\<lparr>w_redis := w_redis w'\<rparr> \<Longrightarrow> only_redis w w'"
  by (simp add: only_redis_def)

context redis_server begin

lemma exec_only: "redis_exec E cs w = (r, w') \<Longrightarrow> only_redis w w'"
  by (rule only_redisI) (rule redis_exec_frame)

lemma do_only: "redis_do E c w = (r, w') \<Longrightarrow> only_redis w w'"
  by (rule only_redisI) (rule redis_do_frame)

lemma err_only: "redis_err E c w = (r, w') \<Longrightarrow> only_redis w w'"
  by (rule only_redisI) (rule redis_err_frame)

lemma session_frames [frames]:
  "only_redis w (snd (sessionRepo_StoreRefreshToken E t u d w))"
  "only_redis w (snd (sessionRepo_ValidateRefreshToken E t w))"
  "only_redis w (snd (sessionRepo_RevokeRefreshToken E t w))"
  "only_redis w (snd (sessionRepo_BlocklistJTI E j d w))"
  "only_redis w (snd (sessionRepo_IsBlocklisted E j w))"
  "only_redis w (snd (sessionRepo_RotateRefreshToken E a b u d w))"
  "only_redis w (snd (sessionRepo_IncrLoginFailure E m d w))"
  "only_redis w (snd (sessionRepo_GetLoginFailures E m w))"
  "only_redis w (snd (sessionRepo_ClearLoginFailures E m w))"
  "only_redis w (snd (sessionRepo_IsLockedOut E m w))"
  "only_redis w (snd (sessionRepo_StorePasswordResetToken E t u w))"
  "only_redis w (snd (sessionRepo_ConsumePasswordResetToken E t w))"
  unfolding session_defs Let_def
  by (auto dest: exec_only do_only err_only split: prod.splits sum.splits rreply.splits option.splits if_splits)

text \<open>A single command that writes one key of a family.\<close>

lemma view_set:
  assumes "redis_err E (SET k v d) w = (None, w')"
  shows "session_view E kv w' = store_view E (w_now w)
    ((kv (w_redis w))(k \<mapsto> (VStr v, if 0 < d then Some (w_now w + d) else None)))"
  using err_none [OF assms] redis_err_frame [OF assms]
  by (simp add: session_view_def) (metis only_redisI only_redis_simps(1))

lemma view_del:
  assumes "redis_err E (DEL [k]) w = (None, w')"
  shows "session_view E kv w' = store_view E (w_now w) ((kv (w_redis w))(k := None))"
  using err_none [OF assms] only_redis_simps(1) [OF err_only [OF assms]]
  by (auto simp: session_view_def del_single fun_upd_def)

lemma impl_store_ok:
  "sessionRepo_StoreRefreshToken E t u d w = (None, w') \<Longrightarrow> 0 < d \<Longrightarrow>
   session_view E kv w' = (session_view E kv w)
     \<lparr>refresh_of := \<lambda>t'. if same_digest E t t' then Some u else refresh_of (session_view E kv w) t'\<rparr>"
  using view_set [of "refreshKey E t" u d w w']
  by (auto simp: sessionRepo_StoreRefreshToken_def wrap_err_def store_view_refresh session_view_def
      split: prod.splits cong: if_cong)

text \<open>Reads change nothing.\<close>

lemma do_read:
  assumes "redis_do E c w = (r, w')" and "\<And>t st. snd (redis_step t c st) = st"
  shows "session_view E kv w' = session_view E kv w"
  using do_effect [OF assms(1)] assms(2) only_redis_simps(1) [OF do_only [OF assms(1)]]
  by (simp add: session_view_def)

lemma step_reads [simp]:
  "snd (redis_step t (GET k) st) = st" "snd (redis_step t (EXISTS k) st) = st"
  by (auto split: option.splits prod.splits rval.splits)

lemma do_get_view: "redis_do E (GET k) w = (r, w') \<Longrightarrow> session_view E kv w' = session_view E kv w"
  by (erule do_read) (rule step_reads)

lemma do_exists_view: "redis_do E (EXISTS k) w = (r, w') \<Longrightarrow> session_view E kv w' = session_view E kv w"
  by (erule do_read) (rule step_reads)

lemma impl_validate_view:
  "session_view E kv (snd (sessionRepo_ValidateRefreshToken E t w)) = session_view E kv w"
  unfolding sessionRepo_ValidateRefreshToken_def
  by (auto dest: do_get_view do_exists_view split: prod.splits sum.splits rreply.splits)

lemma get_bulk:
  assumes "redis_do E (GET k) w = (Inr (RBulk u), w')"
  shows "live_str (w_now w) (kv (w_redis w)) k = Some u"
  using do_ok [OF assms] by (auto simp: live_str_def wrongtype_def split: option.splits prod.splits rval.splits)

lemma get_nil:
  assumes "redis_do E (GET k) w = (Inl RedisNil, w')"
  shows "live_str (w_now w) (kv (w_redis w)) k = None"
  using do_nil [OF assms] by (auto simp: live_str_def wrongtype_def split: option.splits prod.splits rval.splits)

lemma impl_validate_ok:
  "sessionRepo_ValidateRefreshToken E t w = (Inr u, w') \<Longrightarrow> refresh_of (session_view E kv w) t = Some u"
  by (auto simp: sessionRepo_ValidateRefreshToken_def session_view_def store_view_def dest: get_bulk
      split: prod.splits sum.splits rreply.splits if_splits)

text \<open>A token that is stored and not expired is found, unless the server cannot be reached.\<close>

lemma impl_validate_found:
  assumes "sessionRepo_ValidateRefreshToken E t w = (Inl e, w')"
    and "refresh_of (session_view E kv w) t = Some u"
  shows "\<exists>m. e = Wrapf ''session: validate refresh token: '' (ExtErr m)"
proof -
  have step: "redis_step (w_now w) (GET (refreshKey E t)) (kv (w_redis w)) = (RBulk u, kv (w_redis w))"
    using assms(2) by (auto simp: session_view_def store_view_def live_str_def
        split: option.splits prod.splits rval.splits)
  from assms(1) show ?thesis
  proof (cases "redis_do E (GET (refreshKey E t)) w")
    case (Pair r w1)
    show ?thesis
    proof (cases r)
      case (Inl e1)
      have "e1 \<noteq> RedisNil"
        using do_nil [of "GET (refreshKey E t)" w w1] step Pair Inl by auto
      moreover have "\<exists>m. e1 = ExtErr m"
        using Pair Inl pipeline_fail(2) \<open>e1 \<noteq> RedisNil\<close>
        by (fastforce simp: redis_do_def reply_error_def split: prod.splits sum.splits option.splits rreply.splits)
      ultimately show ?thesis
        using assms(1) Pair Inl by (auto simp: sessionRepo_ValidateRefreshToken_def)
    next
      case (Inr r1)
      with do_ok [of "GET (refreshKey E t)" w r1 w1] step Pair have "r1 = RBulk u" by simp
      with assms(1) Pair Inr show ?thesis by (simp add: sessionRepo_ValidateRefreshToken_def)
    qed
  qed
qed

lemma impl_revoke_ok:
  "sessionRepo_RevokeRefreshToken E t w = (None, w') \<Longrightarrow>
   session_view E kv w' = (session_view E kv w)
     \<lparr>refresh_of := \<lambda>t'. if same_digest E t t' then None else refresh_of (session_view E kv w) t'\<rparr>"
  using view_del [of "refreshKey E t" w w']
  by (auto simp: sessionRepo_RevokeRefreshToken_def wrap_err_def store_view_refresh session_view_def
      split: prod.splits cong: if_cong)

lemma impl_block_ok:
  "sessionRepo_BlocklistJTI E j d w = (None, w') \<Longrightarrow> 0 < d \<Longrightarrow>
   session_view E kv w' = (session_view E kv w)
     \<lparr>blocked := \<lambda>j'. j' = j \<or> blocked (session_view E kv w) j'\<rparr>"
  using view_set [of "blocklistKey j" "''1''" d w w']
  by (auto simp: sessionRepo_BlocklistJTI_def wrap_err_def store_view_blocklist session_view_def fun_eq_iff
      split: prod.splits)

lemma impl_blocked_ok:
  "sessionRepo_IsBlocklisted E j w = (Inr b, w') \<Longrightarrow> b = blocked (session_view E kv w) j"
  by (auto simp: sessionRepo_IsBlocklisted_def session_view_def store_view_def dest!: do_ok
      split: prod.splits sum.splits rreply.splits if_splits)

lemma impl_blocked_view:
  "session_view E kv (snd (sessionRepo_IsBlocklisted E j w)) = session_view E kv w"
  unfolding sessionRepo_IsBlocklisted_def
  by (auto dest: do_get_view do_exists_view split: prod.splits sum.splits rreply.splits)

lemma rotate_run:
  "redis_run t [DEL [refreshKey E a], SET (refreshKey E b) u d] st =
     ([RInt (if live t st (refreshKey E a) = None then 0 else 1), RStatus],
      st(refreshKey E a := None, refreshKey E b \<mapsto> (VStr u, if 0 < d then Some (t + d) else None)))"
  by (auto simp: del_single [simplified])

lemma rotate_store:
  assumes "sessionRepo_RotateRefreshToken E a b u d w = (None, w')" and "0 < d"
  shows "kv (w_redis w') = (kv (w_redis w))(refreshKey E a := None,
      refreshKey E b \<mapsto> (VStr u, Some (w_now w + d)))"
    and "w_now w' = w_now w"
proof -
  from assms(1) obtain rs where x:
    "redis_exec E [DEL [refreshKey E a], SET (refreshKey E b) u d] w = (Inr rs, w')"
    by (auto simp: sessionRepo_RotateRefreshToken_def split: prod.splits sum.splits)
  show "kv (w_redis w') = (kv (w_redis w))(refreshKey E a := None,
      refreshKey E b \<mapsto> (VStr u, Some (w_now w + d)))"
    using pipeline_ok(1) [OF x] assms(2) unfolding rotate_run by simp
  show "w_now w' = w_now w" by (rule pipeline_ok(2) [OF x])
qed

lemma impl_rotate_ok:
  assumes "sessionRepo_RotateRefreshToken E a b u d w = (None, w')" and "0 < d"
  shows "session_view E kv w' = (session_view E kv w)
     \<lparr>refresh_of := \<lambda>t'. if same_digest E b t' then Some u else if same_digest E a t' then None
        else refresh_of (session_view E kv w) t'\<rparr>"
  using assms(2)
  by (simp add: session_view_def rotate_store [OF assms] store_view_refresh fun_eq_iff)

lemma impl_rotate_fail:
  assumes "sessionRepo_RotateRefreshToken E a b u d w = (Some e, w')"
  shows "refresh_of (session_view E kv w') b = refresh_of (session_view E kv w) b \<or>
    same_digest E b a \<or> refresh_of (session_view E kv w') a = None"
proof -
  let ?cs = "[DEL [refreshKey E a], SET (refreshKey E b) u d]"
  obtain r where x: "redis_exec E ?cs w = (r, w')"
    using assms by (auto simp: sessionRepo_RotateRefreshToken_def split: prod.splits sum.splits)
  have now: "w_now w' = w_now w"
    using exec_only [OF x] by (rule only_redis_simps)
  have no_err: "first_error (fst (redis_run t ?cs st)) = None" for t st
    unfolding rotate_run by (simp add: reply_error_def)
  obtain e' where "r = Inl e'"
  proof (cases r)
    case (Inr rs)
    with x pipeline_ok(1) [of ?cs w rs w'] no_err have "first_error rs = None"
      by (metis fst_conv)
    with assms x Inr show ?thesis
      by (simp add: sessionRepo_RotateRefreshToken_def wrap_err_def)
  qed
  with x pipeline_fail(1) obtain n where
    st: "kv (w_redis w') = snd (redis_run (w_now w) (take n ?cs) (kv (w_redis w)))"
    by blast
  show ?thesis
  proof (cases n)
    case 0
    with st now show ?thesis by (simp add: session_view_def)
  next
    case (Suc m)
    have "kv (w_redis w') (refreshKey E a) = None" if "\<not> same_digest E b a"
    proof (cases m)
      case 0
      with st Suc show ?thesis by (simp split: prod.splits)
    next
      case (Suc k)
      then have "take n ?cs = ?cs" using \<open>n = Suc m\<close> by simp
      then have "kv (w_redis w') = (kv (w_redis w))(refreshKey E a := None,
          refreshKey E b \<mapsto> (VStr u, if 0 < d then Some (w_now w + d) else None))"
        using st rotate_run by (simp only: snd_conv)
      with that show ?thesis by (simp add: same_digest_def)
    qed
    then show ?thesis
      by (cases "same_digest E b a") (auto simp: session_view_def store_view_def live_str_def live_def)
  qed
qed

lemma incr_step:
  "fst (redis_step t (INCR k) st) = RInt n \<Longrightarrow>
   n = failure_count (live_str t st k) + 1 \<and> in_int64 n \<and>
   (\<exists>ex. snd (redis_step t (INCR k) st) = st(k \<mapsto> (VStr (itoa n), ex)) \<and> (\<forall>e. ex = Some e \<longrightarrow> t < e))"
  by (auto simp: live_str_def live_def wrongtype_def in_int64_def
      split: option.splits prod.splits rval.splits if_splits)

lemma incr_reply:
  "(\<exists>n. fst (redis_step t (INCR k) st) = RInt n) \<or> (\<exists>m. fst (redis_step t (INCR k) st) = RError m)"
  by (auto simp: wrongtype_def split: option.splits prod.splits rval.splits)

lemma incr_run:
  assumes "first_error (fst (redis_run t [INCR k, EXPIRE k d] st)) = None" and "0 < d"
  defines "n \<equiv> failure_count (live_str t st k) + 1"
  shows "in_int64 n \<and>
    redis_run t [INCR k, EXPIRE k d] st = ([RInt n, RInt 1], st(k \<mapsto> (VStr (itoa n), Some (t + d))))"
proof -
  have run: "redis_run t [INCR k, EXPIRE k d] st =
      ([fst (redis_step t (INCR k) st), fst (redis_step t (EXPIRE k d) (snd (redis_step t (INCR k) st)))],
       snd (redis_step t (EXPIRE k d) (snd (redis_step t (INCR k) st))))"
    by (simp del: redis_step.simps split: prod.splits)
  have "\<exists>n. fst (redis_step t (INCR k) st) = RInt n"
    using assms(1) incr_reply [of t k st] unfolding run
    by (auto simp: reply_error_def simp del: redis_step.simps)
  then obtain m ex where m: "fst (redis_step t (INCR k) st) = RInt m" "m = n" "in_int64 m"
    "snd (redis_step t (INCR k) st) = st(k \<mapsto> (VStr (itoa m), ex))" "\<forall>e. ex = Some e \<longrightarrow> t < e"
    using incr_step [of t k st] unfolding n_def by blast
  have "redis_step t (EXPIRE k d) (st(k \<mapsto> (VStr (itoa m), ex))) =
      (RInt 1, st(k \<mapsto> (VStr (itoa m), Some (t + d))))"
    using m(5) assms(2) by (cases ex) simp_all
  with m show ?thesis unfolding run by simp
qed

lemma incr_store:
  assumes "sessionRepo_IncrLoginFailure E m d w = ((n, None), w')" and "0 < d"
  shows "n = failures (session_view E kv w) m + 1"
    and "in_int64 n"
    and "kv (w_redis w') = (kv (w_redis w))(lockoutKey E m \<mapsto> (VStr (itoa n), Some (w_now w + d)))"
    and "w_now w' = w_now w"
proof -
  let ?k = "lockoutKey E m" and ?st = "kv (w_redis w)"
  from assms(1) obtain rs where
    x: "redis_exec E [INCR ?k, EXPIRE ?k d] w = (Inr rs, w')" and ok: "first_error rs = None"
    and n: "n = (case nth_reply 0 rs of RInt n \<Rightarrow> n | _ \<Rightarrow> 0)"
    by (auto simp: sessionRepo_IncrLoginFailure_def Let_def split: prod.splits sum.splits option.splits)
  have run: "(rs, kv (w_redis w')) = redis_run (w_now w) [INCR ?k, EXPIRE ?k d] ?st"
    by (rule pipeline_ok(1) [OF x])
  then have "first_error (fst (redis_run (w_now w) [INCR ?k, EXPIRE ?k d] ?st)) = None"
    using ok by (metis fst_conv)
  from incr_run [OF this assms(2)] run
  have r: "in_int64 (failure_count (live_str (w_now w) ?st ?k) + 1)"
    "rs = [RInt (failure_count (live_str (w_now w) ?st ?k) + 1), RInt 1]"
    "kv (w_redis w') = ?st(?k \<mapsto> (VStr (itoa (failure_count (live_str (w_now w) ?st ?k) + 1)), Some (w_now w + d)))"
    by (auto simp del: redis_run.simps redis_step.simps)
  have n': "n = failure_count (live_str (w_now w) ?st ?k) + 1"
    using n by (simp add: r(2) nth_reply_def)
  then show "n = failures (session_view E kv w) m + 1"
    by (simp add: session_view_def store_view_def)
  show "in_int64 n" using r(1) n' by simp
  show "kv (w_redis w') = ?st(?k \<mapsto> (VStr (itoa n), Some (w_now w + d)))"
    using r(3) n' by simp
  show "w_now w' = w_now w" by (rule pipeline_ok(2) [OF x])
qed

lemma impl_incr_ok:
  assumes "sessionRepo_IncrLoginFailure E m d w = ((n, None), w')" and "0 < d"
  shows "n = failures (session_view E kv w) m + 1 \<and>
    session_view E kv w' = (session_view E kv w)
      \<lparr>failures := \<lambda>m'. if same_digest E m m' then n else failures (session_view E kv w) m'\<rparr>"
  using incr_store(1,2) [OF assms] assms(2)
  by (simp add: session_view_def incr_store(3,4) [OF assms] store_view_lockout fun_eq_iff)

lemma get_failures_ok:
  "sessionRepo_GetLoginFailures E m w = (Inr n, w') \<Longrightarrow> n = failures (session_view E kv w) m"
  by (auto simp: sessionRepo_GetLoginFailures_def session_view_def store_view_def
      dest!: get_bulk get_nil split: prod.splits sum.splits rreply.splits if_splits option.splits)

lemma get_failures_view:
  "session_view E kv (snd (sessionRepo_GetLoginFailures E m w)) = session_view E kv w"
  unfolding sessionRepo_GetLoginFailures_def
  by (auto dest: do_get_view split: prod.splits sum.splits rreply.splits option.splits)

lemma impl_locked_ok:
  "sessionRepo_IsLockedOut E m w = ((b, None), w') \<Longrightarrow> b = (10 \<le> failures (session_view E kv w) m)"
  by (auto simp: sessionRepo_IsLockedOut_def loginLockoutThreshold_def dest: get_failures_ok
      split: prod.splits sum.splits)

lemma impl_locked_fail: "sessionRepo_IsLockedOut E m w = ((b, Some e), w') \<Longrightarrow> \<not> b"
  by (auto simp: sessionRepo_IsLockedOut_def split: prod.splits sum.splits)

lemma impl_locked_view:
  "session_view E kv (snd (sessionRepo_IsLockedOut E m w)) = session_view E kv w"
  using get_failures_view [of m w]
  by (auto simp: sessionRepo_IsLockedOut_def split: prod.splits sum.splits)

lemma impl_clear_ok:
  "sessionRepo_ClearLoginFailures E m w = (None, w') \<Longrightarrow>
   session_view E kv w' = (session_view E kv w)
     \<lparr>failures := \<lambda>m'. if same_digest E m m' then 0 else failures (session_view E kv w) m'\<rparr>"
  using view_del [of "lockoutKey E m" w w']
  by (auto simp: sessionRepo_ClearLoginFailures_def wrap_err_def store_view_lockout session_view_def
      split: prod.splits cong: if_cong)

lemma impl_reset_ok:
  "sessionRepo_StorePasswordResetToken E t u w = (None, w') \<Longrightarrow>
   session_view E kv w' = (session_view E kv w)
     \<lparr>reset_of := \<lambda>t'. if same_digest E t t' then Some u else reset_of (session_view E kv w) t'\<rparr>"
  using view_set [of "resetKey E t" u passwordResetTTL w w']
  by (auto simp: sessionRepo_StorePasswordResetToken_def wrap_err_def store_view_reset session_view_def
      passwordResetTTL_def second_def split: prod.splits cong: if_cong)

lemma impl_consume_ok:
  assumes "sessionRepo_ConsumePasswordResetToken E t w = (Inr u, w')"
  shows "reset_of (session_view E kv w) t = Some u \<and>
    session_view E kv w' = (session_view E kv w)
      \<lparr>reset_of := \<lambda>t'. if same_digest E t t' then None else reset_of (session_view E kv w) t'\<rparr>"
proof -
  let ?k = "resetKey E t"
  from assms obtain rs where
    x: "redis_exec E [GET ?k, DEL [?k]] w = (Inr rs, w')" and rs: "nth_reply 0 rs = RBulk u"
    by (auto simp: sessionRepo_ConsumePasswordResetToken_def Let_def
        split: prod.splits sum.splits if_splits rreply.splits)
  have run: "rs ! 0 = fst (redis_step (w_now w) (GET ?k) (kv (w_redis w)))"
    "kv (w_redis w') = (kv (w_redis w))(?k := None)"
    using pipeline_ok(1) [OF x]
    by (auto simp: del_single [simplified] split: option.splits prod.splits rval.splits)
  have "rs \<noteq> []" using rs by (auto simp: nth_reply_def)
  with rs run(1) have "live_str (w_now w) (kv (w_redis w)) ?k = Some u"
    by (auto simp: nth_reply_def live_str_def wrongtype_def split: option.splits prod.splits rval.splits)
  then show ?thesis
    by (simp add: session_view_def run(2) pipeline_ok(2) [OF x] store_view_reset)
      (auto simp: session_view_def store_view_def fun_eq_iff)
qed

text \<open>Whatever happens, an operation touches only its own family of keys.\<close>

lemma view_family:
  assumes "redis_exec E cs w = (r, w')" and "\<forall>c \<in> set cs. cmd_keys c = {k}"
  shows "\<exists>e. session_view E kv w' = store_view E (w_now w) ((kv (w_redis w))(k := e))"
proof -
  have "kv (w_redis w') = (kv (w_redis w))(k := kv (w_redis w') k)"
    using exec_other [OF assms(1)] assms(2) by (auto simp: fun_eq_iff)
  then show ?thesis
    using only_redis_simps(1) [OF exec_only [OF assms(1)]]
    by (auto simp: session_view_def intro!: exI [of _ "kv (w_redis w') k"])
qed

lemma do_family:
  "redis_do E c w = (r, w') \<Longrightarrow> cmd_keys c = {k} \<Longrightarrow>
   \<exists>e. session_view E kv w' = store_view E (w_now w) ((kv (w_redis w))(k := e))"
  by (auto simp: redis_do_def split: prod.splits sum.splits option.splits intro: view_family)

lemma err_family:
  "redis_err E c w = (r, w') \<Longrightarrow> cmd_keys c = {k} \<Longrightarrow>
   \<exists>e. session_view E kv w' = store_view E (w_now w) ((kv (w_redis w))(k := e))"
  by (auto simp: redis_err_def split: prod.splits sum.splits intro: do_family)

lemma impl_clear_any:
  "\<exists>f. session_view E kv (snd (sessionRepo_ClearLoginFailures E m w)) = (session_view E kv w)\<lparr>failures := f\<rparr>"
  by (auto simp: sessionRepo_ClearLoginFailures_def session_view_def store_view_lockout
      dest!: err_family [where k = "lockoutKey E m"] split: prod.splits)

lemma impl_incr_any:
  "\<exists>f. session_view E kv (snd (sessionRepo_IncrLoginFailure E m d w)) = (session_view E kv w)\<lparr>failures := f\<rparr>"
  by (auto simp: sessionRepo_IncrLoginFailure_def session_view_def store_view_lockout Let_def
      dest!: view_family [where k = "lockoutKey E m"] split: prod.splits sum.splits option.splits)

lemma impl_reset_any:
  "\<exists>f. session_view E kv (snd (sessionRepo_StorePasswordResetToken E t u w)) = (session_view E kv w)\<lparr>reset_of := f\<rparr>"
  by (auto simp: sessionRepo_StorePasswordResetToken_def session_view_def store_view_reset
      dest!: err_family [where k = "resetKey E t"] split: prod.splits)

lemma impl_consume_any:
  "\<exists>f. session_view E kv (snd (sessionRepo_ConsumePasswordResetToken E t w)) = (session_view E kv w)\<lparr>reset_of := f\<rparr>"
  by (auto simp: sessionRepo_ConsumePasswordResetToken_def session_view_def store_view_reset Let_def
      dest!: view_family [where k = "resetKey E t"] split: prod.splits sum.splits rreply.splits)

lemma impl_store_any:
  "\<exists>f. session_view E kv (snd (sessionRepo_StoreRefreshToken E t u d w)) = (session_view E kv w)\<lparr>refresh_of := f\<rparr>"
  by (auto simp: sessionRepo_StoreRefreshToken_def session_view_def store_view_refresh
      dest!: err_family [where k = "refreshKey E t"] split: prod.splits)

end

lemma session_view_depends:
  "w_now w = w_now w' \<Longrightarrow> w_redis w = w_redis w' \<Longrightarrow> session_view E kv w = session_view E kv w'"
  by (simp add: session_view_def)

lemma same_digest_refl: "same_digest E a a"
  by (simp add: same_digest_def)

sublocale redis_server \<subseteq> session: session_contract "NewSessionRepo E" "session_view E kv" "same_digest E"
  by (unfold_locales, unfold NewSessionRepo_def session_repository.select_convs)
    (rule same_digest_refl session_frames impl_validate_view impl_blocked_view impl_locked_view
        impl_clear_any impl_incr_any impl_reset_any impl_consume_any impl_store_any
      | erule impl_validate_ok impl_revoke_ok impl_blocked_ok impl_rotate_fail impl_clear_ok impl_locked_ok
        impl_locked_fail impl_reset_ok impl_consume_ok
      | erule (1) impl_store_ok impl_block_ok impl_rotate_ok impl_incr_ok session_view_depends)+

end
