(* ===== verification/Reference_Env.thy ===== *)
theory Reference_Env
  imports Session_Contract
begin

text \<open>
  One concrete environment: servers that keep their state in the clear and fail exactly when a
  script of faults tells them to, and simple injective stand-ins for the cryptographic packages.
  It shows that the assumptions of the locales can hold together, and the witnesses of the
  properties compute in it.
\<close>

section \<open>Servers with a fault script\<close>

text \<open>Each call takes the next fault: \<open>None\<close> succeeds, \<open>Some n\<close> executes \<open>n\<close> commands and loses
  the connection; past the end of the script every call succeeds.\<close>

type_synonym ref_redis = "store \<times> nat option list"
type_synonym ref_db = "tables \<times> bool option list"

definition ref_redisExec :: "int \<Rightarrow> rcmd list \<Rightarrow> ref_redis \<Rightarrow> (string + rreply list) \<times> ref_redis" where
  "ref_redisExec t cs s =
     (case snd s of
        Some n # fs \<Rightarrow> (Inl ''connection lost'', (snd (redis_run t (take n cs) (fst s)), fs))
      | fs \<Rightarrow> (let (rs, st) = redis_run t cs (fst s) in (Inr rs, (st, tl fs))))"

text \<open>A fault of the database says whether the statement took effect.\<close>

definition ref_pgQuery :: "int \<Rightarrow> sql \<Rightarrow> ref_db \<Rightarrow> sqlres \<times> ref_db" where
  "ref_pgQuery t q d =
     (case snd d of
        Some b # fs \<Rightarrow> (SqlFail ''connection lost'', (if b then snd (pg_eval t q (fst d)) else fst d, fs))
      | None # fs \<Rightarrow> (fst (pg_eval t q (fst d)), (snd (pg_eval t q (fst d)), fs))
      | [] \<Rightarrow> (fst (pg_eval t q (fst d)), (snd (pg_eval t q (fst d)), [])))"

section \<open>Text forms\<close>

definition dec_int :: "string \<Rightarrow> int option" where
  "dec_int s = (let (neg, ds) = split_sign s
     in map_option (\<lambda>v. if neg then - int v else int v) (digits_val 0 ds))"

lemma dec_int_itoa [simp]: "dec_int (itoa n) = Some n"
  by (simp add: dec_int_def split_sign_itoa)

definition net :: "string \<Rightarrow> string" where
  "net s = nat_digits (length s) @ CHR '':'' # s"

fun nets :: "nat \<Rightarrow> string \<Rightarrow> string list option" where
  "nets 0 s = None"
| "nets (Suc f) s =
     (if s = [] then Some []
      else case digits_val 0 (takeWhile (\<lambda>c. c \<noteq> CHR '':'') s) of
          None \<Rightarrow> None
        | Some n \<Rightarrow>
            (let r = drop 1 (dropWhile (\<lambda>c. c \<noteq> CHR '':'') s)
             in map_option (\<lambda>xs. take n r # xs) (nets f (drop n r))))"

fun ref_json_enc :: "json \<Rightarrow> string" where
  "ref_json_enc JNull = ''n''"
| "ref_json_enc (JBool b) = (if b then ''t'' else ''f'')"
| "ref_json_enc (JInt i) = CHR ''i'' # itoa i"
| "ref_json_enc (JStr s) = CHR ''s'' # s"
| "ref_json_enc (JArr xs) = CHR ''a'' # concat (map (\<lambda>x. net (ref_json_enc x)) xs)"
| "ref_json_enc (JObj ps) = CHR ''o'' # concat (map (\<lambda>(k, v). net k @ net (ref_json_enc v)) ps)"

fun pairs :: "'a list \<Rightarrow> ('a \<times> 'a) list" where
  "pairs (a # b # xs) = (a, b) # pairs xs"
| "pairs _ = []"

fun ref_json_dec :: "nat \<Rightarrow> string \<Rightarrow> json option" where
  "ref_json_dec 0 s = None"
| "ref_json_dec (Suc f) s =
     (case s of
        [] \<Rightarrow> None
      | c # r \<Rightarrow>
          if c = CHR ''n'' then Some JNull
          else if c = CHR ''t'' then Some (JBool True)
          else if c = CHR ''f'' then Some (JBool False)
          else if c = CHR ''i'' then map_option JInt (dec_int r)
          else if c = CHR ''s'' then Some (JStr r)
          else if c = CHR ''a'' then
            Option.bind (nets (Suc (length r)) r) (\<lambda>xs. map_option JArr (those (map (ref_json_dec f) xs)))
          else if c = CHR ''o'' then
            Option.bind (nets (Suc (length r)) r) (\<lambda>xs. map_option JObj
              (those (map (\<lambda>(k, v). map_option (Pair k) (ref_json_dec f v)) (pairs xs))))
          else None)"

section \<open>Cryptography\<close>

definition ref_sha256 :: "string \<Rightarrow> 8 word list" where
  "ref_sha256 s = map (\<lambda>c. word_of_nat (of_char c)) s"

definition ref_bcryptGenerate :: "string \<Rightarrow> int \<Rightarrow> nat \<Rightarrow> goerr + string" where
  "ref_bcryptGenerate p cost n =
     (if length p > 72 then Inl (ExtErr ''bcrypt: password length exceeds 72 bytes'')
      else Inr (''$2a$'' @ p))"

definition ref_bcryptCompare :: "string \<Rightarrow> string \<Rightarrow> goerr option" where
  "ref_bcryptCompare h p = (if h = ''$2a$'' @ p then None else Some (ExtErr ''bcrypt: mismatch''))"

text \<open>A token is the list of its fields; a time is its seconds and the nanoseconds above them.\<close>

definition ref_secs :: "int \<Rightarrow> string" where "ref_secs t = itoa (t div second)"
definition ref_nanos :: "int \<Rightarrow> string" where "ref_nanos t = itoa (t mod second)"

definition ref_time :: "string \<Rightarrow> string \<Rightarrow> int option" where
  "ref_time a b = (case (dec_int a, dec_int b) of (Some m, Some n) \<Rightarrow> Some (m * second + n) | _ \<Rightarrow> None)"

lemma ref_time_inverse [simp]: "ref_time (ref_secs t) (ref_nanos t) = Some t"
  by (simp add: ref_time_def ref_secs_def ref_nanos_def)

definition ref_fields :: "string \<Rightarrow> claims \<Rightarrow> string list" where
  "ref_fields key c = [''RS256'', key, cl_Subject c, ref_secs (cl_IssuedAt c), ref_nanos (cl_IssuedAt c),
     ref_secs (cl_ExpiresAt c), ref_nanos (cl_ExpiresAt c), ref_secs (cl_NotBefore c), ref_nanos (cl_NotBefore c),
     cl_ID c, cl_Role c]"

definition ref_jwtSign :: "string \<Rightarrow> claims \<Rightarrow> goerr + string" where
  "ref_jwtSign key c = Inr (concat (map net (ref_fields key c)))"

definition ref_method :: "string \<Rightarrow> jwt_method" where
  "ref_method alg = (if alg = ''RS256'' then SigningMethodRSA alg
     else if alg = ''HS256'' then SigningMethodHMAC alg else OtherMethod alg)"

definition ref_jwtParse :: "(jwt_method \<Rightarrow> goerr + string) \<Rightarrow> int \<Rightarrow> string \<Rightarrow> goerr + (claims \<times> bool)"
  where
  "ref_jwtParse keyfunc now tok =
     (case nets (Suc (length tok)) tok of
        Some [alg, sg, sub, iat, iat', ex, ex', nbf, nbf', jti, role] \<Rightarrow>
          (case keyfunc (ref_method alg) of
             Inl e \<Rightarrow> Inl e
           | Inr key \<Rightarrow>
               (case (ref_time iat iat', ref_time ex ex', ref_time nbf nbf') of
                  (Some i, Some x, Some n) \<Rightarrow>
                    if sg \<noteq> key then Inl (ExtErr ''signature is invalid'')
                    else if x \<le> now then Inl ErrTokenExpired
                    else if now < n then Inl (ExtErr ''token is not valid yet'')
                    else Inr (\<lparr>cl_Subject = sub, cl_IssuedAt = i, cl_ExpiresAt = x, cl_NotBefore = n,
                           cl_ID = jti, cl_Role = role\<rparr>, True)
                | _ \<Rightarrow> Inl (ExtErr ''malformed'')))
      | _ \<Rightarrow> Inl (ExtErr ''malformed''))"

text \<open>The remaining functions of the environment; their definitions are simplification rules.\<close>

definition ref_uuidString :: "uuid \<Rightarrow> string" where
  [simp]: "ref_uuidString u = nat_digits (unat u)"

definition ref_uuidParse :: "string \<Rightarrow> uuid option" where
  [simp]: "ref_uuidParse s = map_option word_of_nat (if s = [] then None else digits_val 0 s)"

definition ref_jsonText :: "json \<Rightarrow> string option" where
  [simp]: "ref_jsonText j = Some (ref_json_enc j)"

definition ref_jsonParse :: "string \<Rightarrow> json option" where
  [simp]: "ref_jsonParse s = ref_json_dec (Suc (length s)) s"

definition ref_uuidNew :: "nat \<Rightarrow> uuid" where
  [simp]: "ref_uuidNew n = word_of_nat (Suc n)"

definition ref_randRead :: "nat \<Rightarrow> nat \<Rightarrow> goerr + 8 word list" where
  [simp]: "ref_randRead n k = Inr (replicate (k - 1) 0 @ [word_of_nat n])"

definition ref_env :: "(ref_redis, ref_db) env" where
  "ref_env = \<lparr>
     uuidString = ref_uuidString, uuidParse = ref_uuidParse,
     timeText = itoa, timeParse = dec_int,
     jsonText = ref_jsonText, jsonParse = ref_jsonParse,
     redisExec = ref_redisExec, pgQuery = ref_pgQuery, sha256 = ref_sha256,
     bcryptGenerate = ref_bcryptGenerate, bcryptCompare = ref_bcryptCompare,
     uuidNew = ref_uuidNew, randRead = ref_randRead,
     jwtSign = ref_jwtSign, jwtParse = ref_jwtParse\<rparr>"

lemmas ref_env_simps [simp] = ref_env_def [THEN arg_cong, of redisExec, simplified]
  ref_env_def [THEN arg_cong, of pgQuery, simplified] ref_env_def [THEN arg_cong, of sha256, simplified]
  ref_env_def [THEN arg_cong, of bcryptGenerate, simplified] ref_env_def [THEN arg_cong, of bcryptCompare, simplified]
  ref_env_def [THEN arg_cong, of uuidNew, simplified] ref_env_def [THEN arg_cong, of randRead, simplified]
  ref_env_def [THEN arg_cong, of jwtSign, simplified] ref_env_def [THEN arg_cong, of jwtParse, simplified]
  ref_env_def [THEN arg_cong, of uuidString, simplified] ref_env_def [THEN arg_cong, of uuidParse, simplified]
  ref_env_def [THEN arg_cong, of timeText, simplified] ref_env_def [THEN arg_cong, of timeParse, simplified]
  ref_env_def [THEN arg_cong, of jsonText, simplified] ref_env_def [THEN arg_cong, of jsonParse, simplified]

lemma ref_redis_ok:
  "ref_redisExec t cs s = (Inr rs, s') \<Longrightarrow> (rs, fst s') = redis_run t cs (fst s)"
  "ref_redisExec t cs s = (Inl m, s') \<Longrightarrow> \<exists>n. fst s' = snd (redis_run t (take n cs) (fst s))"
  by (auto simp: ref_redisExec_def split: list.splits option.splits prod.splits)

lemma ref_pg_ok:
  assumes "ref_pgQuery t q d = (r, d')"
  shows "(\<forall>m. r \<noteq> SqlFail m) \<Longrightarrow> pg_answer t q (fst d) r (fst d')"
    and "r = SqlFail m \<Longrightarrow> fst d' = fst d \<or> (\<exists>r. pg_answer t q (fst d) r (fst d'))"
proof -
  have ans: "pg_answer t q (fst d) (fst (pg_eval t q (fst d))) (snd (pg_eval t q (fst d)))"
    by (rule pg_eval_answer) simp
  show "(\<forall>m. r \<noteq> SqlFail m) \<Longrightarrow> pg_answer t q (fst d) r (fst d')"
    using assms ans by (auto simp: ref_pgQuery_def split: list.splits option.splits if_splits)
  show "r = SqlFail m \<Longrightarrow> fst d' = fst d \<or> (\<exists>r. pg_answer t q (fst d) r (fst d'))"
    using assms ans by (auto simp: ref_pgQuery_def split: list.splits option.splits if_splits)
qed

interpretation reference: backend ref_env fst fst
  by unfold_locales (auto dest: ref_redis_ok ref_pg_ok)

text \<open>The same environment with a Redis that never fails.\<close>

definition ref_up_redisExec :: "int \<Rightarrow> rcmd list \<Rightarrow> ref_redis \<Rightarrow> (string + rreply list) \<times> ref_redis" where
  [simp]: "ref_up_redisExec t cs s = (let (rs, st) = redis_run t cs (fst s) in (Inr rs, (st, snd s)))"

definition ref_up_env :: "(ref_redis, ref_db) env" where
  "ref_up_env = ref_env\<lparr>redisExec := ref_up_redisExec\<rparr>"

interpretation reference_up: backend ref_up_env fst fst
  by unfold_locales (auto simp: ref_up_env_def dest: ref_pg_ok split: prod.splits)

definition redis_up :: "('s, 'd) env \<Rightarrow> bool" where
  "redis_up E \<longleftrightarrow> (\<forall>t cs s. \<exists>rs s'. redisExec E t cs s = (Inr rs, s'))"

lemma ref_redis_up: "redis_up ref_up_env"
  by (simp add: redis_up_def ref_up_env_def split: prod.splits)

lemma ref_up_uuid_roundtrip: "uuid_roundtrip ref_up_env"
  by (simp add: uuid_roundtrip_def ref_up_env_def)

lemma ref_uuid_roundtrip: "uuid_roundtrip ref_env"
  by (simp add: uuid_roundtrip_def)

text \<open>A world over the reference servers: a clock, tables, an empty key space and fault scripts.\<close>

definition ref_world :: "int \<Rightarrow> tables \<Rightarrow> nat option list \<Rightarrow> bool option list \<Rightarrow> (ref_redis, ref_db) world"
  where
  "ref_world t T rf df = \<lparr>w_now = t, w_redis = (Map.empty, rf), w_db = (T, df), w_rand = 0, w_log = [],
     w_metrics = (\<lambda>_. 0), w_spans = [], w_inflight = 0\<rparr>"

text \<open>\<open>at t w\<close> is the world \<open>w\<close> at time \<open>t\<close>.\<close>

abbreviation at :: "int \<Rightarrow> ('s, 'd) world \<Rightarrow> ('s, 'd) world" where
  "at t w \<equiv> w\<lparr>w_now := t\<rparr>"

definition empty_tables :: tables where
  "empty_tables = \<lparr>users = [], tenants = []\<rparr>"

end
