(* ===== verification/Session_Props.thy ===== *)
theory Session_Props
  imports Reference_Env
begin

text \<open>
  Properties of the session store over time: token rotation, the single use of reset tokens, and
  the login lockout over a run of failures.
\<close>

section \<open>Rotation\<close>

lemma view_at: "session_view E kv (at t w) = store_view E t (kv (w_redis w))"
  by (simp add: session_view_def)

context redis_server begin

lemma validate_none_at:
  assumes "live_str t (kv (w_redis w)) (refreshKey E a) = None"
  shows "\<exists>e. fst (sessionRepo_ValidateRefreshToken E a (at t w)) = Inl e"
proof -
  obtain r w' where v: "sessionRepo_ValidateRefreshToken E a (at t w) = (r, w')"
    by fastforce
  show ?thesis
  proof (cases r)
    case (Inr u)
    from impl_validate_ok [OF v [unfolded Inr]] assms show ?thesis
      by (simp add: view_at store_view_def)
  qed (simp add: v)
qed

lemma validate_some_at:
  assumes "live_str t (kv (w_redis w)) (refreshKey E a) = Some u"
    and "fst (sessionRepo_ValidateRefreshToken E a (at t w)) = Inr v"
  shows "v = u"
proof -
  obtain w' where "sessionRepo_ValidateRefreshToken E a (at t w) = (Inr v, w')"
    using assms(2) by (cases "sessionRepo_ValidateRefreshToken E a (at t w)") simp
  from impl_validate_ok [OF this] assms(1) show ?thesis
    by (simp add: view_at store_view_def)
qed

lemma up_run:
  assumes "redis_up E"
  obtains s' where "redis_exec E cs w = (Inr (fst (redis_run (w_now w) cs (kv (w_redis w)))), w\<lparr>w_redis := s'\<rparr>)"
    and "kv s' = snd (redis_run (w_now w) cs (kv (w_redis w)))"
proof -
  obtain rs s' where x: "redisExec E (w_now w) cs (w_redis w) = (Inr rs, s')"
    using assms unfolding redis_up_def by blast
  then have "redis_exec E cs w = (Inr rs, w\<lparr>w_redis := s'\<rparr>)" by (simp add: redis_exec_def)
  moreover have "rs = fst (redis_run (w_now w) cs (kv (w_redis w)))" "kv s' = snd (redis_run (w_now w) cs (kv (w_redis w)))"
    using exec_ok [OF x] by (metis fst_conv, metis snd_conv)
  ultimately show thesis using that by simp
qed

lemma validate_up:
  assumes "redis_up E" and "refresh_of (session_view E kv w) t = Some u"
  shows "fst (sessionRepo_ValidateRefreshToken E t w) = Inr u"
proof -
  obtain x where "live (w_now w) (kv (w_redis w)) (refreshKey E t) = Some (VStr u, x)"
    using assms(2) by (auto simp: session_view_def store_view_def live_str_def split: option.splits rval.splits prod.splits)
  then show ?thesis
    by - (rule up_run [OF assms(1), of "[GET (refreshKey E t)]" w],
      simp add: sessionRepo_ValidateRefreshToken_def redis_do_def nth_reply_def reply_error_def)
qed

end

text \<open>
  C16.  After a rotation that reported success, the old refresh token is rejected at every later time; at every moment
  until its lifetime ends the new one is stored for the user, so that its check answers with that user whenever Redis
  answers and never with another, and it is rejected from then on; every other token is valid exactly as before.
  (The hypothesis on the digests excludes a collision.)
\<close>

theorem rotate_replaces_token:
  assumes "redis_server E kv"
    and "sessionRepo_RotateRefreshToken E old new uid ttl w = (None, w')"
    and "0 < ttl" and "hashToken E old \<noteq> hashToken E new" and "w_now w \<le> t"
  shows "(\<exists>e. fst (sessionRepo_ValidateRefreshToken E old (at t w')) = Inl e) \<and>
    (t < w_now w + ttl \<longrightarrow>
       refresh_of (session_view E kv (at t w')) new = Some uid \<and>
       (redis_up E \<longrightarrow> fst (sessionRepo_ValidateRefreshToken E new (at t w')) = Inr uid) \<and>
       (\<forall>v. fst (sessionRepo_ValidateRefreshToken E new (at t w')) = Inr v \<longrightarrow> v = uid)) \<and>
    (w_now w + ttl \<le> t \<longrightarrow> (\<exists>e. fst (sessionRepo_ValidateRefreshToken E new (at t w')) = Inl e)) \<and>
    (\<forall>other. hashToken E other \<notin> {hashToken E old, hashToken E new} \<longrightarrow>
       refresh_of (session_view E kv (at t w')) other = refresh_of (session_view E kv (at t w)) other)"
proof -
  note st = redis_server.rotate_store [OF assms(1,2,3)]
  have old: "live_str t (kv (w_redis w')) (refreshKey E old) = None"
    and new: "live_str t (kv (w_redis w')) (refreshKey E new) = (if t < w_now w + ttl then Some uid else None)"
    using assms(4) by (simp_all add: st(1))
  have valid: "v = uid" if "t < w_now w + ttl"
    "fst (sessionRepo_ValidateRefreshToken E new (at t w')) = Inr v" for v
    using redis_server.validate_some_at [OF assms(1), of t w' new uid v] that new by simp
  have kept: "refresh_of (session_view E kv (at t w')) new = Some uid" if "t < w_now w + ttl"
    using new that by (simp add: view_at store_view_def)
  have up: "fst (sessionRepo_ValidateRefreshToken E new (at t w')) = Inr uid" if "t < w_now w + ttl" "redis_up E"
    by (rule redis_server.validate_up [OF assms(1) that(2) kept [OF that(1)]])
  have others: "refresh_of (session_view E kv (at t w')) other = refresh_of (session_view E kv (at t w)) other"
    if "hashToken E other \<notin> {hashToken E old, hashToken E new}" for other
    using that assms(4) by (simp add: view_at store_view_def st(1))
  have dead: "\<exists>e. fst (sessionRepo_ValidateRefreshToken E new (at t w')) = Inl e" if "w_now w + ttl \<le> t"
    using redis_server.validate_none_at [OF assms(1), of t w' new] new that by simp
  show ?thesis
    using redis_server.validate_none_at [OF assms(1) old] kept up valid dead others by blast
qed

theorem rotate_replaces_token_witness:
  "let w = snd (sessionRepo_StoreRefreshToken ref_env ''old'' ''u1'' (7 * second) (ref_world 0 empty_tables [] []));
       w' = snd (sessionRepo_RotateRefreshToken ref_env ''old'' ''new'' ''u1'' (7 * second) w)
   in (\<exists>e. fst (sessionRepo_ValidateRefreshToken ref_env ''old'' (at 5 w')) = Inl e) \<and>
      fst (sessionRepo_ValidateRefreshToken ref_env ''new'' (at 5 w')) = Inr ''u1''"
proof -
  define w where "w = snd (sessionRepo_StoreRefreshToken ref_env ''old'' ''u1'' (7 * second) (ref_world 0 empty_tables [] []))"
  define w' where "w' = snd (sessionRepo_RotateRefreshToken ref_env ''old'' ''new'' ''u1'' (7 * second) w)"
  have "fst (sessionRepo_RotateRefreshToken ref_env ''old'' ''new'' ''u1'' (7 * second) w) = None"
    unfolding w_def by code_simp
  then have rot: "sessionRepo_RotateRefreshToken ref_env ''old'' ''new'' ''u1'' (7 * second) w = (None, w')"
    by (simp add: w'_def prod_eq_iff)
  have side: "0 < 7 * second" "hashToken ref_env ''old'' \<noteq> hashToken ref_env ''new''" "w_now w \<le> 5"
    unfolding w_def by code_simp+
  have "fst (sessionRepo_ValidateRefreshToken ref_env ''new'' (at 5 w')) = Inr ''u1''"
    unfolding w'_def w_def by code_simp
  with rotate_replaces_token [OF reference.redis_server_axioms rot side]
  show ?thesis unfolding w_def [symmetric] Let_def w'_def [symmetric] by blast
qed

context redis_server begin

lemmas rotate_never_both_live = session.rotate_never_both [unfolded NewSessionRepo_def session_repository.select_convs]

lemma consume_dead:
  assumes "live_str t (kv (w_redis w)) (resetKey E token) = None"
  shows "\<exists>e. fst (sessionRepo_ConsumePasswordResetToken E token (at t w)) = Inl e"
proof (cases "fst (sessionRepo_ConsumePasswordResetToken E token (at t w))")
  case (Inr u)
  then have "sessionRepo_ConsumePasswordResetToken E token (at t w) =
      (Inr u, snd (sessionRepo_ConsumePasswordResetToken E token (at t w)))"
    by (simp add: prod_eq_iff)
  from impl_consume_ok [OF this] assms show ?thesis by (simp add: view_at store_view_def)
qed simp

lemma consumed_is_dead:
  assumes "sessionRepo_ConsumePasswordResetToken E token w = (Inr uid, w1)" and "w_now w1 \<le> t"
  shows "live_str t (kv (w_redis w1)) (resetKey E token) = None"
proof -
  have now: "w_now w1 = w_now w"
    using only_redis_simps(1) [OF session_frames(12) [of w token]] assms(1) by simp
  have "reset_of (session_view E kv w1) token = None"
    using impl_consume_ok [OF assms(1)] by (simp add: same_digest_def)
  then have "live_str (w_now w1) (kv (w_redis w1)) (resetKey E token) = None"
    by (simp add: session_view_def store_view_def)
  with assms(2) show ?thesis by (rule live_str_antimono [rotated])
qed

end

text \<open>
  C17.  Whatever the outcome of a rotation (success, or a connection lost before, between or after the
  two commands of the pipeline), the old and the new refresh token are never both usable afterwards.
  The pipeline is not a transaction: the old token can be gone without the new one being stored.
\<close>

theorem rotate_never_doubles:
  assumes "redis_server E kv"
    and "sessionRepo_RotateRefreshToken E old new uid ttl w = (r, w')"
    and "0 < ttl" and "hashToken E new \<noteq> hashToken E old"
    and "refresh_of (session_view E kv w) new = None"
  shows "refresh_of (session_view E kv w') old = None \<or> refresh_of (session_view E kv w') new = None"
  using redis_server.rotate_never_both_live [OF assms(1,2,3)] assms(4,5)
  by (simp add: same_digest_def)

theorem rotate_never_doubles_witness:
  "let w = snd (sessionRepo_StoreRefreshToken ref_env ''old'' ''u1'' (7 * second) (ref_world 0 empty_tables [None, Some 1] []));
       (r, w') = sessionRepo_RotateRefreshToken ref_env ''old'' ''new'' ''u1'' (7 * second) w
   in r \<noteq> None \<and> refresh_of (session_view ref_env fst w) ''old'' = Some ''u1'' \<and>
      (refresh_of (session_view ref_env fst w') ''old'' = None \<or>
       refresh_of (session_view ref_env fst w') ''new'' = None)"
proof -
  define w where "w = snd (sessionRepo_StoreRefreshToken ref_env ''old'' ''u1'' (7 * second)
    (ref_world 0 empty_tables [None, Some 1] []))"
  obtain r w' where rot: "sessionRepo_RotateRefreshToken ref_env ''old'' ''new'' ''u1'' (7 * second) w = (r, w')"
    by fastforce
  have side: "0 < 7 * second" "hashToken ref_env ''new'' \<noteq> hashToken ref_env ''old''"
    "refresh_of (session_view ref_env fst w) ''new'' = None"
    unfolding w_def by code_simp+
  have "fst (sessionRepo_RotateRefreshToken ref_env ''old'' ''new'' ''u1'' (7 * second) w) \<noteq> None"
    "refresh_of (session_view ref_env fst w) ''old'' = Some ''u1''"
    unfolding w_def by code_simp+
  with rotate_never_doubles [OF reference.redis_server_axioms rot side] rot
  show ?thesis unfolding w_def [symmetric] Let_def by simp
qed

text \<open>
  A password-reset token is single use: once it has been consumed, consuming it again fails, as it
  does when nothing was ever stored.
\<close>

theorem reset_token_single_use:
  assumes "redis_server E kv"
    and "sessionRepo_ConsumePasswordResetToken E token w = (Inr uid, w1)"
    and "w_now w1 \<le> t"
  shows "\<exists>e. fst (sessionRepo_ConsumePasswordResetToken E token (at t w1)) = Inl e"
  using redis_server.consume_dead [OF assms(1)] redis_server.consumed_is_dead [OF assms] by blast

theorem reset_token_single_use_witness:
  "let w = snd (sessionRepo_StorePasswordResetToken ref_env ''tok'' ''u1'' (ref_world 0 empty_tables [] []));
       (r, w1) = sessionRepo_ConsumePasswordResetToken ref_env ''tok'' w
   in r = Inr ''u1'' \<and> (\<exists>e. fst (sessionRepo_ConsumePasswordResetToken ref_env ''tok'' (at 7 w1)) = Inl e)"
proof -
  define w where "w = snd (sessionRepo_StorePasswordResetToken ref_env ''tok'' ''u1'' (ref_world 0 empty_tables [] []))"
  define w1 where "w1 = snd (sessionRepo_ConsumePasswordResetToken ref_env ''tok'' w)"
  have "fst (sessionRepo_ConsumePasswordResetToken ref_env ''tok'' w) = Inr ''u1''"
    unfolding w_def by code_simp
  then have c: "sessionRepo_ConsumePasswordResetToken ref_env ''tok'' w = (Inr ''u1'', w1)"
    by (simp add: w1_def prod_eq_iff)
  have "w_now w1 \<le> 7" unfolding w1_def w_def by code_simp
  from reset_token_single_use [OF reference.redis_server_axioms c this] c
  show ?thesis unfolding w_def [symmetric] Let_def by simp
qed

section \<open>Lockout\<close>

text \<open>Failed logins for one address at the given times.\<close>

fun incr_failures :: "('s, 'd) env \<Rightarrow> string \<Rightarrow> int \<Rightarrow> int list \<Rightarrow> ('s, 'd) world \<Rightarrow>
    (int \<times> goerr option) list \<times> ('s, 'd) world" where
  "incr_failures E m d [] w = ([], w)"
| "incr_failures E m d (t # ts) w =
     (let (r, w1) = sessionRepo_IncrLoginFailure E m d (at t w);
          (rs, w2) = incr_failures E m d ts w1
      in (r # rs, w2))"

text \<open>Times in order, each less than \<open>d\<close> after the one before.\<close>

fun chained :: "int \<Rightarrow> int list \<Rightarrow> bool" where
  "chained d (a # b # ts) \<longleftrightarrow> a \<le> b \<and> b < a + d \<and> chained d (b # ts)"
| "chained d _ \<longleftrightarrow> True"

context redis_server begin

lemma incr_failures_Cons:
  assumes "incr_failures E m d (t # ts) w = (rs, w')" and "\<forall>r \<in> set rs. snd r = None" and "0 < d"
  defines "k \<equiv> failure_count (live_str t (kv (w_redis w)) (lockoutKey E m))"
  obtains w1 rs1 where "rs = (k + 1, None) # rs1" and "incr_failures E m d ts w1 = (rs1, w')"
    and "in_int64 (k + 1)"
    and "kv (w_redis w1) (lockoutKey E m) = Some (VStr (itoa (k + 1)), Some (t + d))"
proof -
  obtain n e w1 where one: "sessionRepo_IncrLoginFailure E m d (at t w) = ((n, e), w1)"
    by (metis surj_pair)
  obtain rs1 w2 where rest: "incr_failures E m d ts w1 = (rs1, w2)"
    by fastforce
  have rs: "rs = (n, e) # rs1" "w2 = w'"
    using assms(1) one rest by simp_all
  with assms(2) have "e = None" by simp
  note st = incr_store [OF one [unfolded this] assms(3)]
  have "n = k + 1" using st(1) by (simp add: view_at store_view_def k_def)
  moreover from this have "kv (w_redis w1) (lockoutKey E m) = Some (VStr (itoa (k + 1)), Some (t + d))"
    by (subst st(3)) simp
  ultimately show thesis using st(2) rs rest \<open>e = None\<close> by (intro that) simp_all
qed

lemma incr_failures_run:
  assumes "incr_failures E m d (t # ts) w = (rs, w')" and "\<forall>r \<in> set rs. snd r = None" and "0 < d"
    and "chained d (t # ts)" and "failure_count (live_str t (kv (w_redis w)) (lockoutKey E m)) = k"
  shows "map fst rs = map (\<lambda>i. k + 1 + int i) [0..<Suc (length ts)] \<and>
    kv (w_redis w') (lockoutKey E m) =
      Some (VStr (itoa (k + 1 + int (length ts))), Some (last (t # ts) + d)) \<and>
    in_int64 (k + 1 + int (length ts))"
  using assms
proof (induction ts arbitrary: t w rs k)
  case Nil
  from incr_failures_Cons [OF Nil.prems(1,2,3), unfolded Nil.prems(5)]
  obtain w1 rs1 where "rs = (k + 1, None) # rs1" "incr_failures E m d [] w1 = (rs1, w')" "in_int64 (k + 1)"
    "kv (w_redis w1) (lockoutKey E m) = Some (VStr (itoa (k + 1)), Some (t + d))" .
  then show ?case by simp
next
  case (Cons t2 ts)
  from incr_failures_Cons [OF Cons.prems(1,2,3), unfolded Cons.prems(5)]
  obtain w1 rs1 where rs: "rs = (k + 1, None) # rs1" and rest: "incr_failures E m d (t2 # ts) w1 = (rs1, w')"
    and n: "in_int64 (k + 1)" and st: "kv (w_redis w1) (lockoutKey E m) = Some (VStr (itoa (k + 1)), Some (t + d))" .
  have ch: "chained d (t2 # ts)" "t2 < t + d" using Cons.prems(4) by simp_all
  have "live_str t2 (kv (w_redis w1)) (lockoutKey E m) = Some (itoa (k + 1))"
    using st ch(2) by (simp add: live_str_def live_def)
  then have fc: "failure_count (live_str t2 (kv (w_redis w1)) (lockoutKey E m)) = k + 1"
    using n by simp
  have ok: "\<forall>r \<in> set rs1. snd r = None" using Cons.prems(2) rs by simp
  have upt: "[0..<Suc (length (t2 # ts))] = 0 # map Suc [0..<Suc (length ts)]"
    by (simp add: map_Suc_upt upt_conv_Cons del: upt_Suc)
  from Cons.IH [OF rest ok Cons.prems(3) ch(1) fc] show ?case
    unfolding upt by (simp add: rs comp_def algebra_simps del: upt_Suc)
qed

end

text \<open>
  C27.  Login lockout.  After failed logins at the times \<open>t # ts\<close>, none of them \<open>d\<close> or more after the one
  before, starting from an address with no recorded failure, the n-th call returned n; from then
  on the address is locked out exactly while at least ten failures were counted and less than
  \<open>d\<close> has passed since the last one.
\<close>

theorem lockout_after_failures:
  assumes "redis_server E kv"
    and "incr_failures E m d (t # ts) w = (rs, w')" and "\<forall>r \<in> set rs. snd r = None" and "0 < d"
    and "chained d (t # ts)" and "live_str t (kv (w_redis w)) (lockoutKey E m) = None"
    and "last (t # ts) \<le> now" and "sessionRepo_IsLockedOut E m (at now w') = ((locked, None), w2)"
  shows "map fst rs = map (\<lambda>i. int i + 1) [0..<length (t # ts)] \<and>
    (locked \<longleftrightarrow> 10 \<le> length (t # ts) \<and> now < last (t # ts) + d)"
proof -
  from assms(6) have "failure_count (live_str t (kv (w_redis w)) (lockoutKey E m)) = 0" by simp
  note run = redis_server.incr_failures_run [OF assms(1,2,3,4,5) this]
  have "locked \<longleftrightarrow> 10 \<le> failures (session_view E kv (at now w')) m"
    by (rule redis_server.impl_locked_ok [OF assms(1,8)])
  also have "failures (session_view E kv (at now w')) m =
      (if now < last (t # ts) + d then 1 + int (length ts) else 0)"
    using run by (simp add: view_at store_view_def live_str_def live_def)
  finally show ?thesis using run by (auto simp: add.commute)
qed

theorem lockout_after_failures_witness:
  "let ts = map int [0..<10]; d = 900;
       (rs, w') = incr_failures ref_env ''a@b.c'' d ts (ref_world 0 empty_tables [] [])
   in fst (sessionRepo_IsLockedOut ref_env ''a@b.c'' (at 908 w')) = (True, None) \<and> fst (last rs) = 10"
proof -
  define ts :: "int list" where "ts = map int [0..<10]"
  define w' where "w' = snd (incr_failures ref_env ''a@b.c'' 900 ts (ref_world 0 empty_tables [] []))"
  define rs where "rs = fst (incr_failures ref_env ''a@b.c'' 900 ts (ref_world 0 empty_tables [] []))"
  have ts: "ts = 0 # map int [1..<10]" unfolding ts_def by code_simp
  have run: "incr_failures ref_env ''a@b.c'' 900 ts (ref_world 0 empty_tables [] []) = (rs, w')"
    by (simp add: rs_def w'_def)
  have side: "\<forall>r \<in> set rs. snd r = None" "0 < (900 :: int)" "chained 900 ts" "last ts \<le> 908"
    "live_str 0 (fst (w_redis (ref_world 0 empty_tables [] []))) (lockoutKey ref_env ''a@b.c'') = None"
    unfolding rs_def ts_def by code_simp+
  have "snd (fst (sessionRepo_IsLockedOut ref_env ''a@b.c'' (at 908 w'))) = None"
    unfolding w'_def ts_def by code_simp
  then obtain locked w2 where q: "sessionRepo_IsLockedOut ref_env ''a@b.c'' (at 908 w') = ((locked, None), w2)"
    by (metis prod.collapse)
  have end_facts: "10 \<le> length ts" "908 < last ts + 900" "fst (last rs) = 10"
    unfolding rs_def ts_def by code_simp+
  from lockout_after_failures [OF reference.redis_server_axioms run [unfolded ts] side(1,2) side(3) [unfolded ts]
      side(5) side(4) [unfolded ts] q] end_facts(1,2) [unfolded ts] end_facts(3) q run
  show ?thesis unfolding ts_def [symmetric] Let_def by (simp only: split_conv) simp
qed

end
