(* ===== verification/Rate_Limit.thy ===== *)
theory Rate_Limit
  imports Reference_Env
begin

text \<open>
  The sliding-window rate limiter of the session store against its specification: a request is
  allowed when the number of requests in the window that ends with it, itself included, is within
  the limit.  \<open>window_spec\<close> keeps the whole history of request times; the sorted set in Redis keeps the part
  of it that still matters.
\<close>

section \<open>The specification\<close>

definition in_window :: "int \<Rightarrow> int \<Rightarrow> int \<Rightarrow> bool" where
  "in_window W t s \<longleftrightarrow> UnixMilli (t - W) < UnixMilli s"

definition window_answer :: "int \<Rightarrow> int \<Rightarrow> int list \<Rightarrow> int \<Rightarrow> bool \<times> int \<times> int \<times> goerr option" where
  "window_answer limit W hist t =
     (let n = int (length (filter (in_window W t) hist))
      in (n \<le> limit, (if n \<le> limit then limit - n else 0), t + W, None))"

fun window_spec :: "int \<Rightarrow> int \<Rightarrow> int list \<Rightarrow> int list \<Rightarrow> (bool \<times> int \<times> int \<times> goerr option) list" where
  "window_spec limit W hist [] = []"
| "window_spec limit W hist (t # ts) =
     window_answer limit W (t # hist) t # window_spec limit W (t # hist) ts"

text \<open>The limiter called at the given times.\<close>

fun rate_run :: "('s, 'd) env \<Rightarrow> string \<Rightarrow> int \<Rightarrow> int \<Rightarrow> int list \<Rightarrow> ('s, 'd) world \<Rightarrow>
    (bool \<times> int \<times> int \<times> goerr option) list \<times> ('s, 'd) world" where
  "rate_run E k limit W [] w = ([], w)"
| "rate_run E k limit W (t # ts) w =
     (let (r, w1) = sessionRepo_RateLimitAllow E k limit W (at t w);
          (rs, w2) = rate_run E k limit W ts w1
      in (r # rs, w2))"

section \<open>The sorted set holds the window\<close>

lemma in_window_mono: "in_window W t s \<Longrightarrow> t' \<le> t \<Longrightarrow> in_window W t' s"
  unfolding in_window_def UnixMilli_def
  by (meson diff_right_mono dual_order.strict_trans2 dual_order.strict_trans1 zdiv_mono1 zero_less_numeral le_less_trans)

lemma filter_in_window: "t' \<le> t \<Longrightarrow> filter (in_window W t) (filter (in_window W t') hist) = filter (in_window W t) hist"
  by (auto intro!: filter_cong simp: in_window_mono)

definition scored :: "int list \<Rightarrow> (int \<times> int) list" where
  "scored ts = map (\<lambda>s. (s, UnixMilli s)) ts"

text \<open>The entry of a key whose requests came at the times \<open>hist\<close>, newest first.\<close>

definition window_entry :: "int \<Rightarrow> int list \<Rightarrow> entry option" where
  "window_entry W hist =
     (case hist of [] \<Rightarrow> None
      | t # _ \<Rightarrow> Some (VZSet (scored (filter (in_window W t) hist)), Some (t + W)))"

lemma in_window_self: "1000000 \<le> W \<Longrightarrow> in_window W t t"
  unfolding in_window_def UnixMilli_def by linarith

lemma in_window_old: "s \<le> t - W \<Longrightarrow> \<not> in_window W t s"
  unfolding in_window_def UnixMilli_def by (simp add: not_less zdiv_mono1)

text \<open>A server that answers every pipeline, from the state of \<open>w\<close> on.\<close>

inductive redis_next :: "('s, 'd) env \<Rightarrow> 's \<Rightarrow> 's \<Rightarrow> bool" for E where
  "redis_next E s (snd (redisExec E t cs s))"

definition always_answers :: "('s, 'd) env \<Rightarrow> ('s, 'd) world \<Rightarrow> bool" where
  "always_answers E w \<longleftrightarrow>
     (\<forall>s t cs. (redis_next E)\<^sup>*\<^sup>* (w_redis w) s \<longrightarrow> (\<exists>rs. fst (redisExec E t cs s) = Inr rs))"

lemma answers_exec: "always_answers E w \<Longrightarrow> \<exists>rs w1. redis_exec E cs w = (Inr rs, w1)"
  unfolding always_answers_def redis_exec_def
  by (metis (no_types, lifting) case_prod_beta old.sum.simps(6) rtranclp.rtrancl_refl)

lemma answers_step: "always_answers E w \<Longrightarrow> redis_exec E cs w = (r, w1) \<Longrightarrow> always_answers E w1"
  unfolding always_answers_def redis_exec_def
  by (auto split: prod.splits) (metis converse_rtranclp_into_rtranclp redis_next.intros snd_conv)

lemma rate_answers:
  "rateLimitByKey E k limit W w = (r, w1) \<Longrightarrow> always_answers E w \<Longrightarrow> always_answers E w1"
  by (auto simp: rateLimitByKey_def Let_def dest: answers_step split: prod.splits sum.splits if_splits)

text \<open>The commands of the pipeline one by one.\<close>

lemma window_trim:
  assumes "st k = window_entry W hist" and "\<forall>s \<in> set hist. 0 \<le> s \<and> s \<le> hd hist \<and> s < t"
  obtains n ex st1 where
    "redis_step t (ZREMRANGEBYSCORE k 0 (UnixMilli (t - W))) st = (RInt n, st1)"
    "live t st1 k = (if filter (in_window W t) hist = [] then None
       else Some (VZSet (scored (filter (in_window W t) hist)), ex))"
    "\<forall>e. st1(k := e) = st(k := e)" "\<forall>e. ex = Some e \<longrightarrow> t < e"
proof (cases hist)
  case Nil
  with assms(1) have "live t st k = None" by (simp add: window_entry_def live_def)
  with Nil show thesis by (intro that [of 0 st None]) simp_all
next
  case (Cons t0 r)
  let ?old = "filter (in_window W t0) hist"
  have st: "st k = Some (VZSet (scored ?old), Some (t0 + W))"
    using assms(1) Cons by (simp add: window_entry_def)
  have le: "t0 \<le> t" using assms(2) Cons by fastforce
  show thesis
  proof (cases "t < t0 + W")
    case False
    have "\<not> in_window W t s" if "s \<in> set hist" for s
      using assms(2) that Cons False by (intro in_window_old) fastforce
    then have "filter (in_window W t) hist = []" by (simp add: filter_empty_conv)
    moreover have "live t st k = None" using st False by (simp add: live_def)
    ultimately show thesis by (intro that [of 0 st None]) simp_all
  next
    case True
    have keep: "\<not> (0 \<le> UnixMilli s \<and> UnixMilli s \<le> UnixMilli (t - W)) \<longleftrightarrow> in_window W t s"
      if "s \<in> set ?old" for s
      using assms(2) that by (auto simp: in_window_def UnixMilli_def)
    have "filter (\<lambda>(m, s). \<not> (0 \<le> s \<and> s \<le> UnixMilli (t - W))) (scored ?old) =
        scored (filter (in_window W t) ?old)"
      unfolding scored_def filter_map comp_def split_beta fst_conv snd_conv
      by (rule arg_cong [where f = "map _"], rule filter_cong [OF refl], rule keep)
    also have "\<dots> = scored (filter (in_window W t) hist)" by (simp only: filter_in_window [OF le])
    finally have f: "filter (\<lambda>(m, s). \<not> (0 \<le> s \<and> s \<le> UnixMilli (t - W))) (scored ?old) =
        scored (filter (in_window W t) hist)" .
    have lv: "live t st k = Some (VZSet (scored ?old), Some (t0 + W))" using st True by (simp add: live_def)
    have step: "redis_step t (ZREMRANGEBYSCORE k 0 (UnixMilli (t - W))) st =
        (RInt (int (length (filter (\<lambda>(m, s). 0 \<le> s \<and> s \<le> UnixMilli (t - W)) (scored ?old)))),
         put_zset k (scored (filter (in_window W t) hist)) (Some (t0 + W)) st)"
      by (simp only: redis_step.simps lv option.case rval.case prod.case Let_def f)
    show thesis
      by (rule that [OF step, of "Some (t0 + W)"]) (use True in \<open>auto simp: put_zset_def scored_def\<close>)
  qed
qed

lemma window_add:
  assumes "live t st k = (if zs = [] then None else Some (VZSet (scored zs), ex))"
    and "t \<notin> set zs" and "\<forall>e. ex = Some e \<longrightarrow> t < e" and "0 < W"
  shows "redis_run t [ZADD k (UnixMilli t) t, ZCARD k, EXPIRE k W] st =
    ([RInt 1, RInt (int (length (t # zs))), RInt 1], st(k \<mapsto> (VZSet (scored (t # zs)), Some (t + W))))"
proof -
  have "filter (\<lambda>p. fst p \<noteq> t) (scored zs) = scored zs" "t \<notin> fst ` set (scored zs)"
    using assms(2) by (auto simp: scored_def filter_id_conv)
  then have "\<exists>x. redis_step t (ZADD k (UnixMilli t) t) st =
      (RInt 1, st(k \<mapsto> (VZSet (scored (t # zs)), x))) \<and> (\<forall>e. x = Some e \<longrightarrow> t < e)"
    using assms(1,3) by (auto simp: put_zset_def scored_def)
  then obtain x where "redis_step t (ZADD k (UnixMilli t) t) st =
      (RInt 1, st(k \<mapsto> (VZSet (scored (t # zs)), x)))" "\<forall>e. x = Some e \<longrightarrow> t < e"
    by blast
  with assms(4) show ?thesis by (cases x) (simp_all add: scored_def)
qed

lemma window_run:
  assumes "st k = window_entry W hist" and "\<forall>s \<in> set hist. 0 \<le> s \<and> s \<le> hd hist \<and> s < t"
    and "1000000 \<le> W"
  obtains r where
    "redis_run t [ZREMRANGEBYSCORE k 0 (UnixMilli (t - W)), ZADD k (UnixMilli t) t, ZCARD k, EXPIRE k W] st =
    ([RInt r, RInt 1, RInt (int (length (filter (in_window W t) (t # hist)))), RInt 1],
     st(k := window_entry W (t # hist)))"
proof -
  from window_trim [where st = st and k = k, OF assms(1,2)] obtain n ex st1 where
    one: "redis_step t (ZREMRANGEBYSCORE k 0 (UnixMilli (t - W))) st = (RInt n, st1)" and
    lv: "live t st1 k = (if filter (in_window W t) hist = [] then None
       else Some (VZSet (scored (filter (in_window W t) hist)), ex))" and
    st1: "\<forall>e. st1(k := e) = st(k := e)" and ex: "\<forall>e. ex = Some e \<longrightarrow> t < e" .
  have "t \<notin> set (filter (in_window W t) hist)" using assms(2) by auto
  from window_add [OF lv this ex] assms(3) st1 in_window_self [OF assms(3), of t] show thesis
    by (intro that [of n]) (simp add: one window_entry_def del: redis_step.simps)
qed

context redis_server begin

lemma rate_step:
  assumes "rateLimitByKey E k limit W w = (r, w')"
    and "\<exists>rs w1. redis_exec E [ZREMRANGEBYSCORE k 0 (UnixMilli (w_now w - W)),
           ZADD k (UnixMilli (w_now w)) (w_now w), ZCARD k, EXPIRE k W] w = (Inr rs, w1)"
    and "kv (w_redis w) k = window_entry W hist"
    and "\<forall>s \<in> set hist. 0 \<le> s \<and> s \<le> hd hist \<and> s < w_now w" and "1000000 \<le> W"
  shows "r = window_answer limit W (w_now w # hist) (w_now w)"
    and "kv (w_redis w') k = window_entry W (w_now w # hist)"
proof -
  from assms(2) obtain rs w1 where x: "redis_exec E [ZREMRANGEBYSCORE k 0 (UnixMilli (w_now w - W)),
      ZADD k (UnixMilli (w_now w)) (w_now w), ZCARD k, EXPIRE k W] w = (Inr rs, w1)" by blast
  from window_run [where st = "kv (w_redis w)" and k = k, OF assms(3,4,5)] pipeline_ok(1) [OF x] obtain n where
    rs: "rs = [RInt n, RInt 1, RInt (int (length (filter (in_window W (w_now w)) (w_now w # hist)))), RInt 1]"
    and st: "kv (w_redis w1) = (kv (w_redis w))(k := window_entry W (w_now w # hist))"
    by (metis prod.inject)
  show "r = window_answer limit W (w_now w # hist) (w_now w)"
    using assms(1) x unfolding rs
    by (auto simp: rateLimitByKey_def Let_def window_answer_def reply_error_def nth_reply_def split: if_splits)
  show "kv (w_redis w') k = window_entry W (w_now w # hist)"
    using assms(1) x st unfolding rs
    by (auto simp: rateLimitByKey_def Let_def reply_error_def nth_reply_def split: if_splits)
qed

lemma rate_step_at:
  assumes "rateLimitByKey E k limit W (at t w) = (r, w')"
    and "\<exists>rs w1. redis_exec E [ZREMRANGEBYSCORE k 0 (UnixMilli (t - W)), ZADD k (UnixMilli t) t, ZCARD k, EXPIRE k W]
           (at t w) = (Inr rs, w1)"
    and "kv (w_redis w) k = window_entry W hist"
    and "\<forall>s \<in> set hist. 0 \<le> s \<and> s \<le> hd hist \<and> s < t" and "1000000 \<le> W"
  shows "r = window_answer limit W (t # hist) t" and "kv (w_redis w') k = window_entry W (t # hist)"
  using rate_step [OF assms(1)] assms(2-5) by simp_all

lemma rate_run_spec:
  assumes "rate_run E k limit W ts w = (rs, w')"
    and "kv (w_redis w) (''rate:limit:'' @ k) = window_entry W hist"
    and "\<forall>s \<in> set hist. 0 \<le> s \<and> s \<le> hd hist" and "sorted_wrt (<) (rev hist @ ts)"
    and "\<forall>t \<in> set ts. 0 \<le> t" and "1000000 \<le> W" and "always_answers E w"
  shows "rs = window_spec limit W hist ts"
  using assms
proof (induction ts arbitrary: w rs hist)
  case Nil
  then show ?case by simp
next
  case (Cons t ts)
  obtain r w1 where one: "rateLimitByKey E (''rate:limit:'' @ k) limit W (at t w) = (r, w1)"
    by fastforce
  obtain rs1 w2 where rest: "rate_run E k limit W ts w1 = (rs1, w2)" by fastforce
  have rs: "rs = r # rs1" "w2 = w'"
    using Cons.prems(1) one rest by (simp_all add: sessionRepo_RateLimitAllow_def)
  have past: "\<forall>s \<in> set hist. 0 \<le> s \<and> s \<le> hd hist \<and> s < t"
    using Cons.prems(3,4) by (auto simp: sorted_wrt_append)
  have up: "always_answers E (at t w)" using Cons.prems(7) by (simp add: always_answers_def)
  note st = rate_step_at [OF one answers_exec [OF up] Cons.prems(2) past Cons.prems(6)]
  have "rs1 = window_spec limit W (t # hist) ts"
    using Cons.prems(4,5) past Cons.prems(6) rate_answers [OF one up]
    by (intro Cons.IH [OF rest [unfolded rs(2)] st(2)]) (auto simp: sorted_wrt_append)
  with st(1) show ?case by (simp add: rs)
qed

end

text \<open>
  C8.  The sliding-window limiter refines its specification: called at increasing times for a key without
  entry, on a server that answers, it gives for every request exactly the answer computed from the whole
  history of requests: allowed when the requests of the window that ends there, this one included, are within
  the limit, with the difference as the remaining count.
\<close>

theorem rate_limit_refines_window:
  assumes "redis_server E kv" and "always_answers E w"
    and "kv (w_redis w) (''rate:limit:'' @ k) = None"
    and "sorted_wrt (<) ts" and "\<forall>t \<in> set ts. 0 \<le> t" and "1000000 \<le> W"
  shows "fst (rate_run E k limit W ts w) = window_spec limit W [] ts"
proof -
  obtain rs w' where "rate_run E k limit W ts w = (rs, w')" by fastforce
  from redis_server.rate_run_spec [OF assms(1) this, of "[]"] assms(2-6) this show ?thesis
    by (simp add: window_entry_def)
qed

lemma ref_next: "(redis_next ref_env)\<^sup>*\<^sup>* s s' \<Longrightarrow> snd s = [] \<Longrightarrow> snd s' = []"
  by (induction rule: rtranclp_induct) (auto simp: redis_next.simps ref_redisExec_def case_prod_beta)

lemma ref_answers: "always_answers ref_env (ref_world t T [] dbf)"
  by (auto simp: always_answers_def ref_world_def ref_redisExec_def case_prod_beta dest!: ref_next)

theorem rate_limit_refines_window_witness:
  "map (\<lambda>r. (fst r, fst (snd r))) (fst (rate_run ref_env ''ip:1'' 2 second [0, 1, 2, second + 1, second + 999999999] (ref_world 0 empty_tables [] [])))
   = [(True, 1), (True, 0), (False, 0), (True, 1), (True, 0)]"
proof -
  have "window_spec 2 second [] [0, 1, 2, second + 1, second + 999999999] =
      [(True, 1, second, None), (True, 0, second + 1, None), (False, 0, second + 2, None),
       (True, 1, 2 * second + 1, None), (True, 0, 2 * second + 999999999, None)]"
    by code_simp
  moreover have "sorted_wrt (<) [0, 1, 2, second + 1, second + 999999999]" "1000000 \<le> second"
    "\<forall>t \<in> set [0, 1, 2, second + 1, second + 999999999]. 0 \<le> t"
    "fst (w_redis (ref_world 0 empty_tables [] [])) (''rate:limit:'' @ ''ip:1'') = None"
    by code_simp+
  ultimately show ?thesis
    using rate_limit_refines_window [OF reference.redis_server_axioms ref_answers, of 0 empty_tables "[]" "''ip:1''"
        "[0, 1, 2, second + 1, second + 999999999]" second 2] by simp
qed

section \<open>The bound\<close>

text \<open>Allowed requests among those of the window that ends at \<open>t\<close>.\<close>

definition allowed_in :: "int \<Rightarrow> int \<Rightarrow> int list \<Rightarrow> (bool \<times> 'a) list \<Rightarrow> nat" where
  "allowed_in W t ts rs = length (filter (\<lambda>(s, r). in_window W t s \<and> s \<le> t \<and> fst r) (zip ts rs))"

lemma allowed_spec:
  "allowed_in W t ts (window_spec limit W hist ts) = 0 \<or>
   int (allowed_in W t ts (window_spec limit W hist ts) + length (filter (in_window W t) hist)) \<le> limit"
proof (induction ts arbitrary: hist)
  case Nil
  then show ?case by (simp add: allowed_in_def)
next
  case (Cons s ts)
  let ?A = "allowed_in W t ts (window_spec limit W (s # hist) ts)"
  let ?n = "\<lambda>h. length (filter (in_window W t) h)"
  have le: "?n (s # hist) \<le> length (filter (in_window W s) (s # hist))" if "s \<le> t"
  proof -
    have "filter (in_window W t) (s # hist) = filter (in_window W t) (filter (in_window W s) (s # hist))"
      using filter_in_window [OF that] by metis
    then show ?thesis by (metis length_filter_le)
  qed
  show ?case
  proof (cases "in_window W t s \<and> s \<le> t \<and> fst (window_answer limit W (s # hist) s)")
    case True
    then have "int (?n (s # hist)) \<le> limit"
      using le by (simp add: window_answer_def Let_def del: filter.simps)
    with True Cons.IH [of "s # hist"] show ?thesis by (auto simp: allowed_in_def)
  next
    case False
    with Cons.IH [of "s # hist"] show ?thesis by (auto simp: allowed_in_def split: if_splits)
  qed
qed

text \<open>
  No burst exceeds the limit: of the requests for one key in any window (the whole milliseconds after
  \<open>t - W\<close>, up to \<open>t\<close>) at most \<open>limit\<close> are allowed, whenever the requests come.
\<close>

theorem rate_limit_bound:
  assumes "redis_server E kv" and "always_answers E w"
    and "kv (w_redis w) (''rate:limit:'' @ k) = None"
    and "sorted_wrt (<) ts" and "\<forall>t \<in> set ts. 0 \<le> t" and "1000000 \<le> W" and "0 \<le> limit"
  shows "int (allowed_in W t ts (fst (rate_run E k limit W ts w))) \<le> limit"
proof -
  obtain rs w' where r: "rate_run E k limit W ts w = (rs, w')" by fastforce
  from redis_server.rate_run_spec [OF assms(1) this, of "[]"] assms(2-6)
  have "rs = window_spec limit W [] ts" by (simp add: window_entry_def)
  with r allowed_spec [of W t ts limit "[]"] assms(7) show ?thesis by auto
qed

theorem rate_limit_bound_witness:
  "let rs = fst (rate_run ref_env ''ip:1'' 2 second [0, 1, 2, 3] (ref_world 0 empty_tables [] []))
   in int (allowed_in second 3 [0, 1, 2, 3] rs) \<le> 2"
  using rate_limit_bound [OF reference.redis_server_axioms ref_answers, of 0 empty_tables "[]" "''ip:1''"
      "[0, 1, 2, 3]" second 2 3] by (simp add: ref_world_def second_def Let_def)

end
