(* ===== verification/User_Repo.thy ===== *)
theory User_Repo
  imports Runtime
begin

text \<open>
  The interface \<open>UserRepository\<close> of \<open>internal/repository/interfaces.go\<close> and its pgx implementation
  \<open>internal/repository/postgres/user.go\<close>.  The SQL text of each method is the constructor of \<open>sql\<close> it
  sends; the result columns of the two finders are those of the whole row.
\<close>

record 'w user_repository =
  repo_Create :: "user \<Rightarrow> 'w \<Rightarrow> goerr option \<times> 'w"
  repo_FindByID :: "uuid \<Rightarrow> 'w \<Rightarrow> (goerr + user) \<times> 'w"
  repo_FindByEmail :: "string \<Rightarrow> 'w \<Rightarrow> (goerr + user) \<times> 'w"
  repo_Update :: "user \<Rightarrow> 'w \<Rightarrow> goerr option \<times> 'w"
  repo_UpdatePassword :: "uuid \<Rightarrow> string \<Rightarrow> 'w \<Rightarrow> goerr option \<times> 'w"
  repo_Delete :: "uuid \<Rightarrow> 'w \<Rightarrow> goerr option \<times> 'w"
  repo_List :: "int \<Rightarrow> int \<Rightarrow> 'w \<Rightarrow> (goerr + user list \<times> int) \<times> 'w"

definition userRepository_Create ::
    "('s, 'd) env \<Rightarrow> user \<Rightarrow> ('s, 'd) world \<Rightarrow> goerr option \<times> ('s, 'd) world" where
  "userRepository_Create E u w =
     (let (r, w') = pg_query E (InsertUser u) w
      in case sql_error r of
           None \<Rightarrow> (None, w')
         | Some e \<Rightarrow>
             if as_PgError e = Some ''23505'' then (Some (Conflict ''email already registered''), w')
             else (Some (Wrapf ''create user: '' e), w'))"

text \<open>\<open>QueryRow(...).Scan(...)\<close>: the first row, \<open>pgx.ErrNoRows\<close>, or the error of the query.\<close>

definition scanUser :: "sqlres \<Rightarrow> goerr + user" where
  "scanUser r =
     (case r of
        SqlUsers (u # _) \<Rightarrow> Inr u
      | SqlUsers [] \<Rightarrow> Inl (Wrapf ''postgres: scan user: '' ErrNoRows)
      | SqlState c \<Rightarrow> Inl (Wrapf ''postgres: scan user: '' (PgError c))
      | SqlFail m \<Rightarrow> Inl (Wrapf ''postgres: scan user: '' (ExtErr m))
      | _ \<Rightarrow> Inl (Wrapf ''postgres: scan user: '' (ExtErr ''unexpected columns'')))"

definition userRepository_FindByID ::
    "('s, 'd) env \<Rightarrow> uuid \<Rightarrow> ('s, 'd) world \<Rightarrow> (goerr + user) \<times> ('s, 'd) world" where
  "userRepository_FindByID E i w =
     (let (r, w') = pg_query E (SelectUserByID i) w
      in case scanUser r of
           Inr u \<Rightarrow> (Inr u, w')
         | Inl e \<Rightarrow>
             if errors_Is ErrNoRows e then (Inl (NotFound ''user''), w')
             else (Inl (Wrapf ''find user by id: '' e), w'))"

definition userRepository_FindByEmail ::
    "('s, 'd) env \<Rightarrow> string \<Rightarrow> ('s, 'd) world \<Rightarrow> (goerr + user) \<times> ('s, 'd) world" where
  "userRepository_FindByEmail E m w =
     (let (r, w') = pg_query E (SelectUserByEmail m) w
      in case scanUser r of
           Inr u \<Rightarrow> (Inr u, w')
         | Inl e \<Rightarrow>
             if errors_Is ErrNoRows e then (Inl (NotFound ''user''), w')
             else (Inl (Wrapf ''find user by email: '' e), w'))"

definition userRepository_Update ::
    "('s, 'd) env \<Rightarrow> user \<Rightarrow> ('s, 'd) world \<Rightarrow> goerr option \<times> ('s, 'd) world" where
  "userRepository_Update E u w =
     (let (r, w') = pg_query E (UpdateUserRow (u_Email u) (u_Role u) (u_IsActive u) (u_ID u)) w
      in (map_option (Wrapf ''update user: '') (sql_error r), w'))"

definition userRepository_UpdatePassword ::
    "('s, 'd) env \<Rightarrow> uuid \<Rightarrow> string \<Rightarrow> ('s, 'd) world \<Rightarrow> goerr option \<times> ('s, 'd) world" where
  "userRepository_UpdatePassword E i h w =
     (let (r, w') = pg_query E (UpdatePasswordRow h i) w
      in (map_option (Wrapf ''update password: '') (sql_error r), w'))"

definition userRepository_Delete ::
    "('s, 'd) env \<Rightarrow> uuid \<Rightarrow> ('s, 'd) world \<Rightarrow> goerr option \<times> ('s, 'd) world" where
  "userRepository_Delete E i w =
     (let (r, w') = pg_query E (SoftDeleteUser i) w
      in (map_option (Wrapf ''delete user: '') (sql_error r), w'))"

text \<open>An error that the server reports for the statement arrives with the rows; a lost connection fails
  the query itself.\<close>

definition userRepository_List ::
    "('s, 'd) env \<Rightarrow> int \<Rightarrow> int \<Rightarrow> ('s, 'd) world \<Rightarrow> (goerr + user list \<times> int) \<times> ('s, 'd) world" where
  "userRepository_List E limit off w =
     (let (r, w1) = pg_query E CountUsers w
      in case r of
           SqlCount cnt \<Rightarrow>
             (let (r2, w2) = pg_query E (ListUsers limit off) w1
              in case r2 of
                   SqlUsers us \<Rightarrow> (Inr (us, cnt), w2)
                 | SqlFail m \<Rightarrow> (Inl (Wrapf ''list users query: '' (ExtErr m)), w2)
                 | SqlState c \<Rightarrow> (Inl (Wrapf ''list users rows: '' (PgError c)), w2)
                 | _ \<Rightarrow> (Inl (Wrapf ''list users scan: '' (ExtErr ''unexpected columns'')), w2))
         | SqlFail m \<Rightarrow> (Inl (Wrapf ''list users count: '' (ExtErr m)), w1)
         | SqlState c \<Rightarrow> (Inl (Wrapf ''list users count: '' (PgError c)), w1)
         | _ \<Rightarrow> (Inl (Wrapf ''list users count: '' (ExtErr ''unexpected columns'')), w1))"

definition NewUserRepository :: "('s, 'd) env \<Rightarrow> ('s, 'd) world user_repository" where
  "NewUserRepository E = \<lparr>
     repo_Create = userRepository_Create E,
     repo_FindByID = userRepository_FindByID E,
     repo_FindByEmail = userRepository_FindByEmail E,
     repo_Update = userRepository_Update E,
     repo_UpdatePassword = userRepository_UpdatePassword E,
     repo_Delete = userRepository_Delete E,
     repo_List = userRepository_List E\<rparr>"

lemmas user_repo_defs =
  userRepository_Create_def userRepository_FindByID_def userRepository_FindByEmail_def
  userRepository_Update_def userRepository_UpdatePassword_def userRepository_Delete_def
  userRepository_List_def

section \<open>The contract\<close>

text \<open>A call to the repository leaves the clock, the key space, the random stream and the log alone.\<close>

definition db_frame :: "('s, 'd) world \<Rightarrow> ('s, 'd) world \<Rightarrow> bool" where
  "db_frame w w' \<longleftrightarrow> w_now w' = w_now w \<and> w_redis w' = w_redis w \<and> w_rand w' = w_rand w \<and>
     w_log w' = w_log w \<and> w_inflight w' = w_inflight w"

definition updated_row :: "int \<Rightarrow> user \<Rightarrow> user \<Rightarrow> user" where
  "updated_row now u v = v\<lparr>u_Email := u_Email u, u_Role := u_Role u, u_IsActive := u_IsActive u,
     u_UpdatedAt := to_us now\<rparr>"

definition password_row :: "int \<Rightarrow> string \<Rightarrow> user \<Rightarrow> user" where
  "password_row now h v = v\<lparr>u_PasswordHash := h, u_UpdatedAt := to_us now\<rparr>"

definition deleted_row :: "int \<Rightarrow> user \<Rightarrow> user" where
  "deleted_row now v = v\<lparr>u_IsActive := False, u_UpdatedAt := to_us now\<rparr>"

lemma tables_ok_insert:
  "tables_ok X \<Longrightarrow> insert_violation X u = None \<Longrightarrow> tables_ok (X\<lparr>users := users X @ [stored_user u]\<rparr>)"
  by (auto simp: tables_ok_def insert_violation_def stored_user_def split: if_splits)

lemma tables_ok_same_keys:
  assumes "\<And>v. u_ID (f v) = u_ID v \<and> u_Email (f v) = u_Email v \<and> u_Role (f v) = u_Role v"
    and "tables_ok X"
  shows "tables_ok (map_user i f X)"
proof -
  have "u_ID (if c then f v else v) = u_ID v" "u_Email (if c then f v else v) = u_Email v"
    "u_Role (if c then f v else v) = u_Role v" for c v
    using assms(1) by simp_all
  with assms show ?thesis by (auto simp: tables_ok_def map_user_def comp_def)
qed

lemma tables_ok_update:
  assumes "tables_ok X" and "update_violation X (u_ID u) (u_Email u) (u_Role u) = None"
  shows "tables_ok (map_user (u_ID u) (updated_row now u) X)"
proof (cases "u_ID u \<in> u_ID ` set (users X)")
  case False
  then have "map (\<lambda>v. if u_ID v = u_ID u then updated_row now u v else v) (users X) = users X"
    by (intro map_idI) (metis image_eqI)
  then have "map_user (u_ID u) (updated_row now u) X = X" by (simp add: map_user_def)
  with assms(1) show ?thesis by simp
next
  case True
  then have v: "u_Role u \<in> set roles" "\<forall>v \<in> set (users X). u_Email v = u_Email u \<longrightarrow> u_ID v = u_ID u"
    using assms(2) by (auto simp: update_violation_def split: if_splits)
  have ids: "u_ID (if u_ID v = u_ID u then updated_row now u v else v) = u_ID v" for v
    by (simp add: updated_row_def)
  have dist: "distinct (map u_ID (users X))" "distinct (map u_Email (users X))"
    using assms(1) by (simp_all add: tables_ok_def)
  let ?g = "\<lambda>v. if u_ID v = u_ID u then updated_row now u v else v"
  have "inj_on (\<lambda>v. u_Email (?g v)) (set (users X))"
  proof (rule inj_onI)
    fix a b
    assume ab: "a \<in> set (users X)" "b \<in> set (users X)" and eq: "u_Email (?g a) = u_Email (?g b)"
    have new: "u_Email (updated_row now u v) = u_Email u" for v by (simp add: updated_row_def)
    have ids': "u_ID a = u_ID b \<Longrightarrow> a = b" and ems: "u_Email a = u_Email b \<Longrightarrow> a = b"
      using dist ab by (auto simp: distinct_map dest: inj_onD)
    show "a = b"
      using eq ids' ems v(2) ab by (cases "u_ID a = u_ID u"; cases "u_ID b = u_ID u") (simp_all add: new)
  qed
  moreover have "distinct (users X)" using dist(1) by (simp add: distinct_map)
  ultimately have emails: "distinct (map (\<lambda>v. u_Email (?g v)) (users X))"
    unfolding distinct_map by blast
  have "\<forall>w \<in> set (map ?g (users X)). u_Role w \<in> set roles"
    using assms(1) v(1) by (auto simp: tables_ok_def updated_row_def)
  with emails assms(1) show ?thesis by (simp add: tables_ok_def map_user_def comp_def ids)
qed

locale user_repo_contract =
  fixes R :: "('s, 'd) world user_repository" and T :: "('s, 'd) world \<Rightarrow> tables"
  assumes create_ok: "repo_Create R u w = (None, w') \<Longrightarrow>
      insert_violation (T w) u = None \<and> T w' = (T w)\<lparr>users := users (T w) @ [stored_user u]\<rparr>"
    and create_fail: "repo_Create R u w = (Some e, w') \<Longrightarrow> T w' = T w \<or>
      (insert_violation (T w) u = None \<and> \<not> IsConflict e \<and> T w' = (T w)\<lparr>users := users (T w) @ [stored_user u]\<rparr>)"
    and create_conflict: "repo_Create R u w = (Some e, w') \<Longrightarrow>
      IsConflict e \<longleftrightarrow> e = Conflict ''email already registered''"
    and create_taken: "repo_Create R u w = (Some e, w') \<Longrightarrow> IsConflict e \<Longrightarrow>
      insert_violation (T w) u = Some ''23505''"
    and find_ok: "repo_FindByID R i w = (Inr u, w') \<Longrightarrow> tables_ok (T w) \<Longrightarrow>
      user_by_id (T w) i = Some u \<and> u_IsActive u"
    and find_missing: "repo_FindByID R i w = (Inl e, w') \<Longrightarrow> IsNotFound e \<Longrightarrow> tables_ok (T w) \<Longrightarrow>
      (case user_by_id (T w) i of None \<Rightarrow> True | Some u \<Rightarrow> \<not> u_IsActive u)"
    and find_view: "T (snd (repo_FindByID R i w)) = T w"
    and email_ok: "repo_FindByEmail R m w = (Inr u, w') \<Longrightarrow> tables_ok (T w) \<Longrightarrow>
      user_by_email (T w) m = Some u"
    and email_missing: "repo_FindByEmail R m w = (Inl e, w') \<Longrightarrow> IsNotFound e \<Longrightarrow> tables_ok (T w) \<Longrightarrow>
      user_by_email (T w) m = None"
    and email_view: "T (snd (repo_FindByEmail R m w)) = T w"
    and update_ok: "repo_Update R u w = (None, w') \<Longrightarrow>
      update_violation (T w) (u_ID u) (u_Email u) (u_Role u) = None \<and>
      T w' = map_user (u_ID u) (updated_row (w_now w) u) (T w)"
    and update_fail: "repo_Update R u w = (Some e, w') \<Longrightarrow> T w' = T w \<or>
      (update_violation (T w) (u_ID u) (u_Email u) (u_Role u) = None \<and>
       T w' = map_user (u_ID u) (updated_row (w_now w) u) (T w))"
    and password_ok: "repo_UpdatePassword R i h w = (None, w') \<Longrightarrow>
      T w' = map_user i (password_row (w_now w) h) (T w)"
    and password_fail: "repo_UpdatePassword R i h w = (Some e, w') \<Longrightarrow>
      T w' = T w \<or> T w' = map_user i (password_row (w_now w) h) (T w)"
    and delete_ok: "repo_Delete R i w = (None, w') \<Longrightarrow> T w' = map_user i (deleted_row (w_now w)) (T w)"
    and delete_fail: "repo_Delete R i w = (Some e, w') \<Longrightarrow>
      T w' = T w \<or> T w' = map_user i (deleted_row (w_now w)) (T w)"
    and list_ok: "repo_List R l off w = (Inr (us, cnt), w') \<Longrightarrow>
      0 \<le> l \<and> 0 \<le> off \<and> cnt = int (length (users (T w))) \<and> page_of_users l off (users (T w)) us"
    and list_view: "T (snd (repo_List R l off w)) = T w"
    and repo_frame: "db_frame w (snd (repo_Create R u w))" "db_frame w (snd (repo_FindByID R i w))"
      "db_frame w (snd (repo_FindByEmail R m w))" "db_frame w (snd (repo_Update R u w))"
      "db_frame w (snd (repo_UpdatePassword R i h w))" "db_frame w (snd (repo_Delete R i w))"
      "db_frame w (snd (repo_List R l off w))"
    and T_db: "w_db w = w_db w' \<Longrightarrow> T w = T w'"
begin

lemma create_ok_tables: "repo_Create R u w = (r, w') \<Longrightarrow> tables_ok (T w) \<Longrightarrow> tables_ok (T w')"
  using create_ok create_fail tables_ok_insert by (cases r) (fastforce, metis)

lemma update_ok_tables: "repo_Update R u w = (r, w') \<Longrightarrow> tables_ok (T w) \<Longrightarrow> tables_ok (T w')"
  using update_ok update_fail tables_ok_update by (cases r) (fastforce, metis)

lemma password_ok_tables: "repo_UpdatePassword R i h w = (r, w') \<Longrightarrow> tables_ok (T w) \<Longrightarrow> tables_ok (T w')"
  using password_ok password_fail tables_ok_same_keys [of "password_row (w_now w) h"]
  by (cases r) (fastforce simp: password_row_def)+

lemma delete_ok_tables: "repo_Delete R i w = (r, w') \<Longrightarrow> tables_ok (T w) \<Longrightarrow> tables_ok (T w')"
  using delete_ok delete_fail tables_ok_same_keys [of "deleted_row (w_now w)"]
  by (cases r) (fastforce simp: deleted_row_def)+

end

section \<open>The pgx implementation keeps the contract\<close>

text \<open>The answers of the determined statements.\<close>

lemma pg_answer_det:
  "(\<And>l off. q \<noteq> ListUsers l off) \<Longrightarrow> q \<noteq> ListTenants \<Longrightarrow> pg_answer t q X r X' \<longleftrightarrow> (r, X') = pg_eval t q X"
  by (cases q) auto

lemma sql_error_simps [simp]:
  "sql_error (SqlTag n) = None" "sql_error (SqlUsers us) = None" "sql_error (SqlCount n) = None"
  "sql_error (SqlTenants ts) = None" "sql_error (SqlState c) = Some (PgError c)"
  "sql_error (SqlFail m) = Some (ExtErr m)"
  by (simp_all add: sql_error_def)

context postgres begin

lemma db_frameI: "pg_query E q w = (r, w') \<Longrightarrow> db_frame w w'"
  using pg_query_frame [of E q w r w'] unfolding db_frame_def by (cases w; cases w'; simp)

lemma impl_user_frames:
  "db_frame w (snd (userRepository_Create E u w))" "db_frame w (snd (userRepository_FindByID E i w))"
  "db_frame w (snd (userRepository_FindByEmail E m w))" "db_frame w (snd (userRepository_Update E u w))"
  "db_frame w (snd (userRepository_UpdatePassword E i h w))" "db_frame w (snd (userRepository_Delete E i w))"
  by (auto simp: user_repo_defs Let_def split: prod.splits option.splits sum.splits dest: db_frameI)

lemma impl_list_frame: "db_frame w (snd (userRepository_List E l off w))"
proof -
  have tr: "db_frame a b \<Longrightarrow> db_frame b c \<Longrightarrow> db_frame a c" for a b c :: "('a, 'b) world"
    by (simp add: db_frame_def)
  show ?thesis
    by (auto simp: userRepository_List_def Let_def split: prod.splits sqlres.splits
        dest: db_frameI intro: tr [OF db_frameI db_frameI])
qed

text \<open>The answer to a statement whose answer is determined.\<close>

lemma query_det:
  assumes "pg_query E q w = (r, w')" and "\<And>l off. q \<noteq> ListUsers l off" and "q \<noteq> ListTenants"
  shows "(r, tabs (w_db w')) = pg_eval (w_now w) q (tabs (w_db w)) \<or>
    (\<exists>m. r = SqlFail m) \<and> tabs (w_db w') \<in> {tabs (w_db w), snd (pg_eval (w_now w) q (tabs (w_db w)))}"
  using query_cases [OF assms(1)] pg_answer_det [OF assms(2,3)]
  by (metis insert_iff snd_conv)

lemma impl_create:
  assumes "userRepository_Create E u w = (r, w')"
  shows "r = None \<Longrightarrow> insert_violation (tabs (w_db w)) u = None \<and>
      tabs (w_db w') = (tabs (w_db w))\<lparr>users := users (tabs (w_db w)) @ [stored_user u]\<rparr>"
    and "r = Some e \<Longrightarrow> tabs (w_db w') = tabs (w_db w) \<or> (insert_violation (tabs (w_db w)) u = None \<and>
      \<not> IsConflict e \<and> tabs (w_db w') = (tabs (w_db w))\<lparr>users := users (tabs (w_db w)) @ [stored_user u]\<rparr>)"
    and "r = Some e \<Longrightarrow> IsConflict e \<longleftrightarrow> e = Conflict ''email already registered''"
    and "r = Some e \<Longrightarrow> IsConflict e \<Longrightarrow> insert_violation (tabs (w_db w)) u = Some ''23505''"
proof -
  obtain q w1 where q: "pg_query E (InsertUser u) w = (q, w1)" by fastforce
  have "w1 = w'" using assms q by (auto simp: userRepository_Create_def split: option.splits if_splits)
  with query_det [OF q] assms q
  show "r = None \<Longrightarrow> insert_violation (tabs (w_db w)) u = None \<and>
      tabs (w_db w') = (tabs (w_db w))\<lparr>users := users (tabs (w_db w)) @ [stored_user u]\<rparr>"
    and "r = Some e \<Longrightarrow> tabs (w_db w') = tabs (w_db w) \<or> (insert_violation (tabs (w_db w)) u = None \<and>
      \<not> IsConflict e \<and> tabs (w_db w') = (tabs (w_db w))\<lparr>users := users (tabs (w_db w)) @ [stored_user u]\<rparr>)"
    and "r = Some e \<Longrightarrow> IsConflict e \<longleftrightarrow> e = Conflict ''email already registered''"
    and "r = Some e \<Longrightarrow> IsConflict e \<Longrightarrow> insert_violation (tabs (w_db w)) u = Some ''23505''"
    by (auto simp: userRepository_Create_def app_defs is_defs split: option.splits if_splits)
qed

lemma scan_ok: "scanUser r = Inr u \<Longrightarrow> \<exists>us. r = SqlUsers (u # us)"
  by (auto simp: scanUser_def split: sqlres.splits list.splits)

lemma scan_no_rows: "scanUser r = Inl e \<Longrightarrow> errors_Is ErrNoRows e \<longleftrightarrow> r = SqlUsers []"
  by (auto simp: scanUser_def split: sqlres.splits list.splits)

lemma scan_not_app: "scanUser r = Inl e \<Longrightarrow> \<not> IsNotFound (Wrapf p e)"
  by (auto simp: scanUser_def is_defs split: sqlres.splits list.splits)

lemma impl_find:
  assumes "userRepository_FindByID E i w = (r, w')"
  shows "r = Inr u \<Longrightarrow> tables_ok (tabs (w_db w)) \<Longrightarrow> user_by_id (tabs (w_db w)) i = Some u \<and> u_IsActive u"
    and "r = Inl e \<Longrightarrow> IsNotFound e \<Longrightarrow> tables_ok (tabs (w_db w)) \<Longrightarrow>
      (case user_by_id (tabs (w_db w)) i of None \<Rightarrow> True | Some u \<Rightarrow> \<not> u_IsActive u)"
    and "tabs (w_db w') = tabs (w_db w)"
proof -
  obtain q w1 where q: "pg_query E (SelectUserByID i) w = (q, w1)" by fastforce
  have "w1 = w'" using assms q
    by (auto simp: userRepository_FindByID_def split: sum.splits if_splits)
  note det = query_det [OF q, unfolded this, simplified]
  have sel: "filter (\<lambda>v. u_ID v = i \<and> u_IsActive v) (users (tabs (w_db w))) =
      (case user_by_id (tabs (w_db w)) i of None \<Rightarrow> [] | Some v \<Rightarrow> if u_IsActive v then [v] else [])"
    if "tables_ok (tabs (w_db w))"
    using that find_filter_active [of u_ID "users (tabs (w_db w))" i u_IsActive]
    by (simp add: tables_ok_def user_by_id_def)
  show "r = Inr u \<Longrightarrow> tables_ok (tabs (w_db w)) \<Longrightarrow> user_by_id (tabs (w_db w)) i = Some u \<and> u_IsActive u"
    using assms q det sel
    by (auto simp: userRepository_FindByID_def dest!: scan_ok split: sum.splits if_splits option.splits)
  show "r = Inl e \<Longrightarrow> IsNotFound e \<Longrightarrow> tables_ok (tabs (w_db w)) \<Longrightarrow>
      (case user_by_id (tabs (w_db w)) i of None \<Rightarrow> True | Some u \<Rightarrow> \<not> u_IsActive u)"
    using assms q det sel scan_no_rows [of q] scan_not_app [of q]
    by (auto simp: userRepository_FindByID_def split: sum.splits if_splits option.splits)
  show "tabs (w_db w') = tabs (w_db w)" using det by auto
qed

lemma impl_email:
  assumes "userRepository_FindByEmail E m w = (r, w')"
  shows "r = Inr u \<Longrightarrow> tables_ok (tabs (w_db w)) \<Longrightarrow> user_by_email (tabs (w_db w)) m = Some u"
    and "r = Inl e \<Longrightarrow> IsNotFound e \<Longrightarrow> tables_ok (tabs (w_db w)) \<Longrightarrow> user_by_email (tabs (w_db w)) m = None"
    and "tabs (w_db w') = tabs (w_db w)"
proof -
  obtain q w1 where q: "pg_query E (SelectUserByEmail m) w = (q, w1)" by fastforce
  have "w1 = w'" using assms q
    by (auto simp: userRepository_FindByEmail_def split: sum.splits if_splits)
  note det = query_det [OF q, unfolded this, simplified]
  have sel: "filter (\<lambda>v. u_Email v = m) (users (tabs (w_db w))) =
      (case user_by_email (tabs (w_db w)) m of None \<Rightarrow> [] | Some v \<Rightarrow> [v])"
    if "tables_ok (tabs (w_db w))"
    using that distinct_filter_find [of u_Email "users (tabs (w_db w))" m]
    by (simp add: tables_ok_def user_by_email_def)
  show "r = Inr u \<Longrightarrow> tables_ok (tabs (w_db w)) \<Longrightarrow> user_by_email (tabs (w_db w)) m = Some u"
    using assms q det sel
    by (auto simp: userRepository_FindByEmail_def dest!: scan_ok split: sum.splits if_splits option.splits)
  show "r = Inl e \<Longrightarrow> IsNotFound e \<Longrightarrow> tables_ok (tabs (w_db w)) \<Longrightarrow> user_by_email (tabs (w_db w)) m = None"
    using assms q det sel scan_no_rows [of q] scan_not_app [of q]
    by (auto simp: userRepository_FindByEmail_def split: sum.splits if_splits option.splits)
  show "tabs (w_db w') = tabs (w_db w)" using det by auto
qed

text \<open>The three updates.\<close>

lemma impl_update:
  assumes "userRepository_Update E u w = (r, w')"
  shows "r = None \<Longrightarrow> update_violation (tabs (w_db w)) (u_ID u) (u_Email u) (u_Role u) = None \<and>
      tabs (w_db w') = map_user (u_ID u) (updated_row (w_now w) u) (tabs (w_db w))"
    and "r = Some e \<Longrightarrow> tabs (w_db w') = tabs (w_db w) \<or>
      (update_violation (tabs (w_db w)) (u_ID u) (u_Email u) (u_Role u) = None \<and>
       tabs (w_db w') = map_user (u_ID u) (updated_row (w_now w) u) (tabs (w_db w)))"
proof -
  obtain q w1 where q: "pg_query E (UpdateUserRow (u_Email u) (u_Role u) (u_IsActive u) (u_ID u)) w = (q, w1)"
    by fastforce
  have row: "(\<lambda>v. v\<lparr>u_Email := u_Email u, u_Role := u_Role u, u_IsActive := u_IsActive u,
      u_UpdatedAt := to_us (w_now w)\<rparr>) = updated_row (w_now w) u"
    by (simp add: updated_row_def fun_eq_iff)
  show "r = None \<Longrightarrow> update_violation (tabs (w_db w)) (u_ID u) (u_Email u) (u_Role u) = None \<and>
      tabs (w_db w') = map_user (u_ID u) (updated_row (w_now w) u) (tabs (w_db w))"
    and "r = Some e \<Longrightarrow> tabs (w_db w') = tabs (w_db w) \<or>
      (update_violation (tabs (w_db w)) (u_ID u) (u_Email u) (u_Role u) = None \<and>
       tabs (w_db w') = map_user (u_ID u) (updated_row (w_now w) u) (tabs (w_db w)))"
    using query_det [OF q] assms q by (auto simp: userRepository_Update_def row split: option.splits)
qed

lemma impl_password:
  assumes "userRepository_UpdatePassword E i h w = (r, w')"
  shows "r = None \<Longrightarrow> tabs (w_db w') = map_user i (password_row (w_now w) h) (tabs (w_db w))"
    and "r = Some e \<Longrightarrow> tabs (w_db w') = tabs (w_db w) \<or>
      tabs (w_db w') = map_user i (password_row (w_now w) h) (tabs (w_db w))"
proof -
  obtain q w1 where q: "pg_query E (UpdatePasswordRow h i) w = (q, w1)" by fastforce
  have row: "(\<lambda>v. v\<lparr>u_PasswordHash := h, u_UpdatedAt := to_us (w_now w)\<rparr>) = password_row (w_now w) h"
    by (simp add: password_row_def fun_eq_iff)
  show "r = None \<Longrightarrow> tabs (w_db w') = map_user i (password_row (w_now w) h) (tabs (w_db w))"
    and "r = Some e \<Longrightarrow> tabs (w_db w') = tabs (w_db w) \<or>
      tabs (w_db w') = map_user i (password_row (w_now w) h) (tabs (w_db w))"
    using query_det [OF q] assms q by (auto simp: userRepository_UpdatePassword_def row)
qed

lemma impl_delete:
  assumes "userRepository_Delete E i w = (r, w')"
  shows "r = None \<Longrightarrow> tabs (w_db w') = map_user i (deleted_row (w_now w)) (tabs (w_db w))"
    and "r = Some e \<Longrightarrow> tabs (w_db w') = tabs (w_db w) \<or>
      tabs (w_db w') = map_user i (deleted_row (w_now w)) (tabs (w_db w))"
proof -
  obtain q w1 where q: "pg_query E (SoftDeleteUser i) w = (q, w1)" by fastforce
  have row: "(\<lambda>v. v\<lparr>u_IsActive := False, u_UpdatedAt := to_us (w_now w)\<rparr>) = deleted_row (w_now w)"
    by (simp add: deleted_row_def fun_eq_iff)
  show "r = None \<Longrightarrow> tabs (w_db w') = map_user i (deleted_row (w_now w)) (tabs (w_db w))"
    and "r = Some e \<Longrightarrow> tabs (w_db w') = tabs (w_db w) \<or>
      tabs (w_db w') = map_user i (deleted_row (w_now w)) (tabs (w_db w))"
    using query_det [OF q] assms q by (auto simp: userRepository_Delete_def row)
qed

lemma impl_list:
  assumes "userRepository_List E l off w = (r, w')"
  shows "r = Inr (us, cnt) \<Longrightarrow> 0 \<le> l \<and> 0 \<le> off \<and> cnt = int (length (users (tabs (w_db w)))) \<and>
      page_of_users l off (users (tabs (w_db w))) us"
    and "tabs (w_db w') = tabs (w_db w)"
proof -
  obtain q w1 where q: "pg_query E CountUsers w = (q, w1)" by fastforce
  obtain q2 w2 where q2: "pg_query E (ListUsers l off) w1 = (q2, w2)" by fastforce
  have one: "tabs (w_db w1) = tabs (w_db w)" "w_now w1 = w_now w"
    using query_det [OF q] db_frameI [OF q] by (auto simp: db_frame_def)
  have cnt: "q = SqlCount n \<Longrightarrow> n = int (length (users (tabs (w_db w))))" for n
    using query_det [OF q] by auto
  have two: "tabs (w_db w2) = tabs (w_db w1)" "q2 = SqlUsers us \<Longrightarrow> 0 \<le> l \<and> 0 \<le> off \<and>
      page_of_users l off (users (tabs (w_db w1))) us"
    using query_cases [OF q2] by (auto split: if_splits)
  show "r = Inr (us, cnt) \<Longrightarrow> 0 \<le> l \<and> 0 \<le> off \<and> cnt = int (length (users (tabs (w_db w)))) \<and>
      page_of_users l off (users (tabs (w_db w))) us"
    using assms q q2 one two cnt
    by (auto simp: userRepository_List_def split: sqlres.splits)
  show "tabs (w_db w') = tabs (w_db w)"
    using assms q q2 one two(1) by (auto simp: userRepository_List_def split: sqlres.splits)
qed

end

sublocale postgres \<subseteq> pgx: user_repo_contract "NewUserRepository E" "\<lambda>w. tabs (w_db w)"
  by (unfold_locales, unfold NewUserRepository_def user_repository.select_convs)
    (rule impl_user_frames impl_list_frame impl_find(3) [OF prod.collapse [symmetric]]
        impl_email(3) [OF prod.collapse [symmetric]] impl_list(2) [OF prod.collapse [symmetric]]
      | erule impl_create(1,2,3) [OF _ refl] impl_update [OF _ refl] impl_password [OF _ refl]
        impl_delete [OF _ refl] impl_list(1) [OF _ refl]
      | erule (1) impl_create(4) [OF _ refl] impl_find(1) [OF _ refl] impl_email(1) [OF _ refl]
      | erule (2) impl_find(2) [OF _ refl] impl_email(2) [OF _ refl]
      | simp)+

end
