(* ===== verification/Repo_Decorators.thy ===== *)
theory Repo_Decorators
  imports User_Repo Reference_Env
begin

text \<open>
  The two decorators of the user repository: \<open>InstrumentedUserRepository\<close> counts every query and every
  database error in the Prometheus metrics, \<open>TracedUserRepository\<close> records an OpenTelemetry span per call.
  Both keep the contract of \<open>UserRepository\<close>, so the stack that \<open>main\<close> builds keeps it too.
\<close>

section \<open>Metrics\<close>

definition observe_db :: "string \<Rightarrow> ('s, 'd) world \<Rightarrow> ('s, 'd) world" where
  "observe_db op w = count_metric [''kleido_db_query_duration_seconds'', op] w"

definition db_error :: "string \<Rightarrow> bool \<Rightarrow> ('s, 'd) world \<Rightarrow> ('s, 'd) world" where
  "db_error op failed w = (if failed then count_metric [''kleido_db_errors_total'', op] w else w)"

definition InstrumentedUserRepository_Create ::
    "('s, 'd) world user_repository \<Rightarrow> user \<Rightarrow> ('s, 'd) world \<Rightarrow> (goerr option) \<times> ('s, 'd) world" where
  "InstrumentedUserRepository_Create inner u w =
     (let (r, w1) = repo_Create inner u w;
          w2 = observe_db ''create'' w1
      in (r, db_error ''create'' (r \<noteq> None) w2))"

definition InstrumentedUserRepository_FindByID ::
    "('s, 'd) world user_repository \<Rightarrow> uuid \<Rightarrow> ('s, 'd) world \<Rightarrow> (goerr + user) \<times> ('s, 'd) world" where
  "InstrumentedUserRepository_FindByID inner i w =
     (let (r, w1) = repo_FindByID inner i w;
          w2 = observe_db ''find_by_id'' w1
      in (r, db_error ''find_by_id'' (case r of Inl e \<Rightarrow> \<not> IsNotFound e | Inr _ \<Rightarrow> False) w2))"

definition InstrumentedUserRepository_FindByEmail ::
    "('s, 'd) world user_repository \<Rightarrow> string \<Rightarrow> ('s, 'd) world \<Rightarrow> (goerr + user) \<times> ('s, 'd) world" where
  "InstrumentedUserRepository_FindByEmail inner m w =
     (let (r, w1) = repo_FindByEmail inner m w;
          w2 = observe_db ''find_by_email'' w1
      in (r, db_error ''find_by_email'' (case r of Inl e \<Rightarrow> \<not> IsNotFound e | Inr _ \<Rightarrow> False) w2))"

definition InstrumentedUserRepository_Update ::
    "('s, 'd) world user_repository \<Rightarrow> user \<Rightarrow> ('s, 'd) world \<Rightarrow> (goerr option) \<times> ('s, 'd) world" where
  "InstrumentedUserRepository_Update inner u w =
     (let (r, w1) = repo_Update inner u w;
          w2 = observe_db ''update'' w1
      in (r, db_error ''update'' (r \<noteq> None) w2))"

definition InstrumentedUserRepository_UpdatePassword ::
    "('s, 'd) world user_repository \<Rightarrow> uuid \<Rightarrow> string \<Rightarrow> ('s, 'd) world \<Rightarrow> (goerr option) \<times> ('s, 'd) world" where
  "InstrumentedUserRepository_UpdatePassword inner i h w =
     (let (r, w1) = repo_UpdatePassword inner i h w;
          w2 = observe_db ''update_password'' w1
      in (r, db_error ''update_password'' (r \<noteq> None) w2))"

definition InstrumentedUserRepository_Delete ::
    "('s, 'd) world user_repository \<Rightarrow> uuid \<Rightarrow> ('s, 'd) world \<Rightarrow> (goerr option) \<times> ('s, 'd) world" where
  "InstrumentedUserRepository_Delete inner i w =
     (let (r, w1) = repo_Delete inner i w;
          w2 = observe_db ''delete'' w1
      in (r, db_error ''delete'' (r \<noteq> None) w2))"

definition InstrumentedUserRepository_List ::
    "('s, 'd) world user_repository \<Rightarrow> int \<Rightarrow> int \<Rightarrow> ('s, 'd) world \<Rightarrow> (goerr + user list \<times> int) \<times> ('s, 'd) world" where
  "InstrumentedUserRepository_List inner l off w =
     (let (r, w1) = repo_List inner l off w;
          w2 = observe_db ''list'' w1
      in (r, db_error ''list'' (case r of Inl e \<Rightarrow> True | Inr _ \<Rightarrow> False) w2))"

definition NewInstrumentedUserRepository :: "('s, 'd) world user_repository \<Rightarrow> ('s, 'd) world user_repository" where
  "NewInstrumentedUserRepository inner = \<lparr>
     repo_Create = InstrumentedUserRepository_Create inner,
     repo_FindByID = InstrumentedUserRepository_FindByID inner,
     repo_FindByEmail = InstrumentedUserRepository_FindByEmail inner,
     repo_Update = InstrumentedUserRepository_Update inner,
     repo_UpdatePassword = InstrumentedUserRepository_UpdatePassword inner,
     repo_Delete = InstrumentedUserRepository_Delete inner,
     repo_List = InstrumentedUserRepository_List inner\<rparr>"

lemmas instrumented_defs = observe_db_def db_error_def
  InstrumentedUserRepository_Create_def
  InstrumentedUserRepository_FindByID_def
  InstrumentedUserRepository_FindByEmail_def
  InstrumentedUserRepository_Update_def
  InstrumentedUserRepository_UpdatePassword_def
  InstrumentedUserRepository_Delete_def
  InstrumentedUserRepository_List_def

section \<open>Spans\<close>

text \<open>\<open>Start\<close>, \<open>SetAttributes\<close>, the status that the outcome sets, and \<open>End\<close>.\<close>

definition span_of :: "string \<Rightarrow> (string \<times> string) list \<Rightarrow> goerr option \<Rightarrow> span" where
  "span_of name attrs r =
     (case r of
        None \<Rightarrow> \<lparr>sp_name = name, sp_attrs = attrs, sp_error = None, sp_status = SOk []\<rparr>
      | Some e \<Rightarrow> \<lparr>sp_name = name, sp_attrs = attrs, sp_error = Some (Error e), sp_status = SError (Error e)\<rparr>)"

text \<open>A missing row is an expected outcome: the span ends without a status.\<close>

definition span_of_find :: "string \<Rightarrow> (string \<times> string) list \<Rightarrow> goerr option \<Rightarrow> span" where
  "span_of_find name attrs r =
     (case r of
        Some e \<Rightarrow> if IsNotFound e then \<lparr>sp_name = name, sp_attrs = attrs, sp_error = None, sp_status = Unset\<rparr>
                  else span_of name attrs r
      | None \<Rightarrow> span_of name attrs r)"

definition err_of :: "goerr + 'a \<Rightarrow> goerr option" where
  "err_of r = (case r of Inl e \<Rightarrow> Some e | Inr _ \<Rightarrow> None)"

definition db_attrs :: "string \<Rightarrow> (string \<times> string) list" where
  "db_attrs op = [(''db.system'', ''postgresql''), (''db.operation'', op)]"

definition TracedUserRepository_Create ::
    "('s, 'd) env \<Rightarrow> ('s, 'd) world user_repository \<Rightarrow> user \<Rightarrow> ('s, 'd) world \<Rightarrow> (goerr option) \<times> ('s, 'd) world" where
  "TracedUserRepository_Create E inner u w =
     (let (r, w1) = repo_Create inner u w
      in (r, end_span (span_of ''repository/Create'' (db_attrs ''INSERT'' @ [(''user.id'', uuidString E (u_ID u))]) r) w1))"

definition TracedUserRepository_FindByID ::
    "('s, 'd) env \<Rightarrow> ('s, 'd) world user_repository \<Rightarrow> uuid \<Rightarrow> ('s, 'd) world \<Rightarrow> (goerr + user) \<times> ('s, 'd) world" where
  "TracedUserRepository_FindByID E inner i w =
     (let (r, w1) = repo_FindByID inner i w
      in (r, end_span (span_of_find ''repository/FindByID'' (db_attrs ''SELECT'' @ [(''user.id'', uuidString E (i))]) (err_of r)) w1))"

definition TracedUserRepository_FindByEmail ::
    "('s, 'd) env \<Rightarrow> ('s, 'd) world user_repository \<Rightarrow> string \<Rightarrow> ('s, 'd) world \<Rightarrow> (goerr + user) \<times> ('s, 'd) world" where
  "TracedUserRepository_FindByEmail E inner m w =
     (let (r, w1) = repo_FindByEmail inner m w
      in (r, end_span (span_of_find ''repository/FindByEmail'' (db_attrs ''SELECT'') (err_of r)) w1))"

definition TracedUserRepository_Update ::
    "('s, 'd) env \<Rightarrow> ('s, 'd) world user_repository \<Rightarrow> user \<Rightarrow> ('s, 'd) world \<Rightarrow> (goerr option) \<times> ('s, 'd) world" where
  "TracedUserRepository_Update E inner u w =
     (let (r, w1) = repo_Update inner u w
      in (r, end_span (span_of ''repository/Update'' (db_attrs ''UPDATE'' @ [(''user.id'', uuidString E (u_ID u))]) r) w1))"

definition TracedUserRepository_UpdatePassword ::
    "('s, 'd) env \<Rightarrow> ('s, 'd) world user_repository \<Rightarrow> uuid \<Rightarrow> string \<Rightarrow> ('s, 'd) world \<Rightarrow> (goerr option) \<times> ('s, 'd) world" where
  "TracedUserRepository_UpdatePassword E inner i h w =
     (let (r, w1) = repo_UpdatePassword inner i h w
      in (r, end_span (span_of ''repository/UpdatePassword'' (db_attrs ''UPDATE'' @ [(''user.id'', uuidString E (i))]) r) w1))"

definition TracedUserRepository_Delete ::
    "('s, 'd) env \<Rightarrow> ('s, 'd) world user_repository \<Rightarrow> uuid \<Rightarrow> ('s, 'd) world \<Rightarrow> (goerr option) \<times> ('s, 'd) world" where
  "TracedUserRepository_Delete E inner i w =
     (let (r, w1) = repo_Delete inner i w
      in (r, end_span (span_of ''repository/Delete'' (db_attrs ''UPDATE'' @ [(''user.id'', uuidString E (i))]) r) w1))"

definition TracedUserRepository_List ::
    "('s, 'd) env \<Rightarrow> ('s, 'd) world user_repository \<Rightarrow> int \<Rightarrow> int \<Rightarrow> ('s, 'd) world \<Rightarrow> (goerr + user list \<times> int) \<times> ('s, 'd) world" where
  "TracedUserRepository_List E inner l off w =
     (let (r, w1) = repo_List inner l off w
      in (r, end_span (span_of ''repository/List'' (db_attrs ''SELECT'') (err_of r)) w1))"

definition NewTracedUserRepository ::
    "('s, 'd) env \<Rightarrow> ('s, 'd) world user_repository \<Rightarrow> ('s, 'd) world user_repository" where
  "NewTracedUserRepository E inner = \<lparr>
     repo_Create = TracedUserRepository_Create E inner,
     repo_FindByID = TracedUserRepository_FindByID E inner,
     repo_FindByEmail = TracedUserRepository_FindByEmail E inner,
     repo_Update = TracedUserRepository_Update E inner,
     repo_UpdatePassword = TracedUserRepository_UpdatePassword E inner,
     repo_Delete = TracedUserRepository_Delete E inner,
     repo_List = TracedUserRepository_List E inner\<rparr>"

lemmas traced_defs =
  TracedUserRepository_Create_def
  TracedUserRepository_FindByID_def
  TracedUserRepository_FindByEmail_def
  TracedUserRepository_Update_def
  TracedUserRepository_UpdatePassword_def
  TracedUserRepository_Delete_def
  TracedUserRepository_List_def

section \<open>The stack keeps the contract\<close>

text \<open>Two worlds that differ in what is only observed: metrics and spans.\<close>

definition unseen :: "('s, 'd) world \<Rightarrow> ('s, 'd) world \<Rightarrow> bool" where
  "unseen v w \<longleftrightarrow> w_now w = w_now v \<and> w_redis w = w_redis v \<and> w_db w = w_db v \<and> w_rand w = w_rand v \<and>
     w_log w = w_log v \<and> w_inflight w = w_inflight v"

definition alike :: "'r \<times> ('s, 'd) world \<Rightarrow> 'r \<times> ('s, 'd) world \<Rightarrow> bool" where
  "alike p q \<longleftrightarrow> fst q = fst p \<and> unseen (snd p) (snd q)"

text \<open>\<open>R'\<close> behaves as \<open>R\<close> apart from metrics and spans.\<close>

definition transparent :: "('s, 'd) world user_repository \<Rightarrow> ('s, 'd) world user_repository \<Rightarrow> bool" where
  "transparent R R' \<longleftrightarrow> (\<forall>w.
     (\<forall>u. alike (repo_Create R u w) (repo_Create R' u w)) \<and>
     (\<forall>i. alike (repo_FindByID R i w) (repo_FindByID R' i w)) \<and>
     (\<forall>m. alike (repo_FindByEmail R m w) (repo_FindByEmail R' m w)) \<and>
     (\<forall>u. alike (repo_Update R u w) (repo_Update R' u w)) \<and>
     (\<forall>i h. alike (repo_UpdatePassword R i h w) (repo_UpdatePassword R' i h w)) \<and>
     (\<forall>i. alike (repo_Delete R i w) (repo_Delete R' i w)) \<and>
     (\<forall>l off. alike (repo_List R l off w) (repo_List R' l off w)))"

lemma unseen_refl [simp]: "unseen v v"
  by (simp add: unseen_def)

lemma unseen_metric [simp]: "unseen v (count_metric k v)" "unseen v (end_span s v)"
  by (simp_all add: unseen_def count_metric_def end_span_def)

lemma unseen_trans: "unseen u v \<Longrightarrow> unseen v w \<Longrightarrow> unseen u w"
  by (simp add: unseen_def)

lemma alike_trans: "alike p q \<Longrightarrow> alike q r \<Longrightarrow> alike p r"
  by (auto simp: alike_def intro: unseen_trans)

lemma alikeD: "alike q p \<Longrightarrow> p = (r, w') \<Longrightarrow> \<exists>v. q = (r, v) \<and> unseen v w'"
  by (cases q) (simp add: alike_def)

lemma unseen_parts:
  "unseen v w \<Longrightarrow> w_db w = w_db v" "unseen v w \<Longrightarrow> db_frame u v \<Longrightarrow> db_frame u w"
  by (simp_all add: unseen_def db_frame_def)

lemma unseen_db_metrics [simp]: "unseen v (db_error op b (observe_db op v))"
  by (simp add: db_error_def observe_db_def unseen_def)

lemma transparent_instrumented: "transparent R (NewInstrumentedUserRepository R)"
  by (simp add: transparent_def alike_def NewInstrumentedUserRepository_def
      InstrumentedUserRepository_Create_def InstrumentedUserRepository_FindByID_def
      InstrumentedUserRepository_FindByEmail_def InstrumentedUserRepository_Update_def
      InstrumentedUserRepository_UpdatePassword_def InstrumentedUserRepository_Delete_def
      InstrumentedUserRepository_List_def Let_def split_beta)

lemma transparent_traced: "transparent R (NewTracedUserRepository E R)"
  by (simp add: unseen_def transparent_def alike_def NewTracedUserRepository_def traced_defs split_beta Let_def)

lemma transparent_trans: "transparent R S \<Longrightarrow> transparent S Q \<Longrightarrow> transparent R Q"
  unfolding transparent_def by (meson alike_trans)

context user_repo_contract begin

lemma T_unseen: "unseen v w \<Longrightarrow> T w = T v"
  by (rule T_db) (rule unseen_parts)

lemma transparent_calls:
  assumes "transparent R R'"
  shows "repo_Create R' u w = (r0, w') \<Longrightarrow> \<exists>v. repo_Create R u w = (r0, v) \<and> unseen v w'"
    and "repo_FindByID R' i w = (r1, w') \<Longrightarrow> \<exists>v. repo_FindByID R i w = (r1, v) \<and> unseen v w'"
    and "repo_FindByEmail R' m w = (r2, w') \<Longrightarrow> \<exists>v. repo_FindByEmail R m w = (r2, v) \<and> unseen v w'"
    and "repo_Update R' u w = (r3, w') \<Longrightarrow> \<exists>v. repo_Update R u w = (r3, v) \<and> unseen v w'"
    and "repo_UpdatePassword R' i h w = (r4, w') \<Longrightarrow> \<exists>v. repo_UpdatePassword R i h w = (r4, v) \<and> unseen v w'"
    and "repo_Delete R' i w = (r5, w') \<Longrightarrow> \<exists>v. repo_Delete R i w = (r5, v) \<and> unseen v w'"
    and "repo_List R' l off w = (r6, w') \<Longrightarrow> \<exists>v. repo_List R l off w = (r6, v) \<and> unseen v w'"
  using assms unfolding transparent_def by (blast dest: alikeD)+

lemma transparent_snd:
  assumes "transparent R R'"
  shows "unseen (snd (repo_Create R u w)) (snd (repo_Create R' u w))"
    and "unseen (snd (repo_FindByID R i w)) (snd (repo_FindByID R' i w))"
    and "unseen (snd (repo_FindByEmail R m w)) (snd (repo_FindByEmail R' m w))"
    and "unseen (snd (repo_Update R u w)) (snd (repo_Update R' u w))"
    and "unseen (snd (repo_UpdatePassword R i h w)) (snd (repo_UpdatePassword R' i h w))"
    and "unseen (snd (repo_Delete R i w)) (snd (repo_Delete R' i w))"
    and "unseen (snd (repo_List R l off w)) (snd (repo_List R' l off w))"
  using assms by (simp_all add: transparent_def alike_def)

lemma transparent_contract:
  assumes "transparent R R'"
  shows "user_repo_contract R' T"
proof -
  note c = transparent_calls [OF assms] and sn = transparent_snd [OF assms]
  show ?thesis
  proof (unfold_locales, goal_cases)
    case 1 then show ?case by (metis c(1) create_ok T_unseen)
  next
    case 2 then show ?case by (metis c(1) create_fail T_unseen)
  next
    case 3 then show ?case by (metis c(1) create_conflict T_unseen)
  next
    case 4 then show ?case by (metis c(1) create_taken T_unseen)
  next
    case 5 then show ?case by (metis c(2) find_ok T_unseen)
  next
    case 6 then show ?case by (metis c(2) find_missing T_unseen)
  next
    case 7 show ?case by (metis sn(2) find_view T_unseen)
  next
    case 8 then show ?case by (metis c(3) email_ok T_unseen)
  next
    case 9 then show ?case by (metis c(3) email_missing T_unseen)
  next
    case 10 show ?case by (metis sn(3) email_view T_unseen)
  next
    case 11 then show ?case by (metis c(4) update_ok T_unseen)
  next
    case 12 then show ?case by (metis c(4) update_fail T_unseen)
  next
    case 13 then show ?case by (metis c(5) password_ok T_unseen)
  next
    case 14 then show ?case by (metis c(5) password_fail T_unseen)
  next
    case 15 then show ?case by (metis c(6) delete_ok T_unseen)
  next
    case 16 then show ?case by (metis c(6) delete_fail T_unseen)
  next
    case 17 then show ?case by (metis c(7) list_ok T_unseen)
  next
    case 18 show ?case by (metis sn(7) list_view T_unseen)
  next
    case 19 show ?case by (rule unseen_parts(2) [OF sn(1) repo_frame(1)])
  next
    case 20 show ?case by (rule unseen_parts(2) [OF sn(2) repo_frame(2)])
  next
    case 21 show ?case by (rule unseen_parts(2) [OF sn(3) repo_frame(3)])
  next
    case 22 show ?case by (rule unseen_parts(2) [OF sn(4) repo_frame(4)])
  next
    case 23 show ?case by (rule unseen_parts(2) [OF sn(5) repo_frame(5)])
  next
    case 24 show ?case by (rule unseen_parts(2) [OF sn(6) repo_frame(6)])
  next
    case 25 show ?case by (rule unseen_parts(2) [OF sn(7) repo_frame(7)])
  next
    case 26 then show ?case by (rule T_db)
  qed
qed

end

text \<open>The stack that \<open>main\<close> builds: tracing outermost, then metrics, then pgx.\<close>

definition main_userRepo :: "('s, 'd) env \<Rightarrow> ('s, 'd) world user_repository" where
  "main_userRepo E = NewTracedUserRepository E (NewInstrumentedUserRepository (NewUserRepository E))"

sublocale postgres \<subseteq> repo: user_repo_contract "main_userRepo E" "\<lambda>w. tabs (w_db w)"
  unfolding main_userRepo_def
  by (rule pgx.transparent_contract [OF transparent_trans [OF transparent_instrumented transparent_traced]])

text \<open>
  The decorators are transparent: for every repository they wrap, each operation of the decorated
  stack calls it exactly once with the same arguments, returns what it returned, and leaves the same
  tables, key space, clock and log; only metrics and spans differ.
\<close>

theorem decorators_transparent:
  "transparent R (NewTracedUserRepository E (NewInstrumentedUserRepository R))"
  by (rule transparent_trans [OF transparent_instrumented transparent_traced])

text \<open>
  The error counter of the database counts failures and nothing else: a lookup adds one to it exactly when
  it fails with an error other than not-found (for any repository that keeps its hands off this counter), and
  the latency histogram counts every call.
\<close>

theorem db_errors_counted:
  assumes "w_metrics (snd (repo_FindByID R i w)) = w_metrics w"
  shows "w_metrics (snd (InstrumentedUserRepository_FindByID R i w)) [''kleido_db_errors_total'', ''find_by_id''] =
      w_metrics w [''kleido_db_errors_total'', ''find_by_id''] +
      (case fst (repo_FindByID R i w) of Inl e \<Rightarrow> if IsNotFound e then 0 else 1 | Inr _ \<Rightarrow> 0) \<and>
    w_metrics (snd (InstrumentedUserRepository_FindByID R i w)) [''kleido_db_query_duration_seconds'', ''find_by_id''] =
      w_metrics w [''kleido_db_query_duration_seconds'', ''find_by_id''] + 1"
  using assms
  by (auto simp: InstrumentedUserRepository_FindByID_def observe_db_def db_error_def count_metric_def split_beta
      split: sum.splits)

theorem db_errors_counted_witness:
  "let w = ref_world 0 empty_tables [] [Some False];
       w' = snd (InstrumentedUserRepository_FindByID (NewUserRepository ref_env) 1 w)
   in w_metrics w' [''kleido_db_errors_total'', ''find_by_id''] = 1"
proof -
  define w where "w = ref_world 0 empty_tables [] [Some False]"
  have same: "w_metrics (snd (repo_FindByID (NewUserRepository ref_env) 1 w)) = w_metrics w"
    unfolding w_def ref_world_def
    by (simp add: NewUserRepository_def userRepository_FindByID_def pg_query_def ref_pgQuery_def scanUser_def)
  have "case fst (repo_FindByID (NewUserRepository ref_env) 1 w) of Inl e \<Rightarrow> \<not> IsNotFound e | Inr _ \<Rightarrow> False"
    unfolding w_def by code_simp
  with db_errors_counted [OF same] show ?thesis
    unfolding w_def [symmetric] Let_def by (auto simp: w_def ref_world_def split: sum.splits)
qed

end
