(* ===== verification/Tenant_Repo.thy ===== *)
theory Tenant_Repo
  imports User_Repo
begin

text \<open>
  Tenants: the interface \<open>TenantRepository\<close>, its pgx implementation \<open>internal/repository/postgres/tenant.go\<close>,
  and the service \<open>internal/service/tenant.go\<close> that passes every call on.
\<close>

record 'w tenant_repository =
  trepo_Create :: "tenant \<Rightarrow> 'w \<Rightarrow> goerr option \<times> 'w"
  trepo_FindByID :: "uuid \<Rightarrow> 'w \<Rightarrow> (goerr + tenant) \<times> 'w"
  trepo_FindBySlug :: "string \<Rightarrow> 'w \<Rightarrow> (goerr + tenant) \<times> 'w"
  trepo_List :: "'w \<Rightarrow> (goerr + tenant list) \<times> 'w"

definition tenantRepository_Create ::
    "('s, 'd) env \<Rightarrow> tenant \<Rightarrow> ('s, 'd) world \<Rightarrow> goerr option \<times> ('s, 'd) world" where
  "tenantRepository_Create E t w =
     (let (r, w') = pg_query E (InsertTenant t) w
      in (map_option (Wrapf ''create tenant: '') (sql_error r), w'))"

definition scanTenant :: "sqlres \<Rightarrow> goerr + tenant" where
  "scanTenant r =
     (case r of
        SqlTenants (t # _) \<Rightarrow> Inr t
      | SqlTenants [] \<Rightarrow> Inl (Wrapf ''postgres: scan tenant: '' ErrNoRows)
      | SqlState c \<Rightarrow> Inl (Wrapf ''postgres: scan tenant: '' (PgError c))
      | SqlFail m \<Rightarrow> Inl (Wrapf ''postgres: scan tenant: '' (ExtErr m))
      | _ \<Rightarrow> Inl (Wrapf ''postgres: scan tenant: '' (ExtErr ''unexpected columns'')))"

definition tenantRepository_FindByID ::
    "('s, 'd) env \<Rightarrow> uuid \<Rightarrow> ('s, 'd) world \<Rightarrow> (goerr + tenant) \<times> ('s, 'd) world" where
  "tenantRepository_FindByID E i w =
     (let (r, w') = pg_query E (SelectTenantByID i) w
      in case scanTenant r of
           Inr t \<Rightarrow> (Inr t, w')
         | Inl e \<Rightarrow>
             if errors_Is ErrNoRows e then (Inl (NotFound ''tenant''), w')
             else (Inl (Wrapf ''find tenant by id: '' e), w'))"

definition tenantRepository_FindBySlug ::
    "('s, 'd) env \<Rightarrow> string \<Rightarrow> ('s, 'd) world \<Rightarrow> (goerr + tenant) \<times> ('s, 'd) world" where
  "tenantRepository_FindBySlug E sl w =
     (let (r, w') = pg_query E (SelectTenantBySlug sl) w
      in case scanTenant r of
           Inr t \<Rightarrow> (Inr t, w')
         | Inl e \<Rightarrow>
             if errors_Is ErrNoRows e then (Inl (NotFound ''tenant''), w')
             else (Inl (Wrapf ''find tenant by slug: '' e), w'))"

definition tenantRepository_List ::
    "('s, 'd) env \<Rightarrow> ('s, 'd) world \<Rightarrow> (goerr + tenant list) \<times> ('s, 'd) world" where
  "tenantRepository_List E w =
     (let (r, w') = pg_query E ListTenants w
      in case r of
           SqlTenants ts \<Rightarrow> (Inr ts, w')
         | SqlFail m \<Rightarrow> (Inl (Wrapf ''list tenants: '' (ExtErr m)), w')
         | SqlState c \<Rightarrow> (Inl (Wrapf ''tenants rows: '' (PgError c)), w')
         | _ \<Rightarrow> (Inl (Wrapf ''scan tenant: '' (ExtErr ''unexpected columns'')), w'))"

definition NewTenantRepository :: "('s, 'd) env \<Rightarrow> ('s, 'd) world tenant_repository" where
  "NewTenantRepository E = \<lparr>
     trepo_Create = tenantRepository_Create E,
     trepo_FindByID = tenantRepository_FindByID E,
     trepo_FindBySlug = tenantRepository_FindBySlug E,
     trepo_List = tenantRepository_List E\<rparr>"

lemmas tenant_repo_defs = tenantRepository_Create_def tenantRepository_FindByID_def
  tenantRepository_FindBySlug_def tenantRepository_List_def

section \<open>The service\<close>

record 'w tenant_service =
  tsvc_Create :: "tenant \<Rightarrow> 'w \<Rightarrow> goerr option \<times> 'w"
  tsvc_GetByID :: "uuid \<Rightarrow> 'w \<Rightarrow> (goerr + tenant) \<times> 'w"
  tsvc_GetBySlug :: "string \<Rightarrow> 'w \<Rightarrow> (goerr + tenant) \<times> 'w"
  tsvc_List :: "'w \<Rightarrow> (goerr + tenant list) \<times> 'w"

definition tenantService_Create :: "'w tenant_repository \<Rightarrow> tenant \<Rightarrow> 'w \<Rightarrow> goerr option \<times> 'w" where
  "tenantService_Create repo t w = trepo_Create repo t w"

definition tenantService_GetByID :: "'w tenant_repository \<Rightarrow> uuid \<Rightarrow> 'w \<Rightarrow> (goerr + tenant) \<times> 'w" where
  "tenantService_GetByID repo i w = trepo_FindByID repo i w"

definition tenantService_GetBySlug :: "'w tenant_repository \<Rightarrow> string \<Rightarrow> 'w \<Rightarrow> (goerr + tenant) \<times> 'w" where
  "tenantService_GetBySlug repo sl w = trepo_FindBySlug repo sl w"

definition tenantService_List :: "'w tenant_repository \<Rightarrow> 'w \<Rightarrow> (goerr + tenant list) \<times> 'w" where
  "tenantService_List repo w = trepo_List repo w"

definition NewTenantService :: "'w tenant_repository \<Rightarrow> 'w tenant_service" where
  "NewTenantService repo = \<lparr>
     tsvc_Create = tenantService_Create repo,
     tsvc_GetByID = tenantService_GetByID repo,
     tsvc_GetBySlug = tenantService_GetBySlug repo,
     tsvc_List = tenantService_List repo\<rparr>"

lemmas tenant_service_defs = tenantService_Create_def tenantService_GetByID_def
  tenantService_GetBySlug_def tenantService_List_def NewTenantService_def

section \<open>The contract\<close>

definition find_tenant :: "(tenant \<Rightarrow> bool) \<Rightarrow> tables \<Rightarrow> tenant option" where
  "find_tenant p T = find (\<lambda>t. p t \<and> t_IsActive t) (tenants T)"

locale tenant_contract =
  fixes S :: "('s, 'd) world tenant_service" and T :: "('s, 'd) world \<Rightarrow> tables"
  assumes tenant_id_ok: "tsvc_GetByID S i w = (Inr t, w') \<Longrightarrow> find_tenant (\<lambda>v. t_ID v = i) (T w) = Some t"
    and tenant_id_missing: "tsvc_GetByID S i w = (Inl e, w') \<Longrightarrow> IsNotFound e \<Longrightarrow>
      find_tenant (\<lambda>v. t_ID v = i) (T w) = None"
    and tenant_slug_ok: "tsvc_GetBySlug S sl w = (Inr t, w') \<Longrightarrow>
      find_tenant (\<lambda>v. t_Slug v = sl) (T w) = Some t"
    and tenant_slug_missing: "tsvc_GetBySlug S sl w = (Inl e, w') \<Longrightarrow> IsNotFound e \<Longrightarrow>
      find_tenant (\<lambda>v. t_Slug v = sl) (T w) = None"
    and tenant_list_ok: "tsvc_List S w = (Inr ts, w') \<Longrightarrow> mset ts = mset (filter t_IsActive (tenants (T w)))"
    and tenant_create_ok: "tsvc_Create S t w = (None, w') \<Longrightarrow>
      t_Slug t \<notin> t_Slug ` set (tenants (T w)) \<and>
      (\<exists>t'. tenants (T w') = tenants (T w) @ [t'] \<and> t_Slug t' = t_Slug t \<and> t_IsActive t' = t_IsActive t) \<and>
      users (T w') = users (T w)"
    and tenant_create_fail: "tsvc_Create S t w = (Some e, w') \<Longrightarrow> T w' = T w \<or>
      t_Slug t \<notin> t_Slug ` set (tenants (T w)) \<and>
      (\<exists>t'. tenants (T w') = tenants (T w) @ [t'] \<and> t_Slug t' = t_Slug t \<and> t_IsActive t' = t_IsActive t) \<and>
      users (T w') = users (T w)"
    and tenant_reads: "T (snd (tsvc_GetByID S i w)) = T w" "T (snd (tsvc_GetBySlug S sl w)) = T w"
      "T (snd (tsvc_List S w)) = T w"
    and tenant_frame: "db_frame w (snd (tsvc_GetByID S i w))" "db_frame w (snd (tsvc_GetBySlug S sl w))"
      "db_frame w (snd (tsvc_List S w))" "db_frame w (snd (tsvc_Create S t w))"

lemma filter_find: "filter p xs = y # ys \<Longrightarrow> find p xs = Some y" "filter p xs = [] \<Longrightarrow> find p xs = None"
  by (induction xs) (auto split: if_splits)

context postgres begin

lemma tenant_scan:
  assumes "pg_query E q w = (r, w')" and "pg_eval (w_now w) q (tabs (w_db w)) =
      (SqlTenants (filter p (tenants (tabs (w_db w)))), tabs (w_db w))"
    and "\<And>l off. q \<noteq> ListUsers l off" and "q \<noteq> ListTenants"
  shows "scanTenant r = Inr t \<Longrightarrow> find p (tenants (tabs (w_db w))) = Some t"
    and "scanTenant r = Inl e \<Longrightarrow> errors_Is ErrNoRows e \<Longrightarrow> find p (tenants (tabs (w_db w))) = None"
    and "scanTenant r = Inl e \<Longrightarrow> \<not> IsNotFound (Wrapf pre e)"
    and "tabs (w_db w') = tabs (w_db w)"
  using query_det [OF assms(1,3,4)] unfolding assms(2)
  by (auto simp: scanTenant_def is_defs split: sqlres.splits list.splits dest: filter_find)

lemmas tenant_scan_id = tenant_scan [where q = "SelectTenantByID i" and p = "\<lambda>v. t_ID v = i \<and> t_IsActive v" for i, simplified]
lemmas tenant_scan_slug = tenant_scan [where q = "SelectTenantBySlug sl" and p = "\<lambda>v. t_Slug v = sl \<and> t_IsActive v" for sl, simplified]

lemma impl_tenant_id:
  assumes "tenantRepository_FindByID E i w = (r, w')"
  shows "r = Inr t \<Longrightarrow> find_tenant (\<lambda>v. t_ID v = i) (tabs (w_db w)) = Some t"
    and "r = Inl e \<Longrightarrow> IsNotFound e \<Longrightarrow> find_tenant (\<lambda>v. t_ID v = i) (tabs (w_db w)) = None"
    and "tabs (w_db w') = tabs (w_db w)" and "db_frame w w'"
proof -
  obtain q w1 where q: "pg_query E (SelectTenantByID i) w = (q, w1)" by fastforce
  have "w1 = w'" using assms q by (auto simp: tenantRepository_FindByID_def split: sum.splits if_splits)
  then show "r = Inr t \<Longrightarrow> find_tenant (\<lambda>v. t_ID v = i) (tabs (w_db w)) = Some t"
    and "r = Inl e \<Longrightarrow> IsNotFound e \<Longrightarrow> find_tenant (\<lambda>v. t_ID v = i) (tabs (w_db w)) = None"
    and "tabs (w_db w') = tabs (w_db w)" and "db_frame w w'"
    using assms q tenant_scan_id [OF q] db_frameI [OF q]
    by (auto simp: tenantRepository_FindByID_def find_tenant_def split: sum.splits if_splits)
qed

lemma impl_tenant_slug:
  assumes "tenantRepository_FindBySlug E sl w = (r, w')"
  shows "r = Inr t \<Longrightarrow> find_tenant (\<lambda>v. t_Slug v = sl) (tabs (w_db w)) = Some t"
    and "r = Inl e \<Longrightarrow> IsNotFound e \<Longrightarrow> find_tenant (\<lambda>v. t_Slug v = sl) (tabs (w_db w)) = None"
    and "tabs (w_db w') = tabs (w_db w)" and "db_frame w w'"
proof -
  obtain q w1 where q: "pg_query E (SelectTenantBySlug sl) w = (q, w1)" by fastforce
  have "w1 = w'" using assms q by (auto simp: tenantRepository_FindBySlug_def split: sum.splits if_splits)
  then show "r = Inr t \<Longrightarrow> find_tenant (\<lambda>v. t_Slug v = sl) (tabs (w_db w)) = Some t"
    and "r = Inl e \<Longrightarrow> IsNotFound e \<Longrightarrow> find_tenant (\<lambda>v. t_Slug v = sl) (tabs (w_db w)) = None"
    and "tabs (w_db w') = tabs (w_db w)" and "db_frame w w'"
    using assms q tenant_scan_slug [OF q] db_frameI [OF q]
    by (auto simp: tenantRepository_FindBySlug_def find_tenant_def split: sum.splits if_splits)
qed

lemma impl_tenant_list:
  assumes "tenantRepository_List E w = (r, w')"
  shows "r = Inr ts \<Longrightarrow> mset ts = mset (filter t_IsActive (tenants (tabs (w_db w))))"
    and "tabs (w_db w') = tabs (w_db w)" and "db_frame w w'"
proof -
  obtain q w1 where q: "pg_query E ListTenants w = (q, w1)" by fastforce
  have "w1 = w'" using assms q by (auto simp: tenantRepository_List_def split: sqlres.splits)
  then show "r = Inr ts \<Longrightarrow> mset ts = mset (filter t_IsActive (tenants (tabs (w_db w))))"
    and "tabs (w_db w') = tabs (w_db w)" and "db_frame w w'"
    using assms q query_cases [OF q] db_frameI [OF q]
    by (auto simp: tenantRepository_List_def split: sqlres.splits)
qed

lemma impl_tenant_create:
  assumes "tenantRepository_Create E t w = (r, w')"
  shows "r = None \<Longrightarrow> t_Slug t \<notin> t_Slug ` set (tenants (tabs (w_db w))) \<and>
      (\<exists>t'. tenants (tabs (w_db w')) = tenants (tabs (w_db w)) @ [t'] \<and> t_Slug t' = t_Slug t \<and>
         t_IsActive t' = t_IsActive t) \<and>
      users (tabs (w_db w')) = users (tabs (w_db w))"
    and "r = Some e \<Longrightarrow> tabs (w_db w') = tabs (w_db w) \<or> t_Slug t \<notin> t_Slug ` set (tenants (tabs (w_db w))) \<and>
      (\<exists>t'. tenants (tabs (w_db w')) = tenants (tabs (w_db w)) @ [t'] \<and> t_Slug t' = t_Slug t \<and>
         t_IsActive t' = t_IsActive t) \<and>
      users (tabs (w_db w')) = users (tabs (w_db w))"
    and "db_frame w w'"
proof -
  obtain q w1 where q: "pg_query E (InsertTenant t) w = (q, w1)" by fastforce
  show "r = None \<Longrightarrow> t_Slug t \<notin> t_Slug ` set (tenants (tabs (w_db w))) \<and>
      (\<exists>t'. tenants (tabs (w_db w')) = tenants (tabs (w_db w)) @ [t'] \<and> t_Slug t' = t_Slug t \<and>
         t_IsActive t' = t_IsActive t) \<and>
      users (tabs (w_db w')) = users (tabs (w_db w))"
    and "r = Some e \<Longrightarrow> tabs (w_db w') = tabs (w_db w) \<or> t_Slug t \<notin> t_Slug ` set (tenants (tabs (w_db w))) \<and>
      (\<exists>t'. tenants (tabs (w_db w')) = tenants (tabs (w_db w)) @ [t'] \<and> t_Slug t' = t_Slug t \<and>
         t_IsActive t' = t_IsActive t) \<and>
      users (tabs (w_db w')) = users (tabs (w_db w))"
    and "db_frame w w'"
    using assms q query_det [OF q] db_frameI [OF q]
    by (auto simp: tenantRepository_Create_def split: if_splits)
qed

end

lemmas tenant_snd = prod.collapse [symmetric]

sublocale postgres \<subseteq> tenant: tenant_contract "NewTenantService (NewTenantRepository E)" "\<lambda>w. tabs (w_db w)"
  by (unfold_locales, unfold tenant_service_defs NewTenantRepository_def tenant_service.select_convs
      tenant_repository.select_convs)
    (erule impl_tenant_id(1) [OF _ refl] impl_tenant_slug(1) [OF _ refl] impl_tenant_list(1) [OF _ refl]
        impl_tenant_create(1,2) [OF _ refl]
      | erule (1) impl_tenant_id(2) [OF _ refl] impl_tenant_slug(2) [OF _ refl]
      | rule impl_tenant_id(3,4) [OF tenant_snd] impl_tenant_slug(3,4) [OF tenant_snd]
          impl_tenant_list(2,3) [OF tenant_snd] impl_tenant_create(3) [OF tenant_snd])+

end
