(* ===== verification/Cache_Repo.thy ===== *)
theory Cache_Repo
  imports Session_Contract
begin

text \<open>
  \<open>internal/repository/redis/cache.go\<close> and the interface \<open>CacheRepository\<close>: a JSON cache in Redis.  The Go
  methods take \<open>any\<close>; the model takes the encoding of the cached type into a JSON value and its decoding
  out of one, and the record is the interface at that type.
\<close>

record ('a, 'w) cache_repository =
  cache_SetJSON :: "string \<Rightarrow> 'a \<Rightarrow> int \<Rightarrow> 'w \<Rightarrow> goerr option \<times> 'w"
  cache_GetJSON :: "string \<Rightarrow> 'w \<Rightarrow> (goerr + 'a) \<times> 'w"
  cache_Delete :: "string list \<Rightarrow> 'w \<Rightarrow> goerr option \<times> 'w"
  cache_Exists :: "string \<Rightarrow> 'w \<Rightarrow> (goerr + bool) \<times> 'w"

definition cacheRepo_SetJSON ::
    "('s, 'd) env \<Rightarrow> ('a \<Rightarrow> json) \<Rightarrow> string \<Rightarrow> 'a \<Rightarrow> int \<Rightarrow> ('s, 'd) world \<Rightarrow> goerr option \<times> ('s, 'd) world" where
  "cacheRepo_SetJSON E enc key v ttl w =
     (case jsonText E (enc v) of
        None \<Rightarrow> (Some (Wrapf ''cache: marshal: '' (ExtErr ''unsupported value'')), w)
      | Some data \<Rightarrow>
          (let (e, w') = redis_err E (SET key data ttl) w in (wrap_err ''cache: set: '' e, w')))"

text \<open>A miss is \<open>redis.Nil\<close> itself; no error of \<open>Get\<close> is wrapped.\<close>

definition cacheRepo_GetJSON ::
    "('s, 'd) env \<Rightarrow> (json \<Rightarrow> 'a option) \<Rightarrow> string \<Rightarrow> ('s, 'd) world \<Rightarrow> (goerr + 'a) \<times> ('s, 'd) world" where
  "cacheRepo_GetJSON E dec key w =
     (case redis_do E (GET key) w of
        (Inl e, w') \<Rightarrow> (Inl e, w')
      | (Inr (RBulk data), w') \<Rightarrow>
          (case Option.bind (jsonParse E data) dec of
             Some v \<Rightarrow> (Inr v, w')
           | None \<Rightarrow> (Inl (Wrapf ''cache: unmarshal: '' (ExtErr ''invalid value'')), w'))
      | (Inr _, w') \<Rightarrow> (Inl (ExtErr ''unexpected reply''), w'))"

definition cacheRepo_Delete ::
    "('s, 'd) env \<Rightarrow> string list \<Rightarrow> ('s, 'd) world \<Rightarrow> goerr option \<times> ('s, 'd) world" where
  "cacheRepo_Delete E keys w =
     (let (e, w') = redis_err E (DEL keys) w in (wrap_err ''cache: delete: '' e, w'))"

definition cacheRepo_Exists ::
    "('s, 'd) env \<Rightarrow> string \<Rightarrow> ('s, 'd) world \<Rightarrow> (goerr + bool) \<times> ('s, 'd) world" where
  "cacheRepo_Exists E key w =
     (case redis_do E (EXISTS key) w of
        (Inl e, w') \<Rightarrow> (Inl (Wrapf ''cache: exists: '' e), w')
      | (Inr (RInt n), w') \<Rightarrow> (Inr (n > 0), w')
      | (Inr _, w') \<Rightarrow> (Inl (Wrapf ''cache: exists: '' (ExtErr ''unexpected reply'')), w'))"

definition NewCacheRepo ::
    "('s, 'd) env \<Rightarrow> ('a \<Rightarrow> json) \<Rightarrow> (json \<Rightarrow> 'a option) \<Rightarrow> ('a, ('s, 'd) world) cache_repository" where
  "NewCacheRepo E enc dec = \<lparr>
     cache_SetJSON = cacheRepo_SetJSON E enc,
     cache_GetJSON = cacheRepo_GetJSON E dec,
     cache_Delete = cacheRepo_Delete E,
     cache_Exists = cacheRepo_Exists E\<rparr>"

lemmas cache_defs = cacheRepo_SetJSON_def cacheRepo_GetJSON_def cacheRepo_Delete_def cacheRepo_Exists_def

section \<open>The contract\<close>

text \<open>
  \<open>cached w k\<close> is what a read of key \<open>k\<close> would decode.  \<open>good v\<close> says that \<open>v\<close> survives encoding, \<open>norm v\<close>
  what comes back (for users, the record without its hash).
\<close>

locale cache_contract =
  fixes C :: "('a, ('s, 'd) world) cache_repository"
    and cached :: "('s, 'd) world \<Rightarrow> string \<Rightarrow> 'a option"
    and norm :: "'a \<Rightarrow> 'a" and good :: "'a \<Rightarrow> bool"
  assumes get_ok: "cache_GetJSON C k w = (Inr v, w') \<Longrightarrow> cached w k = Some v"
    and get_view: "cached (snd (cache_GetJSON C k w)) = cached w"
    and get_frame: "only_redis w (snd (cache_GetJSON C k w))"
    and set_ok: "cache_SetJSON C k v d w = (None, w') \<Longrightarrow> good v \<Longrightarrow> cached w' = (cached w)(k \<mapsto> norm v)"
    and set_any: "good v \<Longrightarrow> cached (snd (cache_SetJSON C k v d w)) \<in> {cached w, (cached w)(k \<mapsto> norm v)}"
    and set_frame: "only_redis w (snd (cache_SetJSON C k v d w))"
    and delete_ok: "cache_Delete C [k] w = (None, w') \<Longrightarrow> cached w' = (cached w)(k := None)"
    and delete_any: "cached (snd (cache_Delete C [k] w)) \<in> {cached w, (cached w)(k := None)}"
    and delete_frame: "only_redis w (snd (cache_Delete C [k] w))"
    and cached_cong: "w_now w = w_now w' \<Longrightarrow> w_redis w = w_redis w' \<Longrightarrow> cached w = cached w'"
    and cached_later: "w_now w \<le> t \<Longrightarrow> cached (w\<lparr>w_now := t\<rparr>) k = Some v \<Longrightarrow> cached w k = Some v"

text \<open>What Redis holds for a key, decoded.\<close>

definition cache_view ::
    "('s, 'd) env \<Rightarrow> ('s \<Rightarrow> store) \<Rightarrow> (json \<Rightarrow> 'a option) \<Rightarrow> ('s, 'd) world \<Rightarrow> string \<Rightarrow> 'a option" where
  "cache_view E kv dec w k =
     Option.bind (live_str (w_now w) (kv (w_redis w)) k) (\<lambda>s. Option.bind (jsonParse E s) dec)"

definition encodes :: "'c codec_scheme \<Rightarrow> ('a \<Rightarrow> json) \<Rightarrow> (json \<Rightarrow> 'a option) \<Rightarrow> ('a \<Rightarrow> 'a) \<Rightarrow> 'a \<Rightarrow> bool" where
  "encodes C enc dec norm v \<longleftrightarrow>
     (\<exists>s. jsonText C (enc v) = Some s \<and> Option.bind (jsonParse C s) dec = Some (norm v))"

context redis_server begin

lemma cache_view_same:
  "kv (w_redis w') = kv (w_redis w) \<Longrightarrow> w_now w' = w_now w \<Longrightarrow> cache_view E kv dec w' = cache_view E kv dec w"
  by (intro ext) (simp add: cache_view_def)

lemma cache_view_step:
  assumes "only_redis w w'" and "\<And>j. j \<noteq> k \<Longrightarrow> kv (w_redis w') j = kv (w_redis w) j"
    and "live_str (w_now w) (kv (w_redis w')) k = x"
  shows "cache_view E kv dec w' =
    (cache_view E kv dec w)(k := Option.bind x (\<lambda>s. Option.bind (jsonParse E s) dec))"
proof (intro ext)
  fix j
  show "cache_view E kv dec w' j =
      ((cache_view E kv dec w)(k := Option.bind x (\<lambda>s. Option.bind (jsonParse E s) dec))) j"
    using assms(3) live_str_cong [of "kv (w_redis w')" j "kv (w_redis w)" "w_now w"] assms(2) [of j]
    by (cases "j = k") (simp_all add: cache_view_def only_redis_simps [OF assms(1)])
qed

lemma view_after_effect:
  assumes "redis_err E c w = (e, w')" and "cmd_keys c = {k}"
    and "live_str (w_now w) (snd (redis_step (w_now w) c (kv (w_redis w)))) k = x"
  shows "cache_view E kv dec w' = cache_view E kv dec w \<or>
    cache_view E kv dec w' = (cache_view E kv dec w)(k := Option.bind x (\<lambda>s. Option.bind (jsonParse E s) dec))"
proof -
  note now = only_redis_simps(1) [OF err_only [OF assms(1)]]
  from err_effect [OF assms(1)] consider "kv (w_redis w') = kv (w_redis w)"
    | "kv (w_redis w') = snd (redis_step (w_now w) c (kv (w_redis w)))" by auto
  then show ?thesis
  proof cases
    case 1
    then show ?thesis using cache_view_same now by blast
  next
    case 2
    with assms show ?thesis
      by (intro disjI2 cache_view_step [OF err_only [OF assms(1)] err_other [OF assms(1)]]) auto
  qed
qed

lemma view_after_ok:
  assumes "redis_err E c w = (None, w')" and "cmd_keys c = {k}"
    and "live_str (w_now w) (snd (redis_step (w_now w) c (kv (w_redis w)))) k = x"
  shows "cache_view E kv dec w' =
    (cache_view E kv dec w)(k := Option.bind x (\<lambda>s. Option.bind (jsonParse E s) dec))"
proof -
  from err_none [OF assms(1)] have "kv (w_redis w') = snd (redis_step (w_now w) c (kv (w_redis w)))"
    by (metis snd_conv)
  with assms show ?thesis
    by (intro cache_view_step [OF err_only [OF assms(1)] err_other [OF assms(1)]]) auto
qed

lemma del_live: "live_str t (snd (redis_step t (DEL [k]) st)) k = None"
  by (simp add: live_str_def live_def)

lemma impl_cache_get:
  "cacheRepo_GetJSON E dec k w = (Inr v, w') \<Longrightarrow> cache_view E kv dec w k = Some v"
  by (auto simp: cacheRepo_GetJSON_def cache_view_def dest!: get_bulk
      split: prod.splits sum.splits rreply.splits option.splits)

lemma impl_cache_get_view: "cache_view E kv dec (snd (cacheRepo_GetJSON E dec k w)) = cache_view E kv dec w"
proof -
  obtain r w' where d: "redis_do E (GET k) w = (r, w')" by fastforce
  have "snd (cacheRepo_GetJSON E dec k w) = w'"
    using d by (auto simp: cacheRepo_GetJSON_def split: sum.splits rreply.splits option.splits)
  moreover have "kv (w_redis w') = kv (w_redis w)" "w_now w' = w_now w"
    using do_effect [OF d] do_only [OF d] by (auto simp: step_reads only_redis_simps simp del: redis_step.simps)
  ultimately show ?thesis by (metis cache_view_same)
qed

lemma impl_cache_frames:
  "only_redis w (snd (cacheRepo_GetJSON E dec k w))" "only_redis w (snd (cacheRepo_SetJSON E enc k v d w))"
  "only_redis w (snd (cacheRepo_Delete E ks w))" "only_redis w (snd (cacheRepo_Exists E k w))"
  unfolding cache_defs Let_def
  by (auto simp: only_redis_def [of w w] dest: do_only err_only split: prod.splits sum.splits rreply.splits option.splits)

lemma impl_cache_delete_ok:
  "cacheRepo_Delete E [k] w = (None, w') \<Longrightarrow> cache_view E kv dec w' = (cache_view E kv dec w)(k := None)"
  using view_after_ok [of "DEL [k]" w w' k None] del_live
  by (simp add: cacheRepo_Delete_def wrap_err_def del: redis_step.simps split: prod.splits)

lemma impl_cache_delete_any:
  "cache_view E kv dec (snd (cacheRepo_Delete E [k] w)) \<in> {cache_view E kv dec w, (cache_view E kv dec w)(k := None)}"
proof -
  obtain e w' where e: "redis_err E (DEL [k]) w = (e, w')" by fastforce
  from view_after_effect [OF e _ del_live] e show ?thesis by (simp add: cacheRepo_Delete_def)
qed

lemma set_live:
  "live_str t (snd (redis_step t (SET k s d) st)) k = Some s"
  by (auto simp: live_str_def live_def)

lemma impl_cache_set_ok:
  assumes "cacheRepo_SetJSON E enc k v d w = (None, w')" and "encodes E enc dec norm v"
  shows "cache_view E kv dec w' = (cache_view E kv dec w)(k \<mapsto> norm v)"
proof -
  from assms(2) obtain s where s: "jsonText E (enc v) = Some s" "Option.bind (jsonParse E s) dec = Some (norm v)"
    by (auto simp: encodes_def)
  from assms(1) s(1) have "redis_err E (SET k s d) w = (None, w')"
    by (auto simp: cacheRepo_SetJSON_def wrap_err_def split: prod.splits)
  from view_after_ok [OF this _ set_live, where dec = dec] s(2) show ?thesis by simp
qed

lemma impl_cache_set_any:
  assumes "encodes E enc dec norm v"
  shows "cache_view E kv dec (snd (cacheRepo_SetJSON E enc k v d w)) \<in>
    {cache_view E kv dec w, (cache_view E kv dec w)(k \<mapsto> norm v)}"
proof -
  from assms obtain s where s: "jsonText E (enc v) = Some s" "Option.bind (jsonParse E s) dec = Some (norm v)"
    by (auto simp: encodes_def)
  obtain e w' where e: "redis_err E (SET k s d) w = (e, w')" by fastforce
  from view_after_effect [OF e _ set_live, where dec = dec] s e show ?thesis by (simp add: cacheRepo_SetJSON_def)
qed

lemma impl_cached_later:
  assumes "w_now w \<le> t" and "cache_view E kv dec (w\<lparr>w_now := t\<rparr>) k = Some v"
  shows "cache_view E kv dec w k = Some v"
proof -
  from assms(2) obtain s where s: "live_str t (kv (w_redis w)) k = Some s" "Option.bind (jsonParse E s) dec = Some v"
    by (auto simp: cache_view_def bind_eq_Some_conv)
  then have "live_str (w_now w) (kv (w_redis w)) k = Some s"
    using assms(1) by (auto simp: live_str_def live_def split: option.splits rval.splits if_splits)
  with s(2) show ?thesis by (simp add: cache_view_def)
qed

lemma cache_contract: "cache_contract (NewCacheRepo E enc dec) (cache_view E kv dec) norm (encodes E enc dec norm)"
  by (unfold_locales, unfold NewCacheRepo_def cache_repository.select_convs)
    (rule impl_cache_get_view impl_cache_frames impl_cache_delete_any
      | erule impl_cache_get impl_cache_delete_ok impl_cache_set_any
      | erule (1) impl_cache_set_ok
      | rule cache_view_same, simp, simp
      | erule (1) impl_cached_later)+

end

end
