(* ===== verification/User_Service.thy ===== *)
theory User_Service
  imports Repo_Decorators Cache_Repo
begin

text \<open>
  \<open>internal/service/user.go\<close>: the user service over a repository and an optional cache; the interface
  \<open>UserService\<close> is the record \<open>user_service\<close>.  Every method runs in a span, ended with its outcome; the
  logger of the context is the log of the world.
\<close>

record 'w user_service =
  svc_GetByID :: "uuid \<Rightarrow> 'w \<Rightarrow> (goerr + user) \<times> 'w"
  svc_GetByEmail :: "string \<Rightarrow> 'w \<Rightarrow> (goerr + user) \<times> 'w"
  svc_Create :: "string \<Rightarrow> string \<Rightarrow> string \<Rightarrow> 'w \<Rightarrow> (goerr + user) \<times> 'w"
  svc_List :: "int \<Rightarrow> int \<Rightarrow> 'w \<Rightarrow> (goerr + user_response list \<times> int) \<times> 'w"
  svc_Update :: "uuid \<Rightarrow> update_user_request \<Rightarrow> string \<Rightarrow> 'w \<Rightarrow> (goerr + user) \<times> 'w"
  svc_Delete :: "uuid \<Rightarrow> 'w \<Rightarrow> goerr option \<times> 'w"
  svc_UpdatePassword :: "uuid \<Rightarrow> string \<Rightarrow> 'w \<Rightarrow> goerr option \<times> 'w"

type_synonym ('s, 'd) user_cache = "(user, ('s, 'd) world) cache_repository option"

definition userCacheTTL :: int where
  "userCacheTTL = 5 * 60 * second"

definition userCacheKey :: "('s, 'd) env \<Rightarrow> uuid \<Rightarrow> string" where
  "userCacheKey E i = ''cache:user:'' @ uuidString E i"

definition cache_op :: "string \<Rightarrow> string \<Rightarrow> ('s, 'd) world \<Rightarrow> ('s, 'd) world" where
  "cache_op op result w = count_metric [''kleido_cache_operations_total'', op, result] w"

definition end_failed :: "string \<Rightarrow> (string \<times> string) list \<Rightarrow> goerr \<Rightarrow> ('s, 'd) world \<Rightarrow> ('s, 'd) world" where
  "end_failed name attrs e w = end_span (span_of name attrs (Some e)) w"

definition end_ok :: "string \<Rightarrow> (string \<times> string) list \<Rightarrow> ('s, 'd) world \<Rightarrow> ('s, 'd) world" where
  "end_ok name attrs w = end_span (span_of name attrs None) w"

definition end_unset :: "string \<Rightarrow> (string \<times> string) list \<Rightarrow> ('s, 'd) world \<Rightarrow> ('s, 'd) world" where
  "end_unset name attrs w = end_span \<lparr>sp_name = name, sp_attrs = attrs, sp_error = None, sp_status = Unset\<rparr> w"

section \<open>Reading\<close>

text \<open>The read-through part: a hit, or nothing after the outcome was counted.\<close>

definition cache_lookup ::
    "('s, 'd) user_cache \<Rightarrow> string \<Rightarrow> ('s, 'd) world \<Rightarrow> user option \<times> ('s, 'd) world" where
  "cache_lookup cache key w =
     (case cache of
        None \<Rightarrow> (None, w)
      | Some C \<Rightarrow>
          (case cache_GetJSON C key w of
             (Inr u, w1) \<Rightarrow> (Some u, cache_op ''get'' ''hit'' w1)
           | (Inl e, w1) \<Rightarrow>
               if errors_Is RedisNil e then (None, cache_op ''get'' ''miss'' w1)
               else (None, log_at LWarn ''cache get error'' [(''key'', key), (''error'', Error e)]
                       (cache_op ''get'' ''error'' w1))))"

definition cache_fill ::
    "('s, 'd) user_cache \<Rightarrow> string \<Rightarrow> user \<Rightarrow> ('s, 'd) world \<Rightarrow> ('s, 'd) world" where
  "cache_fill cache key u w =
     (case cache of
        None \<Rightarrow> w
      | Some C \<Rightarrow>
          (case cache_SetJSON C key u userCacheTTL w of
             (Some e, w1) \<Rightarrow> log_at LWarn ''cache set error'' [(''key'', key), (''error'', Error e)]
                               (cache_op ''set'' ''error'' w1)
           | (None, w1) \<Rightarrow> cache_op ''set'' ''ok'' w1))"

definition userService_GetByID ::
    "('s, 'd) env \<Rightarrow> ('s, 'd) world user_repository \<Rightarrow> ('s, 'd) user_cache \<Rightarrow> uuid \<Rightarrow> ('s, 'd) world \<Rightarrow>
     (goerr + user) \<times> ('s, 'd) world" where
  "userService_GetByID E repo cache i w =
     (let key = userCacheKey E i;
          attrs = [(''user.id'', uuidString E i)];
          (hit, w1) = cache_lookup cache key w
      in case hit of
           Some u \<Rightarrow> (Inr u, end_unset ''service/GetByID'' attrs w1)
         | None \<Rightarrow>
             (case repo_FindByID repo i w1 of
                (Inl e, w2) \<Rightarrow> (Inl e, end_failed ''service/GetByID'' attrs e w2)
              | (Inr u, w2) \<Rightarrow> (Inr u, end_ok ''service/GetByID'' attrs (cache_fill cache key u w2))))"

definition userService_GetByEmail ::
    "('s, 'd) world user_repository \<Rightarrow> string \<Rightarrow> ('s, 'd) world \<Rightarrow> (goerr + user) \<times> ('s, 'd) world" where
  "userService_GetByEmail repo m w = repo_FindByEmail repo m w"

section \<open>Writing\<close>

definition new_user :: "uuid \<Rightarrow> string \<Rightarrow> string \<Rightarrow> string \<Rightarrow> user" where
  "new_user i email hash role =
     zero_user\<lparr>u_ID := i, u_Email := email, u_PasswordHash := hash, u_Role := role, u_IsActive := True\<rparr>"

definition userService_Create ::
    "('s, 'd) env \<Rightarrow> ('s, 'd) world user_repository \<Rightarrow> string \<Rightarrow> string \<Rightarrow> string \<Rightarrow> ('s, 'd) world \<Rightarrow>
     (goerr + user) \<times> ('s, 'd) world" where
  "userService_Create E repo email password role w =
     (let (n, w1) = draw w
      in case bcryptGenerate E password 12 n of
           Inl e \<Rightarrow>
             (let appErr = Internal (Some (Wrapf ''hash password: '' e))
              in (Inl appErr, end_failed ''service/Create'' [] appErr w1))
         | Inr hash \<Rightarrow>
             (let (k, w2) = draw w1;
                  u = new_user (uuidNew E k) email hash role
              in case repo_Create repo u w2 of
                   (Some e, w3) \<Rightarrow> (Inl e, end_failed ''service/Create'' [] e w3)
                 | (None, w3) \<Rightarrow>
                     (Inr u, end_ok ''service/Create'' [(''user.id'', uuidString E (u_ID u))]
                        (log_at LInfo ''user created'' [(''user_id'', uuidString E (u_ID u))] w3))))"

text \<open>The invalidation after a write: a failure is logged and otherwise ignored.\<close>

definition cache_drop ::
    "('s, 'd) user_cache \<Rightarrow> string \<Rightarrow> string \<Rightarrow> ('s, 'd) world \<Rightarrow> ('s, 'd) world" where
  "cache_drop cache msg key w =
     (case cache of
        None \<Rightarrow> w
      | Some C \<Rightarrow>
          (case cache_Delete C [key] w of
             (Some e, w1) \<Rightarrow> log_at LWarn msg [(''key'', key), (''error'', Error e)] w1
           | (None, w1) \<Rightarrow> w1))"

text \<open>The patch: a field that is nil stays; the role changes only for an admin.\<close>

definition patch_user :: "update_user_request \<Rightarrow> string \<Rightarrow> user \<Rightarrow> user" where
  "patch_user req callerRole u =
     (let u1 = (case p_Email req of None \<Rightarrow> u | Some m \<Rightarrow> u\<lparr>u_Email := m\<rparr>);
          u2 = (case p_IsActive req of None \<Rightarrow> u1 | Some a \<Rightarrow> u1\<lparr>u_IsActive := a\<rparr>)
      in case p_Role req of
           None \<Rightarrow> u2
         | Some r \<Rightarrow> if callerRole \<noteq> ''admin'' then u2 else u2\<lparr>u_Role := r\<rparr>)"

definition userService_Update ::
    "('s, 'd) env \<Rightarrow> ('s, 'd) world user_repository \<Rightarrow> ('s, 'd) user_cache \<Rightarrow> uuid \<Rightarrow> update_user_request \<Rightarrow>
     string \<Rightarrow> ('s, 'd) world \<Rightarrow> (goerr + user) \<times> ('s, 'd) world" where
  "userService_Update E repo cache i req callerRole w =
     (let attrs = [(''user.id'', uuidString E i)]
      in case repo_FindByID repo i w of
           (Inl e, w1) \<Rightarrow> (Inl e, end_failed ''service/Update'' attrs e w1)
         | (Inr u0, w1) \<Rightarrow>
             (let u = patch_user req callerRole u0;
                  w2 = (if p_Role req \<noteq> None \<and> callerRole \<noteq> ''admin''
                        then log_at LDebug (''role change ignored '' @ em_dash @ '' caller is not admin'')
                               [(''user_id'', uuidString E i)] w1
                        else w1)
              in case repo_Update repo u w2 of
                   (Some e, w3) \<Rightarrow> (Inl e, end_failed ''service/Update'' attrs e w3)
                 | (None, w3) \<Rightarrow>
                     (Inr u, end_ok ''service/Update'' attrs
                        (cache_drop cache ''cache delete failed'' (userCacheKey E i) w3))))"

definition userService_Delete ::
    "('s, 'd) env \<Rightarrow> ('s, 'd) world user_repository \<Rightarrow> ('s, 'd) user_cache \<Rightarrow> uuid \<Rightarrow> ('s, 'd) world \<Rightarrow>
     goerr option \<times> ('s, 'd) world" where
  "userService_Delete E repo cache i w =
     (let attrs = [(''user.id'', uuidString E i)]
      in case repo_FindByID repo i w of
           (Inl e, w1) \<Rightarrow> (Some e, end_failed ''service/Delete'' attrs e w1)
         | (Inr _, w1) \<Rightarrow>
             (case repo_Delete repo i w1 of
                (Some e, w2) \<Rightarrow> (Some e, end_failed ''service/Delete'' attrs e w2)
              | (None, w2) \<Rightarrow>
                  (None, end_ok ''service/Delete'' attrs
                     (cache_drop cache ''cache delete failed'' (userCacheKey E i) w2))))"

definition userService_UpdatePassword ::
    "('s, 'd) env \<Rightarrow> ('s, 'd) world user_repository \<Rightarrow> ('s, 'd) user_cache \<Rightarrow> uuid \<Rightarrow> string \<Rightarrow> ('s, 'd) world \<Rightarrow>
     goerr option \<times> ('s, 'd) world" where
  "userService_UpdatePassword E repo cache i passwordHash w =
     (let attrs = [(''user.id'', uuidString E i)]
      in case repo_UpdatePassword repo i passwordHash w of
           (Some e, w1) \<Rightarrow> (Some e, end_failed ''service/UpdatePassword'' attrs e w1)
         | (None, w1) \<Rightarrow>
             (None, end_ok ''service/UpdatePassword'' attrs
                (cache_drop cache ''cache delete failed after password update'' (userCacheKey E i) w1)))"

definition userService_List ::
    "('s, 'd) world user_repository \<Rightarrow> int \<Rightarrow> int \<Rightarrow> ('s, 'd) world \<Rightarrow>
     (goerr + user_response list \<times> int) \<times> ('s, 'd) world" where
  "userService_List repo limit off w =
     (let attrs = [(''pagination.per_page'', itoa limit)]
      in case repo_List repo limit off w of
           (Inl e, w1) \<Rightarrow> (Inl e, end_failed ''service/List'' attrs e w1)
         | (Inr (us, cnt), w1) \<Rightarrow>
             (Inr (map User_ToResponse us, cnt), end_ok ''service/List'' attrs w1))"

definition NewUserService ::
    "('s, 'd) env \<Rightarrow> ('s, 'd) world user_repository \<Rightarrow> ('s, 'd) user_cache \<Rightarrow> ('s, 'd) world user_service" where
  "NewUserService E repo cache = \<lparr>
     svc_GetByID = userService_GetByID E repo cache,
     svc_GetByEmail = userService_GetByEmail repo,
     svc_Create = userService_Create E repo,
     svc_List = userService_List repo,
     svc_Update = userService_Update E repo cache,
     svc_Delete = userService_Delete E repo cache,
     svc_UpdatePassword = userService_UpdatePassword E repo cache\<rparr>"

lemmas user_service_defs = userService_GetByID_def userService_GetByEmail_def userService_Create_def
  userService_Update_def userService_Delete_def userService_UpdatePassword_def userService_List_def

lemmas end_defs = end_failed_def end_ok_def end_unset_def

end
