(* ===== verification/User_Service_Props.thy ===== *)
theory User_Service_Props
  imports User_Service
begin

text \<open>
  Properties of the user service, proved over the contracts of its two interfaces and then read off for
  the pgx and Redis implementations.  \<open>coherent\<close> says that every cached user is the current row without
  its hash; a read keeps it, a write whose invalidation is lost can break it, and so can two overlapping operations.
\<close>

definition user_cache_of :: "('s, 'd) env \<Rightarrow> (user, ('s, 'd) world) cache_repository" where
  "user_cache_of E = NewCacheRepo E (User_json E) (User_decode E)"

text \<open>The text forms of a document and of its identifiers and times read back what was written.\<close>

definition caches_well :: "('s, 'd) env \<Rightarrow> user \<Rightarrow> bool" where
  "caches_well E u \<longleftrightarrow> uuid_roundtrip E \<and> time_roundtrip E u \<and>
     (\<exists>s. jsonText E (User_json E u) = Some s \<and> jsonParse E s = Some (User_json E u))"

lemma caches_well_encodes: "caches_well E u \<Longrightarrow> encodes E (User_json E) (User_decode E) strip_hash u"
  by (auto simp: caches_well_def encodes_def User_decode_json)

lemma strip_hash_idem [simp]: "strip_hash (strip_hash u) = strip_hash u"
  by (simp add: strip_hash_def)

text \<open>Every cached user is an active row, without its hash.\<close>

definition cache_coherent ::
    "('s, 'd) env \<Rightarrow> (('s, 'd) world \<Rightarrow> tables) \<Rightarrow> (('s, 'd) world \<Rightarrow> string \<Rightarrow> user option) \<Rightarrow> ('s, 'd) world \<Rightarrow> bool"
  where
  "cache_coherent E T cached w \<longleftrightarrow> (\<forall>i v. cached w (userCacheKey E i) = Some v \<longrightarrow>
     (\<exists>u. user_by_id (T w) i = Some u \<and> u_IsActive u \<and> v = strip_hash u))"

text \<open>The cache answers every deletion.\<close>

definition deletes_work :: "('a, ('s, 'd) world) cache_repository \<Rightarrow> bool" where
  "deletes_work C \<longleftrightarrow> (\<forall>key v. fst (cache_Delete C [key] v) = None)"

lemma find_append: "find p (xs @ ys) = (case find p xs of None \<Rightarrow> find p ys | Some x \<Rightarrow> Some x)"
  by (induction xs) auto

section \<open>The service over any repository and cache\<close>

locale user_backend = repo: user_repo_contract R T + cache: cache_contract C cached strip_hash good
  for E :: "('s, 'd) env" and R :: "('s, 'd) world user_repository" and T :: "('s, 'd) world \<Rightarrow> tables"
    and C :: "(user, ('s, 'd) world) cache_repository" and cached :: "('s, 'd) world \<Rightarrow> string \<Rightarrow> user option"
    and good :: "user \<Rightarrow> bool"
begin

abbreviation coherent :: "('s, 'd) world \<Rightarrow> bool" where
  "coherent \<equiv> cache_coherent E T cached"

abbreviation drops_work :: bool where
  "drops_work \<equiv> deletes_work C"

lemmas coherent_def = cache_coherent_def [of E T cached]
lemmas drops_work_def = deletes_work_def [of C]

lemma quiet [simp]:
  "T (log_at l m as w) = T w" "T (count_metric k w) = T w" "T (end_span s w) = T w" "T (cache_op a b w) = T w"
  "cached (log_at l m as w) = cached w" "cached (count_metric k w) = cached w" "cached (end_span s w) = cached w"
  "cached (cache_op a b w) = cached w"
  by (auto simp: cache_op_def intro: repo.T_db cache.cached_cong)

lemma quiet_ends [simp]:
  "T (end_failed n as e w) = T w" "T (end_ok n as w) = T w" "T (end_unset n as w) = T w"
  "cached (end_failed n as e w) = cached w" "cached (end_ok n as w) = cached w" "cached (end_unset n as w) = cached w"
  by (simp_all add: end_defs)

lemma T_only_redis: "only_redis w w' \<Longrightarrow> T w' = T w"
  by (rule repo.T_db) (rule only_redis_simps)

lemma cached_frame: "db_frame w w' \<Longrightarrow> cached w' = cached w"
  by (rule cache.cached_cong) (simp_all add: db_frame_def)

lemma lookup_facts:
  assumes "cache_lookup (Some C) key w = (h, w1)"
  shows "T w1 = T w" and "cached w1 = cached w" and "w_now w1 = w_now w" and "h = Some v \<Longrightarrow> cached w key = Some v"
proof -
  obtain r w2 where g: "cache_GetJSON C key w = (r, w2)" by fastforce
  have fr: "only_redis w w2" "cached w2 = cached w"
    using cache.get_frame [of w key] cache.get_view [of key w] g by auto
  then show "T w1 = T w" and "cached w1 = cached w" and "w_now w1 = w_now w"
    using assms g T_only_redis [OF fr(1)] only_redis_simps(1) [OF fr(1)]
    by (auto simp: cache_lookup_def cache_op_def split: sum.splits if_splits)
  show "h = Some v \<Longrightarrow> cached w key = Some v"
    using assms g cache.get_ok [of key w _ w2] by (auto simp: cache_lookup_def split: sum.splits if_splits)
qed

lemma fill_facts:
  assumes "good u"
  shows "T (cache_fill (Some C) key u w) = T w"
    and "cached (cache_fill (Some C) key u w) \<in> {cached w, (cached w)(key \<mapsto> strip_hash u)}"
proof -
  obtain r w2 where s: "cache_SetJSON C key u userCacheTTL w = (r, w2)" by fastforce
  have fr: "only_redis w w2" "cached w2 \<in> {cached w, (cached w)(key \<mapsto> strip_hash u)}"
    using cache.set_frame [of w key u userCacheTTL] cache.set_any [OF assms, of key userCacheTTL w] s by auto
  then show "T (cache_fill (Some C) key u w) = T w"
    and "cached (cache_fill (Some C) key u w) \<in> {cached w, (cached w)(key \<mapsto> strip_hash u)}"
    using s T_only_redis [OF fr(1)] by (auto simp: cache_fill_def split: option.splits)
qed

lemma drop_facts:
  shows "T (cache_drop (Some C) msg key w) = T w"
    and "cached (cache_drop (Some C) msg key w) \<in> {cached w, (cached w)(key := None)}"
    and "fst (cache_Delete C [key] w) = None \<Longrightarrow> cached (cache_drop (Some C) msg key w) = (cached w)(key := None)"
proof -
  obtain r w2 where d: "cache_Delete C [key] w = (r, w2)" by fastforce
  have fr: "only_redis w w2" "cached w2 \<in> {cached w, (cached w)(key := None)}"
    using cache.delete_frame [of w key] cache.delete_any [of key w] d by auto
  then show "T (cache_drop (Some C) msg key w) = T w"
    and "cached (cache_drop (Some C) msg key w) \<in> {cached w, (cached w)(key := None)}"
    using d T_only_redis [OF fr(1)] by (auto simp: cache_drop_def split: option.splits)
  show "fst (cache_Delete C [key] w) = None \<Longrightarrow> cached (cache_drop (Some C) msg key w) = (cached w)(key := None)"
    using d cache.delete_ok [of key w w2] by (simp add: cache_drop_def)
qed

lemma userCacheKey_inj: "uuid_roundtrip E \<Longrightarrow> userCacheKey E i = userCacheKey E j \<longleftrightarrow> i = j"
  unfolding userCacheKey_def uuid_roundtrip_def by (metis option.inject same_append_eq)

text \<open>A read returns the current row and keeps the cache coherent.\<close>

lemma get_by_id:
  assumes "userService_GetByID E R (Some C) i w = (r, w')" and "coherent w" and "tables_ok (T w)"
    and "uuid_roundtrip E" and "\<forall>u \<in> set (users (T w)). good u"
  shows "r = Inr u \<Longrightarrow> \<exists>v. user_by_id (T w) i = Some v \<and> u_IsActive v \<and> strip_hash u = strip_hash v"
    and "coherent w'" and "T w' = T w"
proof -
  let ?k = "userCacheKey E i"
  obtain h w1 where l: "cache_lookup (Some C) ?k w = (h, w1)" by fastforce
  note lf = lookup_facts [OF l]
  obtain q w2 where f: "repo_FindByID R i w1 = (q, w2)" by fastforce
  have T2: "T w2 = T w" and c2: "cached w2 = cached w"
    using repo.find_view [of i w1] f lf cached_frame [OF repo.repo_frame(2) [of w1 i]] by auto
  have found: "user_by_id (T w) i = Some v \<and> u_IsActive v" if "q = Inr v" for v
    using repo.find_ok [of i w1 v w2] f that lf(1) assms(3) by simp
  show "r = Inr u \<Longrightarrow> \<exists>v. user_by_id (T w) i = Some v \<and> u_IsActive v \<and> strip_hash u = strip_hash v"
  proof (cases h)
    case None
    assume "r = Inr u"
    with None assms(1) l f have "q = Inr u" by (auto simp: userService_GetByID_def Let_def split: sum.splits)
    with found show ?thesis by blast
  next
    case (Some v)
    assume "r = Inr u"
    with Some assms(1) l have "v = u" by (simp add: userService_GetByID_def)
    with lf(4) [OF Some] assms(2) show ?thesis unfolding coherent_def by (metis strip_hash_idem)
  qed
  have fill: "T (cache_fill (Some C) ?k v w2) = T w"
    "cached (cache_fill (Some C) ?k v w2) \<in> {cached w, (cached w)(?k \<mapsto> strip_hash v)}" if "q = Inr v" for v
    using fill_facts [of v ?k w2] found [OF that] assms(5) user_by_id_Some [of "T w" i v] T2 c2 by auto
  show "T w' = T w"
    using assms(1) l f lf T2 fill by (auto simp: userService_GetByID_def Let_def split: option.splits sum.splits)
  have eff: "cached w' = cached w \<or> (\<exists>v. q = Inr v \<and> cached w' = (cached w)(?k \<mapsto> strip_hash v))"
    using assms(1) l f lf c2 fill by (auto simp: userService_GetByID_def Let_def split: option.splits sum.splits)
  then show "coherent w'"
    using assms(2) found userCacheKey_inj [OF assms(4)] \<open>T w' = T w\<close>
    by (auto simp: coherent_def split: if_splits)
qed

lemma after_drop:
  "T (cache_drop (Some C) m (userCacheKey E i) w) = T w"
  "drops_work \<Longrightarrow> cached (cache_drop (Some C) m (userCacheKey E i) w) = (cached w)(userCacheKey E i := None)"
  using drop_facts by (simp_all add: drops_work_def)

lemma patch_id [simp]: "u_ID (patch_user req role u) = u_ID u"
  by (simp add: patch_user_def Let_def split: option.splits)

lemma patch_hash [simp]: "u_PasswordHash (patch_user req role u) = u_PasswordHash u"
  by (simp add: patch_user_def Let_def split: option.splits)

lemma patch_role: "role \<noteq> ''admin'' \<Longrightarrow> u_Role (patch_user req role u) = u_Role u"
  by (simp add: patch_user_def Let_def split: option.splits)

lemma updated_id [simp]: "u_ID (updated_row t u v) = u_ID v" "u_ID (password_row t h v) = u_ID v"
  "u_ID (deleted_row t v) = u_ID v"
  by (simp_all add: updated_row_def password_row_def deleted_row_def)

text \<open>What an update does to the tables, by its outcome.\<close>

lemma update_effect:
  assumes "userService_Update E R (Some C) i req role w = (r, w')" and "tables_ok (T w)"
  obtains "T w' = T w" and "\<exists>e. r = Inl e" and "cached w' = cached w"
  | u where "user_by_id (T w) i = Some u" and "u_IsActive u"
    and "update_violation (T w) i (u_Email (patch_user req role u)) (u_Role (patch_user req role u)) = None"
    and "T w' = map_user i (updated_row (w_now w) (patch_user req role u)) (T w)"
    and "r = Inr (patch_user req role u) \<or> (\<exists>e. r = Inl e)"
    and "r = Inr (patch_user req role u) \<Longrightarrow> drops_work \<Longrightarrow> cached w' = (cached w)(userCacheKey E i := None)"
proof -
  obtain q w1 where f: "repo_FindByID R i w = (q, w1)" by fastforce
  have T1: "T w1 = T w" "db_frame w w1" "cached w1 = cached w"
    using repo.find_view [of i w] repo.repo_frame(2) [of w i] f cached_frame by auto
  show thesis
  proof (cases q)
    case (Inl e)
    with assms(1) f T1 have "T w' = T w" "r = Inl e" "cached w' = cached w"
      by (auto simp: userService_Update_def)
    then show thesis using that(1) by blast
  next
    case (Inr u)
    have u: "user_by_id (T w) i = Some u" "u_IsActive u"
      using repo.find_ok [of i w u w1] f Inr assms(2) by simp_all
    then have id: "u_ID u = i" using user_by_id_Some by metis
    define w2 where "w2 = (if p_Role req \<noteq> None \<and> role \<noteq> ''admin''
        then log_at LDebug (''role change ignored '' @ em_dash @ '' caller is not admin'') [(''user_id'', uuidString E i)] w1
        else w1)"
    have w2: "T w2 = T w" "cached w2 = cached w" "w_now w2 = w_now w"
      using T1 by (simp_all add: w2_def db_frame_def)
    obtain e w3 where up: "repo_Update R (patch_user req role u) w2 = (e, w3)" by fastforce
    have c3: "cached w3 = cached w"
      using repo.repo_frame(4) [of w2 "patch_user req role u"] up cached_frame w2(2) by fastforce
    show thesis
    proof (cases e)
      case (Some err)
      then have r: "r = Inl err" "T w' = T w3" "cached w' = cached w"
        using assms(1) f Inr up c3 by (auto simp: userService_Update_def w2_def)
      from repo.update_fail [of "patch_user req role u" w2 err w3] up Some w2 id
      consider "T w3 = T w" | "T w3 = map_user i (updated_row (w_now w) (patch_user req role u)) (T w)"
        "update_violation (T w) i (u_Email (patch_user req role u)) (u_Role (patch_user req role u)) = None" by auto
      then show thesis
      proof cases
        case 1
        with r that(1) show thesis by auto
      next
        case 2
        with r that(2) [OF u] show thesis by auto
      qed
    next
      case None
      let ?w' = "cache_drop (Some C) ''cache delete failed'' (userCacheKey E i) w3"
      have r: "r = Inr (patch_user req role u)" "T w' = T w3" "cached w' = cached ?w'"
        using assms(1) f Inr up None by (auto simp: userService_Update_def w2_def after_drop(1))
      from repo.update_ok [of "patch_user req role u" w2 w3] up None w2 id
      have "T w3 = map_user i (updated_row (w_now w) (patch_user req role u)) (T w)"
        "update_violation (T w) i (u_Email (patch_user req role u)) (u_Role (patch_user req role u)) = None" by auto
      with r that(2) [OF u] after_drop(2) [of _ i w3] c3 show thesis by auto
    qed
  qed
qed

text \<open>Deletion and password change.\<close>

lemma delete_effect:
  assumes "userService_Delete E R (Some C) i w = (None, w')" and "tables_ok (T w)"
  shows "T w' = map_user i (deleted_row (w_now w)) (T w)" and "\<exists>u. user_by_id (T w) i = Some u \<and> u_IsActive u"
    and "drops_work \<Longrightarrow> cached w' = (cached w)(userCacheKey E i := None)"
proof -
  obtain q w1 where f: "repo_FindByID R i w = (q, w1)" by fastforce
  have T1: "T w1 = T w" "cached w1 = cached w" "w_now w1 = w_now w"
    using repo.find_view [of i w] repo.repo_frame(2) [of w i] f cached_frame [of w w1] by (auto simp: db_frame_def)
  obtain e w2 where d: "repo_Delete R i w1 = (e, w2)" by fastforce
  have c2: "cached w2 = cached w"
    using repo.repo_frame(6) [of w1 i] d cached_frame [of w1 w2] T1 by simp
  obtain u where ok: "q = Inr u" "e = None"
    using assms(1) f d by (auto simp: userService_Delete_def Let_def split: sum.splits option.splits)
  have r: "T w' = T w2" "drops_work \<Longrightarrow> cached w' = (cached w)(userCacheKey E i := None)"
    using assms(1) f d ok c2 by (auto simp: userService_Delete_def after_drop)
  show "T w' = map_user i (deleted_row (w_now w)) (T w)"
    using repo.delete_ok [of i w1 w2] d ok r T1 by simp
  show "\<exists>u. user_by_id (T w) i = Some u \<and> u_IsActive u"
    using repo.find_ok [of i w u w1] f ok assms(2) by simp
  show "drops_work \<Longrightarrow> cached w' = (cached w)(userCacheKey E i := None)" by (rule r(2))
qed

lemma password_effect:
  assumes "userService_UpdatePassword E R (Some C) i h w = (None, w')"
  shows "T w' = map_user i (password_row (w_now w) h) (T w)"
    and "drops_work \<Longrightarrow> cached w' = (cached w)(userCacheKey E i := None)"
proof -
  obtain e w1 where p: "repo_UpdatePassword R i h w = (e, w1)" by fastforce
  have c1: "cached w1 = cached w"
    using repo.repo_frame(5) [of w i h] p cached_frame [of w w1] by simp
  have ok: "e = None" using assms p by (auto simp: userService_UpdatePassword_def Let_def split: option.splits)
  have r: "T w' = T w1" "drops_work \<Longrightarrow> cached w' = (cached w)(userCacheKey E i := None)"
    using assms p ok c1 by (auto simp: userService_UpdatePassword_def after_drop)
  show "T w' = map_user i (password_row (w_now w) h) (T w)"
    using repo.password_ok [of i h w w1] p ok r by simp
  show "drops_work \<Longrightarrow> cached w' = (cached w)(userCacheKey E i := None)" by (rule r(2))
qed

text \<open>Creation.\<close>

lemma draw_simps: "draw w = (n, w1) \<Longrightarrow> n = w_rand w \<and> w1 = w\<lparr>w_rand := Suc (w_rand w)\<rparr>"
  by (auto simp: draw_def)

lemma T_draw: "draw w = (n, w1) \<Longrightarrow> T w1 = T w \<and> cached w1 = cached w \<and> w_now w1 = w_now w"
  using repo.T_db [of w1 w] cache.cached_cong [of w1 w] by (auto simp: draw_def)

lemma create_effect:
  assumes "userService_Create E R m pw role w = (Inr u, w')"
  shows "insert_violation (T w) u = None" and "T w' = (T w)\<lparr>users := users (T w) @ [stored_user u]\<rparr>"
    and "cached w' = cached w"
    and "\<exists>h n k. u = new_user (uuidNew E k) m h role \<and> bcryptGenerate E pw 12 n = Inr h"
proof -
  obtain n w1 where d1: "draw w = (n, w1)" by fastforce
  obtain k w2 where d2: "draw w1 = (k, w2)" by fastforce
  obtain h where h: "bcryptGenerate E pw 12 n = Inr h"
    using assms d1 by (auto simp: userService_Create_def Let_def split: sum.splits)
  let ?u = "new_user (uuidNew E k) m h role"
  obtain e w3 where c: "repo_Create R ?u w2 = (e, w3)" by fastforce
  have ok: "e = None" "u = ?u"
    using assms d1 d2 h c by (auto simp: userService_Create_def Let_def split: option.splits)
  have eff: "T w' = T w3" "cached w' = cached w3"
    using assms d1 d2 h c ok by (auto simp: userService_Create_def Let_def)
  have T2: "T w2 = T w" "cached w2 = cached w" using T_draw [OF d1] T_draw [OF d2] by auto
  from repo.create_ok [of ?u w2 w3] c ok T2
  show "insert_violation (T w) u = None" and "T w' = (T w)\<lparr>users := users (T w) @ [stored_user u]\<rparr>"
    by (simp_all add: eff)
  show "cached w' = cached w"
    using repo.repo_frame(1) [of w2 ?u] c cached_frame [of w2 w3] T2 by (simp add: eff)
  show "\<exists>h n k. u = new_user (uuidNew E k) m h role \<and> bcryptGenerate E pw 12 n = Inr h"
    using ok h by blast
qed

lemma user_by_id_insert:
  "u_ID u \<notin> u_ID ` set (users X) \<Longrightarrow>
   user_by_id (X\<lparr>users := users X @ [u]\<rparr>) j = (if j = u_ID u then Some u else user_by_id X j)"
proof (cases "j = u_ID u")
  case True
  assume "u_ID u \<notin> u_ID ` set (users X)"
  then have "find (\<lambda>v. u_ID v = u_ID u) (users X) = None"
    unfolding find_None_iff by (metis image_eqI)
  with True show ?thesis by (simp add: user_by_id_def find_append)
next
  case False
  then show ?thesis by (simp add: user_by_id_def find_append split: option.splits)
qed

text \<open>An update never touches another user, a password hash, or (for a caller who is no admin) a role,
  whatever its outcome.\<close>

lemma update_guard:
  assumes "userService_Update E R (Some C) i req role w = (r, w')" and "tables_ok (T w)"
  shows "j \<noteq> i \<Longrightarrow> user_by_id (T w') j = user_by_id (T w) j"
    and "map_option u_PasswordHash (user_by_id (T w') j) = map_option u_PasswordHash (user_by_id (T w) j)"
    and "role \<noteq> ''admin'' \<Longrightarrow> map_option u_Role (user_by_id (T w') j) = map_option u_Role (user_by_id (T w) j)"
proof -
  have *: "(j \<noteq> i \<longrightarrow> user_by_id (T w') j = user_by_id (T w) j) \<and>
    map_option u_PasswordHash (user_by_id (T w') j) = map_option u_PasswordHash (user_by_id (T w) j) \<and>
    (role \<noteq> ''admin'' \<longrightarrow> map_option u_Role (user_by_id (T w') j) = map_option u_Role (user_by_id (T w) j))"
    using assms
  proof (rule update_effect, goal_cases)
    case 1
    then show ?case by simp
  next
    case (2 u)
    note m = user_by_id_map_user [of "updated_row (w_now w) (patch_user req role u)" i "T w" j, OF updated_id(1)]
    have k: "u_ID v = j" if "user_by_id (T w) j = Some v" for v using user_by_id_Some [OF that] by simp
    show ?case unfolding 2(4) m
      using k 2(1) by (cases "user_by_id (T w) j") (auto simp: updated_row_def patch_role)
  qed
  from * show "j \<noteq> i \<Longrightarrow> user_by_id (T w') j = user_by_id (T w) j" by blast
  from * show "map_option u_PasswordHash (user_by_id (T w') j) = map_option u_PasswordHash (user_by_id (T w) j)" by blast
  from * show "role \<noteq> ''admin'' \<Longrightarrow> map_option u_Role (user_by_id (T w') j) = map_option u_Role (user_by_id (T w) j)"
    by blast
qed

text \<open>Where an answer of \<open>GetByID\<close> comes from.\<close>

lemma get_source:
  assumes "userService_GetByID E R (Some C) i w = (Inr u, w')" and "tables_ok (T w)"
  shows "cached w (userCacheKey E i) = Some u \<or> (user_by_id (T w) i = Some u \<and> u_IsActive u)"
proof -
  obtain h w1 where l: "cache_lookup (Some C) (userCacheKey E i) w = (h, w1)" by fastforce
  obtain q w2 where f: "repo_FindByID R i w1 = (q, w2)" by fastforce
  show ?thesis
  proof (cases h)
    case None
    with assms(1) l f have "q = Inr u" by (auto simp: userService_GetByID_def Let_def split: sum.splits)
    with repo.find_ok [of i w1 u w2] f lookup_facts(1) [OF l] assms(2) show ?thesis by simp
  next
    case (Some v)
    with assms(1) l have "v = u" by (simp add: userService_GetByID_def)
    with lookup_facts(4) [OF l Some] show ?thesis by simp
  qed
qed

lemma list_effect:
  assumes "userService_List R l off w = (Inr (rs, cnt), w')"
  shows "\<exists>ys. mset ys = mset (users (T w)) \<and> sorted_wrt (\<lambda>a b. u_CreatedAt b \<le> u_CreatedAt a) ys \<and>
      rs = map User_ToResponse (take (nat l) (drop (nat off) ys))"
    and "cnt = int (length (users (T w)))" and "0 \<le> l \<and> 0 \<le> off" and "T w' = T w"
proof -
  obtain q w1 where q: "repo_List R l off w = (q, w1)" by fastforce
  obtain us where us: "q = Inr (us, cnt)" "rs = map User_ToResponse us" "T w' = T w1"
    using assms q by (auto simp: userService_List_def Let_def split: sum.splits)
  from repo.list_ok [of l off w us cnt w1] q us(1) have ok: "0 \<le> l \<and> 0 \<le> off" "cnt = int (length (users (T w)))"
    "page_of_users l off (users (T w)) us" by auto
  from ok(3) us(2) show "\<exists>ys. mset ys = mset (users (T w)) \<and>
      sorted_wrt (\<lambda>a b. u_CreatedAt b \<le> u_CreatedAt a) ys \<and>
      rs = map User_ToResponse (take (nat l) (drop (nat off) ys))"
    unfolding page_of_users_def by (auto simp: comp_def)
  from ok show "cnt = int (length (users (T w)))" "0 \<le> l \<and> 0 \<le> off" by auto
  show "T w' = T w" using repo.list_view [of l off w] q us(3) by simp
qed

end

section \<open>The service that main builds\<close>

definition main_userSvc :: "('s, 'd) env \<Rightarrow> ('s, 'd) world user_service" where
  "main_userSvc E = NewUserService E (main_userRepo E) (Some (user_cache_of E))"

sublocale backend \<subseteq> users: user_backend E "main_userRepo E" "\<lambda>w. tabs (w_db w)" "user_cache_of E"
    "cache_view E kv (User_decode E)" "encodes E (User_json E) (User_decode E) strip_hash"
  unfolding user_backend_def user_cache_of_def
  by (intro conjI repo.user_repo_contract_axioms cache_contract)

text \<open>The tables and the cache as a client sees them.\<close>

definition rows :: "('d \<Rightarrow> tables) \<Rightarrow> ('s, 'd) world \<Rightarrow> tables" where
  "rows tabs w = tabs (w_db w)"

definition coherent :: "('s, 'd) env \<Rightarrow> ('s \<Rightarrow> store) \<Rightarrow> ('d \<Rightarrow> tables) \<Rightarrow> ('s, 'd) world \<Rightarrow> bool" where
  "coherent E kv tabs w \<longleftrightarrow> cache_coherent E (rows tabs) (cache_view E kv (User_decode E)) w"

lemma rows_eta: "rows tabs = (\<lambda>w. tabs (w_db w))"
  by (simp add: rows_def fun_eq_iff)

lemmas main_ops = main_userSvc_def NewUserService_def user_service.select_convs

context backend begin

lemma deletes_up: "redis_up E \<Longrightarrow> deletes_work (user_cache_of E)"
proof -
  assume up: "redis_up E"
  have "fst (redis_err E (DEL [key]) v) = None" for key v
  proof -
    obtain rs s' where x: "redisExec E (w_now v) [DEL [key]] (w_redis v) = (Inr rs, s')"
      using up unfolding redis_up_def by blast
    from exec_ok [OF this] obtain n where "rs = [RInt n]" by auto
    with x show ?thesis
      by (simp add: redis_err_def redis_do_def redis_exec_def nth_reply_def reply_error_def)
  qed
  then show ?thesis
    by (simp add: deletes_work_def user_cache_of_def NewCacheRepo_def cacheRepo_Delete_def wrap_err_def split_beta)
qed

lemma answer_source:
  "svc_GetByID (main_userSvc E) i w = (Inr u, w') \<Longrightarrow> tables_ok (rows tabs w) \<Longrightarrow>
   cache_view E kv (User_decode E) w (userCacheKey E i) = Some u \<or> (user_by_id (rows tabs w) i = Some u \<and> u_IsActive u)"
  using users.get_source [of i w u w'] by (simp add: main_ops rows_def)

lemma get_current:
  assumes "svc_GetByID (main_userSvc E) i w = (Inr u, w')" and "uuid_roundtrip E" and "coherent E kv tabs w"
    and "tables_ok (rows tabs w)" and "\<forall>u \<in> set (users (rows tabs w)). caches_well E u"
  shows "\<exists>v. user_by_id (rows tabs w) i = Some v \<and> u_IsActive v \<and> strip_hash u = strip_hash v \<and>
    User_ToResponse u = User_ToResponse v \<and> rows tabs w' = rows tabs w"
proof -
  have good: "\<forall>u \<in> set (users (tabs (w_db w))). encodes E (User_json E) (User_decode E) strip_hash u"
    using assms(5) caches_well_encodes by (auto simp: rows_def)
  have coh: "users.coherent w" "tables_ok (tabs (w_db w))"
    using assms(3,4) by (simp_all add: coherent_def rows_def rows_eta)
  note g = users.get_by_id [OF assms(1) [unfolded main_ops] coh assms(2) good]
  from g(1) [OF refl] g(3) show ?thesis
    unfolding rows_def by (metis ToResponse_strip_hash)
qed

end

end
