(* ===== verification/User_Props.thy ===== *)
theory User_Props
  imports User_Service_Props
begin

text \<open>
  The properties of the user service as \<open>main\<close> builds it: over the decorated pgx repository and the
  Redis cache, on every pair of servers that act as documented.
\<close>

text \<open>A user for the witnesses.\<close>

definition ref_user :: "uuid \<Rightarrow> string \<Rightarrow> string \<Rightarrow> user" where
  "ref_user i m role = \<lparr>u_ID = i, u_TenantID = None, u_Email = m, u_PasswordHash = ''$2a$secret99'', u_Role = role,
     u_IsActive = True, u_CreatedAt = 0, u_UpdatedAt = 0\<rparr>"

definition ref_tables :: tables where
  "ref_tables = \<lparr>users = [ref_user 5 ''a@b.c'' ''user'', ref_user 6 ''x@y.z'' ''admin''], tenants = []\<rparr>"

lemma ref_tables_ok: "tables_ok ref_tables"
  by (simp add: tables_ok_def ref_tables_def ref_user_def roles_def)

lemma ref_empty_cache: "coherent ref_up_env fst fst (ref_world t X [] [])"
  by (simp add: coherent_def cache_coherent_def cache_view_def ref_world_def live_str_def live_def)


lemma ref_rows [simp]: "rows fst (ref_world t X a b) = X"
  by (simp add: rows_def ref_world_def)

definition json_survives :: "('s, 'd) env \<Rightarrow> user \<Rightarrow> bool" where
  "json_survives E u \<longleftrightarrow> (case jsonText E (User_json E u) of None \<Rightarrow> False
     | Some s \<Rightarrow> jsonParse E s = Some (User_json E u))"

lemma ref_json_survives: "list_all (json_survives ref_up_env) (users ref_tables)"
  by code_simp

lemma ref_caches_well: "\<forall>u \<in> set (users ref_tables). caches_well ref_up_env u"
proof
  fix u assume "u \<in> set (users ref_tables)"
  then have "json_survives ref_up_env u" using ref_json_survives by (simp add: list_all_iff)
  then have "\<exists>s. jsonText ref_up_env (User_json ref_up_env u) = Some s \<and>
      jsonParse ref_up_env s = Some (User_json ref_up_env u)"
    unfolding json_survives_def by (cases "jsonText ref_up_env (User_json ref_up_env u)") (simp_all only: option.case, blast)
  moreover have "time_roundtrip ref_up_env u" by (simp add: time_roundtrip_def ref_up_env_def)
  ultimately show "caches_well ref_up_env u" using ref_up_uuid_roundtrip by (simp only: caches_well_def)
qed

text \<open>
  A read returns the present: on a coherent cache, a user that \<open>GetByID\<close> returns, from the cache or
  from the database, is the active row with that identifier, equal in every field but the password hash.
\<close>

theorem get_returns_current_row:
  assumes "backend E kv tabs" and "uuid_roundtrip E" and "coherent E kv tabs w" and "tables_ok (rows tabs w)"
    and "\<forall>u \<in> set (users (rows tabs w)). caches_well E u"
    and "svc_GetByID (main_userSvc E) i w = (Inr u, w')"
  shows "\<exists>v. user_by_id (rows tabs w) i = Some v \<and> u_IsActive v \<and> strip_hash u = strip_hash v \<and>
    User_ToResponse u = User_ToResponse v \<and> rows tabs w' = rows tabs w"
  by (rule backend.get_current [OF assms(1) assms(6) assms(2-5)])

theorem get_returns_current_row_witness:
  "let (r, w') = svc_GetByID (main_userSvc ref_up_env) 5 (ref_world 0 ref_tables [] []);
       (r2, w2) = svc_GetByID (main_userSvc ref_up_env) 5 w'
   in case r of Inl _ \<Rightarrow> False | Inr u \<Rightarrow> User_ToResponse u = User_ToResponse (ref_user 5 ''a@b.c'' ''user'')"
proof -
  define w where "w = ref_world 0 ref_tables [] []"
  obtain r w' where g: "svc_GetByID (main_userSvc ref_up_env) 5 w = (r, w')" by fastforce
  have "\<not> isl (fst (svc_GetByID (main_userSvc ref_up_env) 5 w))" unfolding w_def by code_simp
  with g obtain u where r: "r = Inr u" by (cases r) auto
  have side: "coherent ref_up_env fst fst w" "tables_ok (rows fst w)"
    "\<forall>u \<in> set (users (rows fst w)). caches_well ref_up_env u"
    "user_by_id (rows fst w) 5 = Some (ref_user 5 ''a@b.c'' ''user'')"
    unfolding w_def using ref_empty_cache ref_tables_ok ref_caches_well
    by (simp_all add: user_by_id_def ref_tables_def ref_user_def)
  from get_returns_current_row [OF reference_up.backend_axioms ref_up_uuid_roundtrip side(1-3) g [unfolded r]] side(4)
  show ?thesis unfolding w_def [symmetric] Let_def g r by (auto split: prod.splits)
qed

end
