(* ===== verification/User_Writes.thy ===== *)
theory User_Writes
  imports User_Props
begin

text \<open>
  What creations, updates, deletions and listings of the user service do to the tables, and the race of a
  read with an update that leaves a stale cache entry.
\<close>

context backend begin

lemma main_update_guard:
  assumes "svc_Update (main_userSvc E) i req role w = (r, w')" and "tables_ok (rows tabs w)"
  shows "(j \<noteq> i \<longrightarrow> user_by_id (rows tabs w') j = user_by_id (rows tabs w) j) \<and>
    map_option u_PasswordHash (user_by_id (rows tabs w') j) = map_option u_PasswordHash (user_by_id (rows tabs w) j) \<and>
    (role \<noteq> ''admin'' \<longrightarrow> map_option u_Role (user_by_id (rows tabs w') j) = map_option u_Role (user_by_id (rows tabs w) j))"
  using users.update_guard [OF assms(1) [unfolded main_ops], where j = j] assms(2) by (simp add: rows_def)

lemma main_delete_hides:
  assumes "svc_Delete (main_userSvc E) i w = (None, w')" and "tables_ok (rows tabs w)" and "redis_up E"
    and "w_now w' \<le> t"
  shows "\<exists>e. fst (svc_GetByID (main_userSvc E) i (w'\<lparr>w_now := t\<rparr>)) = Inl e"
    and "\<exists>u. user_by_id (rows tabs w) i = Some u \<and> u_IsActive u \<and>
      user_by_id (rows tabs w') i = Some (deleted_row (w_now w) u)"
proof -
  have ok: "tables_ok (tabs (w_db w))" using assms(2) by (simp add: rows_def)
  note eff = users.delete_effect [OF assms(1) [unfolded main_ops] ok]
  from eff(2) obtain u where u: "user_by_id (tabs (w_db w)) i = Some u" "u_IsActive u" by blast
  have "u_ID u = i" using user_by_id_Some [OF u(1)] by simp
  then have row: "user_by_id (tabs (w_db w')) i = Some (deleted_row (w_now w) u)"
    using u(1) by (simp add: eff(1) user_by_id_map_user users.updated_id)
  with u show "\<exists>u. user_by_id (rows tabs w) i = Some u \<and> u_IsActive u \<and>
      user_by_id (rows tabs w') i = Some (deleted_row (w_now w) u)"
    by (auto simp: rows_def)
  have ok': "tables_ok (tabs (w_db w'))"
    unfolding eff(1) by (rule tables_ok_same_keys [OF _ ok]) (simp add: deleted_row_def)
  let ?w = "w'\<lparr>w_now := t\<rparr>"
  show "\<exists>e. fst (svc_GetByID (main_userSvc E) i ?w) = Inl e"
  proof (cases "fst (svc_GetByID (main_userSvc E) i ?w)")
    case (Inr v)
    then have g: "userService_GetByID E (main_userRepo E) (Some (user_cache_of E)) i ?w =
        (Inr v, snd (svc_GetByID (main_userSvc E) i ?w))"
      by (simp add: main_ops prod_eq_iff)
    from users.get_source [OF g] ok' have
      "cache_view E kv (User_decode E) ?w (userCacheKey E i) = Some v \<or> user_by_id (tabs (w_db w')) i = Some v \<and> u_IsActive v"
      by simp
    then show ?thesis
    proof
      assume "cache_view E kv (User_decode E) ?w (userCacheKey E i) = Some v"
      from users.cache.cached_later [OF assms(4) this] eff(3) [OF deletes_up [OF assms(3)]] show ?thesis by simp
    next
      assume "user_by_id (tabs (w_db w')) i = Some v \<and> u_IsActive v"
      with row show ?thesis by (simp add: deleted_row_def)
    qed
  qed simp
qed

lemma main_create:
  assumes "svc_Create (main_userSvc E) m pw role w = (Inr u, w')" and "tables_ok (rows tabs w)"
  shows "m \<notin> u_Email ` set (users (rows tabs w)) \<and> u_Email u = m \<and> u_Role u = role \<and> role \<in> set roles \<and>
    u_IsActive u \<and> (\<exists>n. bcryptGenerate E pw 12 n = Inr (u_PasswordHash u)) \<and>
    rows tabs w' = (rows tabs w)\<lparr>users := users (rows tabs w) @ [stored_user u]\<rparr> \<and>
    u_CreatedAt u = time_zero \<and> u_UpdatedAt u = time_zero"
proof -
  note c = users.create_effect [OF assms(1) [unfolded main_ops]]
  from c(4) obtain h n k where u: "u = new_user (uuidNew E k) m h role" "bcryptGenerate E pw 12 n = Inr h" by blast
  from c(1) have "role \<in> set roles" "m \<notin> u_Email ` set (users (rows tabs w))"
    unfolding insert_violation_def u(1) by (auto simp: new_user_def rows_def split: if_splits)
  then show ?thesis using c(2) u by (simp add: new_user_def zero_user_def rows_def) blast
qed

lemma main_list:
  assumes "svc_List (main_userSvc E) l off w = (Inr (rs, cnt), w')"
  shows "\<exists>ys. mset ys = mset (users (rows tabs w)) \<and> sorted_wrt (\<lambda>a b. u_CreatedAt b \<le> u_CreatedAt a) ys \<and>
      rs = map User_ToResponse (take (nat l) (drop (nat off) ys)) \<and> cnt = int (length ys) \<and>
      int (length rs) \<le> l"
proof -
  note l = users.list_effect [OF assms [unfolded main_ops]]
  from l(1) obtain ys where ys: "mset ys = mset (users (rows tabs w))"
    "sorted_wrt (\<lambda>a b. u_CreatedAt b \<le> u_CreatedAt a) ys" "rs = map User_ToResponse (take (nat l) (drop (nat off) ys))"
    by (auto simp: rows_def)
  have "length ys = length (users (rows tabs w))" using ys(1) by (rule mset_eq_length)
  moreover have "length rs \<le> nat l" using ys(3) by simp
  then have "int (length rs) \<le> l" using l(3) by linarith
  ultimately show ?thesis using ys l(2) by (intro exI [of _ ys]) (simp add: rows_def)
qed

end

text \<open>
  Authority of an update: whatever its outcome, \<open>Update\<close> changes no row but the one it names, never a
  password hash, and, for a caller who is not an admin, no role.
\<close>

theorem update_respects_authority:
  assumes "backend E kv tabs" and "tables_ok (rows tabs w)"
    and "svc_Update (main_userSvc E) i req role w = (r, w')"
  shows "(\<forall>j. j \<noteq> i \<longrightarrow> user_by_id (rows tabs w') j = user_by_id (rows tabs w) j) \<and>
    (\<forall>j. map_option u_PasswordHash (user_by_id (rows tabs w') j) =
         map_option u_PasswordHash (user_by_id (rows tabs w) j)) \<and>
    (role \<noteq> ''admin'' \<longrightarrow>
       (\<forall>j. map_option u_Role (user_by_id (rows tabs w') j) = map_option u_Role (user_by_id (rows tabs w) j)))"
  using backend.main_update_guard [OF assms(1,3,2)] by blast

definition become_admin :: update_user_request where
  "become_admin = \<lparr>p_Email = Some ''new@b.c'', p_Role = Some ''admin'', p_IsActive = None\<rparr>"

theorem update_respects_authority_witness:
  "let (r, w') = svc_Update (main_userSvc ref_up_env) 5 become_admin ''user'' (ref_world 7 ref_tables [] [])
   in user_by_id (rows fst w') 5 =
        Some ((ref_user 5 ''new@b.c'' ''user'')\<lparr>u_UpdatedAt := 0\<rparr>) \<and>
      user_by_id (rows fst w') 6 = user_by_id ref_tables 6"
proof -
  define w where "w = ref_world 7 ref_tables [] []"
  obtain r w' where u: "svc_Update (main_userSvc ref_up_env) 5 become_admin ''user'' w = (r, w')" by fastforce
  have "tables_ok (rows fst w)" unfolding w_def by (simp add: ref_tables_ok)
  from update_respects_authority [OF reference_up.backend_axioms this u]
  have "user_by_id (rows fst w') 6 = user_by_id (rows fst w) 6" by simp
  moreover have "user_by_id (rows fst (snd (svc_Update (main_userSvc ref_up_env) 5 become_admin ''user'' w))) 5 =
      Some ((ref_user 5 ''new@b.c'' ''user'')\<lparr>u_UpdatedAt := 0\<rparr>)"
    unfolding w_def by code_simp
  ultimately show ?thesis unfolding w_def [symmetric] Let_def u by (simp add: u w_def)
qed

text \<open>
  A deleted user is gone for readers and not from the table: after a successful deletion, with Redis answering,
  \<open>GetByID\<close> fails at every later time until something else is written; the row itself stays,
  deactivated, with its email and password hash.
\<close>

theorem delete_hides_user:
  assumes "backend E kv tabs" and "tables_ok (rows tabs w)" and "redis_up E"
    and "svc_Delete (main_userSvc E) i w = (None, w')"
  shows "(\<forall>t. w_now w' \<le> t \<longrightarrow> (\<exists>e. fst (svc_GetByID (main_userSvc E) i (w'\<lparr>w_now := t\<rparr>)) = Inl e)) \<and>
    (\<exists>u. user_by_id (rows tabs w) i = Some u \<and> u_IsActive u \<and>
       user_by_id (rows tabs w') i = Some (u\<lparr>u_IsActive := False, u_UpdatedAt := to_us (w_now w)\<rparr>))"
  using backend.main_delete_hides [OF assms(1,4,2,3)] by (auto simp: deleted_row_def)

theorem delete_hides_user_witness:
  "let w = ref_world 0 ref_tables [] [];
       w' = snd (svc_Delete (main_userSvc ref_up_env) 5 w)
   in (\<exists>e. fst (svc_GetByID (main_userSvc ref_up_env) 5 (w'\<lparr>w_now := 9\<rparr>)) = Inl e) \<and>
      map_option u_IsActive (user_by_email (rows fst w') ''a@b.c'') = Some False"
proof -
  define w where "w = ref_world 0 ref_tables [] []"
  define w' where "w' = snd (svc_Delete (main_userSvc ref_up_env) 5 w)"
  have f: "fst (svc_Delete (main_userSvc ref_up_env) 5 w) = None" "w_now w' \<le> 9" "rows fst w = ref_tables"
    "map_option u_IsActive (user_by_email (rows fst w') ''a@b.c'') = Some False"
    unfolding w'_def w_def by code_simp+
  then have d: "svc_Delete (main_userSvc ref_up_env) 5 w = (None, w')" by (simp add: w'_def prod_eq_iff)
  have "tables_ok (rows fst w)" using f(3) ref_tables_ok by simp
  from delete_hides_user [OF reference_up.backend_axioms this ref_redis_up d] f(2,4)
  show ?thesis unfolding w_def [symmetric] w'_def [symmetric] Let_def by blast
qed

text \<open>
  Creation stores what was asked for: when \<open>Create\<close> succeeds the address was free, the row appended to the
  table has that address and role, is active and carries a bcrypt hash of cost 12 of the password; its
  two timestamps are the zero time of Go, not the present.
\<close>

theorem create_appends_row:
  assumes "backend E kv tabs" and "tables_ok (rows tabs w)"
    and "svc_Create (main_userSvc E) m pw role w = (Inr u, w')"
  shows "m \<notin> u_Email ` set (users (rows tabs w)) \<and> u_Email u = m \<and> u_Role u = role \<and> role \<in> set roles \<and>
    u_IsActive u \<and> (\<exists>n. bcryptGenerate E pw 12 n = Inr (u_PasswordHash u)) \<and>
    rows tabs w' = (rows tabs w)\<lparr>users := users (rows tabs w) @ [stored_user u]\<rparr> \<and>
    u_CreatedAt u = time_zero \<and> u_UpdatedAt u = time_zero"
  by (rule backend.main_create [OF assms(1,3,2)])

theorem create_appends_row_witness:
  "let (r, w') = svc_Create (main_userSvc ref_env) ''n@b.c'' ''hunter22'' ''user'' (ref_world 0 ref_tables [] [])
   in length (users (rows fst w')) = 3 \<and> (\<forall>u. r = Inr u \<longrightarrow> u_CreatedAt u = time_zero)"
proof -
  define w where "w = ref_world 0 ref_tables [] []"
  obtain r w' where c: "svc_Create (main_userSvc ref_env) ''n@b.c'' ''hunter22'' ''user'' w = (r, w')" by fastforce
  have "\<not> isl (fst (svc_Create (main_userSvc ref_env) ''n@b.c'' ''hunter22'' ''user'' w))"
    unfolding w_def by code_simp
  with c obtain u where r: "r = Inr u" by (cases r) auto
  have w: "tables_ok (rows fst w)" "length (users (rows fst w)) = 2"
    unfolding w_def using ref_tables_ok by (simp_all add: ref_tables_def)
  from create_appends_row [OF reference.backend_axioms w(1) c [unfolded r]] w(2)
  show ?thesis unfolding w_def [symmetric] Let_def c r by simp
qed

text \<open>
  A page of users: \<open>List\<close> returns, of some ordering of all users (deleted ones included) by descending
  creation time, the rows from \<open>offset\<close> on, at most \<open>limit\<close> of them and as public responses, with the
  number of all users as the total.
\<close>

theorem list_returns_page:
  assumes "backend E kv tabs" and "svc_List (main_userSvc E) l off w = (Inr (rs, cnt), w')"
  shows "\<exists>ys. mset ys = mset (users (rows tabs w)) \<and> sorted_wrt (\<lambda>a b. u_CreatedAt b \<le> u_CreatedAt a) ys \<and>
      rs = map User_ToResponse (take (nat l) (drop (nat off) ys)) \<and> cnt = int (length ys) \<and> int (length rs) \<le> l"
  by (rule backend.main_list [OF assms])

theorem list_returns_page_witness:
  "let (r, w') = svc_List (main_userSvc ref_env) 1 1 (ref_world 0 ref_tables [] [])
   in case r of Inl _ \<Rightarrow> False | Inr (rs, cnt) \<Rightarrow> length rs \<le> 1 \<and> cnt = 2"
proof -
  define w where "w = ref_world 0 ref_tables [] []"
  obtain r w' where c: "svc_List (main_userSvc ref_env) 1 1 w = (r, w')" by fastforce
  have "\<not> isl (fst (svc_List (main_userSvc ref_env) 1 1 w))" unfolding w_def by code_simp
  with c obtain rs cnt where r: "r = Inr (rs, cnt)" by (cases r) auto
  from list_returns_page [OF reference.backend_axioms c [unfolded r]] obtain ys where
    "mset ys = mset (users (rows fst w))" "cnt = int (length ys)" "int (length rs) \<le> 1" by blast
  moreover have "length ys = 2"
    using mset_eq_length [OF calculation(1)] by (simp add: w_def ref_tables_def)
  ultimately show ?thesis unfolding w_def [symmetric] Let_def c r by simp
qed

section \<open>A read and an update that overlap\<close>

text \<open>Where a call of \<open>GetByID\<close> has got to: before the cache, after a miss, with the row in hand, done.\<close>

datatype reader = Start | Missed | Fetched user | Done user

text \<open>The three steps of a reader that misses the cache, and one whole update at any moment between them.\<close>

inductive race_step ::
    "('s, 'd) env \<Rightarrow> uuid \<Rightarrow> update_user_request \<Rightarrow> reader \<times> bool \<times> ('s, 'd) world \<Rightarrow>
     reader \<times> bool \<times> ('s, 'd) world \<Rightarrow> bool"
  for E i req where
  miss: "cache_lookup (Some (user_cache_of E)) (userCacheKey E i) w = (None, w') \<Longrightarrow>
    race_step E i req (Start, b, w) (Missed, b, w')"
| fetch: "repo_FindByID (main_userRepo E) i w = (Inr u, w') \<Longrightarrow>
    race_step E i req (Missed, b, w) (Fetched u, b, w')"
| fill: "race_step E i req (Fetched u, b, w)
    (Done u, b, cache_fill (Some (user_cache_of E)) (userCacheKey E i) u w)"
| overwrite: "svc_Update (main_userSvc E) i req ''admin'' w = (r, w') \<Longrightarrow>
    race_step E i req (p, False, w) (p, True, w')"

text \<open>The reader's steps are those of \<open>GetByID\<close>.\<close>

lemma GetByID_steps:
  assumes "cache_lookup (Some (user_cache_of E)) (userCacheKey E i) w = (None, w1)"
    and "repo_FindByID (main_userRepo E) i w1 = (Inr u, w2)"
  shows "svc_GetByID (main_userSvc E) i w =
    (Inr u, end_ok ''service/GetByID'' [(''user.id'', uuidString E i)]
       (cache_fill (Some (user_cache_of E)) (userCacheKey E i) u w2))"
  using assms by (simp add: main_ops userService_GetByID_def Let_def)

definition demote :: update_user_request where
  "demote = \<lparr>p_Email = None, p_Role = Some ''user'', p_IsActive = None\<rparr>"

definition race_lookup :: "(ref_redis, ref_db) world" where
  "race_lookup = snd (cache_lookup (Some (user_cache_of ref_up_env)) (userCacheKey ref_up_env 6) (ref_world 0 ref_tables [] []))"

definition race_fetch :: "(ref_redis, ref_db) world" where
  "race_fetch = snd (repo_FindByID (main_userRepo ref_up_env) 6 race_lookup)"

definition race_update :: "(ref_redis, ref_db) world" where
  "race_update = snd (svc_Update (main_userSvc ref_up_env) 6 demote ''admin'' race_fetch)"

definition race_fill :: "(ref_redis, ref_db) world" where
  "race_fill = cache_fill (Some (user_cache_of ref_up_env)) (userCacheKey ref_up_env 6)
     (ref_user 6 ''x@y.z'' ''admin'') race_update"

lemma race_facts:
  "fst (cache_lookup (Some (user_cache_of ref_up_env)) (userCacheKey ref_up_env 6) (ref_world 0 ref_tables [] [])) = None"
  "fst (repo_FindByID (main_userRepo ref_up_env) 6 race_lookup) = Inr (ref_user 6 ''x@y.z'' ''admin'')"
  by code_simp+

lemma race_end:
  "map_option u_Role (user_by_id (rows fst race_fill) 6) = Some ''user'' \<and>
   map_option u_Role (cache_view ref_up_env fst (User_decode ref_up_env) race_fill ''cache:user:6'') = Some ''admin''"
  by code_simp

lemma race_run:
  "(race_step ref_up_env 6 demote)\<^sup>*\<^sup>* (Start, False, ref_world 0 ref_tables [] [])
     (Done (ref_user 6 ''x@y.z'' ''admin''), True, race_fill)"
proof -
  let ?S = "race_step ref_up_env 6 demote" and ?u = "ref_user 6 ''x@y.z'' ''admin''"
  have "?S (Start, False, ref_world 0 ref_tables [] []) (Missed, False, race_lookup)"
    by (rule race_step.miss) (simp add: race_lookup_def prod_eq_iff race_facts(1))
  moreover have "?S (Missed, False, race_lookup) (Fetched ?u, False, race_fetch)"
    by (rule race_step.fetch) (simp add: race_fetch_def prod_eq_iff race_facts(2))
  moreover have "?S (Fetched ?u, False, race_fetch) (Fetched ?u, True, race_update)"
    by (rule race_step.overwrite [where r = "fst (svc_Update (main_userSvc ref_up_env) 6 demote ''admin'' race_fetch)"])
      (simp add: race_update_def)
  moreover have "?S (Fetched ?u, True, race_update) (Done ?u, True, race_fill)"
    unfolding race_fill_def by (rule race_step.fill)
  ultimately show ?thesis by (meson converse_rtranclp_into_rtranclp rtranclp.rtrancl_refl)
qed

text \<open>
  A stale role survives a demotion: the update of a user, run while a read of the same user is between its
  database query and its cache write, can leave the old row in the cache: from a coherent state the
  overlap ends with the role \<open>user\<close> in the database and \<open>admin\<close> in the cache (where it is served until
  the entry's five minutes are over).
\<close>

theorem stale_role_after_race:
  "\<exists>w u w'. coherent ref_up_env fst fst w \<and> tables_ok (rows fst w) \<and>
     (race_step ref_up_env 6 demote)\<^sup>*\<^sup>* (Start, False, w) (Done u, True, w') \<and>
     map_option u_Role (user_by_id (rows fst w') 6) = Some ''user'' \<and>
     map_option u_Role (cache_view ref_up_env fst (User_decode ref_up_env) w' ''cache:user:6'') = Some ''admin''"
  using race_run race_end ref_empty_cache ref_tables_ok by (metis ref_rows)

end
