(* ===== verification/Reqctx.thy ===== *)
theory Reqctx
  imports Runtime
begin

text \<open>
  \<open>internal/reqctx\<close>: the request metadata kept in the context, here fields of \<open>rctx\<close>; and the parts of
  \<open>internal/logger\<close> that decide what reaches the log: the redaction of sensitive attributes and the level
  threshold.
\<close>

definition WithIP :: "rctx \<Rightarrow> string \<Rightarrow> rctx" where
  "WithIP c ip = c\<lparr>c_ip := Some ip\<rparr>"

definition IPFromContext :: "rctx \<Rightarrow> string" where
  "IPFromContext c = (case c_ip c of None \<Rightarrow> [] | Some ip \<Rightarrow> ip)"

definition WithUserAgent :: "rctx \<Rightarrow> string \<Rightarrow> rctx" where
  "WithUserAgent c ua = c\<lparr>c_ua := Some ua\<rparr>"

definition UserAgentFromContext :: "rctx \<Rightarrow> string" where
  "UserAgentFromContext c = (case c_ua c of None \<Rightarrow> [] | Some ua \<Rightarrow> ua)"

definition WithTenantID :: "rctx \<Rightarrow> uuid \<Rightarrow> rctx" where
  "WithTenantID c i = c\<lparr>c_tenantID := Some i\<rparr>"

definition TenantIDFromContext :: "rctx \<Rightarrow> uuid" where
  "TenantIDFromContext c = (case c_tenantID c of None \<Rightarrow> uuid_Nil | Some i \<Rightarrow> i)"

lemmas reqctx_defs = WithIP_def IPFromContext_def WithUserAgent_def UserAgentFromContext_def
  WithTenantID_def TenantIDFromContext_def

section \<open>The logger\<close>

definition redactedKeys :: "string list" where
  "redactedKeys = [''password'', ''token'', ''secret'', ''authorization'', ''api_key'', ''refresh_token'',
     ''credit_card'', ''ssn'']"

text \<open>The model's attributes are strings, so none is a \<open>LogValuer\<close>.\<close>

definition replaceAttr :: "string \<times> string \<Rightarrow> string \<times> string" where
  "replaceAttr a = (if ToLower (fst a) \<in> set redactedKeys then (fst a, ''[REDACTED]'') else a)"

definition level_rank :: "level \<Rightarrow> int" where
  "level_rank l = (case l of LDebug \<Rightarrow> - 4 | LInfo \<Rightarrow> 0 | LWarn \<Rightarrow> 4 | LError \<Rightarrow> 8)"

text \<open>Levels are ordered by their numbers in package slog.\<close>

instantiation level :: linorder
begin

definition less_eq_level :: "level \<Rightarrow> level \<Rightarrow> bool" where
  "less_eq_level a b \<longleftrightarrow> level_rank a \<le> level_rank b"

definition less_level :: "level \<Rightarrow> level \<Rightarrow> bool" where
  "less_level a b \<longleftrightarrow> level_rank a < level_rank b"

instance
  by standard (auto simp: less_eq_level_def less_level_def level_rank_def split: level.splits)

end

definition parse_level :: "string \<Rightarrow> level" where
  "parse_level s =
     (let l = ToLower s
      in if l = ''debug'' then LDebug else if l = ''warn'' then LWarn else if l = ''error'' then LError else LInfo)"

record logger_config =
  lg_level :: level
  lg_text :: bool
  lg_source :: bool
  lg_base :: "(string \<times> string) list"

definition logger_New :: "string \<Rightarrow> string \<Rightarrow> string \<Rightarrow> string \<Rightarrow> logger_config" where
  "logger_New level env serviceName version =
     (let isDev = (ToLower env = ''development'')
      in \<lparr>lg_level = parse_level level, lg_text = isDev, lg_source = \<not> isDev,
          lg_base = [(''service'', serviceName), (''version'', version), (''env'', env)]\<rparr>)"

text \<open>What a handler writes for a record: nothing below its level; else the base attributes and the
  record's, redacted.\<close>

definition emit :: "logger_config \<Rightarrow> logline \<Rightarrow> logline option" where
  "emit L r =
     (if l_level r < lg_level L then None
      else Some (r\<lparr>l_attrs := map replaceAttr (lg_base L @ l_attrs r)\<rparr>))"

text \<open>
  Redaction: whatever a record carries, no attribute whose key is (in any letter case) one of the
  sensitive keys leaves the logger with its value, and every other attribute is written as it is.
\<close>

theorem emit_redacts:
  assumes "emit L r = Some out"
  shows "(\<forall>(k, v) \<in> set (l_attrs out). ToLower k \<in> set redactedKeys \<longrightarrow> v = ''[REDACTED]'') \<and>
    (\<forall>(k, v) \<in> set (l_attrs r). ToLower k \<notin> set redactedKeys \<longrightarrow> (k, v) \<in> set (l_attrs out)) \<and>
    lg_level L \<le> l_level out"
proof -
  have out: "l_attrs out = map replaceAttr (lg_base L @ l_attrs r)" "l_level out = l_level r"
    "lg_level L \<le> l_level r"
    using assms by (auto simp: emit_def split: if_splits)
  have "replaceAttr (k, v) = (k, v)" if "ToLower k \<notin> set redactedKeys" for k v
    using that by (simp add: replaceAttr_def)
  with out show ?thesis
    by (auto simp: replaceAttr_def image_iff split: if_splits)
qed

theorem emit_redacts_witness:
  "case emit (logger_New ''INFO'' ''production'' ''kleido'' ''1'')
       \<lparr>l_level = LWarn, l_msg = ''m'', l_attrs = [(''Refresh_Token'', ''abc''), (''user'', ''bob'')]\<rparr> of
     None \<Rightarrow> False
   | Some out \<Rightarrow> (\<forall>(k, v) \<in> set (l_attrs out). ToLower k \<in> set redactedKeys \<longrightarrow> v = ''[REDACTED]'') \<and>
       (''user'', ''bob'') \<in> set (l_attrs out)"
proof -
  let ?r = "\<lparr>l_level = LWarn, l_msg = ''m'', l_attrs = [(''Refresh_Token'', ''abc''), (''user'', ''bob'')]\<rparr>"
  have e: "emit (logger_New ''INFO'' ''production'' ''kleido'' ''1'') ?r \<noteq> None"
    "ToLower ''user'' \<notin> set redactedKeys"
    by code_simp+
  then obtain out where o: "emit (logger_New ''INFO'' ''production'' ''kleido'' ''1'') ?r = Some out" by blast
  from emit_redacts [OF o] e(2) show ?thesis unfolding o by auto
qed

end
