(* ===== verification/Jwt.thy ===== *)
theory Jwt
  imports Reference_Env
begin

text \<open>
  \<open>internal/auth/jwt.go\<close> and \<open>keys.go\<close>: issuing and verifying access tokens, and the opaque random tokens
  used for refresh and password reset.  Signing and parsing belong to the package golang-jwt, the
  fields \<open>jwtSign\<close> and \<open>jwtParse\<close> of the environment; the locale \<open>jwt_library\<close> states what its
  documentation promises.
\<close>

section \<open>Base64url\<close>

definition b64_alphabet :: string where
  "b64_alphabet = ''ABCDEFGHIJKLMNOPQRSTUVWXYZabcdefghijklmnopqrstuvwxyz0123456789-_''"

definition b64_char :: "nat \<Rightarrow> char" where
  "b64_char n = b64_alphabet ! n"

text \<open>\<open>base64.RawURLEncoding.EncodeToString\<close>: no padding.\<close>

fun RawURLEncoding :: "8 word list \<Rightarrow> string" where
  "RawURLEncoding [] = []"
| "RawURLEncoding [a] = [b64_char (unat a div 4), b64_char (unat a mod 4 * 16)]"
| "RawURLEncoding [a, b] =
     [b64_char (unat a div 4), b64_char (unat a mod 4 * 16 + unat b div 16), b64_char (unat b mod 16 * 4)]"
| "RawURLEncoding (a # b # c # bs) =
     [b64_char (unat a div 4), b64_char (unat a mod 4 * 16 + unat b div 16),
      b64_char (unat b mod 16 * 4 + unat c div 64), b64_char (unat c mod 64)] @ RawURLEncoding bs"

lemma b64_length: "length b64_alphabet = 64" "distinct b64_alphabet"
  by code_simp+

lemma b64_char_inj: "m < 64 \<Longrightarrow> n < 64 \<Longrightarrow> b64_char m = b64_char n \<longleftrightarrow> m = n"
  using b64_length by (simp add: b64_char_def nth_eq_iff_index_eq)

lemma unat_byte: "unat (b :: 8 word) < 256"
  by (rule order_less_le_trans [OF unsigned_less]) simp

lemma byte_parts:
  "unat (a :: 8 word) div 4 < 64" "unat (a :: 8 word) mod 4 * 16 < 64"
  "unat (a :: 8 word) mod 4 * 16 + unat (b :: 8 word) div 16 < 64" "unat (b :: 8 word) mod 16 * 4 < 64"
  "unat (b :: 8 word) mod 16 * 4 + unat (c :: 8 word) div 64 < 64" "unat (c :: 8 word) mod 64 < 64"
  using unat_byte [of a] unat_byte [of b] unat_byte [of c] by linarith+

lemma length_RawURLEncoding: "length (RawURLEncoding bs) = (length bs * 4 + 2) div 3"
  by (induction bs rule: RawURLEncoding.induct) auto

text \<open>The digits of a group determine its bytes.\<close>

lemma div_mod_eqI: "(m :: nat) div k = m' div k \<Longrightarrow> m mod k = m' mod k \<Longrightarrow> m = m'"
  by (metis div_mult_mod_eq)

lemma digits_eqD: "(x :: nat) * k + y = x' * k + y' \<Longrightarrow> y < k \<Longrightarrow> y' < k \<Longrightarrow> x = x' \<and> y = y'"
  by (metis add.commute add_diff_cancel_left' div_mult_self3 div_less gr_implies_not0 mod_less mod_mult_self3
      add_0 mult.commute)

lemma group_inj1: "unat (a :: 8 word) div 4 = unat a' div 4 \<Longrightarrow> unat a mod 4 * 16 = unat a' mod 4 * 16 \<Longrightarrow> a = a'"
  using div_mod_eqI [of "unat a" 4 "unat a'"] by (simp add: word_unat_eq_iff)

lemma group_inj2:
  assumes "unat (a :: 8 word) div 4 = unat a' div 4"
    and "unat a mod 4 * 16 + unat (b :: 8 word) div 16 = unat a' mod 4 * 16 + unat (b' :: 8 word) div 16"
  shows "a = a' \<and> unat b div 16 = unat b' div 16"
proof -
  have "unat b div 16 < 16" "unat b' div 16 < 16"
    using unat_byte [of b] unat_byte [of b'] by simp_all
  with digits_eqD [OF assms(2)] assms(1) show ?thesis
    by (auto simp: word_unat_eq_iff intro: div_mod_eqI)
qed

lemma group_inj3: "unat (b :: 8 word) div 16 = unat b' div 16 \<Longrightarrow> unat b mod 16 * 4 = unat b' mod 16 * 4 \<Longrightarrow> b = b'"
  using div_mod_eqI [of "unat b" 16 "unat b'"] by (simp add: word_unat_eq_iff)

lemma group_inj4:
  assumes "unat (b :: 8 word) div 16 = unat b' div 16"
    and "unat b mod 16 * 4 + unat (c :: 8 word) div 64 = unat b' mod 16 * 4 + unat (c' :: 8 word) div 64"
  shows "b = b' \<and> unat c div 64 = unat c' div 64"
proof -
  have "unat c div 64 < 4" "unat c' div 64 < 4"
    using unat_byte [of c] unat_byte [of c'] by simp_all
  with digits_eqD [OF assms(2)] assms(1) show ?thesis
    by (auto simp: word_unat_eq_iff intro: div_mod_eqI)
qed

lemma group_inj5: "unat (c :: 8 word) div 64 = unat c' div 64 \<Longrightarrow> unat c mod 64 = unat c' mod 64 \<Longrightarrow> c = c'"
  using div_mod_eqI [of "unat c" 64 "unat c'"] by (simp add: word_unat_eq_iff)

lemma RawURLEncoding_inj: "RawURLEncoding xs = RawURLEncoding ys \<Longrightarrow> xs = ys"
proof -
  assume e: "RawURLEncoding xs = RawURLEncoding ys"
  then have "(length xs * 4 + 2) div 3 = (length ys * 4 + 2) div 3"
    by (metis length_RawURLEncoding)
  then have "length xs = length ys" by linarith
  with e show "xs = ys"
  proof (induction xs arbitrary: ys rule: RawURLEncoding.induct)
    case 1
    then show ?case by simp
  next
    case (2 a)
    then obtain a' where ys: "ys = [a']" by (cases ys) auto
    from 2 show ?case unfolding ys by (auto simp: b64_char_inj byte_parts intro: group_inj1)
  next
    case (3 a b)
    then obtain a' b' where ys: "ys = [a', b']" by (cases ys; cases "tl ys") auto
    from 3 show ?case unfolding ys
      by (auto simp: b64_char_inj byte_parts dest: group_inj2 intro: group_inj3)
  next
    case (4 a b c bs)
    then obtain a' b' c' r where ys: "ys = a' # b' # c' # r" and len: "length bs = length r"
      by (cases ys; cases "tl ys"; cases "tl (tl ys)") auto
    from 4 ys have e: "RawURLEncoding bs = RawURLEncoding r" "unat a div 4 = unat a' div 4"
      "unat a mod 4 * 16 + unat b div 16 = unat a' mod 4 * 16 + unat b' div 16"
      "unat b mod 16 * 4 + unat c div 64 = unat b' mod 16 * 4 + unat c' div 64" "unat c mod 64 = unat c' mod 64"
      by (auto simp: b64_char_inj byte_parts)
    show ?case
      using "4.IH" [OF e(1) len] group_inj2 [OF e(2,3)] group_inj4 [OF _ e(4)] group_inj5 [OF _ e(5)] ys by blast
  qed
qed

section \<open>The service\<close>

record jwt_service =
  jwt_priv :: string
  jwt_pub :: string
  jwt_accessTTL :: int
  jwt_refreshDays :: int

definition NewJWTService :: "string \<Rightarrow> string \<Rightarrow> int \<Rightarrow> int \<Rightarrow> jwt_service" where
  "NewJWTService priv pub accessTTL refreshDays =
     \<lparr>jwt_priv = priv, jwt_pub = pub, jwt_accessTTL = accessTTL, jwt_refreshDays = refreshDays\<rparr>"

text \<open>\<open>jwt.NewNumericDate\<close> truncates to whole seconds.\<close>

definition NewNumericDate :: "int \<Rightarrow> int" where
  "NewNumericDate t = t - t mod second"

definition access_claims :: "('s, 'd) env \<Rightarrow> jwt_service \<Rightarrow> uuid \<Rightarrow> string \<Rightarrow> string \<Rightarrow> int \<Rightarrow> claims" where
  "access_claims E s userID role jti now =
     \<lparr>cl_Subject = uuidString E userID, cl_IssuedAt = NewNumericDate now,
      cl_ExpiresAt = NewNumericDate (now + jwt_accessTTL s), cl_NotBefore = NewNumericDate now,
      cl_ID = jti, cl_Role = role\<rparr>"

definition JWTService_IssueAccessToken ::
    "('s, 'd) env \<Rightarrow> jwt_service \<Rightarrow> uuid \<Rightarrow> string \<Rightarrow> ('s, 'd) world \<Rightarrow>
     (goerr + string \<times> string \<times> int) \<times> ('s, 'd) world" where
  "JWTService_IssueAccessToken E s userID role w =
     (let (n, w1) = draw w;
          jti = uuidString E (uuidNew E n);
          now = w_now w1;
          expiresAt = now + jwt_accessTTL s
      in case jwtSign E (jwt_priv s) (access_claims E s userID role jti now) of
           Inl e \<Rightarrow> (Inl (Wrapf ''issue access token: '' e), w1)
         | Inr tok \<Rightarrow> (Inr (tok, jti, expiresAt), w1))"

definition JWTService_IssueRefreshToken ::
    "('s, 'd) env \<Rightarrow> jwt_service \<Rightarrow> ('s, 'd) world \<Rightarrow> (goerr + string) \<times> ('s, 'd) world" where
  "JWTService_IssueRefreshToken E s w =
     (let (n, w1) = draw w
      in case randRead E n 32 of
           Inl e \<Rightarrow> (Inl (Wrapf ''issue refresh token: '' e), w1)
         | Inr b \<Rightarrow> (Inr (RawURLEncoding b), w1))"

text \<open>\<open>time.Duration(days) * 24 * time.Hour\<close> in 64-bit arithmetic.\<close>

definition JWTService_RefreshTTL :: "jwt_service \<Rightarrow> int" where
  "JWTService_RefreshTTL s = wrap64 (wrap64 (jwt_refreshDays s * 24) * (3600 * second))"

definition verify_keyfunc :: "jwt_service \<Rightarrow> jwt_method \<Rightarrow> goerr + string" where
  "verify_keyfunc s m =
     (case m of
        SigningMethodRSA _ \<Rightarrow> Inr (jwt_pub s)
      | SigningMethodHMAC alg \<Rightarrow> Inl (Errorf (''unexpected signing method: '' @ alg))
      | OtherMethod alg \<Rightarrow> Inl (Errorf (''unexpected signing method: '' @ alg)))"

definition JWTService_Verify :: "('s, 'd) env \<Rightarrow> jwt_service \<Rightarrow> int \<Rightarrow> string \<Rightarrow> goerr + claims" where
  "JWTService_Verify E s now tokenStr =
     (case jwtParse E (verify_keyfunc s) now tokenStr of
        Inl e \<Rightarrow>
          if errors_Is ErrTokenExpired e then Inl (Wrapf ''token expired: '' e)
          else Inl (Wrapf ''verify token: '' e)
      | Inr (c, valid) \<Rightarrow>
          if \<not> valid then Inl (Errorf ''verify token: invalid claims'') else Inr c)"

text \<open>\<open>HashToken\<close> is the same function as the session store's private \<open>hashToken\<close>.\<close>

definition HashToken :: "('s, 'd) env \<Rightarrow> string \<Rightarrow> string" where
  "HashToken E token = hex_bytes (sha256 E token)"

section \<open>Keys\<close>

text \<open>\<open>read\<close> is the file system and \<open>parse\<close> the PEM parser; the verb \<open>%q\<close> on a path of printable
  characters only adds the quotes.\<close>

definition quoted :: "string \<Rightarrow> string" where
  "quoted s = CHR 0x22 # s @ [CHR 0x22]"

definition LoadPrivateKey :: "(string \<Rightarrow> goerr + string) \<Rightarrow> (string \<Rightarrow> goerr + string) \<Rightarrow> string \<Rightarrow> goerr + string"
  where
  "LoadPrivateKey read parse path =
     (case read path of
        Inl e \<Rightarrow> Inl (Wrapf (''load private key from '' @ quoted path @ '': '') e)
      | Inr data \<Rightarrow>
          (case parse data of
             Inl e \<Rightarrow> Inl (Wrapf (''load private key from '' @ quoted path @ '': '') e)
           | Inr key \<Rightarrow> Inr key))"

definition LoadPublicKey :: "(string \<Rightarrow> goerr + string) \<Rightarrow> (string \<Rightarrow> goerr + string) \<Rightarrow> string \<Rightarrow> goerr + string"
  where
  "LoadPublicKey read parse path =
     (case read path of
        Inl e \<Rightarrow> Inl (Wrapf (''load public key from '' @ quoted path @ '': '') e)
      | Inr data \<Rightarrow>
          (case parse data of
             Inl e \<Rightarrow> Inl (Wrapf (''load public key from '' @ quoted path @ '': '') e)
           | Inr key \<Rightarrow> Inr key))"

section \<open>What is assumed of the library\<close>

text \<open>\<open>pair pub priv\<close>: the two halves of one key.  \<open>alg\<close> is the method a token names in its header.\<close>

locale jwt_library =
  fixes E :: "('s, 'd) env" and alg :: "string \<Rightarrow> jwt_method" and pair :: "string \<Rightarrow> string \<Rightarrow> bool"
  assumes sign_parse: "jwtSign E priv c = Inr tok \<Longrightarrow> pair pub priv \<Longrightarrow>
      kf (SigningMethodRSA ''RS256'') = Inr pub \<Longrightarrow> cl_NotBefore c \<le> now \<Longrightarrow> now < cl_ExpiresAt c \<Longrightarrow>
      jwtParse E kf now tok = Inr (c, True)"
    and sign_expired: "jwtSign E priv c = Inr tok \<Longrightarrow> pair pub priv \<Longrightarrow>
      kf (SigningMethodRSA ''RS256'') = Inr pub \<Longrightarrow> cl_ExpiresAt c \<le> now \<Longrightarrow>
      \<exists>e. jwtParse E kf now tok = Inl e \<and> errors_Is ErrTokenExpired e"
    and parse_keyed: "jwtParse E kf now tok = Inr (c, True) \<Longrightarrow>
      (\<exists>k. kf (alg tok) = Inr k) \<and> cl_NotBefore c \<le> now \<and> now < cl_ExpiresAt c"
begin

lemma signed_verifies:
  assumes "jwtSign E (jwt_priv s) (access_claims E s uid role jti now) = Inr tok" and "pair (jwt_pub s) (jwt_priv s)"
    and "now \<le> t" and "t < NewNumericDate (now + jwt_accessTTL s)"
  shows "JWTService_Verify E s t tok = Inr (access_claims E s uid role jti now)"
proof -
  have "NewNumericDate now \<le> now" by (simp add: NewNumericDate_def second_def)
  with sign_parse [OF assms(1,2), of "verify_keyfunc s" t] assms(3,4)
  show ?thesis by (simp add: JWTService_Verify_def verify_keyfunc_def access_claims_def)
qed

lemma verify_issued:
  assumes "JWTService_IssueAccessToken E s uid role w = (Inr (tok, jti, ex), w')"
    and "pair (jwt_pub s) (jwt_priv s)" and "w_now w \<le> t" and "t < NewNumericDate (w_now w + jwt_accessTTL s)"
  shows "JWTService_Verify E s t tok = Inr (access_claims E s uid role jti (w_now w))"
proof (rule signed_verifies [OF _ assms(2-4)])
  show "jwtSign E (jwt_priv s) (access_claims E s uid role jti (w_now w)) = Inr tok"
    using assms(1) by (auto simp: JWTService_IssueAccessToken_def draw_def Let_def split: sum.splits)
qed

lemma verify_expired:
  assumes "JWTService_IssueAccessToken E s uid role w = (Inr (tok, jti, ex), w')"
    and "pair (jwt_pub s) (jwt_priv s)" and "NewNumericDate (w_now w + jwt_accessTTL s) \<le> t"
  shows "\<exists>e. JWTService_Verify E s t tok = Inl (Wrapf ''token expired: '' e)"
proof -
  from assms(1) have sg: "jwtSign E (jwt_priv s) (access_claims E s uid role jti (w_now w)) = Inr tok"
    by (auto simp: JWTService_IssueAccessToken_def draw_def Let_def split: sum.splits)
  from sign_expired [OF this assms(2), of "verify_keyfunc s" t] assms(3)
  show ?thesis by (auto simp: JWTService_Verify_def verify_keyfunc_def access_claims_def)
qed

lemma verify_only_rsa: "JWTService_Verify E s t tok = Inr c \<Longrightarrow> \<exists>a. alg tok = SigningMethodRSA a"
  by (auto simp: JWTService_Verify_def verify_keyfunc_def dest!: parse_keyed
      split: sum.splits if_splits jwt_method.splits)

end

section \<open>The reference library\<close>

definition ref_alg :: "string \<Rightarrow> jwt_method" where
  "ref_alg tok = (case nets (Suc (length tok)) tok of Some (a # _) \<Rightarrow> ref_method a | _ \<Rightarrow> OtherMethod [])"

lemma take_digits: "takeWhile (\<lambda>c. c \<noteq> CHR '':'') (nat_digits n @ CHR '':'' # s) = nat_digits n"
  "dropWhile (\<lambda>c. c \<noteq> CHR '':'') (nat_digits n @ CHR '':'' # s) = CHR '':'' # s"
proof -
  have d: "c \<noteq> CHR '':''" if "c \<in> set (nat_digits n)" for c
    using nat_digits_all_digits [OF that] by (auto simp: is_digit_def)
  show "takeWhile (\<lambda>c. c \<noteq> CHR '':'') (nat_digits n @ CHR '':'' # s) = nat_digits n"
    using d by (simp add: takeWhile_append)
  show "dropWhile (\<lambda>c. c \<noteq> CHR '':'') (nat_digits n @ CHR '':'' # s) = CHR '':'' # s"
    using d by (simp add: dropWhile_append2)
qed

lemma nets_concat: "length xs < f \<Longrightarrow> nets f (concat (map net xs)) = Some xs"
proof (induction xs arbitrary: f)
  case Nil
  then show ?case by (cases f) auto
next
  case (Cons x xs)
  then obtain g where f: "f = Suc g" "length xs < g" by (cases f) auto
  have "concat (map net (x # xs)) = nat_digits (length x) @ CHR '':'' # x @ concat (map net xs)"
    by (simp add: net_def)
  then show ?case using Cons.IH [OF f(2)] by (simp add: f(1) take_digits)
qed

lemma net_nonempty: "length xs \<le> length (concat (map net xs))"
proof (induction xs)
  case (Cons x xs)
  then show ?case by (simp add: net_def)
qed simp

lemma ref_sign_fields: "ref_jwtSign key c = Inr tok \<Longrightarrow> nets (Suc (length tok)) tok = Some (ref_fields key c)"
  using nets_concat [of "ref_fields key c" "Suc (length tok)"] net_nonempty [of "ref_fields key c"]
  by (simp add: ref_jwtSign_def del: nets.simps)

interpretation ref_jwt: jwt_library ref_env ref_alg "(=)"
proof (unfold_locales, goal_cases)
  case (1 priv c tok pub kf now)
  then show ?case
    using ref_sign_fields [of priv c tok] by (simp add: ref_jwtParse_def ref_method_def ref_fields_def)
next
  case (2 priv c tok pub kf now)
  then show ?case
    using ref_sign_fields [of priv c tok] by (simp add: ref_jwtParse_def ref_method_def ref_fields_def)
next
  case (3 kf now tok c)
  then show ?case
    by (auto simp: ref_jwtParse_def ref_alg_def split: option.splits list.splits sum.splits if_splits)
qed

section \<open>Properties\<close>

text \<open>
  C15.  An access token carries its user: verified at any time from its issue until the last whole second
  before its expiry it yields exactly the subject, role and identifier it was issued with, and from its
  expiry on (truncated to the second, so up to a second before the expiry reported to the client) it
  is refused as expired.
\<close>

theorem access_token_roundtrip:
  assumes "jwt_library E alg pair" and "pair (jwt_pub s) (jwt_priv s)"
    and "JWTService_IssueAccessToken E s uid role w = (Inr (tok, jti, ex), w')"
  shows "(w_now w \<le> t \<and> t < NewNumericDate ex \<longrightarrow>
      (\<exists>c. JWTService_Verify E s t tok = Inr c \<and> cl_Subject c = uuidString E uid \<and> cl_Role c = role \<and> cl_ID c = jti)) \<and>
    (NewNumericDate ex \<le> t \<longrightarrow> (\<exists>e. JWTService_Verify E s t tok = Inl (Wrapf ''token expired: '' e))) \<and>
    ex - second < NewNumericDate ex \<and> NewNumericDate ex \<le> ex"
proof -
  have ex: "ex = w_now w + jwt_accessTTL s"
    using assms(3) by (auto simp: JWTService_IssueAccessToken_def draw_def Let_def split: sum.splits)
  have "0 \<le> ex mod second" "ex mod second < second" by (simp_all add: second_def)
  then show ?thesis
    using jwt_library.verify_issued [OF assms(1,3,2)] jwt_library.verify_expired [OF assms(1,3,2)]
    by (auto simp: ex access_claims_def NewNumericDate_def [of "w_now w + jwt_accessTTL s"])
qed

definition ref_jwt_service :: jwt_service where
  "ref_jwt_service = NewJWTService ''key'' ''key'' (900 * second) 7"

theorem access_token_roundtrip_witness:
  "let (r, w') = JWTService_IssueAccessToken ref_env ref_jwt_service 5 ''admin'' (ref_world (3 * second + 1) empty_tables [] [])
   in case r of Inl _ \<Rightarrow> False
      | Inr (tok, jti, ex) \<Rightarrow> \<exists>c. JWTService_Verify ref_env ref_jwt_service (10 * second) tok = Inr c \<and>
          cl_Subject c = ''5'' \<and> cl_Role c = ''admin''"
proof -
  define w where "w = ref_world (3 * second + 1) empty_tables [] []"
  obtain r w' where i: "JWTService_IssueAccessToken ref_env ref_jwt_service 5 ''admin'' w = (r, w')"
    by fastforce
  have "case fst (JWTService_IssueAccessToken ref_env ref_jwt_service 5 ''admin'' w) of
      Inl _ \<Rightarrow> False | Inr (_, _, ex) \<Rightarrow> ex = 903 * second + 1"
    unfolding w_def by code_simp
  then obtain tok jti ex where r: "r = Inr (tok, jti, ex)" and ex: "ex = 903 * second + 1"
    unfolding i by (auto split: sum.splits)
  have side: "jwt_pub ref_jwt_service = jwt_priv ref_jwt_service" "w_now w \<le> 10 * second"
    "10 * second < NewNumericDate ex" "uuidString ref_env 5 = ''5''"
    unfolding w_def ex by code_simp+
  from access_token_roundtrip [OF ref_jwt.jwt_library_axioms side(1) i [unfolded r]] side(2-4)
  show ?thesis unfolding w_def [symmetric] Let_def i r by auto
qed

text \<open>
  Only RSA tokens are accepted: whatever a token's header says, a token of another method (an HMAC
  token signed with the public key, or an unsigned one) is refused, and an accepted token is within its
  validity period.
\<close>

theorem verify_rejects_other_methods:
  assumes "jwt_library E alg pair" and "JWTService_Verify E s t tok = Inr c"
  shows "(\<exists>a. alg tok = SigningMethodRSA a) \<and> cl_NotBefore c \<le> t \<and> t < cl_ExpiresAt c"
  using jwt_library.verify_only_rsa [OF assms] assms(2) jwt_library.parse_keyed [OF assms(1)]
  by (auto simp: JWTService_Verify_def split: sum.splits if_splits)

theorem verify_rejects_other_methods_witness:
  "let forged = concat (map net [''HS256'', ''key'', ''5'', ''0'', ''0'', ''9'', ''0'', ''0'', ''0'', ''j'', ''admin'']);
       good = concat (map net [''RS256'', ''key'', ''5'', ''0'', ''0'', ''9'', ''0'', ''0'', ''0'', ''j'', ''admin''])
   in isl (JWTService_Verify ref_env ref_jwt_service 5 forged) \<and> (\<exists>a. ref_alg good = SigningMethodRSA a)"
proof -
  define good where "good = concat (map net [''RS256'', ''key'', ''5'', ''0'', ''0'', ''9'', ''0'', ''0'', ''0'', ''j'', ''admin''])"
  have "isl (JWTService_Verify ref_env ref_jwt_service 5
      (concat (map net [''HS256'', ''key'', ''5'', ''0'', ''0'', ''9'', ''0'', ''0'', ''0'', ''j'', ''admin''])))"
    "\<not> isl (JWTService_Verify ref_env ref_jwt_service 5 good)"
    unfolding good_def by code_simp+
  moreover from this(2) obtain c where "JWTService_Verify ref_env ref_jwt_service 5 good = Inr c"
    by (cases "JWTService_Verify ref_env ref_jwt_service 5 good") auto
  from verify_rejects_other_methods [OF ref_jwt.jwt_library_axioms this]
  have "\<exists>a. ref_alg good = SigningMethodRSA a" by blast
  ultimately show ?thesis unfolding Let_def good_def by blast
qed

text \<open>
  Opaque tokens keep all their randomness: from 32 random bytes the token is 43 characters of the
  base64url alphabet, and two tokens are equal only when all 32 bytes are.
\<close>

theorem refresh_token_injective:
  assumes "JWTService_IssueRefreshToken E s w = (Inr a, w1)" and "randRead E (w_rand w) 32 = Inr xs"
    and "JWTService_IssueRefreshToken E s v = (Inr b, v1)" and "randRead E (w_rand v) 32 = Inr ys"
    and "length xs = 32"
  shows "length a = 43 \<and> set a \<subseteq> set b64_alphabet \<and> (a = b \<longleftrightarrow> xs = ys)"
proof -
  have ab: "a = RawURLEncoding xs" "b = RawURLEncoding ys"
    using assms(1-4) by (auto simp: JWTService_IssueRefreshToken_def draw_def Let_def)
  have "b64_char n \<in> set b64_alphabet" if "n < 64" for n
    using that b64_length(1) by (simp add: b64_char_def)
  then have "set (RawURLEncoding zs) \<subseteq> set b64_alphabet" for zs
    by (induction zs rule: RawURLEncoding.induct) (auto simp: byte_parts)
  then show ?thesis using ab assms(5) length_RawURLEncoding [of xs] RawURLEncoding_inj by auto
qed

theorem refresh_token_injective_witness:
  "let (a, w1) = JWTService_IssueRefreshToken ref_env ref_jwt_service (ref_world 0 empty_tables [] []);
       (b, w2) = JWTService_IssueRefreshToken ref_env ref_jwt_service w1
   in case (a, b) of (Inr x, Inr y) \<Rightarrow> length x = 43 \<and> x \<noteq> y | _ \<Rightarrow> False"
proof -
  define w where "w = ref_world 0 empty_tables [] []"
  obtain a w1 where a: "JWTService_IssueRefreshToken ref_env ref_jwt_service w = (Inr a, w1)"
    and r1: "randRead ref_env (w_rand w) 32 = Inr (replicate 31 0 @ [0])" and n: "w_rand w1 = 1"
    by (simp add: JWTService_IssueRefreshToken_def draw_def w_def ref_world_def)
  obtain b w2 where b: "JWTService_IssueRefreshToken ref_env ref_jwt_service w1 = (Inr b, w2)"
    and r2: "randRead ref_env (w_rand w1) 32 = Inr (replicate 31 0 @ [1])"
    by (simp add: JWTService_IssueRefreshToken_def draw_def n)
  from refresh_token_injective [OF a r1 b r2] show ?thesis
    unfolding w_def [symmetric] Let_def a b by (simp add: b)
qed

text \<open>
  The refresh lifetime is exact (days of 24 hours, positive) for every configured number of days from 1 to
  106751; one day more overflows the 64-bit duration into a negative lifetime.
\<close>

theorem refresh_ttl_exact:
  assumes "0 < jwt_refreshDays s" and "jwt_refreshDays s \<le> 106751"
  shows "JWTService_RefreshTTL s = jwt_refreshDays s * 86400 * second \<and> 0 < JWTService_RefreshTTL s \<and>
    JWTService_RefreshTTL (s\<lparr>jwt_refreshDays := 106752\<rparr>) < 0"
proof -
  have "in_int64 (jwt_refreshDays s * 24)" "in_int64 (jwt_refreshDays s * 24 * (3600 * second))"
    using assms by (simp_all add: in_int64_def second_def)
  moreover have "JWTService_RefreshTTL (s\<lparr>jwt_refreshDays := 106752\<rparr>) < 0"
    by (simp add: JWTService_RefreshTTL_def wrap64_signed_take_bit second_def)
  ultimately show ?thesis using assms by (simp add: JWTService_RefreshTTL_def second_def)
qed

theorem refresh_ttl_exact_witness: "JWTService_RefreshTTL ref_jwt_service = 604800 * second"
  using refresh_ttl_exact [of ref_jwt_service] by (simp add: ref_jwt_service_def NewJWTService_def second_def)

end
