(* ===== verification/Auth_Service.thy ===== *)
theory Auth_Service
  imports User_Service Jwt Reqctx
begin

text \<open>
  \<open>internal/service/auth.go\<close>, with the email stub (\<open>email.go\<close>) and the audit vocabulary (\<open>audit.go\<close>):
  registration, login with lockout, refresh with rotation, logout, and the two steps of a password reset.  The
  service reaches users and sessions through their interfaces, the records \<open>user_service\<close> and
  \<open>session_repository\<close>.
\<close>

section \<open>Audit events and mail\<close>

definition EventLoginSuccess :: string where "EventLoginSuccess = ''auth.login.success''"
definition EventLoginFailure :: string where "EventLoginFailure = ''auth.login.failure''"
definition EventLoginLocked :: string where "EventLoginLocked = ''auth.login.locked''"
definition EventLogout :: string where "EventLogout = ''auth.logout''"
definition EventTokenRefresh :: string where "EventTokenRefresh = ''auth.token.refresh''"
definition EventPasswordResetRequest :: string where "EventPasswordResetRequest = ''auth.password.reset_requested''"
definition EventPasswordResetDone :: string where "EventPasswordResetDone = ''auth.password.reset_completed''"

record 'w email_sender =
  mail_SendPasswordReset :: "string \<Rightarrow> string \<Rightarrow> 'w \<Rightarrow> goerr option \<times> 'w"

definition StubEmailSender_SendPasswordReset ::
    "string \<Rightarrow> string \<Rightarrow> ('s, 'd) world \<Rightarrow> goerr option \<times> ('s, 'd) world" where
  "StubEmailSender_SendPasswordReset toEmail resetURL w =
     (None, log_at LInfo ''password reset email (stub)'' [(''to'', toEmail), (''reset_url'', resetURL)] w)"

definition StubEmailSender :: "('s, 'd) world email_sender" where
  "StubEmailSender = \<lparr>mail_SendPasswordReset = StubEmailSender_SendPasswordReset\<rparr>"

text \<open>\<open>maskEmail\<close>: the first byte of the local part and of the domain, then what follows the first dot of the
  domain.\<close>

definition maskEmail :: "string \<Rightarrow> string" where
  "maskEmail email =
     (case SplitN2 (CHR ''@'') email of
        [local, domain] \<Rightarrow>
          if local = [] then ''***''
          else
            (let maskedLocal = byte_string (hd local) @ ''***''
             in case SplitN2 (CHR ''.'') domain of
                  d0 # rest \<Rightarrow>
                    if d0 = [] then maskedLocal @ ''@***''
                    else
                      (let maskedDomain = byte_string (hd d0) @ ''***'' @
                             (case rest of [] \<Rightarrow> [] | r # _ \<Rightarrow> ''.'' @ r)
                       in maskedLocal @ ''@'' @ maskedDomain)
                | [] \<Rightarrow> maskedLocal @ ''@***'')
      | _ \<Rightarrow> ''***'')"

definition auditLog ::
    "rctx \<Rightarrow> string \<Rightarrow> string \<Rightarrow> string \<Rightarrow> (string \<times> string) list \<Rightarrow> ('s, 'd) world \<Rightarrow> ('s, 'd) world" where
  "auditLog c eventType email userID extra w =
     log_at LInfo ''audit''
       ([(''event_type'', eventType), (''ip'', IPFromContext c), (''user_agent'', UserAgentFromContext c)] @
        (if email \<noteq> [] then [(''email_masked'', maskEmail email)] else []) @
        (if userID \<noteq> [] then [(''user_id'', userID)] else []) @ extra) w"

section \<open>The service\<close>

record token_pair =
  tp_AccessToken :: string
  tp_JTI :: string
  tp_ExpiresAt :: int
  tp_RawRefreshToken :: string

record ('s, 'd) auth_service_deps =
  as_users :: "('s, 'd) world user_service"
  as_sessions :: "('s, 'd) world session_repository"
  as_jwt :: jwt_service
  as_mailer :: "('s, 'd) world email_sender option"
  as_baseURL :: string

record 'w auth_service =
  auth_Register :: "string \<Rightarrow> string \<Rightarrow> 'w \<Rightarrow> (goerr + user) \<times> 'w"
  auth_Login :: "rctx \<Rightarrow> string \<Rightarrow> string \<Rightarrow> 'w \<Rightarrow> (goerr + token_pair) \<times> 'w"
  auth_Refresh :: "rctx \<Rightarrow> string \<Rightarrow> 'w \<Rightarrow> (goerr + token_pair) \<times> 'w"
  auth_Logout :: "rctx \<Rightarrow> string \<Rightarrow> string \<Rightarrow> 'w \<Rightarrow> goerr option \<times> 'w"
  auth_ForgotPassword :: "rctx \<Rightarrow> string \<Rightarrow> 'w \<Rightarrow> goerr option \<times> 'w"
  auth_ResetPassword :: "rctx \<Rightarrow> string \<Rightarrow> string \<Rightarrow> 'w \<Rightarrow> goerr option \<times> 'w"

definition loginLockoutWindow :: int where
  "loginLockoutWindow = 15 * 60 * second"

text \<open>An error that a method reports, with the end of its span.\<close>

definition fail :: "string \<Rightarrow> goerr \<Rightarrow> ('s, 'd) world \<Rightarrow> (goerr + 'a) \<times> ('s, 'd) world" where
  "fail span e w = (Inl e, end_failed span [] e w)"

definition fail_opt :: "string \<Rightarrow> goerr \<Rightarrow> ('s, 'd) world \<Rightarrow> goerr option \<times> ('s, 'd) world" where
  "fail_opt span e w = (Some e, end_failed span [] e w)"

definition authService_Register ::
    "('s, 'd) auth_service_deps \<Rightarrow> string \<Rightarrow> string \<Rightarrow> ('s, 'd) world \<Rightarrow> (goerr + user) \<times> ('s, 'd) world" where
  "authService_Register s email password w =
     (case svc_Create (as_users s) email password ''user'' w of
        (Inl e, w1) \<Rightarrow> (Inl (Wrapf ''register user: '' e), end_failed ''service/Register'' [] e w1)
      | (Inr u, w1) \<Rightarrow> (Inr u, end_ok ''service/Register'' [] w1))"

definition warn_error :: "string \<Rightarrow> goerr option \<Rightarrow> ('s, 'd) world \<Rightarrow> ('s, 'd) world" where
  "warn_error msg e w = (case e of None \<Rightarrow> w | Some err \<Rightarrow> log_at LWarn msg [(''error'', Error err)] w)"

definition locked_error :: goerr where
  "locked_error = New 429 (''account temporarily locked due to too many failed attempts '' @ em_dash @
     '' try again in 15 minutes'') None"

text \<open>The last part of a login: tokens for an authenticated user.\<close>

definition login_tokens ::
    "('s, 'd) env \<Rightarrow> ('s, 'd) auth_service_deps \<Rightarrow> rctx \<Rightarrow> string \<Rightarrow> user \<Rightarrow> ('s, 'd) world \<Rightarrow>
     (goerr + token_pair) \<times> ('s, 'd) world" where
  "login_tokens E s c email u w =
     (case JWTService_IssueAccessToken E (as_jwt s) (u_ID u) (u_Role u) w of
        (Inl e, w1) \<Rightarrow> fail ''service/Login'' (Internal (Some e)) w1
      | (Inr (tok, jti, expiresAt), w1) \<Rightarrow>
          (case JWTService_IssueRefreshToken E (as_jwt s) w1 of
             (Inl e, w2) \<Rightarrow> fail ''service/Login'' (Internal (Some e)) w2
           | (Inr rawRefresh, w2) \<Rightarrow>
               (case StoreRefreshToken (as_sessions s) rawRefresh (uuidString E (u_ID u))
                       (JWTService_RefreshTTL (as_jwt s)) w2 of
                  (Some e, w3) \<Rightarrow> fail ''service/Login'' (Internal (Some e)) w3
                | (None, w3) \<Rightarrow>
                    (Inr \<lparr>tp_AccessToken = tok, tp_JTI = jti, tp_ExpiresAt = expiresAt,
                          tp_RawRefreshToken = rawRefresh\<rparr>,
                     end_ok ''service/Login'' []
                       (log_at LInfo ''user logged in'' [(''user_id'', uuidString E (u_ID u))]
                         (auditLog c EventLoginSuccess email (uuidString E (u_ID u)) [] w3))))))"

definition authService_Login ::
    "('s, 'd) env \<Rightarrow> ('s, 'd) auth_service_deps \<Rightarrow> rctx \<Rightarrow> string \<Rightarrow> string \<Rightarrow> ('s, 'd) world \<Rightarrow>
     (goerr + token_pair) \<times> ('s, 'd) world" where
  "authService_Login E s c email password w =
     (let ((locked, lockErr), w0) = IsLockedOut (as_sessions s) email w;
          w1 = warn_error ''lockout check failed'' lockErr w0
      in if locked then
           fail ''service/Login'' locked_error (auditLog c EventLoginLocked email [] [] w1)
         else case svc_GetByEmail (as_users s) email w1 of
             (Inl _, w2) \<Rightarrow>
               fail ''service/Login'' (Unauthorized ''invalid credentials'')
                 (auditLog c EventLoginFailure email [] [] w2)
           | (Inr u, w2) \<Rightarrow>
               (if bcryptCompare E (u_PasswordHash u) password \<noteq> None then
                  (let ((cnt, incrErr), w3) = IncrLoginFailure (as_sessions s) email loginLockoutWindow w2;
                       w4 = warn_error ''failed to increment login failure counter'' incrErr w3;
                       w5 = auditLog c EventLoginFailure email (uuidString E (u_ID u)) [] w4;
                       w6 = (if cnt \<ge> 10 then auditLog c EventLoginLocked email (uuidString E (u_ID u)) [] w5 else w5)
                   in fail ''service/Login'' (Unauthorized ''invalid credentials'') w6)
                else
                  (let (clearErr, w3) = ClearLoginFailures (as_sessions s) email w2
                   in login_tokens E s c email u
                        (warn_error ''failed to clear login failure counter'' clearErr w3))))"

definition authService_Refresh ::
    "('s, 'd) env \<Rightarrow> ('s, 'd) auth_service_deps \<Rightarrow> rctx \<Rightarrow> string \<Rightarrow> ('s, 'd) world \<Rightarrow>
     (goerr + token_pair) \<times> ('s, 'd) world" where
  "authService_Refresh E s c rawRefreshToken w =
     (case ValidateRefreshToken (as_sessions s) rawRefreshToken w of
        (Inl _, w1) \<Rightarrow> fail ''service/Refresh'' (Unauthorized ''invalid or expired refresh token'') w1
      | (Inr userIDStr, w1) \<Rightarrow>
      (case uuidParse E userIDStr of
         None \<Rightarrow> fail ''service/Refresh'' (Internal (Some (ExtErr ''invalid UUID''))) w1
       | Some userID \<Rightarrow>
       (case svc_GetByID (as_users s) userID w1 of
          (Inl _, w2) \<Rightarrow> fail ''service/Refresh'' (Unauthorized ''user not found'') w2
        | (Inr u, w2) \<Rightarrow>
        (case JWTService_IssueAccessToken E (as_jwt s) (u_ID u) (u_Role u) w2 of
           (Inl e, w3) \<Rightarrow> fail ''service/Refresh'' (Internal (Some e)) w3
         | (Inr (tok, jti, expiresAt), w3) \<Rightarrow>
         (case JWTService_IssueRefreshToken E (as_jwt s) w3 of
            (Inl e, w4) \<Rightarrow> fail ''service/Refresh'' (Internal (Some e)) w4
          | (Inr newRawRefresh, w4) \<Rightarrow>
          (case RotateRefreshToken (as_sessions s) rawRefreshToken newRawRefresh (uuidString E (u_ID u))
                  (JWTService_RefreshTTL (as_jwt s)) w4 of
             (Some e, w5) \<Rightarrow> fail ''service/Refresh'' (Internal (Some e)) w5
           | (None, w5) \<Rightarrow>
               (Inr \<lparr>tp_AccessToken = tok, tp_JTI = jti, tp_ExpiresAt = expiresAt,
                     tp_RawRefreshToken = newRawRefresh\<rparr>,
                end_ok ''service/Refresh'' []
                  (auditLog c EventTokenRefresh [] (uuidString E (u_ID u)) [] w5))))))))"

definition authService_Logout ::
    "('s, 'd) auth_service_deps \<Rightarrow> rctx \<Rightarrow> string \<Rightarrow> string \<Rightarrow> ('s, 'd) world \<Rightarrow>
     goerr option \<times> ('s, 'd) world" where
  "authService_Logout s c jti rawRefreshToken w =
     (case BlocklistJTI (as_sessions s) jti (JWTService_RefreshTTL (as_jwt s)) w of
        (Some e, w1) \<Rightarrow> fail_opt ''service/Logout'' (Internal (Some e)) w1
      | (None, w1) \<Rightarrow>
          (case RevokeRefreshToken (as_sessions s) rawRefreshToken w1 of
             (Some e, w2) \<Rightarrow> fail_opt ''service/Logout'' (Internal (Some e)) w2
           | (None, w2) \<Rightarrow>
               (None, end_ok ''service/Logout'' []
                  (log_at LInfo ''user logged out'' [(''jti'', jti)] (auditLog c EventLogout [] [] [] w2)))))"

definition authService_ForgotPassword ::
    "('s, 'd) env \<Rightarrow> ('s, 'd) auth_service_deps \<Rightarrow> rctx \<Rightarrow> string \<Rightarrow> ('s, 'd) world \<Rightarrow>
     goerr option \<times> ('s, 'd) world" where
  "authService_ForgotPassword E s c email w =
     (case svc_GetByEmail (as_users s) email w of
        (Inl _, w1) \<Rightarrow>
          (None, end_span \<lparr>sp_name = ''service/ForgotPassword'', sp_attrs = [], sp_error = None,
               sp_status = SOk (''not found '' @ em_dash @ '' enumeration prevented'')\<rparr>
             (auditLog c EventPasswordResetRequest email [] [(''found'', ''false'')] w1))
      | (Inr u, w1) \<Rightarrow>
          (case JWTService_IssueRefreshToken E (as_jwt s) w1 of
             (Inl e, w2) \<Rightarrow> fail_opt ''service/ForgotPassword'' (Internal (Some (Wrapf ''generate reset token: '' e))) w2
           | (Inr rawToken, w2) \<Rightarrow>
               (case StorePasswordResetToken (as_sessions s) rawToken (uuidString E (u_ID u)) w2 of
                  (Some e, w3) \<Rightarrow> fail_opt ''service/ForgotPassword'' (Internal (Some (Wrapf ''store reset token: '' e))) w3
                | (None, w3) \<Rightarrow>
                    (let resetURL = as_baseURL s @ ''/reset-password?token='' @ rawToken;
                         w4 = (case as_mailer s of
                             None \<Rightarrow> w3
                           | Some m \<Rightarrow>
                               (let (mailErr, w') = mail_SendPasswordReset m email resetURL w3
                                in warn_error ''failed to send reset email'' mailErr w'))
                     in (None, end_ok ''service/ForgotPassword'' []
                           (auditLog c EventPasswordResetRequest email (uuidString E (u_ID u)) [] w4))))))"

definition authService_ResetPassword ::
    "('s, 'd) env \<Rightarrow> ('s, 'd) auth_service_deps \<Rightarrow> rctx \<Rightarrow> string \<Rightarrow> string \<Rightarrow> ('s, 'd) world \<Rightarrow>
     goerr option \<times> ('s, 'd) world" where
  "authService_ResetPassword E s c token newPassword w =
     (if length newPassword < 8 then
        fail_opt ''service/ResetPassword'' (BadRequest ''password must be at least 8 characters'' None) w
      else case ConsumePasswordResetToken (as_sessions s) token w of
          (Inl e, w1) \<Rightarrow> fail_opt ''service/ResetPassword'' (BadRequest ''invalid or expired reset token'' (Some e)) w1
        | (Inr userIDStr, w1) \<Rightarrow>
            (case uuidParse E userIDStr of
               None \<Rightarrow> fail_opt ''service/ResetPassword''
                 (Internal (Some (Wrapf ''invalid user ID in reset token: '' (ExtErr ''invalid UUID'')))) w1
             | Some i \<Rightarrow>
                 (let (n, w2) = draw w1
                  in case bcryptGenerate E newPassword 12 n of
                       Inl e \<Rightarrow> fail_opt ''service/ResetPassword'' (Internal (Some (Wrapf ''hash password: '' e))) w2
                     | Inr hash \<Rightarrow>
                         (case svc_UpdatePassword (as_users s) i hash w2 of
                            (Some e, w3) \<Rightarrow>
                              fail_opt ''service/ResetPassword'' (Internal (Some (Wrapf ''update password: '' e))) w3
                          | (None, w3) \<Rightarrow>
                              (None, end_ok ''service/ResetPassword'' []
                                 (auditLog c EventPasswordResetDone [] userIDStr [] w3))))))"

definition NewAuthService :: "('s, 'd) env \<Rightarrow> ('s, 'd) auth_service_deps \<Rightarrow> ('s, 'd) world auth_service" where
  "NewAuthService E s = \<lparr>
     auth_Register = authService_Register s,
     auth_Login = authService_Login E s,
     auth_Refresh = authService_Refresh E s,
     auth_Logout = authService_Logout s,
     auth_ForgotPassword = authService_ForgotPassword E s,
     auth_ResetPassword = authService_ResetPassword E s\<rparr>"

lemmas auth_service_defs = authService_Register_def authService_Login_def authService_Refresh_def
  authService_Logout_def authService_ForgotPassword_def authService_ResetPassword_def

text \<open>The service that \<open>main\<close> builds.\<close>

definition main_auth_deps :: "('s, 'd) env \<Rightarrow> ('s, 'd) world user_service \<Rightarrow> jwt_service \<Rightarrow> string \<Rightarrow> ('s, 'd) auth_service_deps" where
  "main_auth_deps E svc jwt baseURL = \<lparr>as_users = svc, as_sessions = NewSessionRepo E, as_jwt = jwt,
     as_mailer = Some StubEmailSender, as_baseURL = baseURL\<rparr>"

end
