(* ===== verification/Auth_Contract.thy ===== *)
theory Auth_Contract
  imports Auth_Service User_Service_Props
begin

text \<open>
  The authentication service over its two interfaces: a session store that keeps the contract of theory
  \<open>Session_Contract\<close> and a user service that keeps the contract \<open>user_accounts\<close> below.  The lemmas say what each
  method does to the sessions and the tables, by the branch it takes; the interpretation at the end is the
  service that \<open>main\<close> builds.
\<close>

locale user_accounts =
  fixes S :: "('s, 'd) world user_service" and T :: "('s, 'd) world \<Rightarrow> tables" and view :: "('s, 'd) world \<Rightarrow> sess"
  assumes acc_email: "svc_GetByEmail S m w = (Inr u, w') \<Longrightarrow> tables_ok (T w) \<Longrightarrow> user_by_email (T w) m = Some u"
    and acc_email_missing: "svc_GetByEmail S m w = (Inl e, w') \<Longrightarrow> IsNotFound e \<Longrightarrow> tables_ok (T w) \<Longrightarrow>
      user_by_email (T w) m = None"
    and acc_email_quiet: "svc_GetByEmail S m w = (r, w') \<Longrightarrow>
      T w' = T w \<and> view w' = view w \<and> w_now w' = w_now w \<and> w_rand w' = w_rand w \<and> w_log w' = w_log w"
    and acc_id_quiet: "svc_GetByID S i w = (q, w') \<Longrightarrow>
      T w' = T w \<and> view w' = view w \<and> w_now w' = w_now w \<and> w_rand w' = w_rand w"
    and acc_password: "svc_UpdatePassword S i h w = (None, w') \<Longrightarrow>
      T w' = map_user i (password_row (w_now w) h) (T w)"
    and acc_password_quiet: "svc_UpdatePassword S i h w = (p, w') \<Longrightarrow> view w' = view w \<and> w_now w' = w_now w"
    and acc_T: "w_db w = w_db w' \<Longrightarrow> T w = T w'"

locale authentication =
  session: session_contract "as_sessions s" view same + accounts: user_accounts "as_users s" T view
  for E :: "('s, 'd) env" and s :: "('s, 'd) auth_service_deps" and view :: "('s, 'd) world \<Rightarrow> sess"
    and same :: "string \<Rightarrow> string \<Rightarrow> bool" and T :: "('s, 'd) world \<Rightarrow> tables"
begin

lemma quiet [simp]:
  "view (log_at l m as w) = view w" "view (end_span sp w) = view w" "view (auditLog c ev em u ex w) = view w"
  "view (warn_error msg e w) = view w" "view (end_ok n as w) = view w" "view (end_failed n as err w) = view w"
  "T (log_at l m as w) = T w" "T (end_span sp w) = T w" "T (auditLog c ev em u ex w) = T w"
  "T (warn_error msg e w) = T w" "T (end_ok n as w) = T w" "T (end_failed n as err w) = T w"
  by (auto simp: auditLog_def warn_error_def end_defs session.view_quiet split: option.splits
      intro: accounts.acc_T session.view_cong)

lemma quiet_now [simp]:
  "w_now (auditLog c ev em u ex w) = w_now w" "w_now (warn_error msg e w) = w_now w"
  "w_now (end_ok n as w) = w_now w" "w_now (end_failed n as err w) = w_now w"
  by (auto simp: auditLog_def warn_error_def end_defs split: option.splits)

lemma fail_simps [simp]:
  "fst (fail sp e w) = Inl e" "view (snd (fail sp e w)) = view w" "T (snd (fail sp e w)) = T w"
  "fst (fail_opt sp e w) = Some e" "view (snd (fail_opt sp e w)) = view w" "T (snd (fail_opt sp e w)) = T w"
  by (simp_all add: fail_def fail_opt_def)

lemma T_only_redis: "only_redis w w' \<Longrightarrow> T w' = T w"
  by (rule accounts.acc_T) (rule only_redis_simps)

lemma token_quiet:
  "JWTService_IssueAccessToken E j i r w = (x, w') \<Longrightarrow> view w' = view w \<and> T w' = T w \<and> w_now w' = w_now w"
  "JWTService_IssueRefreshToken E j w = (y, w') \<Longrightarrow> view w' = view w \<and> T w' = T w \<and> w_now w' = w_now w"
  by (auto simp: JWTService_IssueAccessToken_def JWTService_IssueRefreshToken_def draw_def Let_def
      split: sum.splits intro: session.view_cong accounts.acc_T)

section \<open>Login\<close>

text \<open>A locked address is refused before anything else is looked at.\<close>

lemma login_locked:
  assumes "IsLockedOut (as_sessions s) m w = ((True, le), w0)"
  shows "fst (authService_Login E s c m pw w) = Inl locked_error"
    and "view (snd (authService_Login E s c m pw w)) = view w" and "T (snd (authService_Login E s c m pw w)) = T w"
proof -
  have "view w0 = view w" "T w0 = T w"
    using session.locked_view [of m w] session.locked_frame [of w m] assms T_only_redis by auto
  then show "fst (authService_Login E s c m pw w) = Inl locked_error"
    "view (snd (authService_Login E s c m pw w)) = view w" "T (snd (authService_Login E s c m pw w)) = T w"
    using assms by (simp_all add: authService_Login_def)
qed

text \<open>Past the lockout check, an unknown address and a wrong password get the same answer.\<close>

lemma login_refused:
  assumes "IsLockedOut (as_sessions s) m w = ((False, le), w0)"
    and "svc_GetByEmail (as_users s) m (warn_error ''lockout check failed'' le w0) = (r, w2)"
    and "(case r of Inl _ \<Rightarrow> True | Inr u \<Rightarrow> bcryptCompare E (u_PasswordHash u) pw \<noteq> None)"
  shows "fst (authService_Login E s c m pw w) = Inl (Unauthorized ''invalid credentials'')"
  using assms by (auto simp: authService_Login_def Let_def split: sum.splits prod.splits)

lemma login_unknown:
  assumes "IsLockedOut (as_sessions s) m w = ((False, le), w0)"
    and "svc_GetByEmail (as_users s) m (warn_error ''lockout check failed'' le w0) = (Inl e, w2)"
  shows "view (snd (authService_Login E s c m pw w)) = view w" and "T (snd (authService_Login E s c m pw w)) = T w"
proof -
  have "view w0 = view w" "T w0 = T w"
    using session.locked_view [of m w] session.locked_frame [of w m] assms(1) T_only_redis by auto
  with accounts.acc_email_quiet [OF assms(2)]
  show "view (snd (authService_Login E s c m pw w)) = view w" "T (snd (authService_Login E s c m pw w)) = T w"
    using assms by (simp_all add: authService_Login_def)
qed

text \<open>A wrong password for a known address counts one failure, when the counter can be reached.\<close>

lemma login_wrong_password:
  assumes "IsLockedOut (as_sessions s) m w = ((False, le), w0)"
    and "svc_GetByEmail (as_users s) m (warn_error ''lockout check failed'' le w0) = (Inr u, w2)"
    and "bcryptCompare E (u_PasswordHash u) pw \<noteq> None"
  shows "\<exists>f. view (snd (authService_Login E s c m pw w)) = (view w)\<lparr>failures := f\<rparr>"
    and "snd (fst (IncrLoginFailure (as_sessions s) m loginLockoutWindow w2)) = None \<Longrightarrow>
      view (snd (authService_Login E s c m pw w)) = (view w)\<lparr>failures := \<lambda>m'. if same m m'
        then failures (view w) m + 1 else failures (view w) m'\<rparr>"
    and "T (snd (authService_Login E s c m pw w)) = T w"
proof -
  have "view w0 = view w" "T w0 = T w"
    using session.locked_view [of m w] session.locked_frame [of w m] assms(1) T_only_redis by auto
  with accounts.acc_email_quiet [OF assms(2)] have w2: "view w2 = view w" "T w2 = T w" by simp_all
  obtain n ie w3 where i: "IncrLoginFailure (as_sessions s) m loginLockoutWindow w2 = ((n, ie), w3)"
    by (metis prod.collapse)
  have pos: "0 < loginLockoutWindow" by (simp add: loginLockoutWindow_def second_def)
  have T3: "T w3 = T w" using session.incr_frame [of w2 m loginLockoutWindow] i T_only_redis w2 by fastforce
  have end_w: "view (snd (authService_Login E s c m pw w)) = view w3" "T (snd (authService_Login E s c m pw w)) = T w3"
    using assms i by (auto simp: authService_Login_def Let_def)
  show "\<exists>f. view (snd (authService_Login E s c m pw w)) = (view w)\<lparr>failures := f\<rparr>"
    using session.incr_any [of m loginLockoutWindow w2] i w2 end_w by simp
  show "view (snd (authService_Login E s c m pw w)) = (view w)\<lparr>failures := \<lambda>m'. if same m m'
      then failures (view w) m + 1 else failures (view w) m'\<rparr>"
    if "snd (fst (IncrLoginFailure (as_sessions s) m loginLockoutWindow w2)) = None"
  proof -
    have "ie = None" using that i by simp
    from session.incr_ok [OF i [unfolded this] pos] show ?thesis by (simp add: end_w w2 cong: if_cong)
  qed
  show "T (snd (authService_Login E s c m pw w)) = T w" using end_w T3 by simp
qed

text \<open>The tokens of a successful login.\<close>

lemma login_tokens_ok:
  assumes "login_tokens E s c m u w = (Inr pair, w')" and "0 < JWTService_RefreshTTL (as_jwt s)"
  shows "view w' = (view w)\<lparr>refresh_of := \<lambda>t'. if same (tp_RawRefreshToken pair) t'
      then Some (uuidString E (u_ID u)) else refresh_of (view w) t'\<rparr>"
    and "T w' = T w"
    and "jwtSign E (jwt_priv (as_jwt s)) (access_claims E (as_jwt s) (u_ID u) (u_Role u) (tp_JTI pair) (w_now w)) =
      Inr (tp_AccessToken pair)"
proof -
  obtain x w1 where a: "JWTService_IssueAccessToken E (as_jwt s) (u_ID u) (u_Role u) w = (x, w1)" by fastforce
  obtain y w2 where b: "JWTService_IssueRefreshToken E (as_jwt s) w1 = (y, w2)" by fastforce
  obtain tok jti ex raw where xy: "x = Inr (tok, jti, ex)" "y = Inr raw"
    using assms(1) a b by (auto simp: login_tokens_def fail_def split: sum.splits)
  obtain z w3 where d: "StoreRefreshToken (as_sessions s) raw (uuidString E (u_ID u))
      (JWTService_RefreshTTL (as_jwt s)) w2 = (z, w3)" by fastforce
  have z: "z = None" and pair: "tp_RawRefreshToken pair = raw" "tp_AccessToken pair = tok" "tp_JTI pair = jti"
    and w': "view w' = view w3" "T w' = T w3"
    using assms(1) a b xy d by (auto simp: login_tokens_def fail_def split: option.splits)
  have q: "view w2 = view w" "T w2 = T w" using token_quiet(1) [OF a] token_quiet(2) [OF b] by simp_all
  show "view w' = (view w)\<lparr>refresh_of := \<lambda>t'. if same (tp_RawRefreshToken pair) t'
      then Some (uuidString E (u_ID u)) else refresh_of (view w) t'\<rparr>"
    using session.store_ok [OF d [unfolded z] assms(2)] q by (simp add: w' pair cong: if_cong)
  have "only_redis w2 w3"
    using session.store_frame [of w2 raw "uuidString E (u_ID u)" "JWTService_RefreshTTL (as_jwt s)"] d by simp
  with q show "T w' = T w" using T_only_redis by (simp add: w')
  show "jwtSign E (jwt_priv (as_jwt s)) (access_claims E (as_jwt s) (u_ID u) (u_Role u) (tp_JTI pair) (w_now w)) =
      Inr (tp_AccessToken pair)"
    using a xy by (auto simp: pair JWTService_IssueAccessToken_def draw_def Let_def split: sum.splits)
qed

lemma login_ok:
  assumes "authService_Login E s c m pw w = (Inr pair, w')" and "tables_ok (T w)"
    and "0 < JWTService_RefreshTTL (as_jwt s)"
  obtains u f where "user_by_email (T w) m = Some u" and "bcryptCompare E (u_PasswordHash u) pw = None"
    and "view w' = (view w)\<lparr>failures := f, refresh_of := \<lambda>t'. if same (tp_RawRefreshToken pair) t'
      then Some (uuidString E (u_ID u)) else refresh_of (view w) t'\<rparr>"
    and "T w' = T w"
    and "(\<And>v. fst (ClearLoginFailures (as_sessions s) m v) = None) \<Longrightarrow>
      f = (\<lambda>m'. if same m m' then 0 else failures (view w) m')"
    and "jwtSign E (jwt_priv (as_jwt s)) (access_claims E (as_jwt s) (u_ID u) (u_Role u) (tp_JTI pair) (w_now w)) =
      Inr (tp_AccessToken pair)"
    and "\<And>lk w1. IsLockedOut (as_sessions s) m w = ((lk, None), w1) \<Longrightarrow> failures (view w) m < 10"
proof -
  obtain lk le w0 where l: "IsLockedOut (as_sessions s) m w = ((lk, le), w0)" by (metis prod.collapse)
  have w0: "view w0 = view w" "T w0 = T w" "w_now w0 = w_now w"
    using session.locked_view [of m w] session.locked_frame [of w m] l T_only_redis only_redis_simps(1) by auto
  have nl: "\<not> lk" using assms(1) l by (auto simp: authService_Login_def fail_def)
  obtain r w2 where g: "svc_GetByEmail (as_users s) m (warn_error ''lockout check failed'' le w0) = (r, w2)"
    by fastforce
  obtain u where r: "r = Inr u" and cmp: "bcryptCompare E (u_PasswordHash u) pw = None"
    using assms(1) l nl g by (auto simp: authService_Login_def fail_def Let_def split: sum.splits if_splits prod.splits)
  have w2: "view w2 = view w" "T w2 = T w" "w_now w2 = w_now w"
    using accounts.acc_email_quiet [OF g] w0 by simp_all
  obtain ce w3 where cl: "ClearLoginFailures (as_sessions s) m w2 = (ce, w3)" by fastforce
  let ?w = "warn_error ''failed to clear login failure counter'' ce w3"
  have t: "login_tokens E s c m u ?w = (Inr pair, w')"
    using assms(1) l nl g r cmp cl by (simp add: authService_Login_def)
  have fr: "only_redis w2 w3" using session.clear_frame [of w2 m] cl by simp
  obtain f where f: "view w3 = (view w)\<lparr>failures := f\<rparr>"
    using session.clear_any [of m w2] cl w2 by auto
  note tk = login_tokens_ok [OF t assms(3)]
  show thesis
  proof (rule that [of u f])
    show "user_by_email (T w) m = Some u" using accounts.acc_email [OF g [unfolded r]] assms(2) w0 by simp
    show "bcryptCompare E (u_PasswordHash u) pw = None" by (rule cmp)
    show "view w' = (view w)\<lparr>failures := f, refresh_of := \<lambda>t'. if same (tp_RawRefreshToken pair) t'
        then Some (uuidString E (u_ID u)) else refresh_of (view w) t'\<rparr>"
      using tk(1) f by (simp cong: if_cong)
    show "T w' = T w" using tk(2) T_only_redis [OF fr] w2 by simp
    show "f = (\<lambda>m'. if same m m' then 0 else failures (view w) m')"
      if "\<And>v. fst (ClearLoginFailures (as_sessions s) m v) = None"
    proof -
      have "ce = None" using that [of w2] cl by simp
      from session.clear_ok [OF cl [unfolded this]] f w2 show ?thesis
        by (metis sess.select_convs(3) sess.surjective sess.update_convs(3))
    qed
    show "jwtSign E (jwt_priv (as_jwt s)) (access_claims E (as_jwt s) (u_ID u) (u_Role u) (tp_JTI pair) (w_now w)) =
        Inr (tp_AccessToken pair)"
      using tk(3) only_redis_simps(1) [OF fr] w2 by simp
    show "failures (view w) m < 10" if "IsLockedOut (as_sessions s) m w = ((lk', None), w1)" for lk' w1
      using session.locked_ok [OF that] that l nl by simp
  qed
qed

section \<open>Refresh and logout\<close>

lemma refresh_invalid:
  assumes "refresh_of (view w) tok = None"
  shows "fst (authService_Refresh E s c tok w) = Inl (Unauthorized ''invalid or expired refresh token'')"
    and "view (snd (authService_Refresh E s c tok w)) = view w"
proof -
  obtain r w1 where v: "ValidateRefreshToken (as_sessions s) tok w = (r, w1)" by fastforce
  obtain e where r: "r = Inl e" using session.validate_revoked [OF assms v] by blast
  have "view w1 = view w" using session.validate_view [of tok w] v by simp
  then show "fst (authService_Refresh E s c tok w) = Inl (Unauthorized ''invalid or expired refresh token'')"
    "view (snd (authService_Refresh E s c tok w)) = view w"
    using v r by (simp_all add: authService_Refresh_def)
qed

lemma refresh_ok:
  assumes "authService_Refresh E s c tok w = (Inr pair, w')" and "0 < JWTService_RefreshTTL (as_jwt s)"
  obtains uid i u wu wr where "refresh_of (view w) tok = Some uid" and "uuidParse E uid = Some i"
    and "svc_GetByID (as_users s) i wu = (Inr u, wr)" and "wu = snd (ValidateRefreshToken (as_sessions s) tok w)"
    and "view w' = (view w)\<lparr>refresh_of := \<lambda>t'. if same (tp_RawRefreshToken pair) t' then Some (uuidString E (u_ID u))
      else if same tok t' then None else refresh_of (view w) t'\<rparr>"
    and "T w' = T w"
    and "jwtSign E (jwt_priv (as_jwt s)) (access_claims E (as_jwt s) (u_ID u) (u_Role u) (tp_JTI pair) (w_now w)) =
      Inr (tp_AccessToken pair)"
proof -
  obtain r0 w1 where v: "ValidateRefreshToken (as_sessions s) tok w = (r0, w1)" by fastforce
  obtain uid i where r0: "r0 = Inr uid" "uuidParse E uid = Some i"
    using assms(1) v by (auto simp: authService_Refresh_def fail_def split: sum.splits option.splits)
  obtain q w2 where g: "svc_GetByID (as_users s) i w1 = (q, w2)" by fastforce
  obtain u where u: "q = Inr u"
    using assms(1) v r0 g by (auto simp: authService_Refresh_def fail_def split: sum.splits)
  obtain x w3 where a: "JWTService_IssueAccessToken E (as_jwt s) (u_ID u) (u_Role u) w2 = (x, w3)" by fastforce
  obtain y w4 where b: "JWTService_IssueRefreshToken E (as_jwt s) w3 = (y, w4)" by fastforce
  obtain t jti ex raw where xy: "x = Inr (t, jti, ex)" "y = Inr raw"
    using assms(1) v r0 g u a b by (auto simp: authService_Refresh_def fail_def split: sum.splits)
  obtain z w5 where d: "RotateRefreshToken (as_sessions s) tok raw (uuidString E (u_ID u))
      (JWTService_RefreshTTL (as_jwt s)) w4 = (z, w5)" by fastforce
  have z: "z = None" and pair: "tp_RawRefreshToken pair = raw" "tp_AccessToken pair = t" "tp_JTI pair = jti"
    and w': "view w' = view w5" "T w' = T w5"
    using assms(1) v r0 g u a b xy d by (auto simp: authService_Refresh_def fail_def split: option.splits)
  have w1: "view w1 = view w" "T w1 = T w" "w_now w1 = w_now w"
    using session.validate_view [of tok w] session.validate_frame [of w tok] v T_only_redis only_redis_simps(1) by auto
  have q: "view w4 = view w" "T w4 = T w" "w_now w2 = w_now w"
    using accounts.acc_id_quiet [OF g] token_quiet(1) [OF a] token_quiet(2) [OF b] w1 by simp_all
  show thesis
  proof (rule that [of uid i w1 u w2])
    show "refresh_of (view w) tok = Some uid" using session.validate_ok [OF v [unfolded r0(1)]] .
    show "uuidParse E uid = Some i" by (rule r0)
    show "svc_GetByID (as_users s) i w1 = (Inr u, w2)" using g u by simp
    show "w1 = snd (ValidateRefreshToken (as_sessions s) tok w)" using v by simp
    show "view w' = (view w)\<lparr>refresh_of := \<lambda>t'. if same (tp_RawRefreshToken pair) t' then Some (uuidString E (u_ID u))
        else if same tok t' then None else refresh_of (view w) t'\<rparr>"
      using session.rotate_ok [OF d [unfolded z] assms(2)] q by (simp add: w' pair cong: if_cong)
    have "only_redis w4 w5"
      using session.rotate_frame [of w4 tok raw "uuidString E (u_ID u)" "JWTService_RefreshTTL (as_jwt s)"] d by simp
    with q show "T w' = T w" using T_only_redis by (simp add: w')
    show "jwtSign E (jwt_priv (as_jwt s)) (access_claims E (as_jwt s) (u_ID u) (u_Role u) (tp_JTI pair) (w_now w)) =
        Inr (tp_AccessToken pair)"
      using a xy q(3) by (auto simp: pair JWTService_IssueAccessToken_def draw_def Let_def split: sum.splits)
  qed
qed

text \<open>A replayed token is refused.\<close>

lemma refresh_replay:
  assumes "authService_Refresh E s c tok w = (Inr pair, w')" and "0 < JWTService_RefreshTTL (as_jwt s)"
    and "\<not> same (tp_RawRefreshToken pair) tok"
  shows "fst (authService_Refresh E s c' tok w') = Inl (Unauthorized ''invalid or expired refresh token'')"
proof (rule refresh_ok [OF assms(1,2)])
  fix uid i u wu wr
  assume v: "view w' = (view w)\<lparr>refresh_of := \<lambda>t'. if same (tp_RawRefreshToken pair) t' then Some (uuidString E (u_ID u))
      else if same tok t' then None else refresh_of (view w) t'\<rparr>"
  have "refresh_of (view w') tok = None" using assms(3) by (simp add: v session.same_refl)
  then show ?thesis by (rule refresh_invalid)
qed

lemma logout_ok:
  assumes "authService_Logout s c jti tok w = (None, w')" and "0 < JWTService_RefreshTTL (as_jwt s)"
  shows "view w' = (view w)\<lparr>blocked := \<lambda>j. j = jti \<or> blocked (view w) j,
      refresh_of := \<lambda>t'. if same tok t' then None else refresh_of (view w) t'\<rparr>"
    and "T w' = T w"
proof -
  obtain x w1 where b: "BlocklistJTI (as_sessions s) jti (JWTService_RefreshTTL (as_jwt s)) w = (x, w1)" by fastforce
  obtain y w2 where r: "RevokeRefreshToken (as_sessions s) tok w1 = (y, w2)" by fastforce
  have ok: "x = None" "y = None" and w': "view w' = view w2" "T w' = T w2"
    using assms(1) b r by (auto simp: authService_Logout_def fail_opt_def split: option.splits)
  show "view w' = (view w)\<lparr>blocked := \<lambda>j. j = jti \<or> blocked (view w) j,
      refresh_of := \<lambda>t'. if same tok t' then None else refresh_of (view w) t'\<rparr>"
    using session.block_ok [OF b [unfolded ok(1)] assms(2)] session.revoke_ok [OF r [unfolded ok(2)]] by (simp add: w' cong: if_cong)
  show "T w' = T w"
    using session.block_frame [of w jti "JWTService_RefreshTTL (as_jwt s)"] session.revoke_frame [of w1 tok] b r
      T_only_redis by (simp add: w')
qed

section \<open>Password reset\<close>

lemma reset_short:
  assumes "length pw < 8"
  shows "fst (authService_ResetPassword E s c tok pw w) = Some (BadRequest ''password must be at least 8 characters'' None)"
    and "view (snd (authService_ResetPassword E s c tok pw w)) = view w"
    and "T (snd (authService_ResetPassword E s c tok pw w)) = T w"
  using assms by (simp_all add: authService_ResetPassword_def)

text \<open>Past the length check the token is spent, whatever becomes of the password.\<close>

lemma reset_spends:
  assumes "8 \<le> length pw" and "ConsumePasswordResetToken (as_sessions s) tok w = (Inr uid, w1)"
    and "authService_ResetPassword E s c tok pw w = (r, w')"
  shows "reset_of (view w) tok = Some uid" and "reset_of (view w') tok = None"
    and "r = None \<Longrightarrow> \<exists>i h n. uuidParse E uid = Some i \<and> bcryptGenerate E pw 12 n = Inr h \<and>
      T w' = map_user i (password_row (w_now w) h) (T w)"
proof -
  note c = session.consume_ok [OF assms(2)]
  have fr: "T w1 = T w" "w_now w1 = w_now w"
    using session.consume_frame [of w tok] assms(2) T_only_redis only_redis_simps(1) by auto
  show "reset_of (view w) tok = Some uid" using c by simp
  obtain n w2 where d: "draw w1 = (n, w2)" by fastforce
  have w2: "view w2 = view w1" "T w2 = T w" "w_now w2 = w_now w"
    using d fr session.view_cong [of w2 w1] accounts.acc_T [of w2 w1] by (auto simp: draw_def)
  have v1: "reset_of (view w1) tok = None" using c by (simp add: session.same_refl)
  have len: "\<not> length pw < 8" using assms(1) by simp
  show "reset_of (view w') tok = None"
  proof (cases "uuidParse E uid")
    case None
    then show ?thesis using assms(2,3) v1 len by (auto simp: authService_ResetPassword_def fail_opt_def)
  next
    case (Some i)
    show ?thesis
    proof (cases "bcryptGenerate E pw 12 n")
      case (Inl e)
      then show ?thesis using assms(2,3) v1 len d w2 Some
        by (auto simp: authService_ResetPassword_def fail_opt_def)
    next
      case (Inr h)
      obtain p w3 where p: "svc_UpdatePassword (as_users s) i h w2 = (p, w3)" by fastforce
      have "view w3 = view w2" using accounts.acc_password_quiet [OF p] by simp
      then show ?thesis using assms(2,3) v1 len d w2 Some Inr p
        by (auto simp: authService_ResetPassword_def fail_opt_def split: option.splits)
    qed
  qed
  show "\<exists>i h n. uuidParse E uid = Some i \<and> bcryptGenerate E pw 12 n = Inr h \<and>
      T w' = map_user i (password_row (w_now w) h) (T w)" if rn: "r = None"
  proof -
    obtain i h where ih: "uuidParse E uid = Some i" "bcryptGenerate E pw 12 n = Inr h"
      using assms(2,3) rn len d by (auto simp: authService_ResetPassword_def fail_opt_def split: option.splits sum.splits)
    obtain p w3 where p: "svc_UpdatePassword (as_users s) i h w2 = (p, w3)" by fastforce
    have "p = None" "T w' = T w3"
      using assms(2,3) rn len d ih p by (auto simp: authService_ResetPassword_def fail_opt_def split: option.splits)
    with accounts.acc_password [of i h w2 w3] p w2 ih show ?thesis by auto
  qed
qed

lemma reset_refused:
  assumes "ConsumePasswordResetToken (as_sessions s) tok w = (Inl e, w1)"
  shows "\<exists>msg x. fst (authService_ResetPassword E s c tok pw w) = Some (AppErr 400 msg x)"
    and "T (snd (authService_ResetPassword E s c tok pw w)) = T w"
  using assms session.consume_frame [of w tok] T_only_redis
  by (auto simp: authService_ResetPassword_def app_defs)

text \<open>A forgotten password changes nothing but the pending reset tokens.\<close>

lemma forgot_unknown:
  assumes "svc_GetByEmail (as_users s) m w = (Inl e, w1)"
  shows "fst (authService_ForgotPassword E s c m w) = None"
    and "view (snd (authService_ForgotPassword E s c m w)) = view w"
  using assms accounts.acc_email_quiet [OF assms] by (simp_all add: authService_ForgotPassword_def)

lemma mail_quiet:
  assumes "as_mailer s \<in> {None, Some StubEmailSender}"
  shows "view (case as_mailer s of None \<Rightarrow> w | Some m \<Rightarrow>
      (let (e, w') = mail_SendPasswordReset m to url w in warn_error msg e w')) = view w"
    and "T (case as_mailer s of None \<Rightarrow> w | Some m \<Rightarrow>
      (let (e, w') = mail_SendPasswordReset m to url w in warn_error msg e w')) = T w"
  using assms by (auto simp: StubEmailSender_def StubEmailSender_SendPasswordReset_def)

lemma forgot_known:
  assumes "svc_GetByEmail (as_users s) m w = (Inr u, w1)" and "as_mailer s \<in> {None, Some StubEmailSender}"
    and "authService_ForgotPassword E s c m w = (r, w')"
  shows "\<exists>f. view w' = (view w)\<lparr>reset_of := f\<rparr>" and "T w' = T w"
    and "r = None \<Longrightarrow> \<exists>raw. view w' = (view w)\<lparr>reset_of := \<lambda>t'. if same raw t' then Some (uuidString E (u_ID u))
      else reset_of (view w) t'\<rparr>"
proof -
  have w1: "view w1 = view w" "T w1 = T w" using accounts.acc_email_quiet [OF assms(1)] by simp_all
  obtain x w2 where x: "JWTService_IssueRefreshToken E (as_jwt s) w1 = (x, w2)" by fastforce
  have w2: "view w2 = view w" "T w2 = T w" using token_quiet(2) [OF x] w1 by simp_all
  have "(\<exists>f. view w' = (view w)\<lparr>reset_of := f\<rparr>) \<and> T w' = T w \<and> (r = None \<longrightarrow>
      (\<exists>raw. view w' = (view w)\<lparr>reset_of := \<lambda>t'. if same raw t' then Some (uuidString E (u_ID u))
        else reset_of (view w) t'\<rparr>))"
  proof (cases x)
    case (Inl e)
    have "\<exists>f. view w = (view w)\<lparr>reset_of := f\<rparr>" by (rule exI [of _ "reset_of (view w)"]) simp
    then show ?thesis using Inl assms(1,3) x w2 by (auto simp: authService_ForgotPassword_def fail_opt_def)
  next
    case (Inr raw)
    obtain z w3 where z: "StorePasswordResetToken (as_sessions s) raw (uuidString E (u_ID u)) w2 = (z, w3)"
      by fastforce
    have T3: "T w3 = T w" using session.reset_frame [of w2 raw "uuidString E (u_ID u)"] z T_only_redis w2 by simp
    have any: "\<exists>f. view w3 = (view w)\<lparr>reset_of := f\<rparr>"
      using session.reset_any [of raw "uuidString E (u_ID u)" w2] z w2 by simp
    show ?thesis
    proof (cases z)
      case None
      have v3: "view w3 = (view w)\<lparr>reset_of := \<lambda>t'. if same raw t' then Some (uuidString E (u_ID u))
          else reset_of (view w) t'\<rparr>"
        using session.reset_ok [OF z [unfolded None]] w2 by (simp cong: if_cong)
      have "view w' = view w3" "T w' = T w3"
        using assms(1,3) x Inr z None mail_quiet [OF assms(2)]
        by (auto simp: authService_ForgotPassword_def Let_def)
      with v3 T3 show ?thesis by metis
    next
      case (Some e)
      then show ?thesis using assms(1,3) x Inr z T3 any
        by (auto simp: authService_ForgotPassword_def fail_opt_def)
    qed
  qed
  then show "\<exists>f. view w' = (view w)\<lparr>reset_of := f\<rparr>" and "T w' = T w"
    and "r = None \<Longrightarrow> \<exists>raw. view w' = (view w)\<lparr>reset_of := \<lambda>t'. if same raw t' then Some (uuidString E (u_ID u))
      else reset_of (view w) t'\<rparr>" by blast+
qed

end

section \<open>The service that main builds\<close>

lemma userCacheKey_apart [simp]:
  "refreshKey E t \<noteq> userCacheKey E i" "blocklistKey j \<noteq> userCacheKey E i" "lockoutKey E m \<noteq> userCacheKey E i"
  "resetKey E t \<noteq> userCacheKey E i"
  by (simp_all add: key_defs userCacheKey_def)

lemma only_redis_refl: "only_redis w w"
  by (simp add: only_redis_def)

context redis_server begin

text \<open>The user cache and the sessions share one Redis and never meet.\<close>

lemma session_quiet_err:
  assumes "redis_err E c w = (e, w')" and "cmd_keys c = {userCacheKey E i}"
  shows "session_view E kv w' = session_view E kv w"
proof (rule session_view_cong)
  show "w_now w' = w_now w" using err_only [OF assms(1)] by (rule only_redis_simps)
  fix k
  assume "(\<exists>a. k = refreshKey E a) \<or> (\<exists>a. k = blocklistKey a) \<or> (\<exists>a. k = lockoutKey E a) \<or> (\<exists>a. k = resetKey E a)"
  then have "k \<noteq> userCacheKey E i" by (elim disjE exE) simp_all
  then have "k \<notin> cmd_keys c" by (simp add: assms(2))
  then show "kv (w_redis w') k = kv (w_redis w) k" by (rule err_other [OF assms(1)])
qed

lemma cache_calls_quiet:
  "cache_GetJSON (user_cache_of E) (userCacheKey E i) w = (r, w') \<Longrightarrow>
   session_view E kv w' = session_view E kv w \<and> only_redis w w'"
  "cache_SetJSON (user_cache_of E) (userCacheKey E i) u d w = (e, w') \<Longrightarrow>
   session_view E kv w' = session_view E kv w \<and> only_redis w w'"
  "cache_Delete (user_cache_of E) [userCacheKey E i] w = (e, w') \<Longrightarrow>
   session_view E kv w' = session_view E kv w \<and> only_redis w w'"
proof -
  show "cache_GetJSON (user_cache_of E) (userCacheKey E i) w = (r, w') \<Longrightarrow>
      session_view E kv w' = session_view E kv w \<and> only_redis w w'"
    by (auto simp: user_cache_of_def NewCacheRepo_def cacheRepo_GetJSON_def dest: do_get_view do_only
        split: prod.splits sum.splits rreply.splits option.splits)
  show "cache_SetJSON (user_cache_of E) (userCacheKey E i) u d w = (e, w') \<Longrightarrow>
      session_view E kv w' = session_view E kv w \<and> only_redis w w'"
    by (auto simp: user_cache_of_def NewCacheRepo_def cacheRepo_SetJSON_def only_redis_refl
        dest: session_quiet_err [where i = i] err_only split: prod.splits option.splits)
  show "cache_Delete (user_cache_of E) [userCacheKey E i] w = (e, w') \<Longrightarrow>
      session_view E kv w' = session_view E kv w \<and> only_redis w w'"
    by (auto simp: user_cache_of_def NewCacheRepo_def cacheRepo_Delete_def
        dest: session_quiet_err [where i = i] err_only split: prod.splits)
qed

end

context backend begin

abbreviation keeps where
  "keeps w w' \<equiv> rows tabs w' = rows tabs w \<and> session_view E kv w' = session_view E kv w \<and>
     w_now w' = w_now w \<and> w_rand w' = w_rand w"

lemma keeps_only_redis:
  "only_redis w w' \<Longrightarrow> session_view E kv w' = session_view E kv w \<Longrightarrow> keeps w w'"
  by (simp add: rows_def only_redis_simps)

lemma keeps_lookup: "cache_lookup (Some (user_cache_of E)) (userCacheKey E i) w = (h, w') \<Longrightarrow> keeps w w'"
  by (auto simp: cache_lookup_def cache_op_def rows_def only_redis_simps dest!: cache_calls_quiet(1)
      split: prod.splits sum.splits if_splits)

lemma keeps_fill: "keeps w (cache_fill (Some (user_cache_of E)) (userCacheKey E i) u w)"
  by (auto simp: cache_fill_def cache_op_def rows_def only_redis_simps dest!: cache_calls_quiet(2)
      split: prod.splits option.splits)

lemma keeps_drop: "keeps w (cache_drop (Some (user_cache_of E)) msg (userCacheKey E i) w)"
  by (auto simp: cache_drop_def rows_def only_redis_simps dest!: cache_calls_quiet(3)
      split: prod.splits option.splits)

lemma keeps_trans: "keeps u v \<Longrightarrow> keeps v w \<Longrightarrow> keeps u w"
  by simp

lemma keeps_ends:
  "keeps u (end_failed n as e w) = keeps u w" "keeps u (end_ok n as w) = keeps u w" "keeps u (end_unset n as w) = keeps u w"
  by (simp_all add: end_defs rows_def)

lemma frame_view: "db_frame w w' \<Longrightarrow> session_view E kv w' = session_view E kv w \<and> w_now w' = w_now w \<and> w_rand w' = w_rand w"
  by (simp add: db_frame_def session_view_def)

lemma keeps_find: "repo_FindByID (main_userRepo E) i w = (r, w') \<Longrightarrow> keeps w w'"
  using repo.find_view [of i w] frame_view [OF repo.repo_frame(2) [of w i]] by (auto simp: rows_def)

lemma keeps_get: "svc_GetByID (main_userSvc E) i w = (r, w') \<Longrightarrow> keeps w w'"
proof -
  assume g: "svc_GetByID (main_userSvc E) i w = (r, w')"
  obtain h w1 where l: "cache_lookup (Some (user_cache_of E)) (userCacheKey E i) w = (h, w1)" by fastforce
  obtain q w2 where f: "repo_FindByID (main_userRepo E) i w1 = (q, w2)" by fastforce
  have k1: "keeps w w1" by (rule keeps_lookup [OF l])
  have k2: "keeps w w2" by (rule keeps_trans [OF k1 keeps_find [OF f]])
  have k3: "keeps w (cache_fill (Some (user_cache_of E)) (userCacheKey E i) u w2)" for u
    by (rule keeps_trans [OF k2 keeps_fill])
  show ?thesis
  proof (cases h)
    case (Some v)
    with g l have "w' = end_unset ''service/GetByID'' [(''user.id'', uuidString E i)] w1"
      by (simp add: main_ops userService_GetByID_def)
    with k1 show ?thesis by (simp only: keeps_ends)
  next
    case None
    show ?thesis
    proof (cases q)
      case (Inl e)
      with g l f None have "w' = end_failed ''service/GetByID'' [(''user.id'', uuidString E i)] e w2"
        by (simp add: main_ops userService_GetByID_def)
      with k2 show ?thesis by (simp only: keeps_ends)
    next
      case (Inr u)
      with g l f None have "w' = end_ok ''service/GetByID'' [(''user.id'', uuidString E i)]
          (cache_fill (Some (user_cache_of E)) (userCacheKey E i) u w2)"
        by (simp add: main_ops userService_GetByID_def)
      with k3 show ?thesis by (simp only: keeps_ends)
    qed
  qed
qed

lemma password_quiet:
  assumes "svc_UpdatePassword (main_userSvc E) i h w = (p, w')"
  shows "session_view E kv w' = session_view E kv w" and "w_now w' = w_now w"
proof -
  obtain e w1 where u: "repo_UpdatePassword (main_userRepo E) i h w = (e, w1)" by fastforce
  have 1: "session_view E kv w1 = session_view E kv w" "w_now w1 = w_now w"
    using frame_view [OF repo.repo_frame(5) [of w i h]] u by simp_all
  have 2: "session_view E kv (cache_drop (Some (user_cache_of E)) m (userCacheKey E i) w1) = session_view E kv w"
    "w_now (cache_drop (Some (user_cache_of E)) m (userCacheKey E i) w1) = w_now w" for m
    using keeps_drop [where w = w1 and msg = m and i = i] 1 by simp_all
  show "session_view E kv w' = session_view E kv w" "w_now w' = w_now w"
    using assms u 1 2 by (auto simp: main_ops userService_UpdatePassword_def Let_def end_defs split: option.splits)
qed

end

sublocale backend \<subseteq> accounts: user_accounts "main_userSvc E" "rows tabs" "session_view E kv"
proof (unfold_locales, goal_cases)
  case (1 m w u w')
  then show ?case using repo.email_ok [of m w u w'] by (simp add: main_ops userService_GetByEmail_def rows_def)
next
  case (2 m w e w')
  then show ?case using repo.email_missing [of m w e w'] by (simp add: main_ops userService_GetByEmail_def rows_def)
next
  case (3 m w r w')
  then show ?case
    using repo.email_view [of m w] repo.repo_frame(3) [of w m]
    by (simp add: main_ops userService_GetByEmail_def rows_def db_frame_def session_view_def)
next
  case (4 i w q w')
  then show ?case using keeps_get by blast
next
  case (5 i h w w')
  then show ?case using users.password_effect(1) [of i h w w'] by (simp add: main_ops rows_def)
next
  case (6 i h w p w')
  then show ?case using password_quiet by blast
next
  case (7 w w')
  then show ?case by (simp add: rows_def)
qed

text \<open>The service that \<open>main\<close> builds, from the parameters it reads from the configuration.\<close>

definition main_auth :: "('s, 'd) env \<Rightarrow> jwt_service \<Rightarrow> string \<Rightarrow> ('s, 'd) auth_service_deps" where
  "main_auth E jwt base = main_auth_deps E (main_userSvc E) jwt base"

lemma main_auth_parts [simp]:
  "as_users (main_auth E jwt base) = main_userSvc E" "as_sessions (main_auth E jwt base) = NewSessionRepo E"
  "as_jwt (main_auth E jwt base) = jwt" "as_mailer (main_auth E jwt base) = Some StubEmailSender"
  "as_baseURL (main_auth E jwt base) = base"
  by (simp_all add: main_auth_def main_auth_deps_def)

sublocale backend \<subseteq> auth: authentication E "main_auth E jwt base" "session_view E kv" "same_digest E" "rows tabs"
  for jwt :: jwt_service and base :: string
  unfolding authentication_def main_auth_parts
  by (intro conjI session.session_contract_axioms accounts.user_accounts_axioms)

context backend begin

lemma main_authentication: "authentication (main_auth E jwt base) (session_view E kv) (same_digest E) (rows tabs)"
  by (rule auth.authentication_axioms)

lemma main_accounts: "user_accounts (main_userSvc E) (rows tabs) (session_view E kv)"
  by (rule accounts.user_accounts_axioms)

lemma main_sessions: "session_contract (NewSessionRepo E) (session_view E kv) (same_digest E)"
  by (rule session.session_contract_axioms)

end

end
