(* ===== verification/Auth_Props.thy ===== *)
theory Auth_Props
  imports Auth_Contract User_Props Session_Props
begin

text \<open>
  Properties of the authentication service as \<open>main\<close> builds it: the session store over Redis, the user service over
  the decorated repository and the cache, and the stub mailer.  \<open>session_view\<close> reads the sessions of a world and
  \<open>rows\<close> its tables.
\<close>

abbreviation main_login where "main_login E jwt base \<equiv> authService_Login E (main_auth E jwt base)"
abbreviation main_refresh where "main_refresh E jwt base \<equiv> authService_Refresh E (main_auth E jwt base)"
abbreviation main_logout where "main_logout E jwt base \<equiv> authService_Logout (main_auth E jwt base)"
abbreviation main_forgot where "main_forgot E jwt base \<equiv> authService_ForgotPassword E (main_auth E jwt base)"
abbreviation main_reset where "main_reset E jwt base \<equiv> authService_ResetPassword E (main_auth E jwt base)"

lemma NewSessionRepo_sel [simp]:
  "StoreRefreshToken (NewSessionRepo E) = sessionRepo_StoreRefreshToken E"
  "ValidateRefreshToken (NewSessionRepo E) = sessionRepo_ValidateRefreshToken E"
  "RevokeRefreshToken (NewSessionRepo E) = sessionRepo_RevokeRefreshToken E"
  "BlocklistJTI (NewSessionRepo E) = sessionRepo_BlocklistJTI E"
  "IsBlocklisted (NewSessionRepo E) = sessionRepo_IsBlocklisted E"
  "RotateRefreshToken (NewSessionRepo E) = sessionRepo_RotateRefreshToken E"
  "IncrLoginFailure (NewSessionRepo E) = sessionRepo_IncrLoginFailure E"
  "ClearLoginFailures (NewSessionRepo E) = sessionRepo_ClearLoginFailures E"
  "IsLockedOut (NewSessionRepo E) = sessionRepo_IsLockedOut E"
  "ConsumePasswordResetToken (NewSessionRepo E) = sessionRepo_ConsumePasswordResetToken E"
  by (simp_all add: NewSessionRepo_def)

section \<open>The lockout counter on a server that answers\<close>

text \<open>The counter of an address is absent or a number that can grow.\<close>

definition counter_ok :: "('s, 'd) env \<Rightarrow> ('s \<Rightarrow> store) \<Rightarrow> string \<Rightarrow> ('s, 'd) world \<Rightarrow> bool" where
  "counter_ok E kv m w =
     (case live (w_now w) (kv (w_redis w)) (lockoutKey E m) of
        None \<Rightarrow> True
      | Some (VStr s, _) \<Rightarrow> (case Atoi s of None \<Rightarrow> False | Some n \<Rightarrow> in_int64 (n + 1))
      | Some (VZSet _, _) \<Rightarrow> False)"

context redis_server begin

lemma incr_up:
  assumes "redis_up E" and "counter_ok E kv m w"
  shows "snd (fst (sessionRepo_IncrLoginFailure E m d w)) = None"
proof -
  obtain s' where "redis_exec E [INCR (lockoutKey E m), EXPIRE (lockoutKey E m) d] w =
      (Inr (fst (redis_run (w_now w) [INCR (lockoutKey E m), EXPIRE (lockoutKey E m) d] (kv (w_redis w)))), w\<lparr>w_redis := s'\<rparr>)"
    using up_run [OF assms(1)] by metis
  with assms(2) show ?thesis
    by (auto simp: sessionRepo_IncrLoginFailure_def Let_def counter_ok_def reply_error_def live_def
        split: option.splits rval.splits prod.splits if_splits)
qed

lemma locked_up:
  assumes "redis_up E" and "counter_ok E kv m w"
  shows "snd (fst (sessionRepo_IsLockedOut E m w)) = None"
proof -
  obtain s' where "redis_exec E [GET (lockoutKey E m)] w =
      (Inr (fst (redis_run (w_now w) [GET (lockoutKey E m)] (kv (w_redis w)))), w\<lparr>w_redis := s'\<rparr>)"
    using up_run [OF assms(1)] by metis
  with assms(2) show ?thesis
    by (auto simp: sessionRepo_IsLockedOut_def sessionRepo_GetLoginFailures_def redis_do_def nth_reply_def counter_ok_def
        reply_error_def split: option.splits rval.splits prod.splits if_splits sum.splits)
qed

lemma locked_kv: "sessionRepo_IsLockedOut E m w = (r, w') \<Longrightarrow> kv (w_redis w') = kv (w_redis w)"
proof -
  have "kv (w_redis v) = kv (w_redis w)" if "redis_do E (GET k) w = (x, v)" for k x v
    using do_effect [OF that] step_reads(1) by simp
  then show "sessionRepo_IsLockedOut E m w = (r, w') \<Longrightarrow> kv (w_redis w') = kv (w_redis w)"
    by (auto simp: sessionRepo_IsLockedOut_def sessionRepo_GetLoginFailures_def
        split: prod.splits sum.splits rreply.splits option.splits if_splits)
qed

end

context backend begin

lemma email_frame: "svc_GetByEmail (main_userSvc E) m w = (r, w') \<Longrightarrow> w_now w' = w_now w \<and> w_redis w' = w_redis w"
  using repo.repo_frame(3) [of w m] by (simp add: main_ops userService_GetByEmail_def db_frame_def)

end

section \<open>Worlds for the witnesses\<close>

text \<open>The two users of \<open>ref_tables\<close>, password \<open>secret99\<close>, and a failure counter for the first address.\<close>

definition ref_counted :: "string \<Rightarrow> (ref_redis, ref_db) world" where
  "ref_counted n = (ref_world 0 ref_tables [] [])\<lparr>w_redis :=
     (Map.empty(lockoutKey ref_up_env ''a@b.c'' \<mapsto> (VStr n, Some (900 * second))), [])\<rparr>"

lemma ref_counted_rows [simp]: "rows fst (ref_counted n) = ref_tables"
  by (simp add: ref_counted_def rows_def ref_world_def)

lemma ref_refresh_ttl: "0 < JWTService_RefreshTTL ref_jwt_service"
  by code_simp

text \<open>On the reference servers tokens can always be issued and stored.\<close>

lemma ref_up_exec: "redis_exec ref_up_env cs w =
    (Inr (fst (redis_run (w_now w) cs (fst (w_redis w)))), w\<lparr>w_redis := (snd (redis_run (w_now w) cs (fst (w_redis w))), snd (w_redis w))\<rparr>)"
  by (simp add: redis_exec_def ref_up_env_def split_beta Let_def)

lemma ref_store_up: "fst (sessionRepo_StoreRefreshToken ref_up_env t u d w) = None"
  by (simp add: sessionRepo_StoreRefreshToken_def redis_err_def redis_do_def ref_up_exec nth_reply_def reply_error_def
      wrap_err_def)

lemma ref_rotate_up: "fst (sessionRepo_RotateRefreshToken ref_up_env a b u d w) = None"
  by (simp add: sessionRepo_RotateRefreshToken_def ref_up_exec reply_error_def wrap_err_def)

lemma ref_issue:
  "\<exists>x w'. JWTService_IssueAccessToken ref_up_env j i r w = (Inr x, w')"
  "\<exists>t w'. JWTService_IssueRefreshToken ref_up_env j w = (Inr t, w') \<and> length t = 43"
  by (simp_all add: JWTService_IssueAccessToken_def JWTService_IssueRefreshToken_def draw_def ref_up_env_def
      ref_jwtSign_def length_RawURLEncoding Let_def)

lemma ref_login_succeeds:
  assumes "fst (sessionRepo_IsLockedOut ref_up_env m w) = (False, None)"
    and "case fst (svc_GetByEmail (main_userSvc ref_up_env) m (snd (sessionRepo_IsLockedOut ref_up_env m w))) of
      Inl _ \<Rightarrow> False | Inr u \<Rightarrow> bcryptCompare ref_up_env (u_PasswordHash u) pw = None"
  shows "\<exists>pair. fst (main_login ref_up_env jwt base c m pw w) = Inr pair"
proof -
  have t: "\<exists>pair. fst (login_tokens ref_up_env (main_auth ref_up_env jwt base) c m u v) = Inr pair" for u v
  proof -
    obtain tok jti ex v1 where 1: "JWTService_IssueAccessToken ref_up_env jwt (u_ID u) (u_Role u) v = (Inr (tok, jti, ex), v1)"
      using ref_issue(1) [of jwt "u_ID u" "u_Role u" v] by auto
    obtain raw v2 where 2: "JWTService_IssueRefreshToken ref_up_env jwt v1 = (Inr raw, v2)"
      using ref_issue(2) [of jwt v1] by blast
    show ?thesis
      using ref_store_up [of raw "uuidString ref_up_env (u_ID u)" "JWTService_RefreshTTL jwt" v2] 1 2
      by (auto simp: login_tokens_def split: prod.splits option.splits)
  qed
  obtain w0 where l: "sessionRepo_IsLockedOut ref_up_env m w = ((False, None), w0)"
    using assms(1) by (metis prod.collapse)
  obtain u w2 where g: "svc_GetByEmail (main_userSvc ref_up_env) m w0 = (Inr u, w2)"
    and b: "bcryptCompare ref_up_env (u_PasswordHash u) pw = None"
    using assms(2) l by (cases "svc_GetByEmail (main_userSvc ref_up_env) m w0") (auto split: sum.splits)
  show ?thesis
    using l g b t by (auto simp: authService_Login_def warn_error_def split: prod.splits)
qed

lemma ref_refresh_succeeds:
  assumes "case fst (sessionRepo_ValidateRefreshToken ref_up_env tok w) of Inl _ \<Rightarrow> False
    | Inr s \<Rightarrow> (case uuidParse ref_up_env s of None \<Rightarrow> False
        | Some i \<Rightarrow> \<not> isl (fst (svc_GetByID (main_userSvc ref_up_env) i (snd (sessionRepo_ValidateRefreshToken ref_up_env tok w)))))"
  shows "\<exists>pair. fst (main_refresh ref_up_env jwt base c tok w) = Inr pair \<and> length (tp_RawRefreshToken pair) = 43"
proof -
  obtain s w1 i where v: "sessionRepo_ValidateRefreshToken ref_up_env tok w = (Inr s, w1)" "uuidParse ref_up_env s = Some i"
    and "\<not> isl (fst (svc_GetByID (main_userSvc ref_up_env) i w1))"
    using assms by (cases "sessionRepo_ValidateRefreshToken ref_up_env tok w") (auto split: sum.splits option.splits)
  then obtain u w2 where g: "svc_GetByID (main_userSvc ref_up_env) i w1 = (Inr u, w2)"
    by (metis prod.collapse sum.collapse(2))
  obtain t jti ex w3 where 1: "JWTService_IssueAccessToken ref_up_env jwt (u_ID u) (u_Role u) w2 = (Inr (t, jti, ex), w3)"
    using ref_issue(1) [of jwt "u_ID u" "u_Role u" w2] by auto
  obtain raw w4 where 2: "JWTService_IssueRefreshToken ref_up_env jwt w3 = (Inr raw, w4)" "length raw = 43"
    using ref_issue(2) [of jwt w3] by blast
  show ?thesis
    using ref_rotate_up [of tok raw "uuidString ref_up_env (u_ID u)" "JWTService_RefreshTTL jwt" w4] v g 1 2
    by (auto simp: authService_Refresh_def split: prod.splits option.splits)
qed

lemma ref_digest_length: "same_digest ref_up_env a b \<Longrightarrow> length a = length b"
proof -
  have len: "length (hex_bytes bs) = 2 * length bs" for bs by (induction bs) (simp_all add: hex_bytes_def)
  assume "same_digest ref_up_env a b"
  then have "length (hashToken ref_up_env a) = length (hashToken ref_up_env b)" by (simp add: same_digest_def)
  then show "length a = length b" by (simp add: hashToken_def len ref_up_env_def ref_sha256_def)
qed

section \<open>Login\<close>

text \<open>
  A locked-out address is turned away before anything else happens: whatever the password, and whether or not
  the account exists, the answer is the 429 error, no token is stored, no failure counted and no row touched.
\<close>

theorem locked_address_refused:
  assumes "backend E kv tabs" and "redis_up E" and "counter_ok E kv m w"
    and "10 \<le> failures (session_view E kv w) m"
  shows "fst (main_login E jwt base c m pw w) = Inl locked_error \<and>
    session_view E kv (snd (main_login E jwt base c m pw w)) = session_view E kv w \<and>
    rows tabs (snd (main_login E jwt base c m pw w)) = rows tabs w"
proof -
  note A = backend.main_authentication [OF assms(1)]
  have "redis_server E kv" using assms(1) by (simp add: backend_def)
  from redis_server.locked_up [OF this assms(2,3)] obtain lk w0
    where l: "IsLockedOut (NewSessionRepo E) m w = ((lk, None), w0)" by (metis NewSessionRepo_sel(9) prod.collapse)
  have "lk" using session_contract.locked_ok [OF backend.main_sessions [OF assms(1)] l] assms(4) by simp
  with l have l': "IsLockedOut (as_sessions (main_auth E jwt base)) m w = ((True, None), w0)" by simp
  show ?thesis by (intro conjI authentication.login_locked [OF A l'])
qed

theorem locked_address_refused_witness:
  "fst (main_login ref_up_env ref_jwt_service [] empty_ctx ''a@b.c'' ''secret99'' (ref_counted ''10'')) = Inl locked_error"
proof -
  have "counter_ok ref_up_env fst ''a@b.c'' (ref_counted ''10'')"
    "10 \<le> failures (session_view ref_up_env fst (ref_counted ''10'')) ''a@b.c''"
    by code_simp+
  from locked_address_refused [OF reference_up.backend_axioms ref_redis_up this] show ?thesis by blast
qed



text \<open>
  A wrong password for an existing account counts exactly one failure for its address, and changes nothing else
  of the sessions.
\<close>

theorem wrong_password_counts:
  assumes "backend E kv tabs" and "redis_up E" and "counter_ok E kv m w" and "failures (session_view E kv w) m < 10"
    and "svc_GetByEmail (main_userSvc E) m (snd (sessionRepo_IsLockedOut E m w)) = (Inr u, w2)"
    and "bcryptCompare E (u_PasswordHash u) pw \<noteq> None"
  shows "session_view E kv (snd (main_login E jwt base c m pw w)) =
    (session_view E kv w)\<lparr>failures := \<lambda>m'. if same_digest E m m'
       then failures (session_view E kv w) m + 1 else failures (session_view E kv w) m'\<rparr>"
proof -
  note A = backend.main_authentication [OF assms(1), of jwt base]
  note S = backend.main_sessions [OF assms(1)]
  let ?d = "main_auth E jwt base"
  have R: "redis_server E kv" using assms(1) by (simp add: backend_def)
  from redis_server.locked_up [OF R assms(2,3)] obtain lk w0
    where l: "IsLockedOut (as_sessions ?d) m w = ((lk, None), w0)" by (metis NewSessionRepo_sel(9) main_auth_parts(2) prod.collapse)
  have "\<not> lk" using session_contract.locked_ok [OF S, of m w lk w0] l assms(4) by simp
  with l have l: "IsLockedOut (as_sessions ?d) m w = ((False, None), w0)" by simp
  have g: "svc_GetByEmail (as_users ?d) m (warn_error ''lockout check failed'' None w0) = (Inr u, w2)"
    using assms(5) l by (simp add: warn_error_def)
  have same: "w_now w0 = w_now w" "kv (w_redis w0) = kv (w_redis w)"
    using session_contract.locked_frame [OF S, of w m] l by (auto dest: redis_server.locked_kv [OF R] simp: only_redis_simps)
  have "w_now w2 = w_now w" "kv (w_redis w2) = kv (w_redis w)"
    using backend.email_frame [OF assms(1) g [unfolded main_auth_parts]] same by (simp_all add: warn_error_def)
  then have "counter_ok E kv m w2" using assms(3) by (simp add: counter_ok_def)
  from authentication.login_wrong_password(2) [OF A l g assms(6)] redis_server.incr_up [OF R assms(2) this]
  show ?thesis by simp
qed

theorem wrong_password_counts_witness:
  "failures (session_view ref_up_env fst (snd (main_login ref_up_env ref_jwt_service [] empty_ctx ''a@b.c'' ''guess''
     (ref_counted ''3'')))) ''a@b.c'' = 4"
proof -
  have side: "counter_ok ref_up_env fst ''a@b.c'' (ref_counted ''3'')"
    "failures (session_view ref_up_env fst (ref_counted ''3'')) ''a@b.c'' < 10"
    "failures (session_view ref_up_env fst (ref_counted ''3'')) ''a@b.c'' = 3"
    by code_simp+
  obtain r w2 where g: "svc_GetByEmail (main_userSvc ref_up_env) ''a@b.c''
      (snd (sessionRepo_IsLockedOut ref_up_env ''a@b.c'' (ref_counted ''3''))) = (r, w2)" by fastforce
  have "case fst (svc_GetByEmail (main_userSvc ref_up_env) ''a@b.c''
      (snd (sessionRepo_IsLockedOut ref_up_env ''a@b.c'' (ref_counted ''3'')))) of
      Inl _ \<Rightarrow> False | Inr u \<Rightarrow> bcryptCompare ref_up_env (u_PasswordHash u) ''guess'' \<noteq> None"
    by code_simp
  with g obtain u where u: "r = Inr u" "bcryptCompare ref_up_env (u_PasswordHash u) ''guess'' \<noteq> None"
    by (cases r) auto
  from wrong_password_counts [OF reference_up.backend_axioms ref_redis_up side(1,2) g [unfolded u(1)] u(2)] side(3)
  show ?thesis by (simp add: same_digest_def)
qed

text \<open>
  C7.  A successful login is sound, whatever the servers do: the address belongs to a user whose stored hash matches
  the password; the access token is the signature of that user's claims, the refresh token now stands for that user, no
  other token of any kind is touched, and no row changes.  The lockout fails open, as the code means it to: the address
  had fewer than ten recorded failures when its check answered without an error, in particular whenever Redis answers
  and the counter holds a number; after an error of the check the login goes on without it.
\<close>

theorem login_success_sound:
  assumes "backend E kv tabs" and "tables_ok (rows tabs w)" and "0 < JWTService_RefreshTTL jwt"
    and "main_login E jwt base c m pw w = (Inr pair, w')"
  shows "\<exists>u f. user_by_email (rows tabs w) m = Some u \<and> bcryptCompare E (u_PasswordHash u) pw = None \<and>
    (snd (fst (sessionRepo_IsLockedOut E m w)) = None \<or> redis_up E \<and> counter_ok E kv m w \<longrightarrow>
      failures (session_view E kv w) m < 10) \<and>
    jwtSign E (jwt_priv jwt) (access_claims E jwt (u_ID u) (u_Role u) (tp_JTI pair) (w_now w)) = Inr (tp_AccessToken pair) \<and>
    session_view E kv w' = (session_view E kv w)\<lparr>failures := f,
      refresh_of := \<lambda>t. if same_digest E (tp_RawRefreshToken pair) t then Some (uuidString E (u_ID u))
        else refresh_of (session_view E kv w) t\<rparr> \<and>
    rows tabs w' = rows tabs w"
proof -
  note A = backend.main_authentication [OF assms(1), of jwt base]
  have R: "redis_server E kv" using assms(1) by (simp add: backend_def)
  have ttl: "0 < JWTService_RefreshTTL (as_jwt (main_auth E jwt base))" using assms(3) by simp
  obtain u f where *: "user_by_email (rows tabs w) m = Some u" "bcryptCompare E (u_PasswordHash u) pw = None"
    "session_view E kv w' = (session_view E kv w)\<lparr>failures := f, refresh_of := \<lambda>t'. if same_digest E (tp_RawRefreshToken pair) t'
      then Some (uuidString E (u_ID u)) else refresh_of (session_view E kv w) t'\<rparr>"
    "rows tabs w' = rows tabs w"
    "jwtSign E (jwt_priv (as_jwt (main_auth E jwt base))) (access_claims E (as_jwt (main_auth E jwt base)) (u_ID u)
      (u_Role u) (tp_JTI pair) (w_now w)) = Inr (tp_AccessToken pair)"
    "\<And>lk w1. IsLockedOut (as_sessions (main_auth E jwt base)) m w = ((lk, None), w1) \<Longrightarrow> failures (session_view E kv w) m < 10"
    by (rule authentication.login_ok [OF A assms(4,2) ttl]) blast
  have "failures (session_view E kv w) m < 10" if "snd (fst (sessionRepo_IsLockedOut E m w)) = None"
    using *(6) that by (metis NewSessionRepo_sel(9) main_auth_parts(2) prod.collapse)
  moreover have "snd (fst (sessionRepo_IsLockedOut E m w)) = None" if "redis_up E" "counter_ok E kv m w"
    by (rule redis_server.locked_up [OF R that])
  ultimately show ?thesis using * by (intro exI [of _ u] exI [of _ f]) auto
qed

theorem login_success_sound_witness:
  "case main_login ref_up_env ref_jwt_service [] empty_ctx ''a@b.c'' ''secret99'' (ref_counted ''3'') of
     (Inl _, _) \<Rightarrow> False
   | (Inr pair, w') \<Rightarrow> failures (session_view ref_up_env fst (ref_counted ''3'')) ''a@b.c'' < 10 \<and>
       refresh_of (session_view ref_up_env fst w') (tp_RawRefreshToken pair) = Some ''5''"
proof -
  have side: "counter_ok ref_up_env fst ''a@b.c'' (ref_counted ''3'')" by code_simp
  have "fst (sessionRepo_IsLockedOut ref_up_env ''a@b.c'' (ref_counted ''3'')) = (False, None)"
    "case fst (svc_GetByEmail (main_userSvc ref_up_env) ''a@b.c''
      (snd (sessionRepo_IsLockedOut ref_up_env ''a@b.c'' (ref_counted ''3'')))) of
      Inl _ \<Rightarrow> False | Inr u \<Rightarrow> bcryptCompare ref_up_env (u_PasswordHash u) ''secret99'' = None"
    by code_simp+
  from ref_login_succeeds [OF this, of ref_jwt_service "[]" empty_ctx] obtain pair w'
    where l: "main_login ref_up_env ref_jwt_service [] empty_ctx ''a@b.c'' ''secret99'' (ref_counted ''3'') = (Inr pair, w')"
    by (metis prod.collapse)
  have "tables_ok (rows fst (ref_counted ''3''))" by (simp add: ref_tables_ok)
  from login_success_sound [OF reference_up.backend_axioms this ref_refresh_ttl l] ref_redis_up side
  obtain u f where u: "user_by_email ref_tables ''a@b.c'' = Some u"
    "session_view ref_up_env fst w' = (session_view ref_up_env fst (ref_counted ''3''))\<lparr>failures := f,
      refresh_of := \<lambda>t. if same_digest ref_up_env (tp_RawRefreshToken pair) t then Some (uuidString ref_up_env (u_ID u))
        else refresh_of (session_view ref_up_env fst (ref_counted ''3'')) t\<rparr>"
    "failures (session_view ref_up_env fst (ref_counted ''3'')) ''a@b.c'' < 10"
    by auto
  have "u_ID u = 5" using u(1) by (auto simp: user_by_email_def ref_tables_def ref_user_def)
  moreover have "uuidString ref_up_env 5 = ''5''" by code_simp
  ultimately show ?thesis using u(3) by (simp add: l u(2) same_digest_def)
qed

section \<open>Refresh and logout\<close>

context backend begin

lemma validate_kv: "sessionRepo_ValidateRefreshToken E tok w = (r, w') \<Longrightarrow> kv (w_redis w') = kv (w_redis w)"
proof -
  have "kv (w_redis v) = kv (w_redis w)" if "redis_do E (GET k) w = (x, v)" for k x v
    using do_effect [OF that] step_reads(1) by simp
  then show "sessionRepo_ValidateRefreshToken E tok w = (r, w') \<Longrightarrow> kv (w_redis w') = kv (w_redis w)"
    by (auto simp: sessionRepo_ValidateRefreshToken_def split: prod.splits sum.splits rreply.splits option.splits if_splits)
qed

end

lemma coherent_cached:
  "coherent E kv tabs w \<Longrightarrow> cache_view E kv (User_decode E) w (userCacheKey E i) = Some u \<or>
     (user_by_id (rows tabs w) i = Some u \<and> u_IsActive u) \<Longrightarrow>
   \<exists>v. user_by_id (rows tabs w) i = Some v \<and> u_IsActive v \<and> u_ID v = u_ID u \<and> u_Role v = u_Role u"
  unfolding coherent_def cache_coherent_def by (metis strip_hash_simps(1,3))

text \<open>
  C6.  Refreshing rotates, whatever the servers and the cache do: a refresh that succeeds was given a live token of a
  user, and took that user from the cache or from its active row; the access token is signed over the identifier and the
  role found there, the new refresh token stands for that user, the old one is dead, and presenting it again from any
  context is refused.  The role is the current one when the cached user is: if every cached user is its current row, the
  user's row is active now and the token carries that row's role.  (A stale entry can be read for up to five minutes
  after a write whose invalidation was lost.)
\<close>

theorem refresh_rotates:
  assumes "backend E kv tabs" and "0 < JWTService_RefreshTTL jwt" and "tables_ok (rows tabs w)"
    and "main_refresh E jwt base c tok w = (Inr pair, w')" and "\<not> same_digest E (tp_RawRefreshToken pair) tok"
  shows "\<exists>uid i u. refresh_of (session_view E kv w) tok = Some uid \<and> uuidParse E uid = Some i \<and>
    (cache_view E kv (User_decode E) w (userCacheKey E i) = Some u \<or>
      (user_by_id (rows tabs w) i = Some u \<and> u_IsActive u)) \<and>
    (coherent E kv tabs w \<longrightarrow> (\<exists>v. user_by_id (rows tabs w) i = Some v \<and> u_IsActive v \<and> u_ID v = u_ID u \<and> u_Role v = u_Role u)) \<and>
    jwtSign E (jwt_priv jwt) (access_claims E jwt (u_ID u) (u_Role u) (tp_JTI pair) (w_now w)) = Inr (tp_AccessToken pair) \<and>
    refresh_of (session_view E kv w') (tp_RawRefreshToken pair) = Some (uuidString E (u_ID u)) \<and>
    refresh_of (session_view E kv w') tok = None \<and>
    fst (main_refresh E jwt base c2 tok w') = Inl (Unauthorized ''invalid or expired refresh token'')"
proof -
  note A = backend.main_authentication [OF assms(1), of jwt base]
  have ttl: "0 < JWTService_RefreshTTL (as_jwt (main_auth E jwt base))" using assms(2) by simp
  obtain uid i u wu wr where *: "refresh_of (session_view E kv w) tok = Some uid" "uuidParse E uid = Some i"
    "svc_GetByID (as_users (main_auth E jwt base)) i wu = (Inr u, wr)"
    "wu = snd (ValidateRefreshToken (as_sessions (main_auth E jwt base)) tok w)"
    "session_view E kv w' = (session_view E kv w)\<lparr>refresh_of := \<lambda>t'. if same_digest E (tp_RawRefreshToken pair) t'
      then Some (uuidString E (u_ID u)) else if same_digest E tok t' then None else refresh_of (session_view E kv w) t'\<rparr>"
    "jwtSign E (jwt_priv (as_jwt (main_auth E jwt base))) (access_claims E (as_jwt (main_auth E jwt base)) (u_ID u)
      (u_Role u) (tp_JTI pair) (w_now w)) = Inr (tp_AccessToken pair)"
    by (rule authentication.refresh_ok [OF A assms(4) ttl]) blast
  have "only_redis w wu"
    using session_contract.validate_frame [OF backend.main_sessions [OF assms(1)], of w tok] *(4) by simp
  then have wu: "w_now wu = w_now w" "rows tabs wu = rows tabs w" by (simp_all add: only_redis_simps rows_def)
  have "kv (w_redis wu) = kv (w_redis w)"
    using backend.validate_kv [OF assms(1) prod.collapse [symmetric], of tok w] *(4) by simp
  then have src: "cache_view E kv (User_decode E) w (userCacheKey E i) = Some u \<or>
      (user_by_id (rows tabs w) i = Some u \<and> u_IsActive u)"
    using backend.answer_source [OF assms(1) *(3) [unfolded main_auth_parts]] assms(3) wu by (simp add: cache_view_def)
  show ?thesis
    using * src coherent_cached [OF _ src] assms(5) authentication.refresh_replay [OF A assms(4) ttl assms(5)]
    by (intro exI [of _ uid] exI [of _ i] exI [of _ u]) (simp add: same_digest_def)
qed

definition ref_session :: "(ref_redis, ref_db) world" where
  "ref_session = (ref_world 0 ref_tables [] [])\<lparr>w_redis :=
     (Map.empty(refreshKey ref_up_env ''old'' \<mapsto> (VStr ''5'', Some (900 * second))), [])\<rparr>"

lemma ref_session_rows [simp]: "rows fst ref_session = ref_tables"
  by (simp add: ref_session_def rows_def ref_world_def)

theorem refresh_rotates_witness:
  "\<exists>pair w'. main_refresh ref_up_env ref_jwt_service [] empty_ctx ''old'' ref_session = (Inr pair, w') \<and>
     fst (main_refresh ref_up_env ref_jwt_service [] empty_ctx ''old'' w') =
       Inl (Unauthorized ''invalid or expired refresh token'') \<and>
     (\<exists>i v. user_by_id ref_tables i = Some v \<and> u_IsActive v \<and>
       jwtSign ref_up_env (jwt_priv ref_jwt_service) (access_claims ref_up_env ref_jwt_service (u_ID v) (u_Role v) (tp_JTI pair)
         (w_now ref_session)) = Inr (tp_AccessToken pair))"
proof -
  have "case fst (sessionRepo_ValidateRefreshToken ref_up_env ''old'' ref_session) of Inl _ \<Rightarrow> False
    | Inr s \<Rightarrow> (case uuidParse ref_up_env s of None \<Rightarrow> False
        | Some i \<Rightarrow> \<not> isl (fst (svc_GetByID (main_userSvc ref_up_env) i
            (snd (sessionRepo_ValidateRefreshToken ref_up_env ''old'' ref_session)))))"
    by code_simp
  from ref_refresh_succeeds [OF this, of ref_jwt_service "[]" empty_ctx] obtain pair w'
    where r: "main_refresh ref_up_env ref_jwt_service [] empty_ctx ''old'' ref_session = (Inr pair, w')"
      and len: "length (tp_RawRefreshToken pair) = 43" by (metis prod.collapse)
  have d: "\<not> same_digest ref_up_env (tp_RawRefreshToken pair) ''old''"
    using ref_digest_length [of "tp_RawRefreshToken pair" "''old''"] len by auto
  have co: "coherent ref_up_env fst fst ref_session"
    by (simp add: coherent_def cache_coherent_def cache_view_def live_str_def live_def ref_session_def
        userCacheKey_apart [THEN not_sym])
  have side: "tables_ok (rows fst ref_session)" using ref_tables_ok by simp
  from refresh_rotates [OF reference_up.backend_axioms ref_refresh_ttl side r d] co r
  show ?thesis unfolding ref_session_rows by metis
qed

text \<open>
  Logout ends both credentials: when it succeeds the access token's identifier is on the blocklist, the refresh
  token is dead and a refresh with it is refused; no other token is affected.
\<close>

theorem logout_ends_session:
  assumes "backend E kv tabs" and "0 < JWTService_RefreshTTL jwt"
    and "main_logout E jwt base c jti tok w = (None, w')"
  shows "session_view E kv w' = (session_view E kv w)\<lparr>blocked := \<lambda>j. j = jti \<or> blocked (session_view E kv w) j,
      refresh_of := \<lambda>t. if same_digest E tok t then None else refresh_of (session_view E kv w) t\<rparr> \<and>
    fst (main_refresh E jwt base c2 tok w') = Inl (Unauthorized ''invalid or expired refresh token'') \<and>
    rows tabs w' = rows tabs w"
proof -
  note A = backend.main_authentication [OF assms(1), of jwt base]
  have ttl: "0 < JWTService_RefreshTTL (as_jwt (main_auth E jwt base))" using assms(2) by simp
  note out = authentication.logout_ok [OF A assms(3) ttl]
  have "refresh_of (session_view E kv w') tok = None" by (simp add: out(1) same_digest_def)
  from authentication.refresh_invalid(1) [OF A this] out show ?thesis by simp
qed

theorem logout_ends_session_witness:
  "let (r, w') = main_logout ref_up_env ref_jwt_service [] empty_ctx ''jti'' ''old'' ref_session
   in r = None \<and> blocked (session_view ref_up_env fst w') ''jti''"
proof -
  have "fst (main_logout ref_up_env ref_jwt_service [] empty_ctx ''jti'' ''old'' ref_session) = None" by code_simp
  then obtain w' where l: "main_logout ref_up_env ref_jwt_service [] empty_ctx ''jti'' ''old'' ref_session = (None, w')"
    by (metis prod.collapse)
  from logout_ends_session [OF reference_up.backend_axioms ref_refresh_ttl l] l show ?thesis by simp
qed

section \<open>Password reset\<close>

text \<open>
  Asking for a reset reveals and changes little: for an unknown address (or a failing database) the call succeeds
  and leaves all sessions as they are; for a known one the only thing that can change is the set of pending reset
  tokens.  No row changes in either case, and no refresh token, blocklist entry or failure count.
\<close>

theorem forgot_password_is_quiet:
  assumes "backend E kv tabs" and "main_forgot E jwt base c m w = (r, w')"
  shows "(\<exists>f. session_view E kv w' = (session_view E kv w)\<lparr>reset_of := f\<rparr>) \<and>
    ((\<exists>e. fst (svc_GetByEmail (main_userSvc E) m w) = Inl e) \<longrightarrow>
       r = None \<and> session_view E kv w' = session_view E kv w)"
proof -
  note A = backend.main_authentication [OF assms(1), of jwt base]
  obtain x w1 where g: "svc_GetByEmail (as_users (main_auth E jwt base)) m w = (x, w1)" by fastforce
  show ?thesis
  proof (cases x)
    case (Inl e)
    have "\<exists>f. session_view E kv w = (session_view E kv w)\<lparr>reset_of := f\<rparr>"
      by (rule exI [of _ "reset_of (session_view E kv w)"]) simp
    then show ?thesis using authentication.forgot_unknown [OF A g [unfolded Inl], of E c] assms(2) by simp
  next
    case (Inr u)
    have "as_mailer (main_auth E jwt base) \<in> {None, Some StubEmailSender}" by simp
    from authentication.forgot_known(1) [OF A g [unfolded Inr] this assms(2)] g Inr show ?thesis by simp
  qed
qed

theorem forgot_password_is_quiet_witness:
  "fst (main_forgot ref_up_env ref_jwt_service [] empty_ctx ''nobody'' ref_session) = None \<and>
   refresh_of (session_view ref_up_env fst (snd (main_forgot ref_up_env ref_jwt_service [] empty_ctx ''a@b.c'' ref_session)))
     ''old'' = Some ''5''"
proof -
  have e: "isl (fst (svc_GetByEmail (main_userSvc ref_up_env) ''nobody'' ref_session))" by code_simp
  have o: "refresh_of (session_view ref_up_env fst ref_session) ''old'' = Some ''5''" by code_simp
  obtain r w' r2 w2 where f: "main_forgot ref_up_env ref_jwt_service [] empty_ctx ''nobody'' ref_session = (r, w')"
    "main_forgot ref_up_env ref_jwt_service [] empty_ctx ''a@b.c'' ref_session = (r2, w2)" by fastforce
  note known = forgot_password_is_quiet [OF reference_up.backend_axioms f(2)]
  note unknown = forgot_password_is_quiet [OF reference_up.backend_axioms f(1)]
  show ?thesis using known unknown e o f by (auto simp: isl_def)
qed

text \<open>
  C28.  A password reset spends its token first: past the length check, a token that was accepted is dead afterwards,
  even when hashing or the update fails, so that a second reset with it is refused; when the reset succeeds, the
  only change of the tables is the new hash and update time of the user the token stood for.
\<close>

theorem reset_password_spends_token:
  assumes "backend E kv tabs" and "8 \<le> length pw"
    and "sessionRepo_ConsumePasswordResetToken E tok w = (Inr uid, w1)"
    and "main_reset E jwt base c tok pw w = (r, w')"
  shows "reset_of (session_view E kv w) tok = Some uid \<and> reset_of (session_view E kv w') tok = None \<and>
    (r = None \<longrightarrow> (\<exists>i h n. uuidParse E uid = Some i \<and> bcryptGenerate E pw 12 n = Inr h \<and>
       rows tabs w' = map_user i (password_row (w_now w) h) (rows tabs w)))"
proof -
  note A = backend.main_authentication [OF assms(1), of jwt base]
  have c: "ConsumePasswordResetToken (as_sessions (main_auth E jwt base)) tok w = (Inr uid, w1)"
    using assms(3) by simp
  from authentication.reset_spends [OF A assms(2) c assms(4)] show ?thesis by simp
qed

definition ref_pending :: "(ref_redis, ref_db) world" where
  "ref_pending = (ref_world 0 ref_tables [] [])\<lparr>w_redis :=
     (Map.empty(resetKey ref_up_env ''tok'' \<mapsto> (VStr ''5'', Some (900 * second))), [])\<rparr>"

theorem reset_password_spends_token_witness:
  "let (r, w') = main_reset ref_up_env ref_jwt_service [] empty_ctx ''tok'' ''brand new'' ref_pending
   in r = None \<and> reset_of (session_view ref_up_env fst w') ''tok'' = None"
proof -
  have "fst (sessionRepo_ConsumePasswordResetToken ref_up_env ''tok'' ref_pending) = Inr ''5''" by code_simp
  then obtain w1 where c: "sessionRepo_ConsumePasswordResetToken ref_up_env ''tok'' ref_pending = (Inr ''5'', w1)"
    by (metis prod.collapse)
  have "fst (main_reset ref_up_env ref_jwt_service [] empty_ctx ''tok'' ''brand new'' ref_pending) = None" by code_simp
  then obtain w' where m: "main_reset ref_up_env ref_jwt_service [] empty_ctx ''tok'' ''brand new'' ref_pending = (None, w')"
    by (metis prod.collapse)
  from reset_password_spends_token [OF reference_up.backend_axioms _ c m] m show ?thesis by simp
qed

text \<open>
  A password below eight bytes is refused before the token is looked at: the token stays usable and nothing changes.
\<close>

theorem reset_short_password:
  assumes "backend E kv tabs" and "length pw < 8"
  shows "fst (main_reset E jwt base c tok pw w) = Some (BadRequest ''password must be at least 8 characters'' None) \<and>
    session_view E kv (snd (main_reset E jwt base c tok pw w)) = session_view E kv w \<and>
    rows tabs (snd (main_reset E jwt base c tok pw w)) = rows tabs w"
  by (intro conjI authentication.reset_short [OF backend.main_authentication [OF assms(1)] assms(2)])

theorem reset_short_password_witness:
  "reset_of (session_view ref_up_env fst (snd (main_reset ref_up_env ref_jwt_service [] empty_ctx ''tok'' ''short'' ref_pending)))
     ''tok'' = Some ''5''"
proof -
  have "reset_of (session_view ref_up_env fst ref_pending) ''tok'' = Some ''5''" by code_simp
  with reset_short_password [OF reference_up.backend_axioms, of "''short''" ref_jwt_service "[]" empty_ctx "''tok''" ref_pending]
  show ?thesis by simp
qed

end
