(* ===== verification/Auth_Limits.thy ===== *)
theory Auth_Limits
  imports Auth_Props
begin

text \<open>
  What the authentication service does not promise: two refreshes that overlap, a login of a deactivated account; and
  what its audit records reveal of an address.
\<close>

section \<open>Overlapping refreshes\<close>

text \<open>
  Rotation is no compare-and-swap: when two requests with the same refresh token have both validated it before
  either rotates it, both rotations report success and both new tokens are valid for the user afterwards, only the
  old one is gone.
\<close>

theorem overlapping_refreshes_both_win:
  assumes "redis_server E kv" and "0 < ttl"
    and "sessionRepo_ValidateRefreshToken E old w = (Inr uid, w1)"
    and "sessionRepo_ValidateRefreshToken E old w1 = (Inr uid, w2)"
    and "sessionRepo_RotateRefreshToken E old a uid ttl w2 = (None, w3)"
    and "sessionRepo_RotateRefreshToken E old b uid ttl w3 = (None, w4)"
    and "\<not> same_digest E a old" and "\<not> same_digest E b old"
  shows "refresh_of (session_view E kv w4) old = None \<and>
    refresh_of (session_view E kv w4) a = Some uid \<and> refresh_of (session_view E kv w4) b = Some uid"
proof -
  note r = redis_server.impl_rotate_ok [OF assms(1)]
  show ?thesis
    using assms(7,8) unfolding r [OF assms(6,2)] r [OF assms(5,2)] by (simp add: same_digest_def)
qed

theorem overlapping_refreshes_both_win_witness:
  "let v = sessionRepo_ValidateRefreshToken ref_up_env ''old'';
       r = (\<lambda>t. sessionRepo_RotateRefreshToken ref_up_env ''old'' t ''5'' second);
       w4 = snd (r ''y'' (snd (r ''x'' (snd (v (snd (v ref_session)))))))
   in refresh_of (session_view ref_up_env fst w4) ''x'' = Some ''5'' \<and>
      refresh_of (session_view ref_up_env fst w4) ''y'' = Some ''5''"
proof -
  let ?v = "sessionRepo_ValidateRefreshToken ref_up_env ''old''"
  let ?r = "\<lambda>t. sessionRepo_RotateRefreshToken ref_up_env ''old'' t ''5'' second"
  have "fst (?v ref_session) = Inr ''5''" "fst (?v (snd (?v ref_session))) = Inr ''5''" by code_simp+
  then have v: "?v ref_session = (Inr ''5'', snd (?v ref_session))"
    "?v (snd (?v ref_session)) = (Inr ''5'', snd (?v (snd (?v ref_session))))" by (metis prod.collapse)+
  have r: "?r t w = (None, snd (?r t w))" for t w using ref_rotate_up by (metis prod.collapse)
  have d: "\<not> same_digest ref_up_env ''x'' ''old''" "\<not> same_digest ref_up_env ''y'' ''old''"
    using ref_digest_length by fastforce+
  have "0 < second" by (simp add: second_def)
  from overlapping_refreshes_both_win [OF reference_up.redis_server_axioms this v r r d] show ?thesis
    unfolding Let_def by blast
qed

section \<open>Deactivated accounts\<close>

text \<open>
  Deactivation does not stop a login: after \<open>Delete\<close> reports success for a user, that user is no longer found by
  identifier, and still logs in with the old password (and gets a refresh token, which the next refresh then
  refuses).
\<close>

theorem deactivated_user_logs_in:
  "let w = snd (svc_Delete (main_userSvc ref_up_env) 5 (ref_world 0 ref_tables [] []))
   in fst (svc_Delete (main_userSvc ref_up_env) 5 (ref_world 0 ref_tables [] [])) = None \<and>
      isl (fst (svc_GetByID (main_userSvc ref_up_env) 5 w)) \<and>
      (\<exists>pair. fst (main_login ref_up_env ref_jwt_service [] empty_ctx ''a@b.c'' ''secret99'' w) = Inr pair)"
proof -
  let ?w = "snd (svc_Delete (main_userSvc ref_up_env) 5 (ref_world 0 ref_tables [] []))"
  have "fst (svc_Delete (main_userSvc ref_up_env) 5 (ref_world 0 ref_tables [] [])) = None"
    "isl (fst (svc_GetByID (main_userSvc ref_up_env) 5 ?w))"
    by code_simp+
  moreover have "fst (sessionRepo_IsLockedOut ref_up_env ''a@b.c'' ?w) = (False, None)"
    "case fst (svc_GetByEmail (main_userSvc ref_up_env) ''a@b.c'' (snd (sessionRepo_IsLockedOut ref_up_env ''a@b.c'' ?w))) of
      Inl _ \<Rightarrow> False | Inr u \<Rightarrow> bcryptCompare ref_up_env (u_PasswordHash u) ''secret99'' = None"
    by code_simp+
  from ref_login_succeeds [OF this] have
    "\<exists>pair. fst (main_login ref_up_env ref_jwt_service [] empty_ctx ''a@b.c'' ''secret99'' ?w) = Inr pair" .
  ultimately show ?thesis unfolding Let_def by blast
qed

section \<open>Masked addresses\<close>

lemma maskEmail_parts:
  assumes "CHR ''@'' \<notin> set (a # l)" and "CHR ''.'' \<notin> set (b # d)"
  shows "maskEmail ((a # l) @ CHR ''@'' # (b # d) @ CHR ''.'' # r) =
    byte_string a @ ''***@'' @ byte_string b @ ''***.'' @ r"
proof -
  have "SplitN2 (CHR ''@'') ((a # l) @ CHR ''@'' # (b # d) @ CHR ''.'' # r) = [a # l, (b # d) @ CHR ''.'' # r]"
    by (rule SplitN2_at [OF assms(1)])
  moreover have "SplitN2 (CHR ''.'') ((b # d) @ CHR ''.'' # r) = [b # d, r]" by (rule SplitN2_at [OF assms(2)])
  ultimately show ?thesis unfolding maskEmail_def by (simp add: Let_def)
qed

text \<open>
  Audit records mask the address: two addresses that share the first byte of the local part, the first byte of
  the domain and everything after the domain's first dot leave the same record, so the rest of the local part and
  of the first domain label cannot be read from the log.
\<close>

theorem audit_masks_email:
  assumes "CHR ''@'' \<notin> set (a # l)" and "CHR ''@'' \<notin> set (a # l2)"
    and "CHR ''.'' \<notin> set (b # d)" and "CHR ''.'' \<notin> set (b # d2)"
  shows "auditLog c ev ((a # l) @ CHR ''@'' # (b # d) @ CHR ''.'' # r) uid ex w =
    auditLog c ev ((a # l2) @ CHR ''@'' # (b # d2) @ CHR ''.'' # r) uid ex w"
  unfolding auditLog_def maskEmail_parts [OF assms(1,3)] maskEmail_parts [OF assms(2,4)] by simp

theorem audit_masks_email_witness:
  "auditLog empty_ctx EventLoginFailure ''user@example.com'' [] [] (ref_world 0 empty_tables [] []) =
   auditLog empty_ctx EventLoginFailure ''ulrich@elsewhere.com'' [] [] (ref_world 0 empty_tables [] []) \<and>
   maskEmail ''user@example.com'' = ''u***@e***.com''"
proof
  show "maskEmail ''user@example.com'' = ''u***@e***.com''" by code_simp
  show "auditLog empty_ctx EventLoginFailure ''user@example.com'' [] [] (ref_world 0 empty_tables [] []) =
      auditLog empty_ctx EventLoginFailure ''ulrich@elsewhere.com'' [] [] (ref_world 0 empty_tables [] [])"
    using audit_masks_email [of "CHR ''u''" "''ser''" "''lrich''" "CHR ''e''" "''xample''" "''lsewhere''"
      empty_ctx EventLoginFailure "''com''" "[]" "[]" "ref_world 0 empty_tables [] []"] by simp
qed

end
