(* ===== verification/Auth_Liveness.thy ===== *)
theory Auth_Liveness
  imports Auth_Props
begin

text \<open>
  That the flows return: with servers that answer and a library that signs, a correct password logs in, and the refresh
  token of that login can be exchanged.  The other theorems about the authentication service say what is true when a
  call returns a result; these say that it does.
\<close>

definition pg_up :: "('s, 'd) env \<Rightarrow> bool" where
  "pg_up E \<longleftrightarrow> (\<forall>t q d m. fst (pgQuery E t q d) \<noteq> SqlFail m)"

text \<open>Tokens can be issued: signing with the key succeeds and the random source gives 32 bytes.\<close>

definition issues_tokens :: "('s, 'd) env \<Rightarrow> jwt_service \<Rightarrow> bool" where
  "issues_tokens E j \<longleftrightarrow> (\<forall>c. \<exists>tok. jwtSign E (jwt_priv j) c = Inr tok) \<and> (\<forall>n. \<exists>xs. randRead E n 32 = Inr xs)"

lemma tokens_issued:
  assumes "issues_tokens E j"
  shows "\<exists>tok jti ex w'. JWTService_IssueAccessToken E j i r w = (Inr (tok, jti, ex), w')"
    and "\<exists>t w'. JWTService_IssueRefreshToken E j w = (Inr t, w')"
proof -
  obtain tok where "jwtSign E (jwt_priv j) (access_claims E j i r (uuidString E (uuidNew E (w_rand w))) (w_now w)) = Inr tok"
    using assms by (auto simp: issues_tokens_def)
  then show "\<exists>tok jti ex w'. JWTService_IssueAccessToken E j i r w = (Inr (tok, jti, ex), w')"
    by (simp add: JWTService_IssueAccessToken_def draw_def Let_def)
  obtain xs where "randRead E (w_rand w) 32 = Inr xs" using assms by (auto simp: issues_tokens_def)
  then show "\<exists>t w'. JWTService_IssueRefreshToken E j w = (Inr t, w')"
    by (simp add: JWTService_IssueRefreshToken_def draw_def)
qed

lemma find_by_key: "distinct (map f xs) \<Longrightarrow> x \<in> set xs \<Longrightarrow> find (\<lambda>y. f y = f x) xs = Some x"
  by (induction xs) auto

section \<open>Redis answers\<close>

context redis_server begin

lemma exec_up:
  assumes "redis_up E"
  obtains s' where "redis_exec E cs w = (Inr (fst (redis_run (w_now w) cs (kv (w_redis w)))), w\<lparr>w_redis := s'\<rparr>)"
  using up_run [OF assms] by metis

lemma store_up: "redis_up E \<Longrightarrow> fst (sessionRepo_StoreRefreshToken E t u d w) = None"
  by (rule exec_up [of "[SET (refreshKey E t) u d]" w])
    (simp_all add: sessionRepo_StoreRefreshToken_def redis_err_def redis_do_def nth_reply_def reply_error_def wrap_err_def)

lemma rotate_up: "redis_up E \<Longrightarrow> fst (sessionRepo_RotateRefreshToken E a b u d w) = None"
  by (rule exec_up [of "[DEL [refreshKey E a], SET (refreshKey E b) u d]" w])
    (simp_all add: sessionRepo_RotateRefreshToken_def reply_error_def wrap_err_def)

end

section \<open>The database answers\<close>

context postgres begin

lemma up_scan:
  assumes "pg_up E" and "pg_query E q w = (r, w')" and "\<And>l off. q \<noteq> ListUsers l off" and "q \<noteq> ListTenants"
  shows "r = fst (pg_eval (w_now w) q (tabs (w_db w)))"
proof -
  have "\<forall>m. r \<noteq> SqlFail m" using assms(1,2) by (auto simp: pg_query_def pg_up_def split: prod.splits) (metis fst_conv)
  with query_det [OF assms(2-4)] show ?thesis by (metis fst_conv)
qed

lemma email_up:
  assumes "pg_up E" and "tables_ok (tabs (w_db w))" and "user_by_email (tabs (w_db w)) m = Some u"
  shows "fst (repo_FindByEmail (main_userRepo E) m w) = Inr u"
proof -
  obtain q w1 where q: "pg_query E (SelectUserByEmail m) w = (q, w1)" by fastforce
  have "q = SqlUsers [u]"
    using up_scan [OF assms(1) q] assms(2,3) distinct_filter_find [of u_Email "users (tabs (w_db w))" m]
    by (simp add: tables_ok_def user_by_email_def)
  then have "fst (repo_FindByEmail (NewUserRepository E) m w) = Inr u"
    by (simp add: NewUserRepository_def userRepository_FindByEmail_def q scanUser_def)
  moreover have "alike (repo_FindByEmail (NewUserRepository E) m w) (repo_FindByEmail (main_userRepo E) m w)"
    using transparent_trans [OF transparent_instrumented transparent_traced]
    unfolding main_userRepo_def transparent_def by blast
  ultimately show ?thesis by (simp add: alike_def)
qed

lemma id_up:
  assumes "pg_up E" and "tables_ok (tabs (w_db w))" and "user_by_id (tabs (w_db w)) i = Some u" and "u_IsActive u"
  shows "fst (repo_FindByID (main_userRepo E) i w) = Inr u"
proof -
  obtain q w1 where q: "pg_query E (SelectUserByID i) w = (q, w1)" by fastforce
  have "q = SqlUsers [u]"
    using up_scan [OF assms(1) q] assms(2-4) find_filter_active [of u_ID "users (tabs (w_db w))" i u_IsActive]
    by (simp add: tables_ok_def user_by_id_def)
  then have "fst (repo_FindByID (NewUserRepository E) i w) = Inr u"
    by (simp add: NewUserRepository_def userRepository_FindByID_def q scanUser_def)
  moreover have "alike (repo_FindByID (NewUserRepository E) i w) (repo_FindByID (main_userRepo E) i w)"
    using transparent_trans [OF transparent_instrumented transparent_traced]
    unfolding main_userRepo_def transparent_def by blast
  ultimately show ?thesis by (simp add: alike_def)
qed

end

section \<open>The flows return\<close>

context backend begin

lemma get_up:
  assumes "pg_up E" and "tables_ok (rows tabs w)" and "user_by_id (rows tabs w) i = Some u" and "u_IsActive u"
  shows "\<exists>v w'. svc_GetByID (main_userSvc E) i w = (Inr v, w')"
proof -
  obtain h w1 where l: "cache_lookup (Some (user_cache_of E)) (userCacheKey E i) w = (h, w1)" by fastforce
  from keeps_lookup [OF l] have "rows tabs w1 = rows tabs w" by simp
  with id_up [of w1 i u] assms have "fst (repo_FindByID (main_userRepo E) i w1) = Inr u" by (simp add: rows_def)
  then obtain w2 where "repo_FindByID (main_userRepo E) i w1 = (Inr u, w2)" by (metis prod.collapse)
  with l show ?thesis by (cases h) (simp_all add: main_ops userService_GetByID_def Let_def)
qed

lemma login_tokens_up:
  assumes "redis_up E" and "issues_tokens E jwt"
  shows "\<exists>pair w'. login_tokens E (main_auth E jwt base) c m u w = (Inr pair, w')"
proof -
  obtain tok jti ex w1 where a: "JWTService_IssueAccessToken E jwt (u_ID u) (u_Role u) w = (Inr (tok, jti, ex), w1)"
    using tokens_issued(1) [OF assms(2)] by blast
  obtain raw w2 where b: "JWTService_IssueRefreshToken E jwt w1 = (Inr raw, w2)"
    using tokens_issued(2) [OF assms(2)] by blast
  obtain w3 where "sessionRepo_StoreRefreshToken E raw (uuidString E (u_ID u)) (JWTService_RefreshTTL jwt) w2 = (None, w3)"
    using store_up [OF assms(1)] by (metis prod.collapse)
  with a b show ?thesis by (simp add: login_tokens_def)
qed

lemma login_up:
  assumes "redis_up E" and "pg_up E" and "issues_tokens E jwt" and "tables_ok (rows tabs w)"
    and "user_by_email (rows tabs w) m = Some u" and "bcryptCompare E (u_PasswordHash u) pw = None"
    and "\<not> fst (fst (sessionRepo_IsLockedOut E m w))"
  shows "\<exists>pair w'. main_login E jwt base c m pw w = (Inr pair, w')"
proof -
  obtain le w0 where l: "sessionRepo_IsLockedOut E m w = ((False, le), w0)"
    using assms(7) by (metis (full_types) prod.collapse)
  have "rows tabs w0 = rows tabs w"
    using session_contract.locked_frame [OF main_sessions, of w m] l by (simp add: rows_def only_redis_simps)
  then have "rows tabs (warn_error msg le w0) = rows tabs w" for msg by simp
  then have "fst (repo_FindByEmail (main_userRepo E) m (warn_error msg le w0)) = Inr u" for msg
    using email_up [OF assms(2), of "warn_error msg le w0" m u] assms(4,5) by (simp add: rows_def)
  then have g: "\<exists>w2. svc_GetByEmail (main_userSvc E) m (warn_error msg le w0) = (Inr u, w2)" for msg
    by (simp add: main_ops userService_GetByEmail_def) (metis prod.collapse)
  obtain w2 where g: "svc_GetByEmail (main_userSvc E) m (warn_error ''lockout check failed'' le w0) = (Inr u, w2)"
    using g by blast
  show ?thesis
    using l g assms(6) login_tokens_up [OF assms(1,3)] by (simp add: authService_Login_def split_beta Let_def)
qed

lemma refresh_up:
  assumes "redis_up E" and "pg_up E" and "issues_tokens E jwt" and "tables_ok (rows tabs w)" and "uuid_roundtrip E"
    and "refresh_of (session_view E kv w) tok = Some (uuidString E i)"
    and "user_by_id (rows tabs w) i = Some u" and "u_IsActive u"
  shows "\<exists>pair w'. main_refresh E jwt base c tok w = (Inr pair, w')"
proof -
  obtain w1 where v: "sessionRepo_ValidateRefreshToken E tok w = (Inr (uuidString E i), w1)"
    using validate_up [OF assms(1,6)] by (metis prod.collapse)
  have "rows tabs w1 = rows tabs w"
    using session_contract.validate_frame [OF main_sessions, of w tok] v by (simp add: rows_def only_redis_simps)
  with get_up [OF assms(2), of w1 i u] assms(4,7,8) obtain x w2 where g: "svc_GetByID (main_userSvc E) i w1 = (Inr x, w2)" by auto
  obtain t jti ex w3 where a: "JWTService_IssueAccessToken E jwt (u_ID x) (u_Role x) w2 = (Inr (t, jti, ex), w3)"
    using tokens_issued(1) [OF assms(3)] by blast
  obtain raw w4 where b: "JWTService_IssueRefreshToken E jwt w3 = (Inr raw, w4)"
    using tokens_issued(2) [OF assms(3)] by blast
  obtain w5 where "sessionRepo_RotateRefreshToken E tok raw (uuidString E (u_ID x)) (JWTService_RefreshTTL jwt) w4 = (None, w5)"
    using rotate_up [OF assms(1)] by (metis prod.collapse)
  with v g a b assms(5) show ?thesis by (simp add: authService_Refresh_def uuid_roundtrip_def)
qed

end

text \<open>
  C22.  The right password gets in and stays in: when the servers answer and tokens can be issued, a login with the right
  password of an address with fewer than ten recorded failures returns tokens, and the refresh token it returned, when
  it is presented at once for an account that is active, is exchanged for new ones.
\<close>

theorem login_completes:
  assumes "backend E kv tabs" and "redis_up E" and "pg_up E" and "issues_tokens E jwt" and "0 < JWTService_RefreshTTL jwt"
    and "uuid_roundtrip E" and "tables_ok (rows tabs w)" and "counter_ok E kv m w" and "failures (session_view E kv w) m < 10"
    and "user_by_email (rows tabs w) m = Some u" and "bcryptCompare E (u_PasswordHash u) pw = None"
  shows "\<exists>pair w1. main_login E jwt base c m pw w = (Inr pair, w1) \<and>
    (u_IsActive u \<longrightarrow> (\<exists>pair2 w2. main_refresh E jwt base c2 (tp_RawRefreshToken pair) w1 = (Inr pair2, w2)))"
proof -
  have R: "redis_server E kv" using assms(1) by (simp add: backend_def)
  note A = backend.main_authentication [OF assms(1), of jwt base]
  note S = backend.main_sessions [OF assms(1)]
  obtain lk w0 where l: "sessionRepo_IsLockedOut E m w = ((lk, None), w0)"
    using redis_server.locked_up [OF R assms(2,8)] by (metis prod.collapse)
  have "\<not> lk" using session_contract.locked_ok [OF S, of m w lk w0] l assms(9) by simp
  then have unlocked: "\<not> fst (fst (sessionRepo_IsLockedOut E m w))" using l by simp
  obtain pair w1 where login: "main_login E jwt base c m pw w = (Inr pair, w1)"
    using backend.login_up [OF assms(1-4,7,10,11) unlocked] by blast
  have ttl: "0 < JWTService_RefreshTTL (as_jwt (main_auth E jwt base))" using assms(5) by simp
  obtain v f where v: "user_by_email (rows tabs w) m = Some v" "rows tabs w1 = rows tabs w"
    "session_view E kv w1 = (session_view E kv w)\<lparr>failures := f, refresh_of := \<lambda>t'. if same_digest E (tp_RawRefreshToken pair) t'
      then Some (uuidString E (u_ID v)) else refresh_of (session_view E kv w) t'\<rparr>"
    by (rule authentication.login_ok [OF A login assms(7) ttl]) blast
  have "u \<in> set (users (rows tabs w))" using assms(10) by (auto simp: user_by_email_def find_Some_iff)
  then have "user_by_id (rows tabs w) (u_ID u) = Some u"
    using assms(7) by (simp add: user_by_id_def tables_ok_def find_by_key)
  moreover have "refresh_of (session_view E kv w1) (tp_RawRefreshToken pair) = Some (uuidString E (u_ID u))"
    using v assms(10) by (simp add: same_digest_def)
  ultimately show ?thesis
    using login backend.refresh_up [OF assms(1-4) _ assms(6), of w1 "tp_RawRefreshToken pair" "u_ID u" u base c2] v(2) assms(7)
    by auto
qed

text \<open>The reference environment with a database that always answers.\<close>

definition ref_live_pgQuery :: "int \<Rightarrow> sql \<Rightarrow> ref_db \<Rightarrow> sqlres \<times> ref_db" where
  "ref_live_pgQuery t q d = (fst (pg_eval t q (fst d)), (snd (pg_eval t q (fst d)), snd d))"

definition ref_live_env :: "(ref_redis, ref_db) env" where
  "ref_live_env = ref_up_env\<lparr>pgQuery := ref_live_pgQuery\<rparr>"

lemma pg_eval_answers: "fst (pg_eval t q T) \<noteq> SqlFail m"
  by (cases q) (auto split: option.split)

lemma ref_live: "redis_up ref_live_env" "pg_up ref_live_env" "issues_tokens ref_live_env j" "uuid_roundtrip ref_live_env"
  using ref_redis_up ref_up_uuid_roundtrip
  by (simp_all add: ref_live_env_def redis_up_def pg_up_def ref_live_pgQuery_def pg_eval_answers issues_tokens_def
      ref_up_env_def ref_jwtSign_def uuid_roundtrip_def)

interpretation reference_live: backend ref_live_env fst fst
  by unfold_locales
    (auto simp: ref_live_env_def ref_up_env_def ref_live_pgQuery_def pg_eval_answers intro!: pg_eval_answer split: prod.splits)

theorem login_completes_witness:
  "\<exists>pair w1. main_login ref_live_env ref_jwt_service [] empty_ctx ''a@b.c'' ''secret99'' (ref_world 0 ref_tables [] []) =
     (Inr pair, w1) \<and>
   (\<exists>pair2 w2. main_refresh ref_live_env ref_jwt_service [] empty_ctx (tp_RawRefreshToken pair) w1 = (Inr pair2, w2))"
proof -
  let ?w = "ref_world 0 ref_tables [] []"
  have "user_by_email (rows fst ?w) ''a@b.c'' = Some (ref_user 5 ''a@b.c'' ''user'')" by code_simp
  moreover have "bcryptCompare ref_live_env (u_PasswordHash (ref_user 5 ''a@b.c'' ''user'')) ''secret99'' = None"
    "0 < JWTService_RefreshTTL ref_jwt_service" "failures (session_view ref_live_env fst ?w) ''a@b.c'' < 10"
    "u_IsActive (ref_user 5 ''a@b.c'' ''user'')"
    by code_simp+
  moreover have "tables_ok (rows fst ?w)" by (simp add: rows_def ref_world_def ref_tables_ok)
  moreover have "counter_ok ref_live_env fst ''a@b.c'' ?w" by (simp add: counter_ok_def ref_world_def live_def)
  ultimately show ?thesis
    using login_completes [OF reference_live.backend_axioms ref_live(1-3) _ ref_live(4)] by blast
qed

end
