(* ===== verification/Middleware.thy ===== *)
theory Middleware
  imports Auth_Service Tenant_Repo
begin

text \<open>
  \<open>internal/middleware\<close>.  A handler takes the request, the response writer and the world; a middleware takes the
  handler it wraps.  A handler can panic, and chi's route context is shared by pointer, so that what routing wrote
  into it is visible to the middleware above: both are part of the result.
\<close>

record 'w served =
  sv_panic :: "string option"
  sv_pattern :: string
  sv_rw :: rw
  sv_world :: 'w

type_synonym 'w handler = "request \<Rightarrow> rw \<Rightarrow> 'w \<Rightarrow> 'w served"

text \<open>A handler that returns after it wrote its response.\<close>

definition reply :: "request \<Rightarrow> rw \<Rightarrow> 'w \<Rightarrow> 'w served" where
  "reply q r w = \<lparr>sv_panic = None, sv_pattern = c_pattern (q_ctx q), sv_rw = r, sv_world = w\<rparr>"

definition WithContext :: "request \<Rightarrow> rctx \<Rightarrow> request" where
  "WithContext q c = q\<lparr>q_ctx := c\<rparr>"

section \<open>Authentication (jwt.go)\<close>

definition JWT ::
    "('s, 'd) env \<Rightarrow> jwt_service \<Rightarrow> ('s, 'd) world session_repository \<Rightarrow> ('s, 'd) world handler \<Rightarrow> ('s, 'd) world handler"
  where
  "JWT E svc sessions next q r w =
     (let authHeader = Header_Get q ''Authorization''
      in if authHeader = [] \<or> \<not> HasPrefix authHeader ''Bearer '' then
           reply q (WriteError (Unauthorized ''missing or invalid authorization header'') r) w
         else case JWTService_Verify E svc (w_now w) (TrimPrefix authHeader ''Bearer '') of
             Inl _ \<Rightarrow> reply q (WriteError (Unauthorized ''invalid token'') r) w
           | Inr cl \<Rightarrow>
               (let (res, w1) = IsBlocklisted sessions (cl_ID cl) w
                in if (case res of Inl _ \<Rightarrow> False | Inr b \<Rightarrow> b) then
                     reply q (WriteError (Unauthorized ''token has been revoked'') r) w1
                   else next (WithContext q ((q_ctx q)\<lparr>c_userID := Some (cl_Subject cl),
                          c_role := Some (cl_Role cl), c_jti := Some (cl_ID cl)\<rparr>)) r w1))"

text \<open>\<open>ctx.Value(key).(string)\<close> with the empty string for a missing value.\<close>

definition ctx_string :: "string option \<Rightarrow> string" where
  "ctx_string v = (case v of None \<Rightarrow> [] | Some s \<Rightarrow> s)"

definition RequireRole :: "string \<Rightarrow> 'w handler \<Rightarrow> 'w handler" where
  "RequireRole role next q r w =
     (if ctx_string (c_role (q_ctx q)) \<noteq> role then
        reply q (WriteError (Forbidden ''insufficient permissions'') r) w
      else next q r w)"

section \<open>Metrics and panics (metrics.go)\<close>

definition statusClass :: "int \<Rightarrow> string" where
  "statusClass code =
     (if 200 \<le> code \<and> code < 300 then ''2xx''
      else if 300 \<le> code \<and> code < 400 then ''3xx''
      else if 400 \<le> code \<and> code < 500 then ''4xx''
      else if 500 \<le> code then ''5xx''
      else ''unknown'')"

definition routePattern :: "string \<Rightarrow> string \<Rightarrow> string" where
  "routePattern pattern fallbackPath = (if pattern \<noteq> [] then pattern else fallbackPath)"

text \<open>\<open>Status()\<close> of chi's response wrapper: 0 while no status was sent.\<close>

definition ww_Status :: "rw \<Rightarrow> int" where
  "ww_Status r = (case rw_sent r of None \<Rightarrow> 0 | Some (code, _) \<Rightarrow> code)"

text \<open>The gauge goes down in a deferred call, so also after a panic; the counters do not run then.\<close>

definition HTTPMetrics :: "('s, 'd) world handler \<Rightarrow> ('s, 'd) world handler" where
  "HTTPMetrics next q r w =
     (let fallback = q_path q;
          s = next q r (w\<lparr>w_inflight := w_inflight w + 1\<rparr>);
          w1 = sv_world s;
          path = routePattern (sv_pattern s) fallback;
          cls = statusClass (ww_Status (sv_rw s));
          w2 = (case sv_panic s of
                  Some _ \<Rightarrow> w1
                | None \<Rightarrow> count_metric [''kleido_http_request_duration_seconds'', q_method q, path]
                    (count_metric [''kleido_http_requests_total'', q_method q, path, cls] w1))
      in s\<lparr>sv_world := w2\<lparr>w_inflight := w_inflight w2 - 1\<rparr>\<rparr>)"

definition RecoveringPanicCounter :: "('s, 'd) world handler \<Rightarrow> ('s, 'd) world handler" where
  "RecoveringPanicCounter next q r w =
     (let s = next q r w
      in case sv_panic s of
           None \<Rightarrow> s
         | Some rec \<Rightarrow>
             s\<lparr>sv_panic := None,
               sv_rw := http_Error ''internal server error'' 500 (sv_rw s),
               sv_world := log_at LError ''panic recovered'' [(''panic'', rec)]
                 (count_metric [''kleido_http_panics_total''] (sv_world s))\<rparr>)"

section \<open>Rate limits (ratelimit.go)\<close>

text \<open>The three headers of a limiter's answer: \<open>resetAt\<close> is in nanoseconds, \<open>Unix()\<close> in seconds.\<close>

definition limit_headers :: "int \<Rightarrow> int \<Rightarrow> int \<Rightarrow> rw \<Rightarrow> rw" where
  "limit_headers limit remaining resetAt r =
     Set_Header ''X-RateLimit-Reset'' (itoa (resetAt div second))
       (Set_Header ''X-RateLimit-Remaining'' (itoa remaining)
         (Set_Header ''X-RateLimit-Limit'' (itoa limit) r))"

definition RateLimit ::
    "('s, 'd) world session_repository \<Rightarrow> int \<Rightarrow> int \<Rightarrow> ('s, 'd) world handler \<Rightarrow> ('s, 'd) world handler" where
  "RateLimit limiter limit window next q r w =
     (let key = ''ip:'' @ q_remote q;
          ((allowed, remaining, resetAt, _), w1) = RateLimitAllow limiter key limit window w;
          r1 = limit_headers limit remaining resetAt r
      in if \<not> allowed then reply q (WriteError TooManyRequests r1) w1 else next q r1 w1)"

definition RateLimitUser ::
    "('s, 'd) world session_repository \<Rightarrow> int \<Rightarrow> int \<Rightarrow> ('s, 'd) world handler \<Rightarrow> ('s, 'd) world handler" where
  "RateLimitUser limiter limit window next q r w =
     (let userID = ctx_string (c_userID (q_ctx q))
      in if userID = [] then next q r w
         else
           (let endpoint = routePattern (c_pattern (q_ctx q)) (q_path q);
                ((allowed, remaining, resetAt, _), w1) = RateLimitAllowUser limiter userID endpoint limit window w;
                r1 = limit_headers limit remaining resetAt r
            in if \<not> allowed then reply q (WriteError TooManyRequests r1) w1 else next q r1 w1))"

section \<open>Security headers (security.go)\<close>

definition squoted :: "string \<Rightarrow> string" where
  "squoted s = CHR 0x27 # s @ [CHR 0x27]"

definition security_csp :: "bool \<Rightarrow> string" where
  "security_csp isProd =
     (let self = squoted ''self''; inl = squoted ''unsafe-inline''
      in if isProd then ''default-src '' @ self @ ''; script-src '' @ self @ ''; style-src '' @ self @ '' '' @ inl
         else ''default-src '' @ self @ ''; script-src '' @ self @ '' '' @ inl @ ''; style-src '' @ self @ '' '' @ inl @
           ''; img-src '' @ self @ '' data:'')"

definition security_headers :: "bool \<Rightarrow> (string \<times> string) list" where
  "security_headers isProd =
     [(''X-Content-Type-Options'', ''nosniff''), (''X-Frame-Options'', ''DENY''),
      (''X-XSS-Protection'', ''1; mode=block''), (''Referrer-Policy'', ''strict-origin-when-cross-origin''),
      (''Permissions-Policy'', ''camera=(), microphone=(), geolocation=()''),
      (''Content-Security-Policy'', security_csp isProd)] @
     (if isProd then [(''Strict-Transport-Security'', ''max-age=31536000; includeSubDomains'')] else [])"

definition SecurityHeaders :: "bool \<Rightarrow> 'w handler \<Rightarrow> 'w handler" where
  "SecurityHeaders isProd next q r w =
     next q (fold (\<lambda>(k, v). Set_Header k v) (security_headers isProd) r) w"

section \<open>Request log (logger.go)\<close>

text \<open>\<open>reqID\<close> is what chi's \<open>RequestID\<close> put into the context.  The record is not written after a panic.\<close>

definition RequestLogger ::
    "(request \<Rightarrow> string) \<Rightarrow> ('s, 'd) world handler \<Rightarrow> ('s, 'd) world handler" where
  "RequestLogger reqID next q r w =
     (let start = w_now w;
          ctx = WithUserAgent (WithIP (q_ctx q) (q_remote q)) (Header_Get q ''User-Agent'');
          s = next (WithContext q ctx) r w
      in case sv_panic s of
           Some _ \<Rightarrow> s
         | None \<Rightarrow> s\<lparr>sv_world := log_at LInfo ''request''
             [(''request_id'', reqID q), (''method'', q_method q), (''path'', q_path q),
              (''status'', itoa (ww_Status (sv_rw s))), (''elapsed'', itoa (w_now (sv_world s) - start))] (sv_world s)\<rparr>)"

text \<open>The name formatter of \<open>Tracing\<close>; the span itself is made by otelhttp.\<close>

definition span_name :: "request \<Rightarrow> string" where
  "span_name q =
     (if c_pattern (q_ctx q) \<noteq> [] then q_method q @ '' '' @ c_pattern (q_ctx q) else q_method q @ '' '' @ q_path q)"

section \<open>Tenants (tenant.go)\<close>

definition extractSubdomain :: "request \<Rightarrow> string" where
  "extractSubdomain q =
     (let host = q_host q;
          parts = Split (CHR ''.'') host
      in if length parts \<ge> 3 then
           (let subdomain = hd parts;
                isIP = list_all (\<lambda>c. \<not> (c \<noteq> CHR ''.'' \<and> \<not> is_digit c)) subdomain
            in if subdomain = [] then []
               else if isIP \<and> CHR ''.'' \<in> set host then []
               else subdomain)
         else [])"

definition TenantMiddleware ::
    "'c codec_scheme \<Rightarrow> 'w tenant_service \<Rightarrow> 'w handler \<Rightarrow> 'w handler" where
  "TenantMiddleware C tenantSvc next q r w =
     (let ctx = (q_ctx q)\<lparr>c_tenantSvc := True\<rparr>;
          slug = extractSubdomain q;
          (tenantID, w1) =
            (if slug \<noteq> [] then
               (case tsvc_GetBySlug tenantSvc slug w of
                  (Inr t, w') \<Rightarrow> (t_ID t, w')
                | (Inl _, w') \<Rightarrow> (uuid_Nil, w'))
             else (uuid_Nil, w));
          idStr = Query_Get q ''tenant_id'';
          tenantID2 =
            (if tenantID = uuid_Nil \<and> idStr \<noteq> [] then
               (case uuidParse C idStr of Some i \<Rightarrow> i | None \<Rightarrow> tenantID)
             else tenantID);
          ctx2 = (if tenantID2 \<noteq> uuid_Nil then WithTenantID ctx tenantID2 else ctx)
      in next (WithContext q ctx2) r w1)"

definition RequireTenantID :: "'w handler \<Rightarrow> 'w handler" where
  "RequireTenantID next q r w =
     (if TenantIDFromContext (q_ctx q) = uuid_Nil then
        reply q (http_Error ''tenant_id is required'' 400 r) w
      else next q r w)"

text \<open>\<open>svc\<close> is the service that \<open>TenantMiddleware\<close> put into the context.\<close>

definition getTenantService :: "'w tenant_service \<Rightarrow> rctx \<Rightarrow> 'w tenant_service option" where
  "getTenantService svc c = (if c_tenantSvc c then Some svc else None)"

definition TenantFromPath :: "'w tenant_service \<Rightarrow> 'w handler \<Rightarrow> 'w handler" where
  "TenantFromPath svc next q r w =
     (let slug = URLParam q ''tenant''
      in if slug = [] then next q r w
         else case getTenantService svc (q_ctx q) of
             None \<Rightarrow> next q r w
           | Some s \<Rightarrow>
               (case tsvc_GetBySlug s slug w of
                  (Inr t, w1) \<Rightarrow> next (WithContext q (WithTenantID (q_ctx q) (t_ID t))) r w1
                | (Inl _, w1) \<Rightarrow> next q r w1))"

end
