(* ===== verification/Handlers.thy ===== *)
theory Handlers
  imports Middleware
begin

text \<open>
  \<open>internal/handler\<close>: the HTTP handlers for authentication, users and tenants, and the health probes.  A handler
  decodes the request, calls one service method and writes the answer; it never panics by itself.  The services are
  the interface records, so that every statement below holds for any implementation.
\<close>

section \<open>Writing JSON\<close>

text \<open>\<open>encodeJSON\<close>: the header is already sent; an encoding error is logged and leaves the body empty.\<close>

definition encodeJSON :: "('s, 'd) env \<Rightarrow> json \<Rightarrow> rw \<Rightarrow> ('s, 'd) world \<Rightarrow> rw \<times> ('s, 'd) world" where
  "encodeJSON E v r w =
     (case jsonText E v of
        Some _ \<Rightarrow> (Write (BJson v) r, w)
      | None \<Rightarrow> (r, log_at LWarn ''encode response'' [(''error'', ''json: unsupported value'')] w))"

text \<open>The end of a successful handler: content type, status, body.\<close>

definition send_json ::
    "('s, 'd) env \<Rightarrow> request \<Rightarrow> int \<Rightarrow> json \<Rightarrow> rw \<Rightarrow> ('s, 'd) world \<Rightarrow> ('s, 'd) world served" where
  "send_json E q status v r w =
     (let (r', w') = encodeJSON E v (WriteHeader status (Set_Header ''Content-Type'' ''application/json'' r)) w
      in reply q r' w')"

text \<open>An error: the span records it, the client gets its public form.\<close>

definition send_error ::
    "string \<Rightarrow> (string \<times> string) list \<Rightarrow> request \<Rightarrow> goerr \<Rightarrow> rw \<Rightarrow> ('s, 'd) world \<Rightarrow> ('s, 'd) world served" where
  "send_error span attrs q e r w = reply q (WriteError e r) (end_failed span attrs e w)"

definition bad_body :: goerr where
  "bad_body = BadRequest ''invalid request body'' (Some (ExtErr ''json: cannot decode''))"

section \<open>Authentication (auth.go)\<close>

record ('s, 'd) auth_handler =
  ah_svc :: "('s, 'd) world auth_service"
  ah_jwtSvc :: jwt_service
  ah_isProd :: bool
  ah_registrationEnabled :: bool

definition NewAuthHandler ::
    "('s, 'd) world auth_service \<Rightarrow> jwt_service \<Rightarrow> bool \<Rightarrow> bool \<Rightarrow> ('s, 'd) auth_handler" where
  "NewAuthHandler svc jwtSvc isProd registrationEnabled =
     \<lparr>ah_svc = svc, ah_jwtSvc = jwtSvc, ah_isProd = isProd, ah_registrationEnabled = registrationEnabled\<rparr>"

text \<open>A payload of two strings, decoded from the body; \<open>None\<close> is the decoder's error.\<close>

definition decode2 :: "string \<Rightarrow> string \<Rightarrow> json option \<Rightarrow> (string \<times> string) option" where
  "decode2 f g body =
     (case Option.bind body obj_pairs of
        None \<Rightarrow> None
      | Some ps \<Rightarrow>
          (let (a, ok1) = dec_field json_str f ps [] True;
               (b, ok2) = dec_field json_str g ps [] ok1
           in if ok2 then Some (a, b) else None))"

definition RegisterRequest_decode :: "json option \<Rightarrow> (string \<times> string) option" where
  "RegisterRequest_decode = decode2 ''email'' ''password''"

definition LoginRequest_decode :: "json option \<Rightarrow> (string \<times> string) option" where
  "LoginRequest_decode = decode2 ''email'' ''password''"

definition ResetPasswordRequest_decode :: "json option \<Rightarrow> (string \<times> string) option" where
  "ResetPasswordRequest_decode = decode2 ''token'' ''new_password''"

definition ForgotPasswordRequest_decode :: "json option \<Rightarrow> string option" where
  "ForgotPasswordRequest_decode body =
     (case Option.bind body obj_pairs of
        None \<Rightarrow> None
      | Some ps \<Rightarrow> (let (e, ok) = dec_field json_str ''email'' ps [] True in if ok then Some e else None))"

definition TokenResponse_json :: "'c codec_scheme \<Rightarrow> token_pair \<Rightarrow> json" where
  "TokenResponse_json C p = JObj [(''access_token'', JStr (tp_AccessToken p)), (''expires_at'', JStr (timeText C (tp_ExpiresAt p)))]"

definition AuthHandler_Register :: "('s, 'd) env \<Rightarrow> ('s, 'd) auth_handler \<Rightarrow> ('s, 'd) world handler" where
  "AuthHandler_Register E h q r w =
     (let err = send_error ''handler/Register'' [] q
      in if \<not> ah_registrationEnabled h then err (Forbidden ''user registration is disabled'') r w
         else case RegisterRequest_decode (q_body q) of
             None \<Rightarrow> err bad_body r w
           | Some (email, password) \<Rightarrow>
               if email = [] \<or> password = [] then err (BadRequest ''email and password are required'' None) r w
               else
                 (case auth_Register (ah_svc h) email password w of
                    (Inl e, w1) \<Rightarrow> err e r w1
                  | (Inr u, w1) \<Rightarrow>
                      send_json E q 201 (UserResponse_json E (User_ToResponse u)) r
                        (end_ok ''handler/Register'' []
                          (log_at LInfo ''user registered'' [(''user_id'', uuidString E (u_ID u))] w1))))"

text \<open>The refresh token's cookie.  \<open>int(ttl.Seconds())\<close> truncates.\<close>

definition refresh_cookie :: "('s, 'd) auth_handler \<Rightarrow> int \<Rightarrow> string \<Rightarrow> cookie" where
  "refresh_cookie h now token =
     \<lparr>ck_Name = ''refresh_token'', ck_Value = token, ck_Path = ''/api/v1/auth/refresh'', ck_HttpOnly = True,
      ck_Secure = ah_isProd h, ck_SameSiteStrict = True,
      ck_Expires = Some (now + JWTService_RefreshTTL (ah_jwtSvc h)),
      ck_MaxAge = quot64 (JWTService_RefreshTTL (ah_jwtSvc h)) second\<rparr>"

definition cleared_cookie :: "('s, 'd) auth_handler \<Rightarrow> cookie" where
  "cleared_cookie h =
     \<lparr>ck_Name = ''refresh_token'', ck_Value = [], ck_Path = ''/api/v1/auth/refresh'', ck_HttpOnly = True,
      ck_Secure = ah_isProd h, ck_SameSiteStrict = True, ck_Expires = None, ck_MaxAge = - 1\<rparr>"

text \<open>The common end of \<open>Login\<close> and \<open>Refresh\<close>: the refresh token goes into the cookie only.\<close>

definition send_tokens ::
    "('s, 'd) env \<Rightarrow> ('s, 'd) auth_handler \<Rightarrow> string \<Rightarrow> request \<Rightarrow> token_pair \<Rightarrow> rw \<Rightarrow> ('s, 'd) world \<Rightarrow>
     ('s, 'd) world served" where
  "send_tokens E h span q p r w =
     send_json E q 200 (TokenResponse_json E p)
       (SetCookie (refresh_cookie h (w_now w) (tp_RawRefreshToken p)) r) (end_ok span [] w)"

definition AuthHandler_Login :: "('s, 'd) env \<Rightarrow> ('s, 'd) auth_handler \<Rightarrow> ('s, 'd) world handler" where
  "AuthHandler_Login E h q r w =
     (let err = send_error ''handler/Login'' [] q
      in case LoginRequest_decode (q_body q) of
           None \<Rightarrow> err bad_body r w
         | Some (email, password) \<Rightarrow>
             if email = [] \<or> password = [] then err (BadRequest ''email and password are required'' None) r w
             else
               (case auth_Login (ah_svc h) (q_ctx q) email password w of
                  (Inl e, w1) \<Rightarrow> err e r w1
                | (Inr p, w1) \<Rightarrow> send_tokens E h ''handler/Login'' q p r w1))"

definition AuthHandler_Refresh :: "('s, 'd) env \<Rightarrow> ('s, 'd) auth_handler \<Rightarrow> ('s, 'd) world handler" where
  "AuthHandler_Refresh E h q r w =
     (let err = send_error ''handler/Refresh'' [] q
      in case map_of (q_cookies q) ''refresh_token'' of
           None \<Rightarrow> err (Unauthorized ''refresh token cookie missing'') r w
         | Some v \<Rightarrow>
             if v = [] then err (Unauthorized ''refresh token cookie empty'') r w
             else
               (case auth_Refresh (ah_svc h) (q_ctx q) v w of
                  (Inl e, w1) \<Rightarrow> err e r w1
                | (Inr p, w1) \<Rightarrow> send_tokens E h ''handler/Refresh'' q p r w1))"

text \<open>The service's result is discarded, also when it is an error.\<close>

definition AuthHandler_ForgotPassword :: "('s, 'd) env \<Rightarrow> ('s, 'd) auth_handler \<Rightarrow> ('s, 'd) world handler" where
  "AuthHandler_ForgotPassword E h q r w =
     (let err = send_error ''handler/ForgotPassword'' [] q
      in case ForgotPasswordRequest_decode (q_body q) of
           None \<Rightarrow> err bad_body r w
         | Some email \<Rightarrow>
             if email = [] then err (BadRequest ''email is required'' None) r w
             else
               (let (_, w1) = auth_ForgotPassword (ah_svc h) (q_ctx q) email w
                in send_json E q 200
                     (JObj [(''message'', JStr ''if your email is registered, a reset link has been sent'')]) r
                     (end_ok ''handler/ForgotPassword'' [] w1)))"

definition AuthHandler_ResetPassword :: "('s, 'd) env \<Rightarrow> ('s, 'd) auth_handler \<Rightarrow> ('s, 'd) world handler" where
  "AuthHandler_ResetPassword E h q r w =
     (let err = send_error ''handler/ResetPassword'' [] q
      in case ResetPasswordRequest_decode (q_body q) of
           None \<Rightarrow> err bad_body r w
         | Some (token, newPassword) \<Rightarrow>
             if token = [] \<or> newPassword = [] then err (BadRequest ''token and new_password are required'' None) r w
             else
               (case auth_ResetPassword (ah_svc h) (q_ctx q) token newPassword w of
                  (Some e, w1) \<Rightarrow> err e r w1
                | (None, w1) \<Rightarrow>
                    send_json E q 200 (JObj [(''message'', JStr ''password updated'')]) r
                      (end_ok ''handler/ResetPassword'' [] w1)))"

definition AuthHandler_Logout :: "('s, 'd) auth_handler \<Rightarrow> ('s, 'd) world handler" where
  "AuthHandler_Logout h q r w =
     (let jti = ctx_string (c_jti (q_ctx q));
          rawRefresh = (case map_of (q_cookies q) ''refresh_token'' of None \<Rightarrow> [] | Some v \<Rightarrow> v)
      in case auth_Logout (ah_svc h) (q_ctx q) jti rawRefresh w of
           (Some e, w1) \<Rightarrow> send_error ''handler/Logout'' [] q e r w1
         | (None, w1) \<Rightarrow>
             reply q (WriteHeader 204 (SetCookie (cleared_cookie h) r)) (end_ok ''handler/Logout'' [] w1))"

section \<open>Users (user.go)\<close>

definition parseIntQuery :: "request \<Rightarrow> string \<Rightarrow> int \<Rightarrow> int" where
  "parseIntQuery q key defaultVal =
     (let raw = Query_Get q key
      in if raw = [] then defaultVal
         else case Atoi raw of None \<Rightarrow> defaultVal | Some v \<Rightarrow> v)"

definition bad_user_id :: goerr where
  "bad_user_id = BadRequest ''invalid user ID'' (Some (ExtErr ''invalid UUID''))"

definition UserHandler_GetMe :: "('s, 'd) env \<Rightarrow> ('s, 'd) world user_service \<Rightarrow> ('s, 'd) world handler" where
  "UserHandler_GetMe E svc q r w =
     (let userIDStr = ctx_string (c_userID (q_ctx q))
      in if userIDStr = [] then send_error ''handler/GetMe'' [] q (Unauthorized ''missing user ID in token'') r w
         else case uuidParse E userIDStr of
             None \<Rightarrow> send_error ''handler/GetMe'' [] q (Unauthorized ''invalid user ID in token'') r w
           | Some userID \<Rightarrow>
               (let attrs = [(''user.id'', uuidString E userID)]
                in case svc_GetByID svc userID w of
                     (Inl e, w1) \<Rightarrow> send_error ''handler/GetMe'' attrs q e r w1
                   | (Inr u, w1) \<Rightarrow>
                       send_json E q 200 (UserResponse_json E (User_ToResponse u)) r (end_ok ''handler/GetMe'' attrs w1)))"

definition UserHandler_GetUser :: "('s, 'd) env \<Rightarrow> ('s, 'd) world user_service \<Rightarrow> ('s, 'd) world handler" where
  "UserHandler_GetUser E svc q r w =
     (case uuidParse E (URLParam q ''id'') of
        None \<Rightarrow> send_error ''handler/GetUser'' [] q bad_user_id r w
      | Some targetID \<Rightarrow>
          (let attrs = [(''user.id'', uuidString E targetID)];
               callerID = ctx_string (c_userID (q_ctx q));
               callerRole = ctx_string (c_role (q_ctx q))
           in if callerRole \<noteq> ''admin'' \<and> callerID \<noteq> uuidString E targetID then
                send_error ''handler/GetUser'' attrs q (Forbidden (''cannot fetch another user'' @ [CHR 0x27] @ ''s profile'')) r w
              else case svc_GetByID svc targetID w of
                  (Inl e, w1) \<Rightarrow> send_error ''handler/GetUser'' attrs q e r w1
                | (Inr u, w1) \<Rightarrow>
                    send_json E q 200 (UserResponse_json E (User_ToResponse u)) r (end_ok ''handler/GetUser'' attrs w1)))"

definition ListUsersResponse_json :: "'c codec_scheme \<Rightarrow> user_response list \<Rightarrow> int \<Rightarrow> int \<Rightarrow> int \<Rightarrow> json" where
  "ListUsersResponse_json C us cnt page perPage =
     JObj [(''data'', JArr (map (UserResponse_json C) us)), (''total'', JInt cnt), (''page'', JInt page),
       (''per_page'', JInt perPage)]"

text \<open>The clamped page and page size.\<close>

definition list_page :: "request \<Rightarrow> int \<times> int" where
  "list_page q =
     (let page = parseIntQuery q ''page'' 1;
          perPage = parseIntQuery q ''per_page'' 20;
          page1 = (if page < 1 then 1 else page);
          perPage1 = (if perPage < 1 then 1 else perPage);
          perPage2 = (if perPage1 > 100 then 100 else perPage1)
      in (page1, perPage2))"

definition UserHandler_ListUsers :: "('s, 'd) env \<Rightarrow> ('s, 'd) world user_service \<Rightarrow> ('s, 'd) world handler" where
  "UserHandler_ListUsers E svc q r w =
     (if ctx_string (c_role (q_ctx q)) \<noteq> ''admin'' then
        send_error ''handler/ListUsers'' [] q (Forbidden ''admin access required'') r w
      else
        (let (page, perPage) = list_page q;
             attrs = [(''pagination.page'', itoa page), (''pagination.per_page'', itoa perPage)];
             offset = wrap64 (wrap64 (page - 1) * perPage)
         in case svc_List svc perPage offset w of
              (Inl e, w1) \<Rightarrow> send_error ''handler/ListUsers'' attrs q e r w1
            | (Inr (us, cnt), w1) \<Rightarrow>
                send_json E q 200 (ListUsersResponse_json E us cnt page perPage) r (end_ok ''handler/ListUsers'' attrs w1)))"

definition UserHandler_UpdateUser :: "('s, 'd) env \<Rightarrow> ('s, 'd) world user_service \<Rightarrow> ('s, 'd) world handler" where
  "UserHandler_UpdateUser E svc q r w =
     (case uuidParse E (URLParam q ''id'') of
        None \<Rightarrow> send_error ''handler/UpdateUser'' [] q bad_user_id r w
      | Some targetID \<Rightarrow>
          (let attrs = [(''user.id'', uuidString E targetID)];
               callerID = ctx_string (c_userID (q_ctx q));
               callerRole = ctx_string (c_role (q_ctx q))
           in if callerRole \<noteq> ''admin'' \<and> callerID \<noteq> uuidString E targetID then
                send_error ''handler/UpdateUser'' attrs q (Forbidden (''cannot update another user'' @ [CHR 0x27] @ ''s profile'')) r w
              else case Option.bind (q_body q) UpdateUserRequest_decode of
                  None \<Rightarrow> send_error ''handler/UpdateUser'' attrs q bad_body r w
                | Some req \<Rightarrow>
                    (case svc_Update svc targetID req callerRole w of
                       (Inl e, w1) \<Rightarrow> send_error ''handler/UpdateUser'' attrs q e r w1
                     | (Inr u, w1) \<Rightarrow>
                         send_json E q 200 (UserResponse_json E (User_ToResponse u)) r
                           (end_ok ''handler/UpdateUser'' attrs w1))))"

definition UserHandler_DeleteUser :: "('s, 'd) env \<Rightarrow> ('s, 'd) world user_service \<Rightarrow> ('s, 'd) world handler" where
  "UserHandler_DeleteUser E svc q r w =
     (case uuidParse E (URLParam q ''id'') of
        None \<Rightarrow> send_error ''handler/DeleteUser'' [] q bad_user_id r w
      | Some targetID \<Rightarrow>
          (let attrs = [(''user.id'', uuidString E targetID)]
           in case svc_Delete svc targetID w of
                (Some e, w1) \<Rightarrow> send_error ''handler/DeleteUser'' attrs q e r w1
              | (None, w1) \<Rightarrow> reply q (WriteHeader 204 r) (end_ok ''handler/DeleteUser'' attrs w1)))"

section \<open>Tenants (tenant.go)\<close>

text \<open>\<open>respondJSON\<close>: no span; an encoding error goes to the default logger.\<close>

definition respondJSON ::
    "('s, 'd) env \<Rightarrow> request \<Rightarrow> int \<Rightarrow> json \<Rightarrow> rw \<Rightarrow> ('s, 'd) world \<Rightarrow> ('s, 'd) world served" where
  "respondJSON E q status v r w =
     (let r1 = WriteHeader status (Set_Header ''Content-Type'' ''application/json'' r)
      in case jsonText E v of
           Some _ \<Rightarrow> reply q (Write (BJson v) r1) w
         | None \<Rightarrow> reply q r1 (log_at LError ''encode response'' [(''error'', ''json: unsupported value'')] w))"

text \<open>The handler's own shape of a tenant: no settings, no times.\<close>

definition tenant_item_json :: "'c codec_scheme \<Rightarrow> tenant \<Rightarrow> json" where
  "tenant_item_json C t = JObj [(''id'', JStr (uuidString C (t_ID t))), (''name'', JStr (t_Name t)), (''slug'', JStr (t_Slug t))]"

definition TenantHandler_List :: "('s, 'd) env \<Rightarrow> ('s, 'd) world tenant_service \<Rightarrow> ('s, 'd) world handler" where
  "TenantHandler_List E svc q r w =
     (case tsvc_List svc w of
        (Inl e, w1) \<Rightarrow> reply q (WriteError e r) w1
      | (Inr ts, w1) \<Rightarrow> respondJSON E q 200 (JArr (map (tenant_item_json E) ts)) r w1)"

text \<open>The check for a nil tenant has no counterpart: the modelled service returns one or an error.\<close>

definition TenantHandler_GetByID :: "('s, 'd) env \<Rightarrow> ('s, 'd) world tenant_service \<Rightarrow> ('s, 'd) world handler" where
  "TenantHandler_GetByID E svc q r w =
     (case uuidParse E (URLParam q ''id'') of
        None \<Rightarrow> reply q (WriteError (BadRequest ''invalid tenant id'' (Some (ExtErr ''invalid UUID''))) r) w
      | Some i \<Rightarrow>
          (case tsvc_GetByID svc i w of
             (Inl e, w1) \<Rightarrow> reply q (WriteError e r) w1
           | (Inr t, w1) \<Rightarrow> respondJSON E q 200 (TenantResponse_json E (Tenant_ToResponse t)) r w1))"

section \<open>Health probes (health.go)\<close>

definition writeJSON ::
    "('s, 'd) env \<Rightarrow> request \<Rightarrow> int \<Rightarrow> json \<Rightarrow> rw \<Rightarrow> ('s, 'd) world \<Rightarrow> ('s, 'd) world served" where
  "writeJSON E q status v r w =
     (let r1 = WriteHeader status (Set_Header ''Content-Type'' ''application/json'' r)
      in case jsonText E v of
           Some _ \<Rightarrow> reply q (Write (BJson v) r1) w
         | None \<Rightarrow> reply q r1 (log_at LWarn ''encode response'' [(''error'', ''json: unsupported value'')] w))"

definition Healthz :: "('s, 'd) env \<Rightarrow> ('s, 'd) world handler" where
  "Healthz E q r w = writeJSON E q 200 (JObj [(''status'', JStr ''ok'')]) r w"

definition ReadyzResponse_json :: "string \<Rightarrow> bool \<Rightarrow> bool \<Rightarrow> json" where
  "ReadyzResponse_json status db redis = JObj [(''status'', JStr status), (''db'', JBool db), (''redis'', JBool redis)]"

text \<open>\<open>pgPing\<close> and \<open>redisPing\<close> tell whether the pools answer a ping within two seconds.\<close>

definition Readyz ::
    "('s, 'd) env \<Rightarrow> (('s, 'd) world \<Rightarrow> bool) \<Rightarrow> (('s, 'd) world \<Rightarrow> bool) \<Rightarrow> ('s, 'd) world handler" where
  "Readyz E pgPing redisPing q r w =
     (let dbOK = pgPing w; redisOK = redisPing w
      in if dbOK \<and> redisOK then writeJSON E q 200 (ReadyzResponse_json ''ready'' dbOK redisOK) r w
         else writeJSON E q 503 (ReadyzResponse_json ''degraded'' dbOK redisOK) r w)"

lemmas handler_defs = AuthHandler_Register_def AuthHandler_Login_def AuthHandler_Refresh_def
  AuthHandler_ForgotPassword_def AuthHandler_ResetPassword_def AuthHandler_Logout_def UserHandler_GetMe_def
  UserHandler_GetUser_def UserHandler_ListUsers_def UserHandler_UpdateUser_def UserHandler_DeleteUser_def
  TenantHandler_List_def TenantHandler_GetByID_def Healthz_def Readyz_def

lemmas send_defs = send_json_def send_error_def send_tokens_def respondJSON_def writeJSON_def encodeJSON_def reply_def

end
