(* ===== verification/Admin.thy ===== *)
theory Admin
  imports Handlers
begin

text \<open>
  The server-rendered admin panel: the templates of \<open>web/components\<close>, as the strings their generated code writes, and
  the handlers of \<open>internal/handler/admin.go\<close>.  What the templates take from outside the repository is the record
  \<open>templ\<close>: the escaping function of the templ runtime and the date format of package time.
\<close>

section \<open>Templates\<close>

record templ =
  te_EscapeString :: "string \<Rightarrow> string"
  te_date :: "int \<Rightarrow> string"

definition AdminUserRow :: "templ \<Rightarrow> 'c codec_scheme \<Rightarrow> user_response \<Rightarrow> string" where
  \<open>AdminUserRow P C u =
     (let esc = te_EscapeString P; i = uuidString C (r_ID u)
      in ''<tr id="'' @ esc (''user-row-'' @ i) @ ''"><td>'' @ esc (r_Email u) @ ''</td><td>'' @ esc (r_Role u) @
         ''</td><td>'' @ (if r_IsActive u then ''Active'' else ''Inactive'') @ ''</td><td>'' @
         esc (te_date P (r_CreatedAt u)) @ ''</td><td><button hx-delete="'' @ esc (''/admin/users/'' @ i) @
         ''" hx-confirm="'' @ esc (''Delete '' @ r_Email u @ ''?'') @ ''" hx-target="'' @ esc (''#user-row-'' @ i) @
         ''" hx-swap="outerHTML">Delete</button></td></tr>'')\<close>

definition AdminUsersTableBody :: "templ \<Rightarrow> 'c codec_scheme \<Rightarrow> user_response list \<Rightarrow> string" where
  "AdminUsersTableBody P C us = concat (map (AdminUserRow P C) us)"

text \<open>The style sheet and the script of the page, line by line with their indentation.\<close>

definition indent :: "nat \<Rightarrow> string \<Rightarrow> string" where
  "indent n s = replicate n (CHR 0x09) @ s @ [CHR 0x0A]"

definition layout_style :: string where
  "layout_style = CHR 0x0A # concat (map (indent 4)
     [''body { font-family: system-ui, sans-serif; max-width: 960px; margin: 2rem auto; padding: 0 1rem; }'',
      ''table { width: 100%; border-collapse: collapse; }'',
      ''th, td { text-align: left; padding: 0.5rem 0.75rem; border-bottom: 1px solid #eee; }'',
      ''th { background: #f5f5f5; font-weight: 600; }'',
      ''nav { border-bottom: 1px solid #eee; margin-bottom: 2rem; padding-bottom: 1rem; }'',
      ''nav a { margin-right: 1rem; text-decoration: none; color: #0066cc; }'',
      ''button { cursor: pointer; padding: 0.25rem 0.75rem; }'']) @ replicate 3 (CHR 0x09)"

definition layout_script :: string where
  \<open>layout_script = CHR 0x0A # concat (map (\<lambda>(n, s). indent n s)
     [(4, ''// Attach the Bearer token from the <meta> tag to every htmx request''),
      (4, ''// so admin API calls are properly authenticated.''),
      (4, ''document.addEventListener("DOMContentLoaded", function () {''),
      (5, ''var t = document.querySelector('' @ squoted ''meta[name="api-token"]'' @ '');''),
      (5, ''if (t && t.content) {''),
      (6, ''document.body.setAttribute(''),
      (7, ''"hx-headers",''),
      (7, ''JSON.stringify({ "Authorization": "Bearer " + t.content })''),
      (6, '');''),
      (6, ''htmx.process(document.body);''),
      (5, ''}''),
      (4, ''});'')]) @ replicate 3 (CHR 0x09)\<close>

definition Layout :: "templ \<Rightarrow> string \<Rightarrow> string \<Rightarrow> string \<Rightarrow> string" where
  \<open>Layout P title token children =
     ''<!doctype html><html lang="en"><head><meta charset="UTF-8"><meta name="viewport" content="width=device-width, initial-scale=1.0"><meta name="api-token" content="'' @
     te_EscapeString P token @ ''"><title>'' @ te_EscapeString P title @ '' '' @ em_dash @
     '' Kleido Admin</title><style>'' @ layout_style @
     ''</style><script src="https://unpkg.com/htmx.org@1.9.12" integrity="sha384-sqjBIiSGHATSBfzn0vZkFHHhQHjvvHBSq7C9MQRKkEnNB+fMGKHfF3SKDwBkSBz" crossorigin="anonymous" defer></script><script>'' @
     layout_script @ ''</script></head><body><nav><a href="/admin/users">Users</a></nav><main>'' @ children @
     ''</main></body></html>''\<close>

definition AdminUsers :: "templ \<Rightarrow> 'c codec_scheme \<Rightarrow> user_response list \<Rightarrow> int \<Rightarrow> string \<Rightarrow> string" where
  \<open>AdminUsers P C us cnt token =
     Layout P ''Users'' token
       (''<h1>Users <span style="font-size: 0.9rem; font-weight: normal; color: #666;">('' @
        te_EscapeString P (itoa cnt) @
        '' total)</span></h1><table><thead><tr><th>Email</th><th>Role</th><th>Active</th><th>Created</th><th></th></tr></thead> <tbody id="user-table-body">'' @
        AdminUsersTableBody P C us @ ''</tbody></table>'')\<close>

section \<open>Handlers\<close>

definition extractBearerToken :: "request \<Rightarrow> string" where
  "extractBearerToken q =
     (let (after, ok) = CutPrefix (Header_Get q ''Authorization'') ''Bearer ''
      in if \<not> ok then [] else TrimSpace after)"

text \<open>The page is written without a status, so with 200; a rendering error is ignored.\<close>

definition AdminHandler_UserList ::
    "('s, 'd) env \<Rightarrow> templ \<Rightarrow> ('s, 'd) world user_service \<Rightarrow> ('s, 'd) world handler" where
  "AdminHandler_UserList E P svc q r w =
     (case svc_List svc 100 0 w of
        (Inl e, w1) \<Rightarrow>
          reply q (WriteError e r) (log_at LError ''admin user list failed'' [(''error'', Error e)] w1)
      | (Inr (us, cnt), w1) \<Rightarrow>
          (let r1 = Set_Header ''Content-Type'' ''text/html; charset=utf-8'' r
           in if Header_Get q ''HX-Request'' = ''true'' then
                reply q (Write (BText (AdminUsersTableBody P E us)) r1) w1
              else reply q (Write (BText (AdminUsers P E us cnt (extractBearerToken q))) r1) w1))"

definition AdminHandler_UserDelete ::
    "('s, 'd) env \<Rightarrow> ('s, 'd) world user_service \<Rightarrow> ('s, 'd) world handler" where
  "AdminHandler_UserDelete E svc q r w =
     (case uuidParse E (URLParam q ''id'') of
        None \<Rightarrow> reply q (WriteError bad_user_id r) w
      | Some i \<Rightarrow>
          (let callerRole = ctx_string (c_role (q_ctx q))
           in case svc_Delete svc i w of
                (Some e, w1) \<Rightarrow>
                  reply q (WriteError e r)
                    (log_at LError ''admin delete failed'' [(''user_id'', uuidString E i), (''error'', Error e)] w1)
              | (None, w1) \<Rightarrow>
                  reply q (WriteHeader 200 r)
                    (log_at LInfo ''user deleted by admin''
                      [(''user_id'', uuidString E i), (''caller_role'', callerRole)] w1)))"

section \<open>Rendered pages carry no foreign markup\<close>

text \<open>\<open>html.EscapeString\<close>, the concrete escape of the witnesses.\<close>

fun html_EscapeString :: "string \<Rightarrow> string" where
  "html_EscapeString [] = []"
| \<open>html_EscapeString (c # cs) =
     (if c = CHR ''<'' then ''&lt;'' else if c = CHR ''>'' then ''&gt;'' else if c = CHR ''&'' then ''&amp;''
      else if c = CHR 0x27 then ''&#39;'' else if c = CHR 0x22 then ''&#34;'' else [c]) @ html_EscapeString cs\<close>

definition no_markup :: "string \<Rightarrow> bool" where
  "no_markup s \<longleftrightarrow> CHR ''<'' \<notin> set s \<and> CHR ''>'' \<notin> set s \<and> CHR 0x22 \<notin> set s"

lemma html_EscapeString_no_markup: "no_markup (html_EscapeString s)"
  by (induction s) (auto simp: no_markup_def)

lemma count_list_append [simp]: "count_list (xs @ ys) c = count_list xs c + count_list ys c"
  by (induction xs) auto

lemma count_list_no_markup:
  "no_markup s \<Longrightarrow> count_list s (CHR ''<'') = 0" "no_markup s \<Longrightarrow> count_list s (CHR ''>'') = 0"
  "no_markup s \<Longrightarrow> count_list s (CHR 0x22) = 0"
  by (simp_all add: no_markup_def count_list_0_iff)

lemma AdminUserRow_markup:
  assumes "\<And>s. no_markup (te_EscapeString P s)"
  shows "count_list (AdminUserRow P C u) (CHR ''<'') = 14" "count_list (AdminUserRow P C u) (CHR ''>'') = 14"
    "count_list (AdminUserRow P C u) (CHR 0x22) = 10"
  by (simp_all add: AdminUserRow_def Let_def count_list_no_markup [OF assms])

text \<open>
  The user table cannot be broken out of: with an escape function that leaves no angle bracket and no double
  quote, every row of the table has exactly the brackets and quotes of its template, whatever the address,
  role and dates of the users are; so no value of a user adds a tag or an attribute to the page.
\<close>

theorem admin_table_markup_fixed:
  assumes "\<And>s. no_markup (te_EscapeString P s)"
  shows "count_list (AdminUsersTableBody P C us) (CHR ''<'') = 14 * length us \<and>
    count_list (AdminUsersTableBody P C us) (CHR ''>'') = 14 * length us \<and>
    count_list (AdminUsersTableBody P C us) (CHR 0x22) = 10 * length us"
  by (induction us) (simp_all add: AdminUsersTableBody_def AdminUserRow_markup [OF assms])

theorem admin_table_markup_fixed_witness:
  "count_list (AdminUsersTableBody \<lparr>te_EscapeString = html_EscapeString, te_date = itoa\<rparr>
     \<lparr>uuidString = (\<lambda>i. ''7''), uuidParse = (\<lambda>s. None), timeText = itoa, timeParse = (\<lambda>s. None),
      jsonText = (\<lambda>j. None), jsonParse = (\<lambda>s. None)\<rparr>
     [\<lparr>r_ID = 7, r_Email = ''<script>@x'', r_Role = ''user'', r_IsActive = True, r_CreatedAt = 0\<rparr>]) (CHR ''<'') = 14"
proof -
  have esc: "\<And>s. no_markup (te_EscapeString \<lparr>te_EscapeString = html_EscapeString, te_date = itoa\<rparr> s)"
    by (simp add: html_EscapeString_no_markup)
  show ?thesis by (rule trans [OF admin_table_markup_fixed [OF esc, THEN conjunct1]]) simp
qed

end
