(* ===== verification/Router.thy ===== *)
theory Router
  imports Admin
begin

text \<open>
  \<open>cmd/api/routes.go\<close> and \<open>cmd/api/ui.go\<close>: the middleware chain, the route table and the serving of the web
  application.  The parts of other packages are the record \<open>chi\<close>: route matching and its fallback handler, the
  \<open>RealIP\<close>, \<open>RequestID\<close>, CORS and tracing middleware, the Prometheus and Swagger handlers, and the file server with
  its file system.
\<close>

section \<open>Web application (ui.go)\<close>

text \<open>The embedded file system: which names exist and what a file contains.\<close>

record dist_fs =
  fs_Stat :: "string \<Rightarrow> bool"
  fs_ReadFile :: "string \<Rightarrow> string option"

definition serveIndex :: "dist_fs \<Rightarrow> request \<Rightarrow> rw \<Rightarrow> 'w \<Rightarrow> 'w served" where
  "serveIndex fs q r w =
     (case fs_ReadFile fs ''index.html'' of
        None \<Rightarrow> reply q (http_Error (''UI not built '' @ em_dash @ '' run '' @ squoted ''make ui-build'') 503 r) w
      | Some content \<Rightarrow>
          reply q (Write (BText content)
            (Set_Header ''Cache-Control'' ''no-store'' (Set_Header ''Content-Type'' ''text/html; charset=utf-8'' r))) w)"

definition spaHandler :: "'w handler \<Rightarrow> dist_fs \<Rightarrow> 'w handler" where
  "spaHandler fileServer fs q r w =
     (let path0 = TrimPrefix (q_path q) ''/'';
          path = (if path0 = [] then ''index.html'' else path0)
      in if path = ''index.html'' then serveIndex fs q r w
         else if fs_Stat fs path then
           fileServer q (if HasPrefix path ''assets/'' then r else Set_Header ''Cache-Control'' ''public, max-age=3600'' r) w
         else serveIndex fs q r w)"

definition ui_asset :: "'w handler \<Rightarrow> 'w handler" where
  "ui_asset fileServer q r w =
     fileServer q (Set_Header ''Cache-Control'' ''public, max-age=31536000, immutable'' r) w"

definition ui_root_file :: "'w handler \<Rightarrow> 'w handler" where
  "ui_root_file fileServer q r w = fileServer q (Set_Header ''Cache-Control'' ''public, max-age=86400'' r) w"

section \<open>Routes\<close>

text \<open>A route: method (empty for any), pattern and handler, in the order of registration.\<close>

type_synonym 'w route = "string \<times> string \<times> 'w handler"

definition registerUIRoutes :: "'w handler \<Rightarrow> dist_fs \<Rightarrow> 'w route list" where
  "registerUIRoutes fileServer fs =
     (''GET'', ''/assets/*'', ui_asset fileServer) #
     map (\<lambda>p. (''GET'', p, ui_root_file fileServer)) [''/favicon.ico'', ''/robots.txt'', ''/manifest.json''] @
     [(''GET'', ''/*'', spaHandler fileServer fs)]"

text \<open>Settings of the CORS middleware and of the Swagger handler.\<close>

record cors_options =
  co_AllowedOrigins :: "string list"
  co_AllowedMethods :: "string list"
  co_AllowedHeaders :: "string list"
  co_AllowCredentials :: bool
  co_MaxAge :: int

definition router_cors :: cors_options where
  "router_cors = \<lparr>
     co_AllowedOrigins = [''http://localhost:3000''],
     co_AllowedMethods = [''GET'', ''POST'', ''PUT'', ''PATCH'', ''DELETE'', ''OPTIONS''],
     co_AllowedHeaders = [''Accept'', ''Authorization'', ''Content-Type'', ''X-Request-ID''],
     co_AllowCredentials = True,
     co_MaxAge = 300\<rparr>"

record swagger_options =
  sw_URL :: string
  sw_DeepLinking :: bool

record 'w chi =
  chi_match :: "(string \<times> string) list \<Rightarrow> request \<Rightarrow> (nat \<times> string \<times> (string \<times> string) list) option"
  chi_NotFound :: "'w handler"
  chi_RealIP :: "request \<Rightarrow> request"
  chi_ReqID :: "request \<Rightarrow> string"
  chi_cors :: "cors_options \<Rightarrow> 'w handler \<Rightarrow> 'w handler"
  chi_otel :: "string \<Rightarrow> (request \<Rightarrow> string) \<Rightarrow> 'w handler \<Rightarrow> 'w handler"
  chi_metrics :: "'w handler"
  chi_swagger :: "swagger_options \<Rightarrow> 'w handler"
  chi_fileServer :: "'w handler"

text \<open>\<open>Tracing\<close> of tracing.go: otelhttp's handler with the service name and the formatter of span names.\<close>

definition Tracing :: "'w chi \<Rightarrow> string \<Rightarrow> 'w handler \<Rightarrow> 'w handler" where
  "Tracing X serviceName next = chi_otel X serviceName span_name next"

definition registerSwaggerRoutes :: "'w chi \<Rightarrow> 'w route list" where
  "registerSwaggerRoutes X =
     [(''GET'', ''/swagger/*'', chi_swagger X \<lparr>sw_URL = ''/swagger/doc.json'', sw_DeepLinking = True\<rparr>)]"

text \<open>The services and settings the routes are built from.\<close>

record ('s, 'd) deps =
  d_jwt :: jwt_service
  d_auth :: "('s, 'd) world auth_service"
  d_users :: "('s, 'd) world user_service"
  d_tenants :: "('s, 'd) world tenant_service"
  d_sessions :: "('s, 'd) world session_repository"
  d_env :: string
  d_serviceName :: string
  d_registration :: bool
  d_pgPing :: "('s, 'd) world \<Rightarrow> bool"
  d_redisPing :: "('s, 'd) world \<Rightarrow> bool"
  d_fs :: dist_fs
  d_templ :: templ

definition isProd :: "('s, 'd) deps \<Rightarrow> bool" where
  "isProd D \<longleftrightarrow> d_env D = ''production''"

definition minute :: int where
  "minute = 60 * second"

text \<open>The middleware of the protected group: token, limit per address, limit per user.\<close>

definition protected_group :: "('s, 'd) env \<Rightarrow> ('s, 'd) deps \<Rightarrow> ('s, 'd) world handler \<Rightarrow> ('s, 'd) world handler" where
  "protected_group E D next =
     JWT E (d_jwt D) (d_sessions D)
       (RateLimit (d_sessions D) 100 minute (RateLimitUser (d_sessions D) 200 minute next))"

definition admin_group :: "('s, 'd) env \<Rightarrow> ('s, 'd) deps \<Rightarrow> ('s, 'd) world handler \<Rightarrow> ('s, 'd) world handler" where
  "admin_group E D next = JWT E (d_jwt D) (d_sessions D) (RequireRole ''admin'' next)"

definition tenant_status :: "'c codec_scheme \<Rightarrow> 'w handler" where
  \<open>tenant_status C q r w =
     reply q (Write (BText (''{"status":"ok","tenant_id":"'' @ uuidString C (TenantIDFromContext (q_ctx q)) @ ''"}''))
       (WriteHeader 200 (Set_Header ''Content-Type'' ''application/json'' r))) w\<close>

definition public_routes :: "('s, 'd) env \<Rightarrow> ('s, 'd) world chi \<Rightarrow> ('s, 'd) deps \<Rightarrow> ('s, 'd) world route list" where
  "public_routes E X D =
     (let authH = NewAuthHandler (d_auth D) (d_jwt D) (isProd D) (d_registration D)
      in [([], ''/metrics'', chi_metrics X),
          (''GET'', ''/healthz'', Healthz E),
          (''GET'', ''/readyz'', Readyz E (d_pgPing D) (d_redisPing D))] @
         (if isProd D then [] else registerSwaggerRoutes X) @
         [(''GET'', ''/api/v1/tenants'', TenantHandler_List E (d_tenants D)),
          (''GET'', ''/api/v1/tenants/{id}'', TenantHandler_GetByID E (d_tenants D)),
          (''GET'', ''/api/v1/tenant-demo/status'', RequireTenantID (tenant_status E)),
          (''POST'', ''/api/v1/auth/register'', AuthHandler_Register E authH),
          (''POST'', ''/api/v1/auth/login'', AuthHandler_Login E authH),
          (''POST'', ''/api/v1/auth/refresh'', AuthHandler_Refresh E authH),
          (''POST'', ''/api/v1/auth/forgot-password'', AuthHandler_ForgotPassword E authH),
          (''POST'', ''/api/v1/auth/reset-password'', AuthHandler_ResetPassword E authH)])"

definition protected_routes :: "('s, 'd) env \<Rightarrow> ('s, 'd) deps \<Rightarrow> ('s, 'd) world route list" where
  "protected_routes E D =
     (let authH = NewAuthHandler (d_auth D) (d_jwt D) (isProd D) (d_registration D)
      in [(''POST'', ''/api/v1/auth/logout'', protected_group E D (AuthHandler_Logout authH)),
          (''GET'', ''/api/v1/users/me'', protected_group E D (UserHandler_GetMe E (d_users D))),
          (''GET'', ''/api/v1/users'', protected_group E D (UserHandler_ListUsers E (d_users D))),
          (''GET'', ''/api/v1/users/{id}'', protected_group E D (UserHandler_GetUser E (d_users D))),
          (''PUT'', ''/api/v1/users/{id}'', protected_group E D (UserHandler_UpdateUser E (d_users D)))])"

definition admin_routes :: "('s, 'd) env \<Rightarrow> ('s, 'd) deps \<Rightarrow> ('s, 'd) world route list" where
  "admin_routes E D =
     [(''DELETE'', ''/api/v1/users/{id}'',
         protected_group E D (RequireRole ''admin'' (UserHandler_DeleteUser E (d_users D)))),
      (''GET'', ''/admin/users'', admin_group E D (AdminHandler_UserList E (d_templ D) (d_users D))),
      (''DELETE'', ''/admin/users/{id}'', admin_group E D (AdminHandler_UserDelete E (d_users D)))]"

definition routes :: "('s, 'd) env \<Rightarrow> ('s, 'd) world chi \<Rightarrow> ('s, 'd) deps \<Rightarrow> ('s, 'd) world route list" where
  "routes E X D = public_routes E X D @ protected_routes E D @ admin_routes E D @
     registerUIRoutes (chi_fileServer X) (d_fs D)"

text \<open>
  Dispatch: chi picks a route for the request, writes its pattern into the shared route context and the path
  parameters into the request; without a match its own handler answers.
\<close>

definition route_keys :: "'w route list \<Rightarrow> (string \<times> string) list" where
  "route_keys rs = map (\<lambda>(m, p, h). (m, p)) rs"

definition dispatch :: "'w chi \<Rightarrow> 'w route list \<Rightarrow> 'w handler" where
  "dispatch X rs q r w =
     (case chi_match X (route_keys rs) q of
        None \<Rightarrow> chi_NotFound X q r w
      | Some (i, pattern, params) \<Rightarrow>
          if i < length rs then
            snd (snd (rs ! i)) (q\<lparr>q_params := params, q_ctx := (q_ctx q)\<lparr>c_pattern := pattern\<rparr>\<rparr>) r w
          else chi_NotFound X q r w)"

text \<open>The router: the global chain, outermost first, around the dispatch.\<close>

definition buildRouter :: "('s, 'd) env \<Rightarrow> ('s, 'd) world chi \<Rightarrow> ('s, 'd) deps \<Rightarrow> ('s, 'd) world handler" where
  "buildRouter E X D =
     Tracing X (d_serviceName D)
      (\<lambda>q. (RecoveringPanicCounter
        (SecurityHeaders (isProd D)
          (HTTPMetrics
            (RequestLogger (chi_ReqID X)
              (TenantMiddleware E (d_tenants D)
                (chi_cors X router_cors (dispatch X (routes E X D)))))))) (chi_RealIP X q))"

lemmas route_defs = public_routes_def protected_routes_def admin_routes_def registerUIRoutes_def registerSwaggerRoutes_def

end
