(* ===== verification/Config.thy ===== *)
theory Config
  imports Session_Repo
begin

text \<open>
  \<open>internal/config\<close>: the settings of the server and how \<open>Load\<close> builds them.  Viper is the record \<open>viper\<close>: \<open>v_lookup\<close> is
  the value of a key in the environment or the \<open>.env\<close> file (none when it is unset or empty there), the casts turn
  such a text into a number or a truth value.  The defaults and the validation are the code's.
\<close>

record viper =
  v_lookup :: "string \<Rightarrow> string option"
  v_castInt :: "string \<Rightarrow> int"
  v_castBool :: "string \<Rightarrow> bool"

datatype setting = DStr string | DInt int | DBool bool

definition config_defaults :: "(string \<times> setting) list" where
  "config_defaults =
     [(''APP_ENV'', DStr ''development''), (''APP_PORT'', DInt 8080), (''APP_LOG_LEVEL'', DStr ''info''),
      (''APP_VERSION'', DStr ''0.1.0''), (''SERVICE_NAME'', DStr ''kleido''), (''AUTH_REGISTRATION_ENABLED'', DBool True),
      (''DATABASE_MAX_CONNS'', DInt 25), (''DATABASE_MIN_CONNS'', DInt 5), (''DATABASE_MAX_CONN_LIFETIME_MINUTES'', DInt 30),
      (''REDIS_ADDR'', DStr ''localhost:6379''), (''REDIS_PASSWORD'', DStr []), (''REDIS_DB'', DInt 0),
      (''REDIS_POOL_SIZE'', DInt 20),
      (''JWT_PRIVATE_KEY_PATH'', DStr ''./keys/private.pem''), (''JWT_PUBLIC_KEY_PATH'', DStr ''./keys/public.pem''),
      (''JWT_ACCESS_TOKEN_TTL_MINUTES'', DInt 15), (''JWT_REFRESH_TOKEN_TTL_DAYS'', DInt 7),
      (''API_BASE_URL'', DStr ''http://localhost:8080''),
      (''SEED_ADMIN_EMAIL'', DStr ''admin@kleido.local''), (''SEED_ADMIN_PASSWORD'', DStr ''Admin1234!''),
      (''OTEL_ENABLED'', DBool True), (''OTEL_EXPORTER_OTLP_ENDPOINT'', DStr ''localhost:4317'')]"

text \<open>The getters: a found text is cast, else the default of that type counts, else the zero value.  Every key
  the code reads has a default of the type it is read at, or none.\<close>

definition GetString :: "viper \<Rightarrow> string \<Rightarrow> string" where
  "GetString v k =
     (case v_lookup v k of
        Some s \<Rightarrow> s
      | None \<Rightarrow> (case map_of config_defaults k of Some (DStr s) \<Rightarrow> s | _ \<Rightarrow> []))"

definition GetInt :: "viper \<Rightarrow> string \<Rightarrow> int" where
  "GetInt v k =
     (case v_lookup v k of
        Some s \<Rightarrow> v_castInt v s
      | None \<Rightarrow> (case map_of config_defaults k of Some (DInt n) \<Rightarrow> n | _ \<Rightarrow> 0))"

definition GetBool :: "viper \<Rightarrow> string \<Rightarrow> bool" where
  "GetBool v k =
     (case v_lookup v k of
        Some s \<Rightarrow> v_castBool v s
      | None \<Rightarrow> (case map_of config_defaults k of Some (DBool b) \<Rightarrow> b | _ \<Rightarrow> False))"

section \<open>The configuration\<close>

record app_config =
  app_Env :: string
  app_Port :: int
  app_LogLevel :: string
  app_Version :: string
  app_ServiceName :: string
  app_RegistrationEnabled :: bool

record database_config =
  db_URL :: string
  db_MaxConns :: int
  db_MinConns :: int
  db_MaxConnLifetimeMinutes :: int

record redis_config =
  rd_Addr :: string
  rd_Password :: string
  rd_DB :: int
  rd_PoolSize :: int

record jwt_config =
  jc_PrivateKeyPath :: string
  jc_PublicKeyPath :: string
  jc_AccessTokenTTL :: int
  jc_RefreshTokenTTLDays :: int

record seed_config =
  seed_AdminEmail :: string
  seed_AdminPassword :: string

record otel_config =
  otel_Enabled :: bool
  otel_Endpoint :: string

record config =
  cfg_App :: app_config
  cfg_Database :: database_config
  cfg_Redis :: redis_config
  cfg_JWT :: jwt_config
  cfg_API_BaseURL :: string
  cfg_OTel :: otel_config
  cfg_Seed :: seed_config

definition validEnvs :: "string list" where
  "validEnvs = [''development'', ''staging'', ''production'']"

definition isValidEnv :: "string \<Rightarrow> bool" where
  "isValidEnv env \<longleftrightarrow> List.member validEnvs env"

text \<open>Conversion to \<open>int32\<close> keeps the low 32 bits.\<close>

definition wrap32 :: "int \<Rightarrow> int" where
  "wrap32 x = sint (word_of_int x :: 32 word)"

definition config_errors :: "viper \<Rightarrow> string list" where
  "config_errors v =
     (if isValidEnv (GetString v ''APP_ENV'') then [] else [''APP_ENV must be one of: development, staging, production'']) @
     (if GetString v ''DATABASE_URL'' = [] then [''DATABASE_URL is required but not set''] else []) @
     (if GetString v ''JWT_PRIVATE_KEY_PATH'' = [] then [''JWT_PRIVATE_KEY_PATH is required but not set''] else []) @
     (if GetString v ''JWT_PUBLIC_KEY_PATH'' = [] then [''JWT_PUBLIC_KEY_PATH is required but not set''] else [])"

definition config_Load :: "viper \<Rightarrow> goerr + config" where
  "config_Load v =
     (let errs = config_errors v
      in if errs \<noteq> [] then Inl (Errorf (''config: '' @ join ''; '' errs))
         else Inr \<lparr>
           cfg_App = \<lparr>app_Env = GetString v ''APP_ENV'', app_Port = GetInt v ''APP_PORT'',
             app_LogLevel = GetString v ''APP_LOG_LEVEL'', app_Version = GetString v ''APP_VERSION'',
             app_ServiceName = GetString v ''SERVICE_NAME'',
             app_RegistrationEnabled = GetBool v ''AUTH_REGISTRATION_ENABLED''\<rparr>,
           cfg_Database = \<lparr>db_URL = GetString v ''DATABASE_URL'', db_MaxConns = wrap32 (GetInt v ''DATABASE_MAX_CONNS''),
             db_MinConns = wrap32 (GetInt v ''DATABASE_MIN_CONNS''),
             db_MaxConnLifetimeMinutes = GetInt v ''DATABASE_MAX_CONN_LIFETIME_MINUTES''\<rparr>,
           cfg_Redis = \<lparr>rd_Addr = GetString v ''REDIS_ADDR'', rd_Password = GetString v ''REDIS_PASSWORD'',
             rd_DB = GetInt v ''REDIS_DB'', rd_PoolSize = GetInt v ''REDIS_POOL_SIZE''\<rparr>,
           cfg_JWT = \<lparr>jc_PrivateKeyPath = GetString v ''JWT_PRIVATE_KEY_PATH'',
             jc_PublicKeyPath = GetString v ''JWT_PUBLIC_KEY_PATH'',
             jc_AccessTokenTTL = wrap64 (GetInt v ''JWT_ACCESS_TOKEN_TTL_MINUTES'' * (60 * second)),
             jc_RefreshTokenTTLDays = GetInt v ''JWT_REFRESH_TOKEN_TTL_DAYS''\<rparr>,
           cfg_API_BaseURL = GetString v ''API_BASE_URL'',
           cfg_OTel = \<lparr>otel_Enabled = GetBool v ''OTEL_ENABLED'', otel_Endpoint = GetString v ''OTEL_EXPORTER_OTLP_ENDPOINT''\<rparr>,
           cfg_Seed = \<lparr>seed_AdminEmail = GetString v ''SEED_ADMIN_EMAIL'',
             seed_AdminPassword = GetString v ''SEED_ADMIN_PASSWORD''\<rparr>\<rparr>)"

text \<open>
  Loading succeeds exactly when nothing required is missing: the environment is one of the three known names and
  the database URL and both key paths are not empty; the loaded configuration then has those values, and a failure
  names every setting that is wrong.
\<close>

theorem config_load_validates:
  "(case config_Load v of
      Inr c \<Rightarrow> app_Env (cfg_App c) \<in> {''development'', ''staging'', ''production''} \<and> db_URL (cfg_Database c) \<noteq> [] \<and>
        jc_PrivateKeyPath (cfg_JWT c) \<noteq> [] \<and> jc_PublicKeyPath (cfg_JWT c) \<noteq> [] \<and> config_errors v = []
    | Inl e \<Rightarrow> config_errors v \<noteq> [] \<and> Error e = ''config: '' @ join ''; '' (config_errors v)) \<and>
   (config_errors v = [] \<longleftrightarrow> isValidEnv (GetString v ''APP_ENV'') \<and> GetString v ''DATABASE_URL'' \<noteq> [] \<and>
      GetString v ''JWT_PRIVATE_KEY_PATH'' \<noteq> [] \<and> GetString v ''JWT_PUBLIC_KEY_PATH'' \<noteq> [])"
  by (auto simp: config_Load_def config_errors_def isValidEnv_def validEnvs_def Let_def List.member_iff)

end
