(* ===== verification/Seed.thy ===== *)
theory Seed
  imports User_Service Tenant_Repo Config
begin

text \<open>
  \<open>cmd/api/seed.go\<close>: the first administrator and the default tenant, created at startup unless they are there.
\<close>

definition not_404 :: "goerr \<Rightarrow> bool" where
  "not_404 e \<longleftrightarrow> (case as_AppError e of None \<Rightarrow> True | Some (code, _) \<Rightarrow> code \<noteq> 404)"

definition seedAdminUser ::
    "('s, 'd) env \<Rightarrow> seed_config \<Rightarrow> ('s, 'd) world user_service \<Rightarrow> ('s, 'd) world \<Rightarrow> ('s, 'd) world" where
  "seedAdminUser E cfg userSvc w =
     (let email = seed_AdminEmail cfg; password = seed_AdminPassword cfg
      in case svc_GetByEmail userSvc email w of
           (Inr _, w1) \<Rightarrow> log_at LInfo ''seed: admin user already exists, skipping'' [(''email'', email)] w1
         | (Inl e, w1) \<Rightarrow>
             if not_404 e then
               log_at LError ''seed: failed to check for existing admin user'' [(''error'', Error e)] w1
             else
               (case svc_Create userSvc email password ''admin'' w1 of
                  (Inl e2, w2) \<Rightarrow> log_at LError ''seed: failed to create admin user'' [(''error'', Error e2)] w2
                | (Inr u, w2) \<Rightarrow> log_at LInfo ''seed: admin user created''
                    [(''email'', u_Email u), (''user_id'', uuidString E (u_ID u))] w2))"

definition default_tenant :: "uuid \<Rightarrow> int \<Rightarrow> tenant" where
  "default_tenant i now = \<lparr>t_ID = i, t_Name = ''Default Organization'', t_Slug = ''default'', t_Settings = JObj [],
     t_IsActive = True, t_CreatedAt = now, t_UpdatedAt = now\<rparr>"

definition seedDefaultTenant ::
    "('s, 'd) env \<Rightarrow> ('s, 'd) world tenant_service \<Rightarrow> ('s, 'd) world \<Rightarrow> ('s, 'd) world" where
  "seedDefaultTenant E tenantSvc w =
     (case tsvc_GetBySlug tenantSvc ''default'' w of
        (Inr _, w1) \<Rightarrow> log_at LInfo ''seed: default tenant already exists, skipping'' [] w1
      | (Inl e, w1) \<Rightarrow>
          if not_404 e then log_at LError ''seed: failed to check for existing tenant'' [(''error'', Error e)] w1
          else
            (let (k, w2) = draw w1;
                 t = default_tenant (uuidNew E k) (w_now w2)
             in case tsvc_Create tenantSvc t w2 of
                  (Some e2, w3) \<Rightarrow> log_at LError ''seed: failed to create default tenant'' [(''error'', Error e2)] w3
                | (None, w3) \<Rightarrow> log_at LInfo ''seed: default tenant created''
                    [(''tenant_id'', uuidString E (t_ID t)), (''slug'', t_Slug t)] w3))"

end
