(* ===== verification/Server.thy ===== *)
theory Server
  imports Router Seed Auth_Contract
begin

text \<open>
  \<open>cmd/api/main.go\<close>: what \<open>run\<close> builds from a configuration, the seeding before the server starts, and the router over
  it.  Opening the pools, the migrations, telemetry, the listener and the shutdown are in theory \<open>Startup\<close>.
\<close>

definition main_tenantSvc :: "('s, 'd) env \<Rightarrow> ('s, 'd) world tenant_service" where
  "main_tenantSvc E = NewTenantService (NewTenantRepository E)"

text \<open>\<open>priv\<close> and \<open>pub\<close> are the loaded keys.\<close>

definition main_jwt :: "config \<Rightarrow> string \<Rightarrow> string \<Rightarrow> jwt_service" where
  "main_jwt cfg priv pub = NewJWTService priv pub (jc_AccessTokenTTL (cfg_JWT cfg)) (jc_RefreshTokenTTLDays (cfg_JWT cfg))"

definition main_deps ::
    "('s, 'd) env \<Rightarrow> config \<Rightarrow> string \<Rightarrow> string \<Rightarrow> (('s, 'd) world \<Rightarrow> bool) \<Rightarrow> (('s, 'd) world \<Rightarrow> bool) \<Rightarrow> dist_fs \<Rightarrow>
     templ \<Rightarrow> ('s, 'd) deps" where
  "main_deps E cfg priv pub pgPing redisPing fs P = \<lparr>
     d_jwt = main_jwt cfg priv pub,
     d_auth = NewAuthService E (main_auth E (main_jwt cfg priv pub) (cfg_API_BaseURL cfg)),
     d_users = main_userSvc E,
     d_tenants = main_tenantSvc E,
     d_sessions = NewSessionRepo E,
     d_env = app_Env (cfg_App cfg),
     d_serviceName = app_ServiceName (cfg_App cfg),
     d_registration = app_RegistrationEnabled (cfg_App cfg),
     d_pgPing = pgPing, d_redisPing = redisPing, d_fs = fs, d_templ = P\<rparr>"

text \<open>Steps 10 and 11 of \<open>run\<close>: seeding changes the world, then the router serves.\<close>

definition main_seed :: "('s, 'd) env \<Rightarrow> config \<Rightarrow> ('s, 'd) world \<Rightarrow> ('s, 'd) world" where
  "main_seed E cfg w =
     seedDefaultTenant E (main_tenantSvc E) (seedAdminUser E (cfg_Seed cfg) (main_userSvc E) w)"

definition main_handler ::
    "('s, 'd) env \<Rightarrow> ('s, 'd) world chi \<Rightarrow> config \<Rightarrow> string \<Rightarrow> string \<Rightarrow> (('s, 'd) world \<Rightarrow> bool) \<Rightarrow>
     (('s, 'd) world \<Rightarrow> bool) \<Rightarrow> dist_fs \<Rightarrow> templ \<Rightarrow> ('s, 'd) world handler" where
  "main_handler E X cfg priv pub pgPing redisPing fs P =
     buildRouter E X (main_deps E cfg priv pub pgPing redisPing fs P)"

end
