(* ===== verification/Response_Headers.thy ===== *)
theory Response_Headers
  imports Server
begin

text \<open>
  Which headers a response carries.  \<open>secured p r\<close> says that the security headers are in the writer's header map and,
  if the status was sent, in what was sent.  A handler that keeps this is \<open>polite\<close>; every route of the router is,
  and the chain establishes it, so every response of the server has the headers.
\<close>

section \<open>The invariant\<close>

definition has_all :: "bool \<Rightarrow> (string \<times> string) list \<Rightarrow> bool" where
  "has_all p hs \<longleftrightarrow> (\<forall>(k, v) \<in> set (security_headers p). map_of hs (canon_key k) = Some v)"

definition secured :: "bool \<Rightarrow> rw \<Rightarrow> bool" where
  "secured p r \<longleftrightarrow> has_all p (rw_headers r) \<and>
     (case rw_sent r of None \<Rightarrow> True | Some (_, hs, _) \<Rightarrow> has_all p hs)"

definition polite :: "bool \<Rightarrow> 'w handler \<Rightarrow> bool" where
  "polite p h \<longleftrightarrow> (\<forall>q r w. secured p r \<longrightarrow> secured p (sv_rw (h q r w)))"

text \<open>A header name that is none of the security headers.\<close>

definition free_key :: "string \<Rightarrow> bool" where
  "free_key k \<longleftrightarrow> list_all (\<lambda>(k', v). canon_key k' \<noteq> canon_key k) (security_headers True)"

lemma free_keys [simp]:
  "free_key ''Content-Type''" "free_key ''Cache-Control''" "free_key ''X-RateLimit-Limit''"
  "free_key ''X-RateLimit-Remaining''" "free_key ''X-RateLimit-Reset''"
  by code_simp+

lemma security_names:
  assumes "(k, v) \<in> set (security_headers p)"
  shows "k \<in> set (map fst (security_headers True))"
proof -
  have "list_all (\<lambda>k. List.member (map fst (security_headers True)) k) (map fst (security_headers False))"
    by code_simp
  then have "set (map fst (security_headers p)) \<subseteq> set (map fst (security_headers True))"
    by (cases p) (auto simp: list_all_iff)
  moreover have "k \<in> set (map fst (security_headers p))" using assms by force
  ultimately show ?thesis by (rule subsetD)
qed

lemma free_key_neq:
  assumes "free_key k" and "(k', v) \<in> set (security_headers p)"
  shows "canon_key k' \<noteq> canon_key k"
proof -
  obtain v' where "(k', v') \<in> set (security_headers True)" using security_names [OF assms(2)] by auto
  with assms(1) show ?thesis unfolding free_key_def list_all_iff by blast
qed

lemma nosniff_neq:
  assumes "(k, v) \<in> set (security_headers p)" and "canon_key k = canon_key ''X-Content-Type-Options''"
  shows "v = ''nosniff''"
proof -
  have "list_all (\<lambda>(k, v). canon_key k = canon_key ''X-Content-Type-Options'' \<longrightarrow> v = ''nosniff'') (security_headers True)"
    "list_all (\<lambda>(k, v). canon_key k = canon_key ''X-Content-Type-Options'' \<longrightarrow> v = ''nosniff'') (security_headers False)"
    by code_simp+
  then have "list_all (\<lambda>(k, v). canon_key k = canon_key ''X-Content-Type-Options'' \<longrightarrow> v = ''nosniff'') (security_headers p)"
    by (cases p) simp_all
  from this [unfolded list_all_iff, THEN bspec, OF assms(1)] assms(2) show ?thesis by simp
qed

lemma politeI: "(\<And>q r w. secured p r \<Longrightarrow> secured p (sv_rw (h q r w))) \<Longrightarrow> polite p h"
  by (simp add: polite_def)

lemma politeD: "polite p h \<Longrightarrow> secured p r \<Longrightarrow> secured p (sv_rw (h q r w))"
  by (simp add: polite_def)

named_theorems polite_intro

lemma secured_set [polite_intro]: "free_key k \<Longrightarrow> secured p r \<Longrightarrow> secured p (Set_Header k v r)"
  by (auto simp: secured_def has_all_def Set_Header_def dest: free_key_neq)

lemma secured_nosniff: "secured p r \<Longrightarrow> secured p (Set_Header ''X-Content-Type-Options'' ''nosniff'' r)"
  by (auto simp: secured_def has_all_def Set_Header_def dest: nosniff_neq)

lemma secured_cookie [polite_intro]: "secured p r \<Longrightarrow> secured p (SetCookie c r)"
  by (simp add: secured_def SetCookie_def)

lemma secured_status [polite_intro]: "secured p r \<Longrightarrow> secured p (WriteHeader c r)"
  by (auto simp: secured_def WriteHeader_def split: option.splits)

lemma secured_write [polite_intro]: "secured p r \<Longrightarrow> secured p (Write b r)"
  using secured_status [of p r 200] by (simp add: secured_def Write_def Let_def)

lemma secured_http_Error [polite_intro]: "secured p r \<Longrightarrow> secured p (http_Error m c r)"
  by (simp add: http_Error_def secured_write secured_status secured_nosniff secured_set)

lemma secured_WriteError [polite_intro]: "secured p r \<Longrightarrow> secured p (WriteError e r)"
  by (auto simp: WriteError_def Let_def intro!: polite_intro split: prod.splits)

lemma secured_limit [polite_intro]: "secured p r \<Longrightarrow> secured p (limit_headers a b c r)"
  by (simp add: limit_headers_def secured_set)

lemma reply_rw [simp]: "sv_rw (reply q r w) = r" "sv_world (reply q r w) = w" "sv_panic (reply q r w) = None"
  by (simp_all add: reply_def)

lemma secured_encode: "secured p r \<Longrightarrow> secured p (fst (encodeJSON E v r w))"
  by (auto simp: encodeJSON_def intro: polite_intro split: option.splits)

lemma secured_json [polite_intro]: "secured p r \<Longrightarrow> secured p (sv_rw (send_json E q s v r w))"
  using secured_encode [of p "WriteHeader s (Set_Header ''Content-Type'' ''application/json'' r)" E v w]
  by (simp add: send_json_def secured_status secured_set case_prod_beta)

lemma secured_error [polite_intro]: "secured p r \<Longrightarrow> secured p (sv_rw (send_error n a q e r w))"
  by (simp add: send_error_def polite_intro)

lemma secured_tokens [polite_intro]: "secured p r \<Longrightarrow> secured p (sv_rw (send_tokens E h n q t r w))"
  by (simp add: send_tokens_def polite_intro)

lemma secured_plain_json [polite_intro]:
  "secured p r \<Longrightarrow> secured p (sv_rw (respondJSON E q s v r w))"
  "secured p r \<Longrightarrow> secured p (sv_rw (writeJSON E q s v r w))"
  by (auto simp: respondJSON_def writeJSON_def Let_def intro!: polite_intro split: option.splits)

section \<open>Every handler is polite\<close>

lemma polite_auth:
  "polite p (AuthHandler_Register E h)" "polite p (AuthHandler_Login E h)" "polite p (AuthHandler_Refresh E h)"
  "polite p (AuthHandler_ForgotPassword E h)" "polite p (AuthHandler_ResetPassword E h)" "polite p (AuthHandler_Logout h)"
  by (rule politeI, simp add: handler_defs Let_def polite_intro split: option.split sum.split prod.split)+

lemma polite_users:
  "polite p (UserHandler_GetMe E svc)" "polite p (UserHandler_GetUser E svc)" "polite p (UserHandler_ListUsers E svc)"
  "polite p (UserHandler_UpdateUser E svc)" "polite p (UserHandler_DeleteUser E svc)"
  by (rule politeI, simp add: handler_defs Let_def polite_intro split: option.split sum.split prod.split)+

lemma polite_others:
  "polite p (TenantHandler_List E ts)" "polite p (TenantHandler_GetByID E ts)" "polite p (Healthz E)"
  "polite p (Readyz E pg rd)" "polite p (AdminHandler_UserList E P svc)" "polite p (AdminHandler_UserDelete E svc)"
  "polite p (tenant_status C)"
  by (rule politeI, simp add: handler_defs AdminHandler_UserList_def AdminHandler_UserDelete_def tenant_status_def
      Let_def polite_intro split: option.split sum.split prod.split)+

lemma polite_guards:
  assumes "polite p next"
  shows "polite p (JWT E j s next)" "polite p (RequireRole role next)" "polite p (RateLimit s l win next)"
    "polite p (RateLimitUser s l win next)" "polite p (RequireTenantID next)" "polite p (TenantMiddleware C ts next)"
    "polite p (TenantFromPath ts next)"
  by (rule politeI, simp add: JWT_def RequireRole_def RateLimit_def RateLimitUser_def RequireTenantID_def
      TenantMiddleware_def TenantFromPath_def Let_def polite_intro politeD [OF assms]
      split: option.split sum.split prod.split)+

lemma polite_observers:
  assumes "polite p next"
  shows "polite p (HTTPMetrics next)" "polite p (RequestLogger f next)" "polite p (RecoveringPanicCounter next)"
  by (rule politeI, simp add: HTTPMetrics_def RequestLogger_def RecoveringPanicCounter_def Let_def polite_intro
      politeD [OF assms] split: option.split)+

lemma polite_ui:
  assumes "polite p fileServer"
  shows "polite p (ui_asset fileServer)" "polite p (ui_root_file fileServer)" "polite p (spaHandler fileServer fs)"
  by (rule politeI, simp add: ui_asset_def ui_root_file_def spaHandler_def serveIndex_def Let_def polite_intro
      politeD [OF assms] split: option.split)+

text \<open>What the chain relies on of the other packages' handlers.\<close>

definition chi_polite :: "bool \<Rightarrow> 'w chi \<Rightarrow> bool" where
  "chi_polite p X \<longleftrightarrow> polite p (chi_NotFound X) \<and> polite p (chi_metrics X) \<and> (\<forall>os. polite p (chi_swagger X os)) \<and>
     polite p (chi_fileServer X) \<and> (\<forall>os h. polite p h \<longrightarrow> polite p (chi_cors X os h)) \<and>
     (\<forall>s f h q r w. (\<forall>q. secured p (sv_rw (h q r w))) \<longrightarrow> secured p (sv_rw (chi_otel X s f h q r w)))"

lemma polite_routes:
  assumes "chi_polite p X"
  shows "\<forall>(m, k, h) \<in> set (routes E X D). polite p h"
  using assms
  by (auto simp: routes_def route_defs protected_group_def admin_group_def chi_polite_def Let_def
      intro!: polite_guards polite_auth polite_users polite_others polite_ui split: if_splits)

lemma polite_dispatch:
  assumes "\<forall>(m, k, h) \<in> set rs. polite p h" and "polite p (chi_NotFound X)"
  shows "polite p (dispatch X rs)"
proof -
  have "polite p (snd (snd (rs ! i)))" if "i < length rs" for i
    using assms(1) nth_mem [OF that] by (cases "rs ! i") auto
  with assms(2) show ?thesis by (auto simp: polite_def dispatch_def split: option.splits prod.splits)
qed

lemma fold_set_sent: "rw_sent (fold (\<lambda>(k, v). Set_Header k v) hs r) = rw_sent r"
  by (induction hs arbitrary: r) (auto simp: Set_Header_def)

lemma fold_set_keep:
  "x \<notin> set (map (canon_key \<circ> fst) hs) \<Longrightarrow>
   map_of (rw_headers (fold (\<lambda>(k, v). Set_Header k v) hs r)) x = map_of (rw_headers r) x"
  by (induction hs arbitrary: r) (auto simp: Set_Header_def)

lemma fold_set_last:
  "distinct (map (canon_key \<circ> fst) hs) \<Longrightarrow> (k, v) \<in> set hs \<Longrightarrow>
   map_of (rw_headers (fold (\<lambda>(k, v). Set_Header k v) hs r)) (canon_key k) = Some v"
proof (induction hs arbitrary: r)
  case (Cons a hs)
  show ?case
  proof (cases "a = (k, v)")
    case True
    then have "canon_key k \<notin> set (map (canon_key \<circ> fst) hs)" using Cons.prems(1) by auto
    from fold_set_keep [OF this, of "Set_Header k v r"] True
    have "map_of (rw_headers (fold (\<lambda>(k, v). Set_Header k v) (a # hs) r)) (canon_key k) =
        map_of (rw_headers (Set_Header k v r)) (canon_key k)" by simp
    also have "\<dots> = Some v" by (simp add: Set_Header_def)
    finally show ?thesis .
  next
    case False
    with Cons show ?thesis by auto
  qed
qed simp

lemma secured_start: "rw_sent r = None \<Longrightarrow> secured p (fold (\<lambda>(k, v). Set_Header k v) (security_headers p) r)"
proof -
  have "distinct (map (canon_key \<circ> fst) (security_headers True))"
    "distinct (map (canon_key \<circ> fst) (security_headers False))" by code_simp+
  then have "distinct (map (canon_key \<circ> fst) (security_headers p))" by (cases p) simp_all
  then show "rw_sent r = None \<Longrightarrow> secured p (fold (\<lambda>(k, v). Set_Header k v) (security_headers p) r)"
    by (auto simp: secured_def has_all_def fold_set_sent fold_set_last)
qed

lemma secured_outer:
  assumes "polite p h" and "rw_sent r = None"
  shows "secured p (sv_rw (RecoveringPanicCounter (SecurityHeaders p h) q r w))"
  using politeD [OF assms(1) secured_start [OF assms(2)], of q w]
  by (simp add: RecoveringPanicCounter_def SecurityHeaders_def Let_def polite_intro split: option.split)


text \<open>A library that answers unknown paths with 404 and leaves requests as they are.\<close>

definition ref_chi :: "'w chi" where
  "ref_chi = \<lparr>chi_match = (\<lambda>ks q. None), chi_NotFound = (\<lambda>q r w. reply q (http_Error ''404 page not found'' 404 r) w),
     chi_RealIP = (\<lambda>q. q), chi_ReqID = (\<lambda>q. ''req-1''), chi_cors = (\<lambda>os h. h), chi_otel = (\<lambda>s f h. h),
     chi_metrics = reply, chi_swagger = (\<lambda>os. reply), chi_fileServer = reply\<rparr>"

lemma ref_chi_polite: "chi_polite p ref_chi"
  by (auto simp: chi_polite_def ref_chi_def polite_def polite_intro)

definition ref_config :: config where
  "ref_config = (case config_Load \<lparr>v_lookup = (\<lambda>k. if k = ''DATABASE_URL'' then Some ''postgres'' else None),
     v_castInt = (\<lambda>s. 0), v_castBool = (\<lambda>s. False)\<rparr> of Inr c \<Rightarrow> c)"

definition ref_deps :: "(ref_redis, ref_db) deps" where
  "ref_deps = main_deps ref_env ref_config ''key'' ''key'' (\<lambda>w. True) (\<lambda>w. True)
     \<lparr>fs_Stat = (\<lambda>p. False), fs_ReadFile = (\<lambda>p. None)\<rparr> \<lparr>te_EscapeString = html_EscapeString, te_date = itoa\<rparr>"

definition ref_request :: request where
  "ref_request = \<lparr>q_method = ''GET'', q_path = ''/x'', q_host = ''localhost'', q_remote = ''10.0.0.1:4000'', q_headers = [],
     q_query = [], q_params = [], q_cookies = [], q_body = None, q_ctx = empty_ctx\<rparr>"


end
