(* ===== verification/Access_Control.thy ===== *)
theory Access_Control
  imports Response_Headers
begin

text \<open>
  Who reaches which handler: the token check of the protected routes, the role check of the admin routes, the
  ownership check inside the user handlers, the limits, and the containment of panics.
\<close>

section \<open>Routes\<close>

text \<open>The Bearer token of a request, when it verifies.\<close>

definition valid_token :: "('s, 'd) env \<Rightarrow> jwt_service \<Rightarrow> request \<Rightarrow> int \<Rightarrow> claims option" where
  "valid_token E j q now =
     (if HasPrefix (Header_Get q ''Authorization'') ''Bearer '' then
        (case JWTService_Verify E j now (TrimPrefix (Header_Get q ''Authorization'') ''Bearer '') of
           Inl _ \<Rightarrow> None | Inr c \<Rightarrow> Some c)
      else None)"

lemma JWT_no_token:
  assumes "valid_token E j q (w_now w) = None"
  shows "\<exists>m. JWT E j s h q r w = reply q (WriteError (Unauthorized m) r) w"
proof (cases "HasPrefix (Header_Get q ''Authorization'') ''Bearer ''")
  case True
  then have "Header_Get q ''Authorization'' \<noteq> []" by (auto simp: HasPrefix_def)
  with assms True show ?thesis by (auto simp: JWT_def valid_token_def Let_def split: sum.splits)
qed (auto simp: JWT_def Let_def)

lemma JWT_token:
  assumes "valid_token E j q (w_now w) = Some c"
  shows "JWT E j s next q r w =
    (let (res, w1) = IsBlocklisted s (cl_ID c) w
     in if res = Inr True then reply q (WriteError (Unauthorized ''token has been revoked'') r) w1
        else next (WithContext q ((q_ctx q)\<lparr>c_userID := Some (cl_Subject c), c_role := Some (cl_Role c),
               c_jti := Some (cl_ID c)\<rparr>)) r w1)"
proof -
  have "HasPrefix (Header_Get q ''Authorization'') ''Bearer ''" "Header_Get q ''Authorization'' \<noteq> []"
    using assms by (auto simp: valid_token_def HasPrefix_def split: if_splits)
  with assms show ?thesis
    by (auto simp: JWT_def valid_token_def Let_def split: sum.splits prod.splits)
qed

lemma limit_headers_sent [simp]: "rw_sent (limit_headers a b c r) = rw_sent r"
  by (simp add: limit_headers_def Set_Header_def)

text \<open>
  C3.  No token, no entry: on every protected and every admin route, a request without a Bearer token that verifies is
  answered 401 and the world is exactly as before: no service, no limiter and no store was called.
\<close>

theorem protected_routes_need_token:
  assumes "(m, p, h) \<in> set (protected_routes E D @ admin_routes E D)"
    and "valid_token E (d_jwt D) q (w_now w) = None" and "rw_sent r = None"
  shows "sv_world (h q r w) = w \<and> status_of (sv_rw (h q r w)) = 401"
proof -
  obtain k where h: "h = JWT E (d_jwt D) (d_sessions D) k"
    using assms(1) by (auto simp: route_defs protected_group_def admin_group_def Let_def)
  from JWT_no_token [OF assms(2), of "d_sessions D" k r] show ?thesis
    by (auto simp: h WriteError_fresh [OF assms(3)] Unauthorized_def New_def)
qed

text \<open>
  C18.  Admin routes are for administrators: with a valid token of any other role, the answer of each of the three
  admin routes does not depend on the user service at all (it is the same for every implementation, so none of its
  operations was used) and is 401, 403 or 429.
\<close>

theorem admin_routes_need_admin:
  assumes "i < length (admin_routes E D)" and "valid_token E (d_jwt D) q (w_now w) = Some c"
    and "cl_Role c \<noteq> ''admin''" and "rw_sent r = None"
  shows "snd (snd (admin_routes E D ! i)) q r w = snd (snd (admin_routes E (D\<lparr>d_users := S\<rparr>) ! i)) q r w \<and>
    status_of (sv_rw (snd (snd (admin_routes E D ! i)) q r w)) \<in> {401, 403, 429}"
proof -
  have i: "i = 0 \<or> i = 1 \<or> i = 2" using assms(1) by (auto simp: admin_routes_def)
  show ?thesis
    using i assms(3,4)
    by (elim disjE) (simp_all add: admin_routes_def protected_group_def admin_group_def JWT_token [OF assms(2)]
      RequireRole_def RateLimit_def RateLimitUser_def WithContext_def ctx_string_def WriteError_fresh(1) Let_def app_defs split: prod.split)
qed

section \<open>Witnesses for the routes\<close>

theorem protected_routes_need_token_witness:
  "sv_world (protected_group ref_env ref_deps (UserHandler_GetMe ref_env (d_users ref_deps)) ref_request new_rw
     (ref_world 0 empty_tables [] [])) = ref_world 0 empty_tables [] []"
proof -
  have "(''GET'', ''/api/v1/users/me'', protected_group ref_env ref_deps (UserHandler_GetMe ref_env (d_users ref_deps)))
      \<in> set (protected_routes ref_env ref_deps @ admin_routes ref_env ref_deps)"
    by (simp add: route_defs Let_def)
  moreover have "valid_token ref_env (d_jwt ref_deps) ref_request (w_now (ref_world 0 empty_tables [] [])) = None"
    by (simp add: valid_token_def ref_request_def Header_Get_def get_first_def HasPrefix_def)
  moreover have "rw_sent new_rw = None" by (simp add: new_rw_def)
  ultimately show ?thesis using protected_routes_need_token by blast
qed

text \<open>A request with a signed token of the given role.\<close>

definition ref_signed :: "string \<Rightarrow> request" where
  "ref_signed role = ref_request\<lparr>q_headers := [(''Authorization'', ''Bearer '' @ concat (map net
     [''RS256'', ''key'', ''5'', ''0'', ''0'', ''9'', ''0'', ''0'', ''0'', ''j'', role]))]\<rparr>"

theorem admin_routes_need_admin_witness:
  "status_of (sv_rw (snd (snd (admin_routes ref_env ref_deps ! 1)) (ref_signed ''user'') new_rw
     (ref_world 5 empty_tables [] []))) \<in> {401, 403, 429}"
proof -
  have "case valid_token ref_env (d_jwt ref_deps) (ref_signed ''user'') (w_now (ref_world 5 empty_tables [] [])) of
      None \<Rightarrow> False | Some c \<Rightarrow> cl_Role c \<noteq> ''admin''"
    by code_simp
  then obtain c where c: "valid_token ref_env (d_jwt ref_deps) (ref_signed ''user'')
      (w_now (ref_world 5 empty_tables [] [])) = Some c" "cl_Role c \<noteq> ''admin''"
    by (auto split: option.splits)
  have "1 < length (admin_routes ref_env ref_deps)" by (simp add: admin_routes_def)
  moreover have "rw_sent new_rw = None" by (simp add: new_rw_def)
  ultimately show ?thesis using admin_routes_need_admin c by blast
qed

section \<open>Ownership\<close>

text \<open>
  C19.  Profiles belong to their owner and to administrators: for a caller who is neither, reading or updating a profile
  and listing users is answered 403 in a way that does not depend on the user service, so none of its operations
  ran.
\<close>

theorem profiles_need_owner_or_admin:
  assumes "ctx_string (c_role (q_ctx q)) \<noteq> ''admin''" and "uuidParse E (URLParam q ''id'') = Some i"
    and "ctx_string (c_userID (q_ctx q)) \<noteq> uuidString E i" and "rw_sent r = None"
  shows "UserHandler_GetUser E svc q r w = UserHandler_GetUser E svc2 q r w \<and>
    UserHandler_UpdateUser E svc q r w = UserHandler_UpdateUser E svc2 q r w \<and>
    UserHandler_ListUsers E svc q r w = UserHandler_ListUsers E svc2 q r w \<and>
    {status_of (sv_rw (UserHandler_GetUser E svc q r w)), status_of (sv_rw (UserHandler_UpdateUser E svc q r w)),
     status_of (sv_rw (UserHandler_ListUsers E svc q r w))} = {403}"
  using assms
  by (simp add: handler_defs Let_def send_error_def WriteError_fresh(1) Forbidden_def New_def)

theorem profiles_need_owner_or_admin_witness:
  "status_of (sv_rw (UserHandler_GetUser ref_env (main_userSvc ref_env)
     (ref_request\<lparr>q_params := [(''id'', ''6'')], q_ctx := empty_ctx\<lparr>c_userID := Some ''5'', c_role := Some ''user''\<rparr>\<rparr>) new_rw
     (ref_world 0 empty_tables [] []))) = 403"
proof -
  let ?q = "ref_request\<lparr>q_params := [(''id'', ''6'')], q_ctx := empty_ctx\<lparr>c_userID := Some ''5'', c_role := Some ''user''\<rparr>\<rparr>"
  have "ctx_string (c_role (q_ctx ?q)) \<noteq> ''admin''" "uuidParse ref_env (URLParam ?q ''id'') = Some 6"
    "ctx_string (c_userID (q_ctx ?q)) \<noteq> uuidString ref_env 6" "rw_sent new_rw = None"
    by code_simp+
  from profiles_need_owner_or_admin [OF this, of "main_userSvc ref_env" "ref_world 0 empty_tables [] []"]
  show ?thesis by simp
qed

section \<open>What the authentication handlers reveal\<close>


text \<open>
  A forgotten password is answered alike: the response of the handler depends only on the request, not on the
  service, the database, the mail or the state of the world; so it does not tell whether an address is registered.
\<close>

theorem forgot_password_uniform:
  "sv_rw (AuthHandler_ForgotPassword E h q r w) = sv_rw (AuthHandler_ForgotPassword E h2 q r w2)"
  by (simp add: AuthHandler_ForgotPassword_def send_json_def send_error_def encodeJSON_def Let_def
      split: option.split prod.split)

section \<open>Panics\<close>

text \<open>
  Panics stay inside: whatever the wrapped handler does, the chain above it does not panic and the gauge of running
  requests returns to its value; after a panic that sent nothing the client gets a 500, the panic is counted once,
  and neither the request counter nor the request log sees the request.
\<close>

theorem panics_are_contained:
  fixes h :: "('s, 'd) world handler"
  assumes "\<And>q r w. w_inflight (sv_world (h q r w)) = w_inflight w"
    and "s = RecoveringPanicCounter (SecurityHeaders p (HTTPMetrics (RequestLogger f h))) q new_rw w"
    and "t = h (WithContext q (WithUserAgent (WithIP (q_ctx q) (q_remote q)) (Header_Get q ''User-Agent'')))
      (fold (\<lambda>(k, v). Set_Header k v) (security_headers p) new_rw) (w\<lparr>w_inflight := w_inflight w + 1\<rparr>)"
  shows "sv_panic s = None \<and> w_inflight (sv_world s) = w_inflight w \<and>
    (sv_panic t \<noteq> None \<and> rw_sent (sv_rw t) = None \<longrightarrow> status_of (sv_rw s) = 500 \<and>
       w_metrics (sv_world s) = (w_metrics (sv_world t))([''kleido_http_panics_total''] :=
         Suc (w_metrics (sv_world t) [''kleido_http_panics_total'']))) \<and>
    (sv_panic t = None \<longrightarrow> sv_rw s = sv_rw t)"
proof -
  have up: "w_inflight (sv_world t) = w_inflight w + 1" by (simp add: assms(1) assms(3))
  show ?thesis
  proof (cases "sv_panic t")
    case None
    then have "s = (HTTPMetrics (RequestLogger f h)) q (fold (\<lambda>(k, v). Set_Header k v) (security_headers p) new_rw) w"
      unfolding assms(2,3)
      by (simp add: RecoveringPanicCounter_def SecurityHeaders_def HTTPMetrics_def RequestLogger_def Let_def)
    with None show ?thesis
      using up by (simp add: HTTPMetrics_def RequestLogger_def Let_def assms(3) [symmetric])
  next
    case (Some e)
    then show ?thesis
      using up unfolding assms(2)
      by (simp add: RecoveringPanicCounter_def SecurityHeaders_def HTTPMetrics_def RequestLogger_def Let_def
          assms(3) [symmetric] status_of_def http_Error_def rw_defs count_metric_def log_at_def)
  qed
qed

theorem panics_are_contained_witness:
  "status_of (sv_rw (RecoveringPanicCounter (SecurityHeaders True (HTTPMetrics (RequestLogger (\<lambda>q. [])
     (\<lambda>q r w. \<lparr>sv_panic = Some ''boom'', sv_pattern = [], sv_rw = r, sv_world = w\<rparr>)))) ref_request new_rw
     (ref_world 0 empty_tables [] []))) = 500"
proof -
  let ?h = "\<lambda>q r (w :: (ref_redis, ref_db) world). \<lparr>sv_panic = Some ''boom'', sv_pattern = [], sv_rw = r, sv_world = w\<rparr>"
  have "w_inflight (sv_world (?h q r w)) = w_inflight w" for q :: request and r w by simp
  from panics_are_contained [of ?h, OF this refl refl, of True "\<lambda>q. []" ref_request "ref_world 0 empty_tables [] []"]
  show ?thesis by (simp add: fold_set_sent new_rw_def)
qed

text \<open>A service whose refresh always gives the same tokens.\<close>

definition ref_pair :: token_pair where
  "ref_pair = \<lparr>tp_AccessToken = ''a'', tp_JTI = ''j'', tp_ExpiresAt = 7, tp_RawRefreshToken = ''secret''\<rparr>"

definition ref_refresher :: "(ref_redis, ref_db) world auth_service" where
  "ref_refresher = (NewAuthService ref_env (main_auth ref_env ref_jwt_service []))
     \<lparr>auth_Refresh := (\<lambda>c t w. (Inr ref_pair, w))\<rparr>"


section \<open>Tenants\<close>

text \<open>
  The tenant label of a host: it is the host's first label exactly when the host has at least three labels and
  that label is not empty and not all digits; in every other case, addresses in dotted decimal among them, there is
  none.  (So a tenant whose slug is all digits is never found by its host.)
\<close>

theorem subdomain_spec:
  "extractSubdomain q =
     (let l = takeWhile (\<lambda>c. c \<noteq> CHR ''.'') (q_host q)
      in if 2 \<le> count_list (q_host q) (CHR ''.'') \<and> l \<noteq> [] \<and> (\<exists>c \<in> set l. \<not> is_digit c) then l else [])"
proof -
  let ?h = "q_host q"
  have l: "hd (Split (CHR ''.'') ?h) = takeWhile (\<lambda>c. c \<noteq> CHR ''.'') ?h" by (rule Split_hd_takeWhile)
  have dots: "CHR ''.'' \<in> set ?h" if "2 \<le> count_list ?h (CHR ''.'')"
    using that count_list_0_iff [of ?h "CHR ''.''"] by force
  have nd: "c \<noteq> CHR ''.''" if "c \<in> set (takeWhile (\<lambda>c. c \<noteq> CHR ''.'') ?h)" for c
    using set_takeWhileD [OF that] by simp
  show ?thesis
    using dots nd by (auto simp: extractSubdomain_def l length_Split Let_def list_all_iff)
qed

end
