(* ===== verification/Seed_Props.thy ===== *)
theory Seed_Props
  imports Response_Headers
begin

text \<open>
  What the seeding does to the tables, on every pair of servers that act as documented and whatever calls fail.
\<close>

text \<open>The row of the first administrator, for the configured address and password.\<close>

definition admin_row :: "('s, 'd) env \<Rightarrow> seed_config \<Rightarrow> user \<Rightarrow> bool" where
  "admin_row E cfg u \<longleftrightarrow> u_Email u = seed_AdminEmail cfg \<and> u_Role u = ''admin'' \<and> u_IsActive u \<and>
     (\<exists>n. bcryptGenerate E (seed_AdminPassword cfg) 12 n = Inr (u_PasswordHash u))"

definition add_user :: "user \<Rightarrow> tables \<Rightarrow> tables" where
  "add_user u X = X\<lparr>users := users X @ [stored_user u]\<rparr>"

context backend begin

lemma create_any:
  assumes "svc_Create (main_userSvc E) m pw role w = (r, w')"
  shows "rows tabs w' = rows tabs w \<or> (\<exists>u. u_Email u = m \<and> u_Role u = role \<and> u_IsActive u \<and>
    (\<exists>n. bcryptGenerate E pw 12 n = Inr (u_PasswordHash u)) \<and> insert_violation (rows tabs w) u = None \<and>
    rows tabs w' = add_user u (rows tabs w))"
proof -
  obtain n w1 where d1: "draw w = (n, w1)" by fastforce
  obtain k w2 where d2: "draw w1 = (k, w2)" by fastforce
  have T2: "rows tabs w1 = rows tabs w" "rows tabs w2 = rows tabs w"
    using users.T_draw [OF d1] users.T_draw [OF d2] by (simp_all add: rows_def)
  show ?thesis
  proof (cases "bcryptGenerate E pw 12 n")
    case (Inl e)
    with assms d1 T2 show ?thesis
      by (auto simp: main_ops userService_Create_def Let_def rows_eta)
  next
    case (Inr h)
    let ?u = "new_user (uuidNew E k) m h role"
    obtain e w3 where c: "repo_Create (main_userRepo E) ?u w2 = (e, w3)" by fastforce
    have "rows tabs w' = rows tabs w3"
      using assms d1 d2 Inr c by (auto simp: main_ops userService_Create_def Let_def rows_eta split: option.splits)
    moreover have "rows tabs w3 = rows tabs w2 \<or>
        insert_violation (rows tabs w2) ?u = None \<and> rows tabs w3 = add_user ?u (rows tabs w2)"
      using c repo.create_ok [of ?u w2 w3] repo.create_fail [of ?u w2 _ w3]
      by (cases e) (auto simp: rows_def add_user_def)
    ultimately show ?thesis using T2 Inr by (auto simp: new_user_def zero_user_def intro!: exI [of _ ?u])
  qed
qed

lemma seed_admin:
  assumes "tables_ok (rows tabs w)"
  shows "rows tabs (seedAdminUser E cfg (main_userSvc E) w) = rows tabs w \<or>
    (user_by_email (rows tabs w) (seed_AdminEmail cfg) = None \<and>
     (\<exists>u. admin_row E cfg u \<and> insert_violation (rows tabs w) u = None \<and>
        rows tabs (seedAdminUser E cfg (main_userSvc E) w) = add_user u (rows tabs w)))"
proof -
  obtain r w1 where g: "svc_GetByEmail (main_userSvc E) (seed_AdminEmail cfg) w = (r, w1)" by fastforce
  have f: "repo_FindByEmail (main_userRepo E) (seed_AdminEmail cfg) w = (r, w1)"
    using g by (simp add: main_ops userService_GetByEmail_def)
  have T1: "rows tabs w1 = rows tabs w"
    using repo.email_view [of "seed_AdminEmail cfg" w] f by (simp add: rows_def)
  have l: "rows tabs (log_at l m as x) = rows tabs x" for l m as x by (simp add: rows_def)
  show ?thesis
  proof (cases r)
    case (Inr u)
    then show ?thesis by (simp add: seedAdminUser_def g l T1 Let_def)
  next
    case (Inl e)
    show ?thesis
    proof (cases "not_404 e")
      case True
      with Inl show ?thesis by (simp add: seedAdminUser_def g l T1 Let_def)
    next
      case False
      then have "IsNotFound e" by (auto simp: not_404_def is_defs split: option.splits)
      then have "user_by_email (rows tabs w) (seed_AdminEmail cfg) = None"
        using repo.email_missing [of "seed_AdminEmail cfg" w e w1] f Inl assms by (simp add: rows_def)
      moreover obtain q w2 where c: "svc_Create (main_userSvc E) (seed_AdminEmail cfg) (seed_AdminPassword cfg) ''admin'' w1 = (q, w2)"
        by fastforce
      moreover have "rows tabs (seedAdminUser E cfg (main_userSvc E) w) = rows tabs w2"
        using Inl False c by (simp add: seedAdminUser_def g l Let_def split: sum.split)
      ultimately show ?thesis
        using create_any [OF c] T1 by (auto simp: admin_row_def)
    qed
  qed
qed

lemma seed_tenant:
  defines "w' w \<equiv> seedDefaultTenant E (main_tenantSvc E) w"
  shows "rows tabs (w' w) = rows tabs w \<or>
    ((\<exists>t. t_Slug t = ''default'' \<and> t_IsActive t \<and> tenants (rows tabs (w' w)) = tenants (rows tabs w) @ [t]) \<and>
     ''default'' \<notin> t_Slug ` set (tenants (rows tabs w)) \<and> users (rows tabs (w' w)) = users (rows tabs w))"
proof -
  obtain r w1 where g: "tsvc_GetBySlug (main_tenantSvc E) ''default'' w = (r, w1)" by fastforce
  have T1: "rows tabs w1 = rows tabs w"
    using tenant.tenant_reads(2) [of "''default''" w] g by (simp add: rows_def main_tenantSvc_def)
  have l: "rows tabs (log_at l m as x) = rows tabs x" for l m as x by (simp add: rows_def)
  obtain k w2 where d: "draw w1 = (k, w2)" by fastforce
  have T2: "rows tabs w2 = rows tabs w" using users.T_draw [OF d] T1 by (simp add: rows_def)
  let ?t = "default_tenant (uuidNew E k) (w_now w2)"
  obtain e w3 where c: "tsvc_Create (main_tenantSvc E) ?t w2 = (e, w3)" by fastforce
  have "rows tabs (w' w) = rows tabs w1 \<or> rows tabs (w' w) = rows tabs w3"
    by (simp add: w'_def seedDefaultTenant_def g d c l Let_def split: sum.split option.split)
  moreover have "rows tabs w3 = rows tabs w2 \<or>
      t_Slug ?t \<notin> t_Slug ` set (tenants (rows tabs w2)) \<and>
      (\<exists>t'. tenants (rows tabs w3) = tenants (rows tabs w2) @ [t'] \<and> t_Slug t' = t_Slug ?t \<and> t_IsActive t' = t_IsActive ?t) \<and>
      users (rows tabs w3) = users (rows tabs w2)"
    using c tenant.tenant_create_ok [of ?t w2 w3] tenant.tenant_create_fail [of ?t w2 _ w3]
    by (cases e) (simp_all add: rows_def main_tenantSvc_def)
  ultimately show ?thesis using T1 T2 by (auto simp: default_tenant_def)
qed

end

text \<open>
  C38.  Seeding is idempotent and adds at most one administrator and one tenant: whatever fails, the users are as before
  or have one more row, an active administrator with the configured address, which no row had, and a bcrypt hash of
  the configured password; the tenants are as before or have one more, active, with the slug default, which none
  had.  No row is changed; so a second start, on tables that have both, adds nothing.
\<close>

theorem seed_idempotent:
  assumes "backend E kv tabs" and "tables_ok (rows tabs w)" and "main_seed E cfg w = w'"
  shows "(users (rows tabs w') = users (rows tabs w) \<or>
      (\<exists>u. admin_row E (cfg_Seed cfg) u \<and> users (rows tabs w') = users (rows tabs w) @ [stored_user u] \<and>
         u_Email u \<notin> u_Email ` set (users (rows tabs w)))) \<and>
    (tenants (rows tabs w') = tenants (rows tabs w) \<or>
      (\<exists>t. t_Slug t = ''default'' \<and> t_IsActive t \<and> tenants (rows tabs w') = tenants (rows tabs w) @ [t] \<and>
         ''default'' \<notin> t_Slug ` set (tenants (rows tabs w)))) \<and>
    (user_by_email (rows tabs w) (seed_AdminEmail (cfg_Seed cfg)) \<noteq> None \<and>
       ''default'' \<in> t_Slug ` set (tenants (rows tabs w)) \<longrightarrow> rows tabs w' = rows tabs w)"
proof -
  let ?w1 = "seedAdminUser E (cfg_Seed cfg) (main_userSvc E) w"
  note a = backend.seed_admin [OF assms(1,2), of "cfg_Seed cfg"] and t = backend.seed_tenant [OF assms(1), of ?w1]
  have w': "w' = seedDefaultTenant E (main_tenantSvc E) ?w1" using assms(3) by (simp add: main_seed_def)
  have free: "u_Email u \<notin> u_Email ` set (users (rows tabs w))" if "insert_violation (rows tabs w) u = None" for u
    using that by (auto simp: insert_violation_def split: if_splits)
  from a t show ?thesis unfolding w' by (auto simp: add_user_def dest: free)
qed

theorem seed_idempotent_witness:
  "let w1 = main_seed ref_env ref_config (ref_world 0 empty_tables [] []);
       w2 = main_seed ref_env ref_config w1
   in map u_Email (users (rows fst w1)) = [seed_AdminEmail (cfg_Seed ref_config)] \<and>
      map t_Slug (tenants (rows fst w1)) = [''default''] \<and> rows fst w2 = rows fst w1"
proof -
  define w1 where "w1 = main_seed ref_env ref_config (ref_world 0 empty_tables [] [])"
  have u: "map u_Email (users (rows fst w1)) = [seed_AdminEmail (cfg_Seed ref_config)]"
    "map t_Slug (tenants (rows fst w1)) = [''default'']" "tables_ok (rows fst w1)"
    "user_by_email (rows fst w1) (seed_AdminEmail (cfg_Seed ref_config)) \<noteq> None"
    unfolding w1_def by code_simp+
  then have "''default'' \<in> t_Slug ` set (tenants (rows fst w1))" by (metis image_set list.set_intros(1))
  with seed_idempotent [OF reference.backend_axioms u(3) refl, of ref_config] u show ?thesis
    unfolding Let_def w1_def [symmetric] by blast
qed

end
