(* ===== verification/Authority.thy ===== *)
theory Authority
  imports Access_Control Seed_Props User_Writes
begin

text \<open>
  What one request may do to the tables.  \<open>power\<close> is the authority a request carries (its verified token, the reset
  token in its body, whether registration is open), \<open>allowed\<close> the changes that authority covers.  Every handler stays
  within it, the middleware hands it on, so the assembled server does.
\<close>

section \<open>Authority and changes\<close>

record power =
  pw_admin :: bool
  pw_self :: "uuid \<Rightarrow> bool"
  pw_reset :: "uuid \<Rightarrow> bool"
  pw_register :: bool

text \<open>
  No row goes and none changes its tenant or creation time; roles change for an administrator only, password hashes with
  a reset token only, address and status for the user or an administrator; a new row is an active plain user.
\<close>

definition within :: "power \<Rightarrow> user \<Rightarrow> user \<Rightarrow> bool" where
  "within P u u' \<longleftrightarrow> u_ID u' = u_ID u \<and> u_TenantID u' = u_TenantID u \<and> u_CreatedAt u' = u_CreatedAt u \<and>
     (u_Role u' = u_Role u \<or> pw_admin P) \<and> (u_PasswordHash u' = u_PasswordHash u \<or> pw_reset P (u_ID u)) \<and>
     (u_Email u' = u_Email u \<and> u_IsActive u' = u_IsActive u \<or> pw_admin P \<or> pw_self P (u_ID u))"

definition allowed :: "power \<Rightarrow> tables \<Rightarrow> tables \<Rightarrow> bool" where
  "allowed P X Y \<longleftrightarrow> tables_ok Y \<and> tenants Y = tenants X \<and>
     (\<forall>u \<in> set (users X). \<exists>u' \<in> set (users Y). within P u u') \<and>
     (\<forall>u' \<in> set (users Y). u_ID u' \<in> u_ID ` set (users X) \<or> pw_register P \<and> u_Role u' = ''user'' \<and> u_IsActive u')"

lemma within_refl [simp]: "within P u u"
  by (simp add: within_def)

lemma allowed_same: "tables_ok X \<Longrightarrow> allowed P X X"
  by (auto simp: allowed_def intro!: bexI)

lemma allowed_map:
  assumes "tables_ok (map_user i f X)" and "\<And>u. u \<in> set (users X) \<Longrightarrow> u_ID u = i \<Longrightarrow> within P u (f u)"
  shows "allowed P X (map_user i f X)"
proof -
  let ?g = "\<lambda>v. if u_ID v = i then f v else v"
  have w: "within P u (?g u)" if "u \<in> set (users X)" for u using assms(2) [OF that] by simp
  then have "u_ID (?g u) = u_ID u" if "u \<in> set (users X)" for u using that unfolding within_def by blast
  then have "\<forall>u' \<in> ?g ` set (users X). u_ID u' \<in> u_ID ` set (users X)" by fastforce
  moreover have "\<forall>u \<in> set (users X). \<exists>u' \<in> ?g ` set (users X). within P u u'" using w by blast
  ultimately show ?thesis using assms(1) by (simp add: allowed_def map_user_def)
qed

lemma allowed_insert:
  assumes "tables_ok X" and "insert_violation X u = None" and "pw_register P" and "u_Role u = ''user''" and "u_IsActive u"
  shows "allowed P X (add_user u X)"
proof -
  have "\<forall>v \<in> set (users X). \<exists>u' \<in> set (users X). within P v u'" using within_refl by blast
  then show ?thesis
    using assms(3-5) tables_ok_insert [OF assms(1,2)]
    by (simp add: allowed_def add_user_def stored_user_def ball_Un bex_Un)
qed

text \<open>More authority allows more.\<close>

definition covers :: "power \<Rightarrow> power \<Rightarrow> bool" where
  "covers P Q \<longleftrightarrow> (pw_admin Q \<longrightarrow> pw_admin P) \<and> (\<forall>i. pw_self Q i \<longrightarrow> pw_self P i) \<and> (\<forall>i. pw_reset Q i \<longrightarrow> pw_reset P i) \<and>
     (pw_register Q \<longrightarrow> pw_register P)"

lemma allowed_covers: "allowed Q X Y \<Longrightarrow> covers P Q \<Longrightarrow> allowed P X Y"
  unfolding allowed_def covers_def within_def by blast

section \<open>The user service\<close>

context backend begin

lemma create_allowed:
  assumes "svc_Create (main_userSvc E) m pw ''user'' w = (r, w')" and "tables_ok (rows tabs w)" and "pw_register P"
  shows "allowed P (rows tabs w) (rows tabs w')"
  using create_any [OF assms(1)] allowed_insert [OF assms(2) _ assms(3)] allowed_same [OF assms(2)] by auto

lemma update_allowed:
  assumes "svc_Update (main_userSvc E) i req role w = (r, w')" and "tables_ok (rows tabs w)"
    and "pw_admin P \<or> pw_self P i" and "role = ''admin'' \<Longrightarrow> pw_admin P"
  shows "allowed P (rows tabs w) (rows tabs w')"
proof -
  note ok = assms(2) [unfolded rows_def]
  show ?thesis
    using assms(1) [unfolded main_ops] ok
  proof (rule users.update_effect, goal_cases)
    case 1
    then show ?case using allowed_same [OF assms(2)] by (simp add: rows_def)
  next
    case (2 u)
    let ?f = "updated_row (w_now w) (patch_user req role u)"
    have id: "u_ID u = i" "u \<in> set (users (tabs (w_db w)))" using user_by_id_Some [OF 2(1)] by simp_all
    have "within P v (?f v)" if "v \<in> set (users (tabs (w_db w)))" "u_ID v = i" for v
    proof -
      have "v = u" using that id ok by (auto simp: tables_ok_def distinct_map dest: inj_onD)
      with assms(3,4) id show ?thesis
        by (cases "role = ''admin''") (auto simp: within_def updated_row_def users.patch_role)
    qed
    moreover have "tables_ok (map_user i ?f (tabs (w_db w)))"
      using tables_ok_update [of "tabs (w_db w)" "patch_user req role u" "w_now w"] ok 2(3) id by simp
    ultimately show ?case unfolding rows_def 2(4) by (intro allowed_map)
  qed
qed

lemma map_allowed:
  assumes "Y = X \<or> Y = map_user i f X" and "tables_ok X"
    and "\<And>v. u_ID (f v) = u_ID v \<and> u_Email (f v) = u_Email v \<and> u_Role (f v) = u_Role v"
    and "\<And>v. u_ID v = i \<Longrightarrow> within P v (f v)"
  shows "allowed P X Y"
  using assms(1)
proof
  assume "Y = map_user i f X"
  with tables_ok_same_keys [OF assms(3,2)] show ?thesis by (simp add: allowed_map assms(4))
qed (simp add: allowed_same assms(2))

lemma delete_allowed:
  assumes "svc_Delete (main_userSvc E) i w = (r, w')" and "tables_ok (rows tabs w)" and "pw_admin P"
  shows "allowed P (rows tabs w) (rows tabs w')"
proof -
  obtain q w1 where f: "repo_FindByID (main_userRepo E) i w = (q, w1)" by fastforce
  obtain e w2 where d: "repo_Delete (main_userRepo E) i w1 = (e, w2)" by fastforce
  have 1: "rows tabs w1 = rows tabs w" using repo.find_view [of i w] f by (simp add: rows_def)
  have "rows tabs w2 = rows tabs w1 \<or> rows tabs w2 = map_user i (deleted_row (w_now w1)) (rows tabs w1)"
    using repo.delete_ok [of i w1 w2] repo.delete_fail [of i w1 _ w2] d by (cases e) (auto simp: rows_def)
  moreover have "rows tabs w' = rows tabs w1 \<or> rows tabs w' = rows tabs w2"
    using assms(1) f d by (auto simp: main_ops userService_Delete_def Let_def rows_eta users.drop_facts(1) split: sum.splits option.splits)
  ultimately have "rows tabs w' = rows tabs w \<or> rows tabs w' = map_user i (deleted_row (w_now w1)) (rows tabs w)"
    using 1 by auto
  then show ?thesis
    by (rule map_allowed [OF _ assms(2)]) (simp_all add: deleted_row_def within_def assms(3))
qed

lemma password_allowed:
  assumes "svc_UpdatePassword (main_userSvc E) i h w = (r, w')" and "tables_ok (rows tabs w)" and "pw_reset P i"
  shows "allowed P (rows tabs w) (rows tabs w')"
proof -
  obtain e w1 where u: "repo_UpdatePassword (main_userRepo E) i h w = (e, w1)" by fastforce
  have "rows tabs w1 = rows tabs w \<or> rows tabs w1 = map_user i (password_row (w_now w) h) (rows tabs w)"
    using repo.password_ok [of i h w w1] repo.password_fail [of i h w _ w1] u by (cases e) (auto simp: rows_def)
  moreover have "rows tabs w' = rows tabs w1"
    using assms(1) u by (auto simp: main_ops userService_UpdatePassword_def Let_def rows_eta users.drop_facts(1) split: option.splits)
  ultimately have "rows tabs w' = rows tabs w \<or> rows tabs w' = map_user i (password_row (w_now w) h) (rows tabs w)" by simp
  then show ?thesis
    by (rule map_allowed [OF _ assms(2)]) (simp_all add: password_row_def within_def assms(3))
qed

text \<open>Reads and the session store leave the tables alone.\<close>

lemma reads_quiet:
  "svc_GetByID (main_userSvc E) i w = (r, w') \<Longrightarrow> rows tabs w' = rows tabs w"
  "svc_GetByEmail (main_userSvc E) m w = (r, w') \<Longrightarrow> rows tabs w' = rows tabs w"
  "svc_List (main_userSvc E) l off w = (p, w') \<Longrightarrow> rows tabs w' = rows tabs w"
proof -
  obtain q w1 where l: "repo_List (main_userRepo E) l off w = (q, w1)" by fastforce
  have "rows tabs w1 = rows tabs w" using repo.list_view [of l off w] l by (simp add: rows_def)
  with l show "svc_List (main_userSvc E) l off w = (p, w') \<Longrightarrow> rows tabs w' = rows tabs w"
    by (cases q) (auto simp: main_ops userService_List_def Let_def rows_eta split: prod.splits)
qed (use accounts.acc_id_quiet accounts.acc_email_quiet in blast)+

end

section \<open>The session store\<close>

lemma still_of: "only_redis w (snd f) \<Longrightarrow> f = (r, w') \<Longrightarrow> rows tabs w' = rows tabs w \<and> w_now w' = w_now w"
  by (simp add: only_redis_simps rows_def)

lemma limit_still:
  "RateLimitAllow (NewSessionRepo E) k l win w = (r, w') \<Longrightarrow> rows tabs w' = rows tabs w"
  "RateLimitAllowUser (NewSessionRepo E) i e l win w = (r, w') \<Longrightarrow> rows tabs w' = rows tabs w"
  by (auto simp: NewSessionRepo_def sessionRepo_RateLimitAllow_def sessionRepo_RateLimitAllowUser_def rateLimitByKey_def
      Let_def redis_exec_def rows_def split: prod.splits sum.splits if_splits)

context backend begin

lemmas session_still =
  session.store_frame [THEN still_of [where tabs = tabs]] session.validate_frame [THEN still_of [where tabs = tabs]]
  session.revoke_frame [THEN still_of [where tabs = tabs]] session.block_frame [THEN still_of [where tabs = tabs]]
  session.blocked_frame [THEN still_of [where tabs = tabs]] session.rotate_frame [THEN still_of [where tabs = tabs]]
  session.incr_frame [THEN still_of [where tabs = tabs]] session.clear_frame [THEN still_of [where tabs = tabs]]
  session.locked_frame [THEN still_of [where tabs = tabs]] session.reset_frame [THEN still_of [where tabs = tabs]]
  session.consume_frame [THEN still_of [where tabs = tabs]]

lemma tokens_still:
  "JWTService_IssueAccessToken E j i r w = (x, w') \<Longrightarrow> rows tabs w' = rows tabs w"
  "JWTService_IssueRefreshToken E j w = (y, w') \<Longrightarrow> rows tabs w' = rows tabs w"
  using auth.token_quiet by blast+

lemmas still = session_still tokens_still reads_quiet

section \<open>The authentication service\<close>

lemma login_tokens_still:
  "login_tokens E (main_auth E jwt base) c m u w = (r, w') \<Longrightarrow> rows tabs w' = rows tabs w"
  by (auto simp: login_tokens_def fail_def dest!: still split: sum.splits prod.splits option.splits)

lemma login_still: "authService_Login E (main_auth E jwt base) c m pw w = (r, w') \<Longrightarrow> rows tabs w' = rows tabs w"
  by (auto simp: authService_Login_def fail_def Let_def dest!: login_tokens_still still
      split: sum.splits prod.splits option.splits if_splits)

lemma refresh_still: "authService_Refresh E (main_auth E jwt base) c tok w = (r, w') \<Longrightarrow> rows tabs w' = rows tabs w"
  by (auto simp: authService_Refresh_def fail_def dest!: still split: sum.splits prod.splits option.splits)

lemma logout_still: "authService_Logout (main_auth E jwt base) c jti tok w = (r, w') \<Longrightarrow> rows tabs w' = rows tabs w"
  by (auto simp: authService_Logout_def fail_opt_def dest!: still split: prod.splits option.splits)

lemma forgot_still:
  assumes "authService_ForgotPassword E (main_auth E jwt base) c m w = (r, w')"
  shows "rows tabs w' = rows tabs w"
proof -
  obtain x w1 where g: "svc_GetByEmail (as_users (main_auth E jwt base)) m w = (x, w1)" by fastforce
  show ?thesis
  proof (cases x)
    case (Inl e)
    have "rows tabs w1 = rows tabs w" using g reads_quiet(2) by simp
    with g assms Inl show ?thesis by (auto simp: authService_ForgotPassword_def)
  next
    case (Inr u)
    from auth.forgot_known(2) [OF g [unfolded Inr] _ assms] show ?thesis by simp
  qed
qed

lemma reset_allowed:
  assumes "authService_ResetPassword E (main_auth E jwt base) c tok pw w = (r, w')" and "tables_ok (rows tabs w)"
    and "\<And>uid i. reset_of (session_view E kv w) tok = Some uid \<Longrightarrow> uuidParse E uid = Some i \<Longrightarrow> pw_reset P i"
  shows "allowed P (rows tabs w) (rows tabs w')"
proof (cases "length pw < 8")
  case True
  with assms(1,2) show ?thesis by (auto simp: authService_ResetPassword_def fail_opt_def intro: allowed_same)
next
  case False
  obtain q w1 where c: "ConsumePasswordResetToken (NewSessionRepo E) tok w = (q, w1)" by fastforce
  have 1: "rows tabs w1 = rows tabs w" using still(11) [OF c] by simp
  show ?thesis
  proof (cases q)
    case (Inl e)
    with assms(1,2) False c 1 show ?thesis
      by (auto simp: authService_ResetPassword_def fail_opt_def intro: allowed_same)
  next
    case (Inr uid)
    have v: "reset_of (session_view E kv w) tok = Some uid" using session.consume_ok c Inr by blast
    obtain n w2 where d: "draw w1 = (n, w2)" by fastforce
    have 2: "rows tabs w2 = rows tabs w" using d 1 by (auto simp: draw_def rows_def)
    show ?thesis
    proof (cases "uuidParse E uid")
      case None
      with assms(1,2) False c Inr 1 show ?thesis
        by (auto simp: authService_ResetPassword_def fail_opt_def intro: allowed_same)
    next
      case (Some i)
      show ?thesis
      proof (cases "bcryptGenerate E pw 12 n")
        case (Inl e)
        with assms(1,2) False c Inr Some d 2 show ?thesis
          by (auto simp: authService_ResetPassword_def fail_opt_def intro: allowed_same)
      next
        case (Inr h)
        obtain e w3 where u: "svc_UpdatePassword (main_userSvc E) i h w2 = (e, w3)" by fastforce
        have "allowed P (rows tabs w2) (rows tabs w3)"
          by (rule password_allowed [OF u]) (use 2 assms(2,3) v Some in auto)
        moreover have "rows tabs w' = rows tabs w3"
          using assms(1) False c \<open>q = Inr uid\<close> Some d Inr u
          by (auto simp: authService_ResetPassword_def fail_opt_def split: option.splits)
        ultimately show ?thesis using 2 by simp
      qed
    qed
  qed
qed

lemma register_allowed:
  assumes "authService_Register (main_auth E jwt base) m pw w = (r, w')" and "tables_ok (rows tabs w)" and "pw_register P"
  shows "allowed P (rows tabs w) (rows tabs w')"
proof -
  obtain x w1 where c: "svc_Create (main_userSvc E) m pw ''user'' w = (x, w1)" by fastforce
  then have "rows tabs w' = rows tabs w1"
    using assms(1) by (auto simp: authService_Register_def split: sum.splits)
  with create_allowed [OF c assms(2,3)] show ?thesis by simp
qed

end

end
