(* ===== verification/Authority_Server.thy ===== *)
theory Authority_Server
  imports Authority
begin

text \<open>
  The authority of a request, followed through the handlers, the guards and the chain of the assembled server: whatever
  the request, the tables change only as \<open>allowed\<close> says.
\<close>

section \<open>The authority of a request\<close>

text \<open>What the context says after the token check, and what the request itself carries.\<close>

definition ctx_power :: "('s, 'd) env \<Rightarrow> rctx \<Rightarrow> power" where
  "ctx_power E c = \<lparr>pw_admin = (ctx_string (c_role c) = ''admin''),
     pw_self = (\<lambda>i. ctx_string (c_userID c) = uuidString E i), pw_reset = (\<lambda>i. False), pw_register = False\<rparr>"

definition body_power :: "('s, 'd) env \<Rightarrow> ('s \<Rightarrow> store) \<Rightarrow> bool \<Rightarrow> request \<Rightarrow> ('s, 'd) world \<Rightarrow> power" where
  "body_power E kv registration q w = \<lparr>pw_admin = False, pw_self = (\<lambda>i. False),
     pw_reset = (\<lambda>i. \<exists>tok pw uid. ResetPasswordRequest_decode (q_body q) = Some (tok, pw) \<and>
        reset_of (session_view E kv w) tok = Some uid \<and> uuidParse E uid = Some i),
     pw_register = registration\<rparr>"

definition request_power ::
    "('s, 'd) env \<Rightarrow> ('s \<Rightarrow> store) \<Rightarrow> jwt_service \<Rightarrow> bool \<Rightarrow> request \<Rightarrow> ('s, 'd) world \<Rightarrow> power" where
  "request_power E kv jwt registration q w =
     (case valid_token E jwt q (w_now w) of
        None \<Rightarrow> body_power E kv registration q w
      | Some c \<Rightarrow> (body_power E kv registration q w)\<lparr>pw_admin := (cl_Role c = ''admin''),
          pw_self := (\<lambda>i. cl_Subject c = uuidString E i)\<rparr>)"

lemma request_power_body: "covers (request_power E kv jwt reg q w) (body_power E kv reg q w)"
  by (simp add: request_power_def covers_def body_power_def split: option.split)

lemma request_power_token:
  "valid_token E jwt q (w_now w) = Some c \<Longrightarrow> c_role x = Some (cl_Role c) \<Longrightarrow> c_userID x = Some (cl_Subject c) \<Longrightarrow>
   covers (request_power E kv jwt reg q w) (ctx_power E x)"
  by (simp add: request_power_def ctx_power_def covers_def ctx_string_def)

text \<open>It depends on headers, body, the clock and the sessions only.\<close>

lemma request_power_cong:
  assumes "q_headers q' = q_headers q" and "q_body q' = q_body q" and "w_now w' = w_now w"
    and "w_redis w' = w_redis w"
  shows "request_power E kv jwt reg q' w' = request_power E kv jwt reg q w"
proof -
  have "body_power E kv reg q' w' = body_power E kv reg q w" using assms by (simp add: body_power_def session_view_def)
  moreover have "valid_token E jwt q' (w_now w') = valid_token E jwt q (w_now w)"
    using assms by (simp add: valid_token_def Header_Get_def)
  ultimately show ?thesis by (simp only: request_power_def)
qed

section \<open>Handlers that stay within an authority\<close>

definition bounded :: "('d \<Rightarrow> tables) \<Rightarrow> (request \<Rightarrow> ('s, 'd) world \<Rightarrow> power) \<Rightarrow> ('s, 'd) world handler \<Rightarrow> bool" where
  "bounded tabs F h \<longleftrightarrow> (\<forall>q r w. tables_ok (rows tabs w) \<longrightarrow> allowed (F q w) (rows tabs w) (rows tabs (sv_world (h q r w))))"

lemma boundedI:
  "(\<And>q r w. tables_ok (rows tabs w) \<Longrightarrow> allowed (F q w) (rows tabs w) (rows tabs (sv_world (h q r w)))) \<Longrightarrow> bounded tabs F h"
  by (simp add: bounded_def)

lemma boundedD:
  "bounded tabs F h \<Longrightarrow> tables_ok (rows tabs w) \<Longrightarrow> allowed (F q w) (rows tabs w) (rows tabs (sv_world (h q r w)))"
  by (simp add: bounded_def)

lemma bounded_quiet: "(\<And>q r w. rows tabs (sv_world (h q r w)) = rows tabs w) \<Longrightarrow> bounded tabs F h"
  by (simp add: bounded_def allowed_same)

lemma bounded_covers: "bounded tabs F h \<Longrightarrow> (\<And>q w. covers (G q w) (F q w)) \<Longrightarrow> bounded tabs G h"
  unfolding bounded_def using allowed_covers by blast

lemma rows_quiet [simp]:
  "rows tabs (log_at l m as w) = rows tabs w" "rows tabs (end_failed n as e w) = rows tabs w"
  "rows tabs (end_ok n as w) = rows tabs w" "rows tabs (count_metric k w) = rows tabs w"
  "rows tabs (w\<lparr>w_inflight := i\<rparr>) = rows tabs w"
  by (simp_all add: rows_def end_defs)

lemma encode_world: "rows tabs (snd (encodeJSON E v r w)) = rows tabs w"
  by (simp add: encodeJSON_def split: option.split)

lemma send_world [simp]:
  "rows tabs (sv_world (send_json E q s v r w)) = rows tabs w" "rows tabs (sv_world (send_error n as q e r w)) = rows tabs w"
  "rows tabs (sv_world (send_tokens E h n q p r w)) = rows tabs w"
  "rows tabs (sv_world (respondJSON E q s v r w)) = rows tabs w" "rows tabs (sv_world (writeJSON E q s v r w)) = rows tabs w"
proof -
  show j: "rows tabs (sv_world (send_json E q s v r w)) = rows tabs w" for s v r w
    using encode_world [of tabs E v] by (simp add: send_json_def case_prod_beta)
  show "rows tabs (sv_world (send_tokens E h n q p r w)) = rows tabs w" by (simp add: send_tokens_def j)
qed (simp_all add: send_error_def respondJSON_def writeJSON_def Let_def split: option.split)

definition admin_power :: power where
  "admin_power = \<lparr>pw_admin = True, pw_self = (\<lambda>i. False), pw_reset = (\<lambda>i. False), pw_register = False\<rparr>"

context backend begin

abbreviation main_authH :: "jwt_service \<Rightarrow> string \<Rightarrow> bool \<Rightarrow> bool \<Rightarrow> ('s, 'd) auth_handler" where
  "main_authH jwt base pr reg \<equiv> NewAuthHandler (NewAuthService E (main_auth E jwt base)) jwt pr reg"

lemmas auth_handler_ops = NewAuthHandler_def NewAuthService_def auth_handler.select_convs auth_service.select_convs

lemma bounded_public:
  "bounded tabs F (AuthHandler_Login E (main_authH jwt base pr reg))"
  "bounded tabs F (AuthHandler_Refresh E (main_authH jwt base pr reg))"
  "bounded tabs F (AuthHandler_ForgotPassword E (main_authH jwt base pr reg))"
  "bounded tabs F (AuthHandler_Logout (main_authH jwt base pr reg))"
  by (rule bounded_quiet, auto simp: handler_defs auth_handler_ops Let_def
      dest!: login_still refresh_still forgot_still logout_still split: option.split sum.split prod.split)+

lemma bounded_reads:
  "bounded tabs F (UserHandler_GetMe E (main_userSvc E))" "bounded tabs F (UserHandler_GetUser E (main_userSvc E))"
  "bounded tabs F (UserHandler_ListUsers E (main_userSvc E))" "bounded tabs F (AdminHandler_UserList E P (main_userSvc E))"
  by (rule bounded_quiet, auto simp: handler_defs AdminHandler_UserList_def Let_def dest!: reads_quiet
      split: option.split sum.split prod.split)+

lemma tenant_still:
  "tsvc_GetByID (main_tenantSvc E) i w = (r, w') \<Longrightarrow> rows tabs w' = rows tabs w"
  "tsvc_GetBySlug (main_tenantSvc E) sl w = (r, w') \<Longrightarrow> rows tabs w' = rows tabs w"
  "tsvc_List (main_tenantSvc E) w = (ts, w') \<Longrightarrow> rows tabs w' = rows tabs w"
  using tenant.tenant_reads(1) [of i w] tenant.tenant_reads(2) [of sl w] tenant.tenant_reads(3) [of w]
  by (auto simp: main_tenantSvc_def rows_def)

lemma bounded_others:
  "bounded tabs F (TenantHandler_List E (main_tenantSvc E))" "bounded tabs F (TenantHandler_GetByID E (main_tenantSvc E))"
  "bounded tabs F (Healthz E)" "bounded tabs F (Readyz E pg rd)" "bounded tabs F (tenant_status C)"
  by (rule bounded_quiet, auto simp: handler_defs tenant_status_def Let_def dest!: tenant_still
      split: option.split sum.split prod.split)+

lemma bounded_update: "bounded tabs (\<lambda>q w. ctx_power E (q_ctx q)) (UserHandler_UpdateUser E (main_userSvc E))"
proof (rule boundedI)
  fix q :: request and r and w :: "('s, 'd) world"
  let ?P = "ctx_power E (q_ctx q)" and ?role = "ctx_string (c_role (q_ctx q))"
  assume ok: "tables_ok (rows tabs w)"
  have step: "allowed ?P (rows tabs w) (rows tabs w1)"
    if "svc_Update (main_userSvc E) i req role w = (x, w1)" and "?role = role"
      and "role = ''admin'' \<or> ctx_string (c_userID (q_ctx q)) = uuidString E i" for i req role x w1
    using update_allowed [OF that(1) ok, of ?P] that(2,3) by (auto simp: ctx_power_def)
  show "allowed ?P (rows tabs w) (rows tabs (sv_world (UserHandler_UpdateUser E (main_userSvc E) q r w)))"
    using allowed_same [OF ok, of ?P]
    by (auto simp: UserHandler_UpdateUser_def Let_def dest: step split: option.split sum.split prod.split)
qed

lemma bounded_delete:
  "bounded tabs (\<lambda>q w. admin_power) (UserHandler_DeleteUser E (main_userSvc E))"
  "bounded tabs (\<lambda>q w. admin_power) (AdminHandler_UserDelete E (main_userSvc E))"
  by (rule boundedI, auto simp: UserHandler_DeleteUser_def AdminHandler_UserDelete_def Let_def admin_power_def
      dest: delete_allowed [where P = admin_power, unfolded admin_power_def] intro: allowed_same
      split: option.split prod.split)+

lemma bounded_register:
  "bounded tabs (body_power E kv reg) (AuthHandler_Register E (main_authH jwt base pr reg))"
proof (rule boundedI)
  fix q :: request and r and w :: "('s, 'd) world"
  let ?P = "body_power E kv reg q w"
  assume ok: "tables_ok (rows tabs w)"
  have step: "allowed ?P (rows tabs w) (rows tabs w1)"
    if "authService_Register (main_auth E jwt base) m pw w = (x, w1)" and reg for m pw x w1
    using register_allowed [OF that(1) ok, of ?P] that(2) by (simp add: body_power_def)
  show "allowed ?P (rows tabs w) (rows tabs (sv_world (AuthHandler_Register E (main_authH jwt base pr reg) q r w)))"
    using allowed_same [OF ok, of ?P]
    by (auto simp: AuthHandler_Register_def auth_handler_ops Let_def dest: step split: option.split sum.split prod.split)
qed

lemma bounded_reset:
  "bounded tabs (body_power E kv reg) (AuthHandler_ResetPassword E (main_authH jwt base pr reg))"
proof (rule boundedI)
  fix q :: request and r and w :: "('s, 'd) world"
  let ?P = "body_power E kv reg q w"
  assume ok: "tables_ok (rows tabs w)"
  have step: "allowed ?P (rows tabs w) (rows tabs w1)"
    if "authService_ResetPassword E (main_auth E jwt base) c tok pw w = (x, w1)"
      and "ResetPasswordRequest_decode (q_body q) = Some (tok, pw)" for c tok pw x w1
    using reset_allowed [OF that(1) ok, of ?P] that(2) by (auto simp: body_power_def)
  show "allowed ?P (rows tabs w) (rows tabs (sv_world (AuthHandler_ResetPassword E (main_authH jwt base pr reg) q r w)))"
    using allowed_same [OF ok, of ?P]
    by (auto simp: AuthHandler_ResetPassword_def auth_handler_ops Let_def dest: step split: option.split prod.split)
qed

section \<open>Guards\<close>

lemma bounded_role:
  fixes next0 :: "('s, 'd) world handler"
  assumes "bounded tabs (\<lambda>q w. admin_power) next0"
  shows "bounded tabs (\<lambda>q w. ctx_power E (q_ctx q)) (RequireRole ''admin'' next0)"
proof (rule boundedI)
  fix q :: request and r and w :: "('s, 'd) world"
  assume ok: "tables_ok (rows tabs w)"
  have "covers (ctx_power E (q_ctx q)) admin_power" if "ctx_string (c_role (q_ctx q)) = ''admin''"
    using that by (simp add: covers_def ctx_power_def admin_power_def)
  with boundedD [OF assms ok] allowed_same [OF ok]
  show "allowed (ctx_power E (q_ctx q)) (rows tabs w) (rows tabs (sv_world (RequireRole ''admin'' next0 q r w)))"
    by (auto simp: RequireRole_def intro: allowed_covers)
qed

lemma bounded_limits:
  assumes "bounded tabs (\<lambda>q w. ctx_power E (q_ctx q)) next0"
  shows "bounded tabs (\<lambda>q w. ctx_power E (q_ctx q)) (RateLimit (NewSessionRepo E) l win next0)"
    and "bounded tabs (\<lambda>q w. ctx_power E (q_ctx q)) (RateLimitUser (NewSessionRepo E) l win next0)"
proof -
  have step: "allowed (ctx_power E (q_ctx q)) (rows tabs w) (rows tabs (sv_world (next0 q r w1)))"
    if "tables_ok (rows tabs w)" and "rows tabs w1 = rows tabs w" for q r w w1
    using boundedD [OF assms, of w1 q r] that by simp
  show "bounded tabs (\<lambda>q w. ctx_power E (q_ctx q)) (RateLimit (NewSessionRepo E) l win next0)"
    by (rule boundedI) (auto simp: RateLimit_def Let_def dest!: limit_still(1) [where tabs = tabs] intro: step allowed_same
        split: prod.split)
  show "bounded tabs (\<lambda>q w. ctx_power E (q_ctx q)) (RateLimitUser (NewSessionRepo E) l win next0)"
    by (rule boundedI) (auto simp: RateLimitUser_def Let_def dest!: limit_still(2) [where tabs = tabs] intro: step allowed_same
        split: prod.split)
qed

lemma bounded_JWT:
  assumes "bounded tabs (\<lambda>q w. ctx_power E (q_ctx q)) next0"
  shows "bounded tabs (request_power E kv jwt reg) (JWT E jwt (NewSessionRepo E) next0)"
proof (rule boundedI)
  fix q :: request and r and w :: "('s, 'd) world"
  let ?P = "request_power E kv jwt reg q w"
  assume ok: "tables_ok (rows tabs w)"
  show "allowed ?P (rows tabs w) (rows tabs (sv_world (JWT E jwt (NewSessionRepo E) next0 q r w)))"
  proof (cases "valid_token E jwt q (w_now w)")
    case None
    from JWT_no_token [OF None, of "NewSessionRepo E" next0 r] allowed_same [OF ok, of ?P] show ?thesis by auto
  next
    case (Some c)
    obtain res w1 where b: "IsBlocklisted (NewSessionRepo E) (cl_ID c) w = (res, w1)" by fastforce
    have 1: "rows tabs w1 = rows tabs w" using still(5) [OF b] by simp
    let ?x = "(q_ctx q)\<lparr>c_userID := Some (cl_Subject c), c_role := Some (cl_Role c), c_jti := Some (cl_ID c)\<rparr>"
    have "allowed (ctx_power E ?x) (rows tabs w) (rows tabs (sv_world (next0 (WithContext q ?x) r w1)))"
      using boundedD [OF assms, of w1 "WithContext q ?x" r] ok 1 by (simp add: WithContext_def)
    moreover have "covers ?P (ctx_power E ?x)" by (rule request_power_token [OF Some]) simp_all
    ultimately have "allowed ?P (rows tabs w) (rows tabs (sv_world (next0 (WithContext q ?x) r w1)))"
      by (rule allowed_covers)
    with allowed_same [OF ok, of ?P] 1 show ?thesis by (simp add: JWT_token [OF Some] b Let_def)
  qed
qed

end

section \<open>The chain\<close>

definition same_message :: "request \<Rightarrow> request \<Rightarrow> bool" where
  "same_message q' q \<longleftrightarrow> q_headers q' = q_headers q \<and> q_body q' = q_body q"

text \<open>
  What is relied on of chi, CORS and otelhttp: their own handlers do not reach the database, and what wraps a handler
  calls it at most once, with the headers and the body of the request.
\<close>

definition chi_neutral :: "('s, 'd) world chi \<Rightarrow> bool" where
  "chi_neutral X \<longleftrightarrow>
     (\<forall>h \<in> {chi_NotFound X, chi_metrics X, chi_fileServer X} \<union> range (chi_swagger X). \<forall>q r w. w_db (sv_world (h q r w)) = w_db w) \<and>
     (\<forall>q. same_message (chi_RealIP X q) q) \<and>
     (\<forall>os h q r w. w_db (sv_world (chi_cors X os h q r w)) = w_db w \<or>
        (\<exists>r'. w_db (sv_world (chi_cors X os h q r w)) = w_db (sv_world (h q r' w)))) \<and>
     (\<forall>s f h q r w. \<exists>q' r'. same_message q' q \<and> w_db (sv_world (chi_otel X s f h q r w)) = w_db (sv_world (h q' r' w)))"

lemma bounded_pass:
  fixes next0 h :: "('s, 'd) world handler"
  assumes "bounded tabs (request_power E kv jwt reg) next0"
    and "\<And>q r w. rows tabs (sv_world (h q r w)) = rows tabs w \<or>
      (\<exists>q' r' w'. same_message q' q \<and> w_now w' = w_now w \<and> w_redis w' = w_redis w \<and> rows tabs w' = rows tabs w \<and>
         rows tabs (sv_world (h q r w)) = rows tabs (sv_world (next0 q' r' w')))"
  shows "bounded tabs (request_power E kv jwt reg) h"
proof (rule boundedI)
  fix q r and w :: "('s, 'd) world"
  assume ok: "tables_ok (rows tabs w)"
  from assms(2) [of q r w]
  show "allowed (request_power E kv jwt reg q w) (rows tabs w) (rows tabs (sv_world (h q r w)))"
  proof (elim disjE exE conjE, goal_cases)
    case 1
    then show ?case by (simp add: allowed_same ok)
  next
    case (2 q' r' w')
    have "request_power E kv jwt reg q' w' = request_power E kv jwt reg q w"
      using 2 by (intro request_power_cong) (simp_all add: same_message_def)
    with boundedD [OF assms(1), of w' q' r'] ok 2 show ?case by simp
  qed
qed

lemma passed:
  fixes next0 :: "('s, 'd) world handler"
  assumes "same_message q' q" and "w_now w' = w_now w" and "w_redis w' = w_redis w" and "rows tabs w' = rows tabs w"
    and "x = rows tabs (sv_world (next0 q' r' w'))"
  shows "x = rows tabs w \<or> (\<exists>q' r' w'. same_message q' q \<and> w_now w' = w_now w \<and> w_redis w' = w_redis w \<and>
      rows tabs w' = rows tabs w \<and> x = rows tabs (sv_world (next0 q' r' w')))"
  using assms by blast

lemma same_message_simps [simp]: "same_message q q" "same_message (WithContext q c) q"
  by (simp_all add: same_message_def WithContext_def)

lemma bounded_chain:
  fixes next0 :: "('s, 'd) world handler"
  assumes "bounded tabs (request_power E kv jwt reg) next0"
  shows "bounded tabs (request_power E kv jwt reg) (RecoveringPanicCounter next0)"
    and "bounded tabs (request_power E kv jwt reg) (SecurityHeaders p next0)"
    and "bounded tabs (request_power E kv jwt reg) (HTTPMetrics next0)"
    and "bounded tabs (request_power E kv jwt reg) (RequestLogger f next0)"
    and "bounded tabs (request_power E kv jwt reg) (RequireTenantID next0)"
proof -
  show "bounded tabs (request_power E kv jwt reg) (RecoveringPanicCounter next0)"
    by (rule bounded_pass [OF assms], rule_tac q' = q and r' = r and w' = w in passed)
      (auto simp: RecoveringPanicCounter_def Let_def split: option.split)
  show "bounded tabs (request_power E kv jwt reg) (SecurityHeaders p next0)"
    by (rule bounded_pass [OF assms], rule_tac q' = q and w' = w in passed) (auto simp: SecurityHeaders_def)
  show "bounded tabs (request_power E kv jwt reg) (HTTPMetrics next0)"
    by (rule bounded_pass [OF assms], rule_tac q' = q and r' = r and w' = "w\<lparr>w_inflight := w_inflight w + 1\<rparr>" in passed)
      (auto simp: HTTPMetrics_def Let_def split: option.split)
  show "bounded tabs (request_power E kv jwt reg) (RequestLogger f next0)"
    by (rule bounded_pass [OF assms], rule_tac r' = r and w' = w and
        q' = "WithContext q (WithUserAgent (WithIP (q_ctx q) (q_remote q)) (Header_Get q ''User-Agent''))" in passed)
      (auto simp: RequestLogger_def Let_def split: option.split)
  show "bounded tabs (request_power E kv jwt reg) (RequireTenantID next0)"
    by (rule bounded_pass [OF assms], simp add: RequireTenantID_def) (metis same_message_simps(1))
qed

lemma bounded_ui:
  assumes "chi_neutral X"
  shows "bounded tabs F (ui_asset (chi_fileServer X))" "bounded tabs F (ui_root_file (chi_fileServer X))"
    "bounded tabs F (spaHandler (chi_fileServer X) fs)" "bounded tabs F (chi_metrics X)" "bounded tabs F (chi_swagger X os)"
    "bounded tabs F (chi_NotFound X)"
  using assms by (auto simp: chi_neutral_def rows_def ui_asset_def ui_root_file_def spaHandler_def serveIndex_def Let_def
      intro!: bounded_quiet split: option.split)

context backend begin

lemma bounded_tenant:
  assumes "bounded tabs (request_power E kv jwt reg) next0"
  shows "bounded tabs (request_power E kv jwt reg) (TenantMiddleware E (main_tenantSvc E) next0)"
proof (rule bounded_pass [OF assms])
  fix q r and w :: "('s, 'd) world"
  define sl where "sl = extractSubdomain q"
  obtain res w1 where t: "tsvc_GetBySlug (main_tenantSvc E) sl w = (res, w1)" by fastforce
  have fr: "db_frame w w1" using tenant.tenant_frame(2) [of w sl] t by (simp add: main_tenantSvc_def)
  define v where "v = (if sl \<noteq> [] then w1 else w)"
  have v: "w_now v = w_now w" "w_redis v = w_redis w" "rows tabs v = rows tabs w"
    using fr tenant_still(2) [OF t] by (simp_all add: v_def db_frame_def)
  have "snd (if sl \<noteq> [] then
      (case tsvc_GetBySlug (main_tenantSvc E) sl w of (Inr t, w') \<Rightarrow> (t_ID t, w') | (Inl _, w') \<Rightarrow> (uuid_Nil, w'))
    else (uuid_Nil, w)) = v"
    using t by (cases res) (simp_all add: v_def)
  then have "\<exists>c. TenantMiddleware E (main_tenantSvc E) next0 q r w = next0 (WithContext q c) r v"
    unfolding TenantMiddleware_def Let_def sl_def [symmetric] by (simp only: case_prod_beta) blast
  then obtain c where "TenantMiddleware E (main_tenantSvc E) next0 q r w = next0 (WithContext q c) r v" by blast
  with v show "rows tabs (sv_world (TenantMiddleware E (main_tenantSvc E) next0 q r w)) = rows tabs w \<or>
      (\<exists>q' r' w'. same_message q' q \<and> w_now w' = w_now w \<and> w_redis w' = w_redis w \<and> rows tabs w' = rows tabs w \<and>
        rows tabs (sv_world (TenantMiddleware E (main_tenantSvc E) next0 q r w)) = rows tabs (sv_world (next0 q' r' w')))"
    by (intro passed [of "WithContext q c" q v w]) simp_all
qed

lemma bounded_routes:
  assumes "chi_neutral X"
  shows "\<forall>(m, k, h) \<in> set (routes E X (main_deps E cfg priv pub pgp rdp fs P)).
    bounded tabs (request_power E kv (main_jwt cfg priv pub) (app_RegistrationEnabled (cfg_App cfg))) h"
proof -
  let ?D = "main_deps E cfg priv pub pgp rdp fs P" and ?j = "main_jwt cfg priv pub"
  let ?F = "request_power E kv ?j (app_RegistrationEnabled (cfg_App cfg))"
  have D: "d_jwt ?D = ?j" "d_auth ?D = NewAuthService E (main_auth E ?j (cfg_API_BaseURL cfg))" "d_users ?D = main_userSvc E"
    "d_tenants ?D = main_tenantSvc E" "d_sessions ?D = NewSessionRepo E"
    "d_registration ?D = app_RegistrationEnabled (cfg_App cfg)"
    by (simp_all add: main_deps_def)
  note own = bounded_public bounded_reads bounded_others bounded_ui [OF assms] bounded_chain(5)
    bounded_covers [OF bounded_register request_power_body] bounded_covers [OF bounded_reset request_power_body]
  note guarded = bounded_JWT bounded_limits bounded_role bounded_update bounded_delete
  show ?thesis
    unfolding routes_def route_defs D protected_group_def admin_group_def Let_def
    by (auto intro!: own guarded split: if_splits)
qed

lemma bounded_main:
  assumes "chi_neutral X"
  shows "bounded tabs (request_power E kv (main_jwt cfg priv pub) (app_RegistrationEnabled (cfg_App cfg)))
    (main_handler E X cfg priv pub pgp rdp fs P)"
proof -
  let ?D = "main_deps E cfg priv pub pgp rdp fs P"
  let ?F = "request_power E kv (main_jwt cfg priv pub) (app_RegistrationEnabled (cfg_App cfg))"
  let ?route = "dispatch X (routes E X ?D)"
  have pick: "bounded tabs ?F (snd (snd (routes E X ?D ! i)))" if "i < length (routes E X ?D)" for i
    using bounded_routes [OF assms] nth_mem [OF that] by (metis (no_types, lifting) case_prodD prod.collapse)
  have route: "bounded tabs ?F ?route"
  proof (rule boundedI)
    fix q r and w :: "('s, 'd) world"
    assume ok: "tables_ok (rows tabs w)"
    have same: "?F (q\<lparr>q_params := ps, q_ctx := c\<rparr>) w = ?F q w" for ps c by (rule request_power_cong) simp_all
    have "allowed (?F q w) (rows tabs w)
        (rows tabs (sv_world (snd (snd (routes E X ?D ! i)) (q\<lparr>q_params := ps, q_ctx := c\<rparr>) r w)))"
      if "i < length (routes E X ?D)" for i ps c
      using boundedD [OF pick [OF that] ok, of "q\<lparr>q_params := ps, q_ctx := c\<rparr>" r] by (simp only: same)
    then show "allowed (?F q w) (rows tabs w) (rows tabs (sv_world (?route q r w)))"
      using boundedD [OF bounded_ui(6) [OF assms, of tabs ?F] ok] by (auto simp: dispatch_def split: option.split)
  qed
  have cors: "bounded tabs ?F (chi_cors X router_cors ?route)"
  proof (rule bounded_pass [OF route])
    fix q r and w :: "('s, 'd) world"
    have "w_db (sv_world (chi_cors X router_cors ?route q r w)) = w_db w \<or>
        (\<exists>r'. w_db (sv_world (chi_cors X router_cors ?route q r w)) = w_db (sv_world (?route q r' w)))"
      using assms by (simp add: chi_neutral_def)
    then show "rows tabs (sv_world (chi_cors X router_cors ?route q r w)) = rows tabs w \<or>
        (\<exists>q' r' w'. same_message q' q \<and> w_now w' = w_now w \<and> w_redis w' = w_redis w \<and> rows tabs w' = rows tabs w \<and>
          rows tabs (sv_world (chi_cors X router_cors ?route q r w)) = rows tabs (sv_world (?route q' r' w')))"
      by (metis rows_def same_message_simps(1))
  qed
  let ?h = "\<lambda>q. RecoveringPanicCounter (SecurityHeaders (isProd ?D) (HTTPMetrics (RequestLogger (chi_ReqID X)
      (TenantMiddleware E (main_tenantSvc E) (chi_cors X router_cors ?route))))) (chi_RealIP X q)"
  have b: "bounded tabs ?F ?h"
  proof (rule bounded_pass [OF bounded_chain(1) [OF bounded_chain(2) [OF bounded_chain(3) [OF bounded_chain(4)
          [OF bounded_tenant [OF cors]]]]]])
    fix q r and w :: "('s, 'd) world"
    have "same_message (chi_RealIP X q) q" using assms by (simp add: chi_neutral_def)
    then show "rows tabs (sv_world (?h q r w)) = rows tabs w \<or>
        (\<exists>q' r' w'. same_message q' q \<and> w_now w' = w_now w \<and> w_redis w' = w_redis w \<and> rows tabs w' = rows tabs w \<and>
          rows tabs (sv_world (?h q r w)) = rows tabs (sv_world (RecoveringPanicCounter (SecurityHeaders (isProd ?D)
            (HTTPMetrics (RequestLogger (chi_ReqID X) (TenantMiddleware E (main_tenantSvc E) (chi_cors X router_cors ?route))))) q' r' w')))"
      by blast
  qed
  show ?thesis
  proof (rule bounded_pass [OF b])
    fix q r and w :: "('s, 'd) world"
    let ?m = "main_handler E X cfg priv pub pgp rdp fs P"
    have m: "?m = chi_otel X (app_ServiceName (cfg_App cfg)) span_name ?h"
      by (simp add: main_handler_def buildRouter_def Tracing_def main_deps_def)
    have "\<exists>q' r'. same_message q' q \<and> w_db (sv_world (chi_otel X (app_ServiceName (cfg_App cfg)) span_name ?h q r w)) = w_db (sv_world (?h q' r' w))"
      using assms unfolding chi_neutral_def by blast
    then show "rows tabs (sv_world (?m q r w)) = rows tabs w \<or>
        (\<exists>q' r' w'. same_message q' q \<and> w_now w' = w_now w \<and> w_redis w' = w_redis w \<and> rows tabs w' = rows tabs w \<and>
          rows tabs (sv_world (?m q r w)) = rows tabs (sv_world (?h q' r' w')))"
      unfolding m by (metis rows_def)
  qed
qed

end


text \<open>A user who asks to be made an administrator.\<close>

definition ref_put_chi :: "'w chi" where
  "ref_put_chi = ref_chi\<lparr>chi_match := (\<lambda>ks q. Some (16, ''/api/v1/users/{id}'', [(''id'', ''5'')]))\<rparr>"

definition ref_promote :: request where
  "ref_promote = (ref_signed ''user'')\<lparr>q_method := ''PUT'', q_path := ''/api/v1/users/5'',
     q_body := Some (JObj [(''role'', JStr ''admin'')])\<rparr>"

lemma ref_put_neutral: "chi_neutral ref_put_chi"
  by (auto simp: chi_neutral_def ref_put_chi_def ref_chi_def reply_def intro: same_message_simps)

abbreviation ref_server :: "(ref_redis, ref_db) world handler" where
  "ref_server \<equiv> main_handler ref_env ref_put_chi ref_config ''key'' ''key'' (\<lambda>w. True) (\<lambda>w. True)
     \<lparr>fs_Stat = (\<lambda>p. False), fs_ReadFile = (\<lambda>p. None)\<rparr> \<lparr>te_EscapeString = html_EscapeString, te_date = itoa\<rparr>"


section \<open>Sequences of requests\<close>

text \<open>One request that satisfies \<open>A\<close>, or the passing of time.\<close>

inductive server_step ::
    "('s, 'd) world handler \<Rightarrow> (request \<Rightarrow> ('s, 'd) world \<Rightarrow> bool) \<Rightarrow> ('s, 'd) world \<Rightarrow> ('s, 'd) world \<Rightarrow> bool"
  for H A where
  serve: "A q w \<Longrightarrow> server_step H A w (sv_world (H q r w))"
| wait: "w_now w \<le> t \<Longrightarrow> server_step H A w (w\<lparr>w_now := t\<rparr>)"

inductive_cases server_stepE: "server_step H A w w'"

definition admins :: "tables \<Rightarrow> uuid set" where
  "admins X = u_ID ` {u \<in> set (users X). u_Role u = ''admin''}"

lemma allowed_admins:
  assumes "allowed P X Y" and "\<not> pw_admin P"
  shows "admins Y = admins X"
proof (intro equalityI subsetI)
  fix i
  assume "i \<in> admins X"
  then obtain u where u: "u \<in> set (users X)" "u_Role u = ''admin''" "i = u_ID u" by (auto simp: admins_def)
  obtain u' where "u' \<in> set (users Y)" "within P u u'" using assms(1) u(1) by (auto simp: allowed_def)
  with u(2,3) assms(2) show "i \<in> admins Y" by (auto simp: admins_def within_def intro!: image_eqI [of _ _ u'])
next
  fix i
  assume "i \<in> admins Y"
  then obtain u' where u': "u' \<in> set (users Y)" "u_Role u' = ''admin''" "i = u_ID u'" by (auto simp: admins_def)
  with assms(1) have "u_ID u' \<in> u_ID ` set (users X)" by (auto simp: allowed_def)
  then obtain u where u: "u \<in> set (users X)" "u_ID u = u_ID u'" by auto
  obtain v where v: "v \<in> set (users Y)" "within P u v" using assms(1) u(1) by (auto simp: allowed_def)
  have "v = u'"
    using assms(1) u(2) u'(1) v by (auto simp: allowed_def within_def tables_ok_def distinct_map dest: inj_onD)
  with u v(2) u'(2,3) assms(2) show "i \<in> admins X" by (auto simp: admins_def within_def intro!: image_eqI [of _ _ u])
qed

text \<open>
  C2.  Only administrators make administrators: after any sequence of requests, none of which carried a verified token of
  an administrator, with any failures and any waiting between them, the administrators are the same users as before
  and the keys of the tables are unique.
\<close>

theorem admins_come_from_admins:
  assumes "backend E kv tabs" and "tables_ok (rows tabs w)" and "chi_neutral X"
    and "(server_step (main_handler E X cfg priv pub pgPing redisPing fs P)
      (\<lambda>q w. \<not> pw_admin (request_power E kv (main_jwt cfg priv pub) (app_RegistrationEnabled (cfg_App cfg)) q w)))\<^sup>*\<^sup>* w w'"
  shows "admins (rows tabs w') = admins (rows tabs w) \<and> tables_ok (rows tabs w')"
  using assms(4)
proof (induction rule: rtranclp_induct)
  case base
  then show ?case using assms(2) by simp
next
  case (step v v')
  from step.hyps(2) show ?case
  proof (elim server_stepE, goal_cases)
    case (1 q r)
    from boundedD [OF backend.bounded_main [OF assms(1,3)], of v cfg priv pub q pgPing redisPing fs P r] step.IH 1
    show ?case using allowed_admins by (metis allowed_def)
  next
    case (2 t)
    with step.IH show ?case by (simp add: rows_def)
  qed
qed

theorem admins_come_from_admins_witness:
  "let w = ref_world 5 ref_tables [] [];
       w2 = sv_world (ref_server ref_request new_rw (sv_world (ref_server ref_promote new_rw w)))
   in admins (rows fst w2) = {6}"
proof -
  let ?w = "ref_world 5 ref_tables [] []" and ?j = "main_jwt ref_config ''key'' ''key''"
  let ?A = "\<lambda>q w. \<not> pw_admin (request_power ref_env fst ?j (app_RegistrationEnabled (cfg_App ref_config)) q w)"
  let ?S = "server_step ref_server ?A"
  have "case valid_token ref_env ?j ref_promote (w_now ?w) of None \<Rightarrow> False | Some c \<Rightarrow> cl_Role c \<noteq> ''admin''"
    by code_simp
  then have "?A ref_promote ?w" by (auto simp: request_power_def body_power_def split: option.splits)
  then have "?S ?w (sv_world (ref_server ref_promote new_rw ?w))" by (rule server_step.serve)
  moreover have "?A ref_request v" for v
    by (simp add: request_power_def body_power_def valid_token_def ref_request_def Header_Get_def get_first_def HasPrefix_def)
  then have "?S v (sv_world (ref_server ref_request new_rw v))" for v by (rule server_step.serve)
  ultimately have run: "?S\<^sup>*\<^sup>* ?w (sv_world (ref_server ref_request new_rw (sv_world (ref_server ref_promote new_rw ?w))))"
    by (meson converse_rtranclp_into_rtranclp rtranclp.rtrancl_refl)
  have ok: "tables_ok (rows fst ?w)" by (simp add: rows_def ref_world_def ref_tables_ok)
  have adm: "admins (rows fst ?w) = {6}"
    by (auto simp: admins_def rows_def ref_world_def ref_tables_def ref_user_def
        intro!: image_eqI [of _ _ "ref_user 6 ''x@y.z'' ''admin''", unfolded ref_user_def])
  from admins_come_from_admins [OF reference.backend_axioms ok ref_put_neutral run] adm show ?thesis by (simp add: Let_def)
qed

end
