(* ===== verification/Metrics.thy ===== *)
theory Metrics
  imports Server
begin

text \<open>
  \<open>internal/metrics\<close>: the Prometheus collectors of the server, and that every sample the code records belongs to one of
  them.  \<open>WithLabelValues\<close> panics when the number of label values differs from the number of labels declared, so this
  says that recording a metric never panics.
\<close>

section \<open>The collectors\<close>

datatype collector_kind = CounterVec | HistogramVec "int list" | Gauge | Counter

text \<open>Bucket bounds are in milliseconds.\<close>

record collector =
  mc_kind :: collector_kind
  mc_subsystem :: string
  mc_name :: string
  mc_labels :: "string list"

definition collectors :: "collector list" where
  "collectors =
     [\<lparr>mc_kind = CounterVec, mc_subsystem = ''http'', mc_name = ''requests_total'',
        mc_labels = [''method'', ''path'', ''status_class'']\<rparr>,
      \<lparr>mc_kind = HistogramVec [5, 10, 25, 50, 100, 250, 500, 1000, 2500, 5000], mc_subsystem = ''http'',
        mc_name = ''request_duration_seconds'', mc_labels = [''method'', ''path'']\<rparr>,
      \<lparr>mc_kind = Gauge, mc_subsystem = ''http'', mc_name = ''requests_inflight'', mc_labels = []\<rparr>,
      \<lparr>mc_kind = Counter, mc_subsystem = ''http'', mc_name = ''panics_total'', mc_labels = []\<rparr>,
      \<lparr>mc_kind = HistogramVec [1, 5, 10, 25, 50, 100, 250, 500, 1000], mc_subsystem = ''db'',
        mc_name = ''query_duration_seconds'', mc_labels = [''operation'']\<rparr>,
      \<lparr>mc_kind = CounterVec, mc_subsystem = ''db'', mc_name = ''errors_total'', mc_labels = [''operation'']\<rparr>,
      \<lparr>mc_kind = CounterVec, mc_subsystem = ''cache'', mc_name = ''operations_total'',
        mc_labels = [''operation'', ''result'']\<rparr>]"

text \<open>\<open>prometheus.BuildFQName\<close> with the namespace kleido.\<close>

definition fq_name :: "collector \<Rightarrow> string" where
  "fq_name c = ''kleido_'' @ mc_subsystem c @ ''_'' @ mc_name c"

text \<open>A sample, a name with its label values, belongs to a declared collector with that many labels.\<close>

definition declared :: "string list \<Rightarrow> bool" where
  "declared k \<longleftrightarrow> (case k of [] \<Rightarrow> False
     | n # vs \<Rightarrow> list_ex (\<lambda>c. fq_name c = n \<and> length (mc_labels c) = length vs) collectors)"

lemma declared_samples [simp]:
  "declared [''kleido_http_requests_total'', a, b, c]" "declared [''kleido_http_request_duration_seconds'', a, b]"
  "declared [''kleido_http_panics_total'']" "declared [''kleido_db_query_duration_seconds'', a]"
  "declared [''kleido_db_errors_total'', a]" "declared [''kleido_cache_operations_total'', a, b]"
  by (simp_all add: declared_def collectors_def fq_name_def)

section \<open>Only declared samples\<close>

definition only_declared :: "('s, 'd) world \<Rightarrow> bool" where
  "only_declared w \<longleftrightarrow> (\<forall>k. 0 < w_metrics w k \<longrightarrow> declared k)"

lemma only_declared_count [simp]: "declared k \<Longrightarrow> only_declared w \<Longrightarrow> only_declared (count_metric k w)"
  by (simp add: only_declared_def count_metric_def)

lemma only_declared_quiet [simp]:
  "only_declared (log_at l m as w) = only_declared w" "only_declared (end_span s w) = only_declared w"
  "only_declared (w\<lparr>w_rand := n\<rparr>) = only_declared w" "only_declared (w\<lparr>w_inflight := i\<rparr>) = only_declared w"
  "only_declared (w\<lparr>w_redis := r\<rparr>) = only_declared w" "only_declared (w\<lparr>w_db := d\<rparr>) = only_declared w"
  "only_declared (end_failed sp as e w) = only_declared w" "only_declared (end_ok sp as w) = only_declared w"
  "only_declared (end_unset sp as w) = only_declared w"
  by (simp_all add: only_declared_def log_at_def end_span_def end_defs)

lemma only_declared_ops [simp]:
  "only_declared w \<Longrightarrow> only_declared (observe_db op w)" "only_declared w \<Longrightarrow> only_declared (db_error op b w)"
  "only_declared w \<Longrightarrow> only_declared (cache_op op r w)"
  by (simp_all add: observe_db_def db_error_def cache_op_def)

text \<open>An operation that records declared samples only.\<close>

definition tidy :: "(('s, 'd) world \<Rightarrow> 'r \<times> ('s, 'd) world) \<Rightarrow> bool" where
  "tidy f \<longleftrightarrow> (\<forall>w. only_declared w \<longrightarrow> only_declared (snd (f w)))"

lemma tidy_use: "tidy f \<Longrightarrow> only_declared w \<Longrightarrow> only_declared (snd (f w))"
  by (simp add: tidy_def)

lemma tidyD: "tidy f \<Longrightarrow> f w = (r, w') \<Longrightarrow> only_declared w \<Longrightarrow> only_declared w'"
  by (metis snd_conv tidy_def)

lemma tidyI: "(\<And>w r w'. f w = (r, w') \<Longrightarrow> only_declared w \<Longrightarrow> only_declared w') \<Longrightarrow> tidy f"
  by (metis prod.collapse tidy_def)

lemma tidy_redis: "tidy (redis_do E c)" "tidy (redis_err E c)"
  by (rule tidyI, drule redis_do_frame redis_err_frame, metis only_declared_quiet(5))+

lemma tidy_pg: "tidy (pg_query E q)"
  by (rule tidyI, drule pg_query_frame) (metis only_declared_quiet(6))

section \<open>Repositories and the user service\<close>

definition tidy_repo :: "('s, 'd) world user_repository \<Rightarrow> bool" where
  "tidy_repo R \<longleftrightarrow> (\<forall>u. tidy (repo_Create R u)) \<and> (\<forall>i. tidy (repo_FindByID R i)) \<and> (\<forall>m. tidy (repo_FindByEmail R m)) \<and>
     (\<forall>u. tidy (repo_Update R u)) \<and> (\<forall>i h. tidy (repo_UpdatePassword R i h)) \<and> (\<forall>i. tidy (repo_Delete R i)) \<and>
     (\<forall>l off. tidy (repo_List R l off))"

lemma tidy_pgx: "tidy_repo (NewUserRepository E)"
  unfolding tidy_repo_def NewUserRepository_def user_repository.select_convs
  by (intro conjI allI tidyI)
    (auto simp: user_repo_defs Let_def dest: tidyD [OF tidy_pg] split: prod.splits sum.splits option.splits sqlres.splits if_splits)

lemma tidy_repoD:
  assumes "tidy_repo R"
  shows "repo_Create R u w = (r, w') \<Longrightarrow> only_declared w \<Longrightarrow> only_declared w'"
    and "repo_FindByID R i w = (q, w') \<Longrightarrow> only_declared w \<Longrightarrow> only_declared w'"
    and "repo_FindByEmail R m w = (q, w') \<Longrightarrow> only_declared w \<Longrightarrow> only_declared w'"
    and "repo_Update R u w = (r, w') \<Longrightarrow> only_declared w \<Longrightarrow> only_declared w'"
    and "repo_UpdatePassword R i h w = (r, w') \<Longrightarrow> only_declared w \<Longrightarrow> only_declared w'"
    and "repo_Delete R i w = (r, w') \<Longrightarrow> only_declared w \<Longrightarrow> only_declared w'"
    and "repo_List R l off w = (p, w') \<Longrightarrow> only_declared w \<Longrightarrow> only_declared w'"
  using assms unfolding tidy_repo_def by (metis tidyD)+

lemma tidy_instrumented:
  assumes "tidy_repo R"
  shows "tidy_repo (NewInstrumentedUserRepository R)"
  unfolding tidy_repo_def NewInstrumentedUserRepository_def user_repository.select_convs
  by (intro conjI allI tidyI) (auto simp: Let_def
      InstrumentedUserRepository_Create_def InstrumentedUserRepository_FindByID_def
      InstrumentedUserRepository_FindByEmail_def InstrumentedUserRepository_Update_def
      InstrumentedUserRepository_UpdatePassword_def InstrumentedUserRepository_Delete_def
      InstrumentedUserRepository_List_def dest: tidy_repoD [OF assms] split: prod.splits)

lemma tidy_traced:
  assumes "tidy_repo R"
  shows "tidy_repo (NewTracedUserRepository E R)"
  unfolding tidy_repo_def NewTracedUserRepository_def user_repository.select_convs
  by (intro conjI allI tidyI) (auto simp: traced_defs Let_def dest: tidy_repoD [OF assms] split: prod.splits)

lemma tidy_main_repo: "tidy_repo (main_userRepo E)"
  unfolding main_userRepo_def by (intro tidy_traced tidy_instrumented tidy_pgx)

text \<open>The cache calls and the service over both.\<close>

lemma tidy_cache:
  "cache_GetJSON (user_cache_of E) k w = (r, w') \<Longrightarrow> only_declared w \<Longrightarrow> only_declared w'"
  "cache_SetJSON (user_cache_of E) k u d w = (e, w') \<Longrightarrow> only_declared w \<Longrightarrow> only_declared w'"
  "cache_Delete (user_cache_of E) ks w = (e, w') \<Longrightarrow> only_declared w \<Longrightarrow> only_declared w'"
  by (auto simp: user_cache_of_def NewCacheRepo_def cacheRepo_GetJSON_def cacheRepo_SetJSON_def cacheRepo_Delete_def Let_def
      dest: tidyD [OF tidy_redis(1)] tidyD [OF tidy_redis(2)]
      split: prod.splits sum.splits option.splits rreply.splits)

lemma tidy_lookup: "cache_lookup (Some (user_cache_of E)) k w = (h, w') \<Longrightarrow> only_declared w \<Longrightarrow> only_declared w'"
  by (auto simp: cache_lookup_def dest: tidy_cache(1) split: prod.splits sum.splits if_splits)

lemma tidy_fill [simp]: "only_declared w \<Longrightarrow> only_declared (cache_fill (Some (user_cache_of E)) k u w)"
  by (auto simp: cache_fill_def dest: tidy_cache(2) split: prod.splits option.splits)

lemma tidy_drop [simp]: "only_declared w \<Longrightarrow> only_declared (cache_drop (Some (user_cache_of E)) msg k w)"
  by (auto simp: cache_drop_def dest: tidy_cache(3) split: prod.splits option.splits)

lemma only_declared_draw: "draw w = (n, w') \<Longrightarrow> only_declared w \<Longrightarrow> only_declared w'"
  by (auto simp: draw_def)

lemmas tidy_facts = tidy_repoD [OF tidy_main_repo] tidy_lookup only_declared_draw

lemma tidy_reads:
  "tidy (svc_GetByID (main_userSvc E) i)" "tidy (svc_GetByEmail (main_userSvc E) m)"
  "tidy (svc_List (main_userSvc E) l off)"
  unfolding main_ops userService_GetByID_def userService_GetByEmail_def userService_List_def Let_def
  by (rule tidyI, auto dest: tidy_facts split: prod.splits sum.splits option.splits)+

lemma tidy_create: "tidy (svc_Create (main_userSvc E) m pw role)"
  unfolding main_ops userService_Create_def Let_def
  by (rule tidyI, auto dest: tidy_facts split: prod.splits sum.splits option.splits)

lemma tidy_update: "tidy (svc_Update (main_userSvc E) i req role)"
proof (rule tidyI)
  fix w r w'
  assume u: "svc_Update (main_userSvc E) i req role w = (r, w')" and d: "only_declared w"
  obtain q w1 where f: "repo_FindByID (main_userRepo E) i w = (q, w1)" by fastforce
  have d1: "only_declared w1" by (rule tidy_facts(2) [OF f d])
  show "only_declared w'"
  proof (cases q)
    case (Inl e)
    with u f d1 show ?thesis by (auto simp: main_ops userService_Update_def)
  next
    case (Inr u0)
    define w2 where "w2 = (if p_Role req \<noteq> None \<and> role \<noteq> ''admin''
        then log_at LDebug (''role change ignored '' @ em_dash @ '' caller is not admin'') [(''user_id'', uuidString E i)] w1
        else w1)"
    obtain e w3 where up: "repo_Update (main_userRepo E) (patch_user req role u0) w2 = (e, w3)" by fastforce
    have "only_declared w3" by (rule tidy_facts(4) [OF up]) (simp add: w2_def d1)
    with u show ?thesis
      unfolding main_ops userService_Update_def f Inr Let_def sum.case prod.case w2_def [symmetric] up
      by (cases e) auto
  qed
qed

lemma tidy_rest: "tidy (svc_Delete (main_userSvc E) i)" "tidy (svc_UpdatePassword (main_userSvc E) i h)"
  unfolding main_ops userService_Delete_def userService_UpdatePassword_def Let_def
  by (rule tidyI, auto dest: tidy_facts split: prod.splits sum.splits option.splits)+

lemmas tidy_users = tidy_reads tidy_create tidy_update tidy_rest

section \<open>The middleware\<close>

definition tidy_handler :: "('s, 'd) world handler \<Rightarrow> bool" where
  "tidy_handler H \<longleftrightarrow> (\<forall>q r w. only_declared w \<longrightarrow> only_declared (sv_world (H q r w)))"

lemma tidy_chain: "tidy_handler H \<Longrightarrow> tidy_handler (RecoveringPanicCounter (SecurityHeaders p (HTTPMetrics H)))"
  by (simp add: tidy_handler_def RecoveringPanicCounter_def SecurityHeaders_def HTTPMetrics_def Let_def split: option.split)

text \<open>
  Every sample has its collector: the operations of the user service that \<open>main\<close> builds (with the query metrics, the
  error counters and the cache counters) and the metrics and panic middleware around any handler with this property,
  also when it panics, record only names that are declared, each with as many label values as declared labels.
\<close>

theorem samples_are_declared:
  assumes "only_declared w"
  shows "only_declared (snd (svc_GetByID (main_userSvc E) i w)) \<and> only_declared (snd (svc_GetByEmail (main_userSvc E) m w)) \<and>
    only_declared (snd (svc_Create (main_userSvc E) m pw role w)) \<and> only_declared (snd (svc_List (main_userSvc E) l off w)) \<and>
    only_declared (snd (svc_Update (main_userSvc E) i req role w)) \<and>
    only_declared (snd (svc_Delete (main_userSvc E) i w)) \<and>
    only_declared (snd (svc_UpdatePassword (main_userSvc E) i h w)) \<and>
    (tidy_handler H \<longrightarrow> only_declared (sv_world (RecoveringPanicCounter (SecurityHeaders p (HTTPMetrics H)) q r w)))"
  using assms
  by (intro conjI impI tidy_use tidy_users) (use tidy_chain [of H p] in \<open>simp_all add: tidy_handler_def\<close>)

theorem samples_are_declared_witness:
  "only_declared (snd (svc_GetByID (main_userSvc ref_env) 5 (ref_world 0 empty_tables [] [])))"
proof -
  have "only_declared (ref_world 0 empty_tables [] [])" by (simp add: only_declared_def ref_world_def)
  then show ?thesis by (rule samples_are_declared [THEN conjunct1])
qed

end
