(* ===== verification/Startup.thy ===== *)
theory Startup
  imports Server
begin

text \<open>
  \<open>run\<close> of \<open>cmd/api/main.go\<close> from the configuration to the shutdown, with what it opens: the tracer provider
  (\<open>internal/telemetry\<close>), the migrator and the pool (\<open>repository/postgres/db.go\<close>), the Redis client
  (\<open>repository/redis/client.go\<close>).  The outcomes of the libraries are the record \<open>boot\<close>; the trace of a run is the
  list of what was opened, closed and served.  The world of the seeding is that of the opened servers.
\<close>

section \<open>What a run does\<close>

datatype sampler = AlwaysSample | ParentBasedTenth

record pool_config =
  pc_MaxConns :: int
  pc_MinConns :: int
  pc_MaxConnLifetime :: int
  pc_MaxConnIdleTime :: int
  pc_HealthCheckPeriod :: int

record http_server =
  hs_Addr :: string
  hs_ReadTimeout :: int
  hs_WriteTimeout :: int
  hs_IdleTimeout :: int

datatype handle = Tracer sampler | Migrator | Pool pool_config | Redis redis_config

text \<open>What stops the server: a signal, or an error of the listener.\<close>

datatype stop = Signal string | ListenError goerr

datatype event =
    Opened handle
  | Closed handle
  | MigratedUp
  | Seeded
  | Listened http_server
  | Stopped stop
  | ShutDown int

text \<open>
  The outcomes: each step's error, if it has one.  The two calls of the migration library change the database, also when
  they fail: \<open>migrate.New\<close> connects and prepares its version table, \<open>Up\<close> applies the pending files of the
  directory in order and stops at the first error.  \<open>bo_no_change\<close> is \<open>errors.Is(err, migrate.ErrNoChange)\<close>.
\<close>

record 'd boot =
  bo_otel_resource :: "string \<Rightarrow> string \<Rightarrow> goerr option"
  bo_otel_exporter :: "string \<Rightarrow> goerr option"
  bo_migrate_new :: "string \<Rightarrow> string \<Rightarrow> 'd \<Rightarrow> goerr option \<times> 'd"
  bo_migrate_up :: "'d \<Rightarrow> goerr option \<times> 'd"
  bo_no_change :: "goerr \<Rightarrow> bool"
  bo_pool_parse :: "string \<Rightarrow> goerr option"
  bo_pool_new :: "pool_config \<Rightarrow> goerr option"
  bo_pool_ping :: "goerr option"
  bo_redis_ping :: "redis_config \<Rightarrow> goerr option"
  bo_read :: "string \<Rightarrow> goerr + string"
  bo_parse_private :: "string \<Rightarrow> goerr + string"
  bo_parse_public :: "string \<Rightarrow> goerr + string"
  bo_stop :: stop

section \<open>Telemetry\<close>

definition otel_sampler :: "string \<Rightarrow> sampler" where
  "otel_sampler env = (if fold_name env = fold_name ''development'' then AlwaysSample else ParentBasedTenth)"

text \<open>The result on success is the shutdown function: what it closes.\<close>

definition Setup :: "'d boot \<Rightarrow> string \<Rightarrow> string \<Rightarrow> string \<Rightarrow> string \<Rightarrow> bool \<Rightarrow> event list \<times> (goerr + handle option)" where
  "Setup B serviceName version endpoint env enabled =
     (if \<not> enabled then ([], Inr None)
      else case bo_otel_resource B serviceName version of
          Some e \<Rightarrow> ([], Inl (Wrapf ''create OTel resource: '' e))
        | None \<Rightarrow>
            (case bo_otel_exporter B endpoint of
               Some e \<Rightarrow> ([], Inl (Wrapf ''create OTLP exporter: '' e))
             | None \<Rightarrow> (let t = Tracer (otel_sampler env) in ([Opened t], Inr (Some t)))))"

text \<open>The log handler adds the identifiers of a valid span to a record.\<close>

definition trace_Handle :: "(string \<times> string) option \<Rightarrow> logline \<Rightarrow> logline" where
  "trace_Handle sp r =
     (case sp of
        None \<Rightarrow> r
      | Some (traceID, spanID) \<Rightarrow> r\<lparr>l_attrs := l_attrs r @ [(''trace_id'', traceID), (''span_id'', spanID)]\<rparr>)"

section \<open>Database and Redis\<close>

definition NewPool :: "'d boot \<Rightarrow> database_config \<Rightarrow> event list \<times> (goerr + handle)" where
  "NewPool B cfg =
     (case bo_pool_parse B (db_URL cfg) of
        Some e \<Rightarrow> ([], Inl (Wrapf ''postgres: parse config: '' e))
      | None \<Rightarrow>
          (let pc = \<lparr>pc_MaxConns = db_MaxConns cfg, pc_MinConns = db_MinConns cfg,
                 pc_MaxConnLifetime = wrap64 (db_MaxConnLifetimeMinutes cfg * minute),
                 pc_MaxConnIdleTime = 10 * minute, pc_HealthCheckPeriod = minute\<rparr>
           in case bo_pool_new B pc of
                Some e \<Rightarrow> ([], Inl (Wrapf ''postgres: create pool: '' e))
              | None \<Rightarrow>
                  (case bo_pool_ping B of
                     Some e \<Rightarrow> ([Opened (Pool pc), Closed (Pool pc)], Inl (Wrapf ''postgres: ping: '' e))
                   | None \<Rightarrow> ([Opened (Pool pc)], Inr (Pool pc)))))"

definition RunMigrations ::
    "'d boot \<Rightarrow> string \<Rightarrow> string \<Rightarrow> ('s, 'd) world \<Rightarrow> event list \<times> goerr option \<times> ('s, 'd) world" where
  "RunMigrations B databaseURL migrationsPath w =
     (case bo_migrate_new B (''file://'' @ migrationsPath) databaseURL (w_db w) of
        (Some e, d) \<Rightarrow> ([], Some (Wrapf ''migrations: init: '' e), w\<lparr>w_db := d\<rparr>)
      | (None, d) \<Rightarrow>
          (case bo_migrate_up B d of
             (Some e, d') \<Rightarrow>
               if bo_no_change B e then ([Opened Migrator, Closed Migrator], None, w\<lparr>w_db := d'\<rparr>)
               else ([Opened Migrator, Closed Migrator], Some (Wrapf ''migrations: up: '' e), w\<lparr>w_db := d'\<rparr>)
           | (None, d') \<Rightarrow> ([Opened Migrator, MigratedUp, Closed Migrator], None, w\<lparr>w_db := d'\<rparr>)))"

definition NewClient :: "'d boot \<Rightarrow> redis_config \<Rightarrow> event list \<times> (goerr + handle)" where
  "NewClient B cfg =
     (case bo_redis_ping B cfg of
        Some e \<Rightarrow> ([Opened (Redis cfg), Closed (Redis cfg)], Inl (Wrapf ''redis: ping: '' e))
      | None \<Rightarrow> ([Opened (Redis cfg)], Inr (Redis cfg)))"

section \<open>The run\<close>

definition http_config :: "config \<Rightarrow> http_server" where
  "http_config cfg = \<lparr>hs_Addr = '':'' @ itoa (app_Port (cfg_App cfg)), hs_ReadTimeout = 10 * second,
     hs_WriteTimeout = 30 * second, hs_IdleTimeout = 120 * second\<rparr>"

text \<open>A deferred close: it happens when the rest returns, whatever the rest returns.\<close>

definition deferred :: "handle option \<Rightarrow> event list \<times> 'r \<Rightarrow> event list \<times> 'r" where
  "deferred h r = (case h of None \<Rightarrow> r | Some x \<Rightarrow> (fst r @ [Closed x], snd r))"

definition after :: "event list \<Rightarrow> event list \<times> 'r \<Rightarrow> event list \<times> 'r" where
  "after es r = (es @ fst r, snd r)"

text \<open>Steps 10 to 15: seeding, listening until something stops the server, and the shutdown within 15 seconds.  Both
  ways of stopping return no error.\<close>

definition run_server ::
    "('s, 'd) env \<Rightarrow> 'd boot \<Rightarrow> config \<Rightarrow> ('s, 'd) world \<Rightarrow> event list \<times> goerr option \<times> ('s, 'd) world" where
  "run_server E B cfg w =
     ([Seeded, Listened (http_config cfg), Stopped (bo_stop B), ShutDown (15 * second)], None, main_seed E cfg w)"

definition run_keys ::
    "('s, 'd) env \<Rightarrow> 'd boot \<Rightarrow> config \<Rightarrow> ('s, 'd) world \<Rightarrow> event list \<times> goerr option \<times> ('s, 'd) world" where
  "run_keys E B cfg w =
     (case LoadPrivateKey (bo_read B) (bo_parse_private B) (jc_PrivateKeyPath (cfg_JWT cfg)) of
        Inl e \<Rightarrow> ([], Some (Wrapf ''jwt private key: '' e), w)
      | Inr priv \<Rightarrow>
          (case LoadPublicKey (bo_read B) (bo_parse_public B) (jc_PublicKeyPath (cfg_JWT cfg)) of
             Inl e \<Rightarrow> ([], Some (Wrapf ''jwt public key: '' e), w)
           | Inr pub \<Rightarrow> run_server E B cfg w))"

definition run_redis ::
    "('s, 'd) env \<Rightarrow> 'd boot \<Rightarrow> config \<Rightarrow> ('s, 'd) world \<Rightarrow> event list \<times> goerr option \<times> ('s, 'd) world" where
  "run_redis E B cfg w =
     (case NewClient B (cfg_Redis cfg) of
        (es, Inl e) \<Rightarrow> (es, Some (Wrapf ''redis client: '' e), w)
      | (es, Inr rdb) \<Rightarrow> after es (deferred (Some rdb) (run_keys E B cfg w)))"

definition run_pool ::
    "('s, 'd) env \<Rightarrow> 'd boot \<Rightarrow> config \<Rightarrow> ('s, 'd) world \<Rightarrow> event list \<times> goerr option \<times> ('s, 'd) world" where
  "run_pool E B cfg w =
     (case NewPool B (cfg_Database cfg) of
        (es, Inl e) \<Rightarrow> (es, Some (Wrapf ''postgres pool: '' e), w)
      | (es, Inr pool) \<Rightarrow> after es (deferred (Some pool) (run_redis E B cfg w)))"

definition run_stores ::
    "('s, 'd) env \<Rightarrow> 'd boot \<Rightarrow> config \<Rightarrow> ('s, 'd) world \<Rightarrow> event list \<times> goerr option \<times> ('s, 'd) world" where
  "run_stores E B cfg w =
     (case RunMigrations B (db_URL (cfg_Database cfg)) ''./migrations'' w of
        (es, Some e, w1) \<Rightarrow> (es, Some (Wrapf ''migrations: '' e), w1)
      | (es, None, w1) \<Rightarrow> after es (run_pool E B cfg w1))"

definition run ::
    "('s, 'd) env \<Rightarrow> 'd boot \<Rightarrow> viper \<Rightarrow> ('s, 'd) world \<Rightarrow> event list \<times> goerr option \<times> ('s, 'd) world" where
  "run E B v w =
     (case config_Load v of
        Inl e \<Rightarrow> ([], Some (Wrapf ''load config: '' e), w)
      | Inr cfg \<Rightarrow>
          (case Setup B (app_ServiceName (cfg_App cfg)) (app_Version (cfg_App cfg)) (otel_Endpoint (cfg_OTel cfg))
                  (app_Env (cfg_App cfg)) (otel_Enabled (cfg_OTel cfg)) of
             (es, Inl e) \<Rightarrow> (es, Some (Wrapf ''setup OTel: '' e), w)
           | (es, Inr h) \<Rightarrow> after es (deferred h (run_stores E B cfg w))))"

text \<open>\<open>main\<close>: the exit code.\<close>

definition main_exit :: "event list \<times> goerr option \<times> 'w \<Rightarrow> int" where
  "main_exit r = (if fst (snd r) = None then 0 else 1)"

section \<open>Resources\<close>

text \<open>The handles open after a trace, last opened first; \<open>None\<close> when one is closed that is not the last opened.\<close>

fun still_open :: "handle list \<Rightarrow> event list \<Rightarrow> handle list option" where
  "still_open hs [] = Some hs"
| "still_open hs (Opened h # es) = still_open (h # hs) es"
| "still_open hs (Closed h # es) = (case hs of [] \<Rightarrow> None | x # r \<Rightarrow> if x = h then still_open r es else None)"
| "still_open hs (_ # es) = still_open hs es"

lemma still_open_append: "still_open hs (as @ bs) = Option.bind (still_open hs as) (\<lambda>gs. still_open gs bs)"
  by (induction hs as rule: still_open.induct) (auto split: list.splits)

text \<open>A balanced piece of a trace closes what it opens.\<close>

definition balanced :: "event list \<Rightarrow> bool" where
  "balanced es \<longleftrightarrow> (\<forall>hs. still_open hs es = Some hs)"

lemma balanced_opened:
  "balanced (fst r) \<Longrightarrow> balanced (fst (after [Opened h] (deferred (Some h) r)))"
  by (auto simp: balanced_def after_def deferred_def still_open_append)

lemma balanced_simps [simp]: "balanced []" "balanced [Opened h, Closed h]"
  by (simp_all add: balanced_def)

lemma balanced_append: "balanced as \<Longrightarrow> balanced bs \<Longrightarrow> balanced (as @ bs)"
  by (simp add: balanced_def still_open_append)

lemma balanced_server: "balanced (fst (run_server E B cfg w))"
  by (simp add: run_server_def balanced_def)

lemma balanced_keys: "balanced (fst (run_keys E B cfg w))"
  by (simp add: run_keys_def balanced_server split: sum.split)

lemma NewPool_cases:
  "(\<exists>e. NewPool B c = ([], Inl e)) \<or> (\<exists>h e. NewPool B c = ([Opened h, Closed h], Inl e)) \<or>
   (\<exists>h. NewPool B c = ([Opened h], Inr h))"
  by (auto simp: NewPool_def Let_def split: option.split)

lemma NewClient_cases:
  "(\<exists>h e. NewClient B c = ([Opened h, Closed h], Inl e)) \<or> (\<exists>h. NewClient B c = ([Opened h], Inr h))"
  by (auto simp: NewClient_def split: option.split)

lemma RunMigrations_shape:
  "\<exists>es e d. RunMigrations B u p w = (es, e, w\<lparr>w_db := d\<rparr>) \<and> balanced es \<and> Seeded \<notin> set es"
  by (auto simp: RunMigrations_def balanced_def split: option.split prod.split)

lemma RunMigrations_cases:
  obtains es e d where "RunMigrations B u p w = (es, e, w\<lparr>w_db := d\<rparr>)" and "balanced es" and "Seeded \<notin> set es"
  using RunMigrations_shape [of B u p w] by blast

lemma balanced_redis: "balanced (fst (run_redis E B cfg w))"
  using NewClient_cases [of B "cfg_Redis cfg"] by (auto simp: run_redis_def intro!: balanced_opened balanced_keys)

lemma balanced_pool: "balanced (fst (run_pool E B cfg w))"
  using NewPool_cases [of B "cfg_Database cfg"] by (auto simp: run_pool_def intro!: balanced_opened balanced_redis)

lemma balanced_stores: "balanced (fst (run_stores E B cfg w))"
proof -
  obtain es e d where "RunMigrations B (db_URL (cfg_Database cfg)) ''./migrations'' w = (es, e, w\<lparr>w_db := d\<rparr>)" "balanced es"
    by (rule RunMigrations_cases)
  then show ?thesis
    by (auto simp: run_stores_def after_def intro!: balanced_append balanced_pool split: option.split)
qed

lemma Setup_cases:
  "(\<exists>e. Setup B n x p v b = ([], Inl e)) \<or> Setup B n x p v b = ([], Inr None) \<or>
   (\<exists>h. Setup B n x p v b = ([Opened h], Inr (Some h)))"
  by (auto simp: Setup_def Let_def split: option.split)

lemma balanced_run: "balanced (fst (run E B v w))"
proof (cases "config_Load v")
  case (Inr cfg)
  show ?thesis
    using Setup_cases [of B "app_ServiceName (cfg_App cfg)" "app_Version (cfg_App cfg)" "otel_Endpoint (cfg_OTel cfg)"
        "app_Env (cfg_App cfg)" "otel_Enabled (cfg_OTel cfg)"]
    by (auto simp: run_def Inr intro!: balanced_opened balanced_stores) (simp add: after_def deferred_def balanced_stores)
qed (simp add: run_def)

text \<open>How a part of a run ends: it seeded and served, or it failed and left the world alone.\<close>

definition ends_well ::
    "('s, 'd) env \<Rightarrow> 'd boot \<Rightarrow> config \<Rightarrow> ('s, 'd) world \<Rightarrow> event list \<times> goerr option \<times> ('s, 'd) world \<Rightarrow> bool" where
  "ends_well E B cfg w r \<longleftrightarrow>
     (case r of
        (es, Some _, w') \<Rightarrow> Seeded \<notin> set es \<and> w' = w
      | (es, None, w') \<Rightarrow> {Seeded, Listened (http_config cfg), Stopped (bo_stop B)} \<subseteq> set es \<and> w' = main_seed E cfg w \<and>
          (\<exists>priv pub. LoadPrivateKey (bo_read B) (bo_parse_private B) (jc_PrivateKeyPath (cfg_JWT cfg)) = Inr priv \<and>
             LoadPublicKey (bo_read B) (bo_parse_public B) (jc_PublicKeyPath (cfg_JWT cfg)) = Inr pub))"

lemma ends_well_after: "ends_well E B cfg w r \<Longrightarrow> Seeded \<notin> set es \<Longrightarrow> ends_well E B cfg w (after es r)"
  by (cases r) (auto simp: ends_well_def after_def split: option.splits)

lemma ends_well_deferred: "ends_well E B cfg w r \<Longrightarrow> ends_well E B cfg w (deferred h r)"
  by (cases r) (auto simp: ends_well_def deferred_def split: option.splits)

lemma ends_well_keys: "ends_well E B cfg w (run_keys E B cfg w)"
  by (auto simp: run_keys_def run_server_def ends_well_def split: sum.split)

lemma ends_well_fail: "Seeded \<notin> set es \<Longrightarrow> ends_well E B cfg w (es, Some e, w)"
  by (simp add: ends_well_def)

lemmas ends_well_intros = ends_well_after ends_well_deferred ends_well_fail

lemma ends_well_redis: "ends_well E B cfg w (run_redis E B cfg w)"
  using NewClient_cases [of B "cfg_Redis cfg"] by (auto simp: run_redis_def intro!: ends_well_intros ends_well_keys)

lemma ends_well_pool: "ends_well E B cfg w (run_pool E B cfg w)"
  using NewPool_cases [of B "cfg_Database cfg"] by (auto simp: run_pool_def intro!: ends_well_intros ends_well_redis)

text \<open>The world once the migrations were run, if the run gets that far, and what they returned.\<close>

definition migration_step ::
    "'d boot \<Rightarrow> config \<Rightarrow> ('s, 'd) world \<Rightarrow> event list \<times> goerr option \<times> ('s, 'd) world" where
  "migration_step B cfg w = RunMigrations B (db_URL (cfg_Database cfg)) ''./migrations'' w"

definition setup_ok :: "'d boot \<Rightarrow> config \<Rightarrow> bool" where
  "setup_ok B cfg \<longleftrightarrow> \<not> isl (snd (Setup B (app_ServiceName (cfg_App cfg)) (app_Version (cfg_App cfg)) (otel_Endpoint (cfg_OTel cfg))
     (app_Env (cfg_App cfg)) (otel_Enabled (cfg_OTel cfg))))"

text \<open>How the part after telemetry ends, and the whole run.\<close>

lemma stores_end:
  "case migration_step B cfg w of
     (es, Some e, w1) \<Rightarrow> run_stores E B cfg w = (es, Some (Wrapf ''migrations: '' e), w1) \<and> Seeded \<notin> set es
   | (es, None, w1) \<Rightarrow> ends_well E B cfg w1 (run_stores E B cfg w)"
proof -
  obtain es e d where m: "RunMigrations B (db_URL (cfg_Database cfg)) ''./migrations'' w = (es, e, w\<lparr>w_db := d\<rparr>)"
    "Seeded \<notin> set es" by (rule RunMigrations_cases)
  then show ?thesis
    by (auto simp: run_stores_def migration_step_def intro!: ends_well_intros ends_well_pool split: option.split)
qed

lemma run_end:
  assumes "config_Load v = Inr cfg" and "run E B v w = (es, r, w')"
  shows "if setup_ok B cfg then
      (case migration_step B cfg w of
         (_, Some _, w1) \<Rightarrow> r \<noteq> None \<and> w' = w1 \<and> Seeded \<notin> set es
       | (_, None, w1) \<Rightarrow> ends_well E B cfg w1 (es, r, w'))
    else r \<noteq> None \<and> w' = w \<and> Seeded \<notin> set es"
  using Setup_cases [of B "app_ServiceName (cfg_App cfg)" "app_Version (cfg_App cfg)" "otel_Endpoint (cfg_OTel cfg)"
      "app_Env (cfg_App cfg)" "otel_Enabled (cfg_OTel cfg)"]
    stores_end [where B = B and cfg = cfg and w = w and E = E] assms(2)
  by (auto simp: run_def assms(1) setup_ok_def after_def deferred_def ends_well_def split: prod.splits option.splits)

lemma migration_only_db: "\<exists>d. snd (snd (migration_step B cfg w)) = w\<lparr>w_db := d\<rparr>"
  using RunMigrations_shape [of B "db_URL (cfg_Database cfg)" "''./migrations''" w] by (auto simp: migration_step_def)

lemma same_db: "\<exists>d. w = w\<lparr>w_db := d\<rparr>"
  by (rule exI [of _ "w_db w"]) simp

text \<open>
  C25.  A run leaves nothing open: however it ends, what it opened is closed again, the last opened first.  It exits with
  0 exactly when it seeded and listened, which needs a valid configuration, migrations that succeeded and both keys, and
  then the world at that point is the seeded one on the migrated database.  A run that fails earlier exits with 1,
  has not seeded, and has changed at most the database, and that only by the migrations: it is what they left, also
  after a failure of theirs or of a later step, and untouched when the configuration or the telemetry failed before them.
  A listener that fails (a port in use) also ends with exit code 0.
\<close>

theorem run_releases_resources:
  "still_open [] (fst (run E B v w)) = Some [] \<and>
   (if main_exit (run E B v w) = 0 then
      (\<exists>cfg priv pub es w1. config_Load v = Inr cfg \<and>
         RunMigrations B (db_URL (cfg_Database cfg)) ''./migrations'' w = (es, None, w1) \<and>
         {Seeded, Listened (http_config cfg), Stopped (bo_stop B)} \<subseteq> set (fst (run E B v w)) \<and>
         LoadPrivateKey (bo_read B) (bo_parse_private B) (jc_PrivateKeyPath (cfg_JWT cfg)) = Inr priv \<and>
         LoadPublicKey (bo_read B) (bo_parse_public B) (jc_PublicKeyPath (cfg_JWT cfg)) = Inr pub \<and>
         snd (snd (run E B v w)) = main_seed E cfg w1)
    else Seeded \<notin> set (fst (run E B v w)) \<and> (\<exists>d. snd (snd (run E B v w)) = w\<lparr>w_db := d\<rparr>) \<and>
      (case config_Load v of
         Inl _ \<Rightarrow> snd (snd (run E B v w)) = w
       | Inr cfg \<Rightarrow> snd (snd (run E B v w)) =
           (if setup_ok B cfg then snd (snd (RunMigrations B (db_URL (cfg_Database cfg)) ''./migrations'' w)) else w)))"
proof (cases "config_Load v")
  case (Inl e)
  have "still_open [] (fst (run E B v w)) = Some []" using balanced_run [of E B v w] by (simp add: balanced_def)
  with Inl same_db [of w] show ?thesis by (simp add: run_def main_exit_def)
next
  case (Inr cfg)
  obtain es r w' where x: "run E B v w = (es, r, w')" by (cases "run E B v w") auto
  have open_end: "still_open [] es = Some []" using balanced_run [of E B v w] by (simp add: balanced_def x)
  obtain ms me w1 where m: "RunMigrations B (db_URL (cfg_Database cfg)) ''./migrations'' w = (ms, me, w1)"
    by (cases "RunMigrations B (db_URL (cfg_Database cfg)) ''./migrations'' w") auto
  have d: "\<exists>d. w1 = w\<lparr>w_db := d\<rparr>" using migration_only_db [of B cfg w] m by (simp add: migration_step_def)
  note end' = run_end [OF Inr x, unfolded migration_step_def m]
  show ?thesis
  proof (cases r)
    case None
    with end' have "setup_ok B cfg" "me = None" "ends_well E B cfg w1 (es, r, w')"
      by (auto split: if_splits option.splits)
    with None Inr m open_end show ?thesis unfolding x by (auto simp: main_exit_def ends_well_def)
  next
    case (Some e)
    with end' have "Seeded \<notin> set es" "w' = (if setup_ok B cfg then w1 else w)"
      by (auto simp: ends_well_def split: if_splits option.splits)
    with Some Inr m open_end d same_db [of w] show ?thesis unfolding x by (simp add: main_exit_def)
  qed
qed

end
