(* ===== verification/Client.thy ===== *)
theory Client
  imports Handlers
begin

text \<open>
  \<open>internal/client\<close>: the typed HTTP client of the command line.  The network is the record \<open>net\<close>: \<open>n_invalid\<close> is the
  error of \<open>http.NewRequestWithContext\<close> for a method and a URL, \<open>n_do\<close> is \<open>http.Client.Do\<close>, redirects, the timeout of
  15 seconds and reading the body included.  A body that is not one JSON document is no JSON value; a JSON number is
  an integer.
\<close>

section \<open>The network\<close>

record out_request =
  oq_method :: string
  oq_url :: string
  oq_headers :: "(string \<times> string) list"
  oq_body :: "json option"

record in_response =
  ir_status :: int
  ir_body :: "json option"

record 'n net =
  n_invalid :: "string \<Rightarrow> string \<Rightarrow> string option"
  n_do :: "out_request \<Rightarrow> 'n \<Rightarrow> (string + in_response) \<times> 'n"

section \<open>Error bodies\<close>

text \<open>
  \<open>apiErrorBody\<close> has a struct inside: decoding an object into it keeps the fields that the object does not name, so
  the decoder of the inner struct starts from the value it finds.
\<close>

fun dec_struct :: "('a \<Rightarrow> json \<Rightarrow> 'a \<times> bool) \<Rightarrow> string \<Rightarrow> (string \<times> json) list \<Rightarrow> 'a \<Rightarrow> bool \<Rightarrow> 'a \<times> bool" where
  "dec_struct conv f [] v ok = (v, ok)"
| "dec_struct conv f ((k, j) # ps) v ok =
     (if key_is f k then (let (v', ok') = conv v j in dec_struct conv f ps v' (ok \<and> ok'))
      else dec_struct conv f ps v ok)"

definition json_int :: "json \<Rightarrow> int option" where
  "json_int j = (case j of JInt n \<Rightarrow> if in_int64 n then Some n else None | _ \<Rightarrow> None)"

definition apiError_fields :: "int \<times> string \<Rightarrow> json \<Rightarrow> (int \<times> string) \<times> bool" where
  "apiError_fields v j =
     (case obj_pairs j of
        None \<Rightarrow> (v, False)
      | Some ps \<Rightarrow>
          (let (c, ok1) = dec_field json_int ''code'' ps (fst v) True;
               (m, ok2) = dec_field json_str ''message'' ps (snd v) ok1
           in ((c, m), ok2)))"

definition apiErrorBody_decode :: "json \<Rightarrow> (int \<times> string) option" where
  "apiErrorBody_decode j =
     (case obj_pairs j of
        None \<Rightarrow> None
      | Some ps \<Rightarrow> (let (v, ok) = dec_struct apiError_fields ''error'' ps (0, []) True in if ok then Some v else None))"

section \<open>The client\<close>

record client =
  cl_baseURL :: string
  cl_token :: string

definition client_New :: "string \<Rightarrow> string \<Rightarrow> client" where
  "client_New baseURL token = \<lparr>cl_baseURL = baseURL, cl_token = token\<rparr>"

text \<open>The request of \<open>do\<close> and its headers.\<close>

definition out_request_of :: "client \<Rightarrow> string \<Rightarrow> string \<Rightarrow> json option \<Rightarrow> out_request" where
  "out_request_of c method path body = \<lparr>oq_method = method, oq_url = cl_baseURL c @ path,
     oq_headers = [(''Accept'', ''application/json'')] @
       (if body \<noteq> None then [(''Content-Type'', ''application/json'')] else []) @
       (if cl_token c \<noteq> [] then [(''Authorization'', ''Bearer '' @ cl_token c)] else []),
     oq_body = body\<rparr>"

text \<open>
  \<open>body\<close> is what \<open>json.Marshal\<close> makes of the payload, when there is one; \<open>out\<close> decodes the answer, when it is wanted,
  and \<open>zero\<close> is the value \<open>out\<close> points to before.
\<close>

definition Client_do ::
    "'n net \<Rightarrow> client \<Rightarrow> string \<Rightarrow> string \<Rightarrow> (goerr + json) option \<Rightarrow> (json \<Rightarrow> 'a option) option \<Rightarrow> 'a \<Rightarrow> 'n \<Rightarrow>
     (goerr + 'a) \<times> 'n" where
  "Client_do N c method path body out zero s =
     (case body of
        Some (Inl e) \<Rightarrow> (Inl (Wrapf ''request failed: marshal body: '' e), s)
      | _ \<Rightarrow>
     (let q = out_request_of c method path (case body of Some (Inr j) \<Rightarrow> Some j | _ \<Rightarrow> None)
      in case n_invalid N method (oq_url q) of
           Some m \<Rightarrow> (Inl (Wrapf ''request failed: '' (ExtErr m)), s)
         | None \<Rightarrow>
     (case n_do N q s of
        (Inl m, s1) \<Rightarrow> (Inl (Wrapf ''request failed: '' (ExtErr m)), s1)
      | (Inr resp, s1) \<Rightarrow>
          if ir_status resp = 204 then (Inr zero, s1)
          else if ir_status resp \<ge> 400 then
            (case Option.bind (ir_body resp) apiErrorBody_decode of
               None \<Rightarrow> (Inl (Errorf (''API '' @ itoa (ir_status resp) @ '': unexpected response'')), s1)
             | Some (code, msg) \<Rightarrow>
                 if msg = [] then (Inl (Errorf (''API '' @ itoa (ir_status resp) @ '': unexpected response'')), s1)
                 else (Inl (Errorf (''API '' @ itoa (ir_status resp) @ '': '' @ msg)), s1))
          else
            (case out of
               None \<Rightarrow> (Inr zero, s1)
             | Some dec \<Rightarrow>
                 (case Option.bind (ir_body resp) dec of
                    None \<Rightarrow> (Inl (Wrapf ''request failed: decode response: '' (ExtErr ''json: cannot decode'')), s1)
                  | Some v \<Rightarrow> (Inr v, s1))))))"

section \<open>Authentication calls\<close>

record login_response =
  lr_AccessToken :: string
  lr_ExpiresAt :: int

definition zero_login :: login_response where
  "zero_login = \<lparr>lr_AccessToken = [], lr_ExpiresAt = time_zero\<rparr>"

definition LoginResponse_decode :: "'c codec_scheme \<Rightarrow> json \<Rightarrow> login_response option" where
  "LoginResponse_decode C j =
     (case obj_pairs j of
        None \<Rightarrow> None
      | Some ps \<Rightarrow>
          (let (a, ok1) = dec_field json_str ''access_token'' ps [] True;
               (x, ok2) = dec_field (dec_time C) ''expires_at'' ps time_zero ok1
           in if ok2 then Some \<lparr>lr_AccessToken = a, lr_ExpiresAt = x\<rparr> else None))"

definition credentials_json :: "string \<Rightarrow> string \<Rightarrow> json" where
  "credentials_json email password = JObj [(''email'', JStr email), (''password'', JStr password)]"

definition AuthService_Login ::
    "'c codec_scheme \<Rightarrow> 'n net \<Rightarrow> client \<Rightarrow> string \<Rightarrow> string \<Rightarrow> 'n \<Rightarrow> (goerr + login_response) \<times> 'n" where
  "AuthService_Login C N c email password s =
     Client_do N c ''POST'' ''/api/v1/auth/login'' (Some (Inr (credentials_json email password)))
       (Some (LoginResponse_decode C)) zero_login s"

definition AuthService_Logout :: "'n net \<Rightarrow> client \<Rightarrow> 'n \<Rightarrow> (goerr + unit) \<times> 'n" where
  "AuthService_Logout N c s = Client_do N c ''POST'' ''/api/v1/auth/logout'' None None () s"

section \<open>User calls\<close>

record client_user =
  cu_ID :: string
  cu_Email :: string
  cu_Role :: string
  cu_IsActive :: bool
  cu_CreatedAt :: int

definition zero_client_user :: client_user where
  "zero_client_user = \<lparr>cu_ID = [], cu_Email = [], cu_Role = [], cu_IsActive = False, cu_CreatedAt = time_zero\<rparr>"

definition client_user_decode :: "'c codec_scheme \<Rightarrow> json \<Rightarrow> client_user option" where
  "client_user_decode C j =
     (case obj_pairs j of
        None \<Rightarrow> None
      | Some ps \<Rightarrow>
          (let (i, ok1) = dec_field json_str ''id'' ps [] True;
               (e, ok2) = dec_field json_str ''email'' ps [] ok1;
               (r, ok3) = dec_field json_str ''role'' ps [] ok2;
               (a, ok4) = dec_field json_bool ''is_active'' ps False ok3;
               (t, ok5) = dec_field (dec_time C) ''created_at'' ps time_zero ok4
           in if ok5 then Some \<lparr>cu_ID = i, cu_Email = e, cu_Role = r, cu_IsActive = a, cu_CreatedAt = t\<rparr> else None))"

text \<open>A list of pointers: \<open>null\<close> is the nil slice (here \<open>None\<close>), and a nil pointer inside.  (Of two arrays under one key the last
  counts as a whole.)\<close>

record client_page =
  cp_Data :: "client_user option list option"
  cp_Total :: int
  cp_Page :: int
  cp_PerPage :: int

definition zero_client_page :: client_page where
  "zero_client_page = \<lparr>cp_Data = None, cp_Total = 0, cp_Page = 0, cp_PerPage = 0\<rparr>"

definition users_decode :: "'c codec_scheme \<Rightarrow> json \<Rightarrow> client_user option list option" where
  "users_decode C j =
     (case j of
        JArr js \<Rightarrow> those (map (\<lambda>x. if x = JNull then Some None else map_option Some (client_user_decode C x)) js)
      | _ \<Rightarrow> None)"

definition client_page_decode :: "'c codec_scheme \<Rightarrow> json \<Rightarrow> client_page option" where
  "client_page_decode C j =
     (case obj_pairs j of
        None \<Rightarrow> None
      | Some ps \<Rightarrow>
          (let (d, ok1) = dec_ptr (users_decode C) ''data'' ps None True;
               (t, ok2) = dec_field json_int ''total'' ps 0 ok1;
               (p, ok3) = dec_field json_int ''page'' ps 0 ok2;
               (n, ok4) = dec_field json_int ''per_page'' ps 0 ok3
           in if ok4 then Some \<lparr>cp_Data = d, cp_Total = t, cp_Page = p, cp_PerPage = n\<rparr> else None))"

text \<open>The patch body: nil fields are omitted.\<close>

definition UpdateUserRequest_json :: "update_user_request \<Rightarrow> json" where
  "UpdateUserRequest_json p = JObj
     ((case p_Email p of None \<Rightarrow> [] | Some e \<Rightarrow> [(''email'', JStr e)]) @
      (case p_Role p of None \<Rightarrow> [] | Some r \<Rightarrow> [(''role'', JStr r)]) @
      (case p_IsActive p of None \<Rightarrow> [] | Some a \<Rightarrow> [(''is_active'', JBool a)]))"

definition AuthService_Register ::
    "'c codec_scheme \<Rightarrow> 'n net \<Rightarrow> client \<Rightarrow> string \<Rightarrow> string \<Rightarrow> 'n \<Rightarrow> (goerr + client_user) \<times> 'n" where
  "AuthService_Register C N c email password s =
     Client_do N c ''POST'' ''/api/v1/auth/register'' (Some (Inr (credentials_json email password)))
       (Some (client_user_decode C)) zero_client_user s"

definition UsersService_Me :: "'c codec_scheme \<Rightarrow> 'n net \<Rightarrow> client \<Rightarrow> 'n \<Rightarrow> (goerr + client_user) \<times> 'n" where
  "UsersService_Me C N c s =
     Client_do N c ''GET'' ''/api/v1/users/me'' None (Some (client_user_decode C)) zero_client_user s"

definition UsersService_Get :: "'c codec_scheme \<Rightarrow> 'n net \<Rightarrow> client \<Rightarrow> string \<Rightarrow> 'n \<Rightarrow> (goerr + client_user) \<times> 'n" where
  "UsersService_Get C N c i s =
     Client_do N c ''GET'' (''/api/v1/users/'' @ i) None (Some (client_user_decode C)) zero_client_user s"

definition list_path :: "int \<Rightarrow> int \<Rightarrow> string" where
  "list_path page perPage = ''/api/v1/users?page='' @ itoa page @ ''&per_page='' @ itoa perPage"

definition UsersService_List ::
    "'c codec_scheme \<Rightarrow> 'n net \<Rightarrow> client \<Rightarrow> int \<Rightarrow> int \<Rightarrow> 'n \<Rightarrow> (goerr + client_page) \<times> 'n" where
  "UsersService_List C N c page perPage s =
     Client_do N c ''GET'' (list_path page perPage) None
       (Some (client_page_decode C)) zero_client_page s"

definition UsersService_Update ::
    "'c codec_scheme \<Rightarrow> 'n net \<Rightarrow> client \<Rightarrow> string \<Rightarrow> update_user_request \<Rightarrow> 'n \<Rightarrow> (goerr + client_user) \<times> 'n" where
  "UsersService_Update C N c i req s =
     Client_do N c ''PUT'' (''/api/v1/users/'' @ i) (Some (Inr (UpdateUserRequest_json req)))
       (Some (client_user_decode C)) zero_client_user s"

definition UsersService_Delete :: "'n net \<Rightarrow> client \<Rightarrow> string \<Rightarrow> 'n \<Rightarrow> (goerr + unit) \<times> 'n" where
  "UsersService_Delete N c i s = Client_do N c ''DELETE'' (''/api/v1/users/'' @ i) None None () s"

end
