(* ===== verification/Client_Props.thy ===== *)
theory Client_Props
  imports Client User_Props Response_Headers
begin

text \<open>
  The client against the server: a network that runs a handler of the server, what the client makes of its answers and
  of its errors, and what of a patch arrives at the service.
\<close>

section \<open>A handler as the network\<close>

text \<open>\<open>arrive\<close> is the request the server reads for one the client sent; a panic closes the connection.\<close>

definition body_json :: "body list \<Rightarrow> json option" where
  "body_json bs = (case bs of [BJson j] \<Rightarrow> Some j | _ \<Rightarrow> None)"

definition reply_of :: "rw \<Rightarrow> in_response" where
  "reply_of r = \<lparr>ir_status = status_of r, ir_body = body_json (rw_body r)\<rparr>"

definition serve_net :: "(out_request \<Rightarrow> request) \<Rightarrow> 'w handler \<Rightarrow> 'w net" where
  "serve_net arrive H = \<lparr>n_invalid = (\<lambda>_ _. None),
     n_do = (\<lambda>q w. let v = H (arrive q) new_rw w
       in (if sv_panic v = None then Inr (reply_of (sv_rw v)) else Inl ''EOF'', sv_world v))\<rparr>"

definition mirror :: "'c codec_scheme \<Rightarrow> user_response \<Rightarrow> client_user" where
  "mirror C u = \<lparr>cu_ID = uuidString C (r_ID u), cu_Email = r_Email u, cu_Role = r_Role u, cu_IsActive = r_IsActive u,
     cu_CreatedAt = r_CreatedAt u\<rparr>"

text \<open>What the client reports for an error of the server.\<close>

definition api_error :: "goerr \<Rightarrow> goerr" where
  "api_error e = Errorf (''API '' @ itoa (fst (public_view e)) @ '': '' @ snd (public_view e))"

definition http_error :: "goerr \<Rightarrow> bool" where
  "http_error e \<longleftrightarrow> 400 \<le> fst (public_view e) \<and> fst (public_view e) < 600 \<and> snd (public_view e) \<noteq> []"

section \<open>Decoding what the server encodes\<close>

lemma client_user_decode_json:
  assumes "timeParse C (timeText C (r_CreatedAt u)) = Some (r_CreatedAt u)"
  shows "client_user_decode C (UserResponse_json C u) = Some (mirror C u)"
  using assms
  by (simp add: client_user_decode_def UserResponse_json_def obj_pairs_def dec_time_def json_str_def json_bool_def
      mirror_def Let_def user_keys)

lemma UserResponse_json_obj: "UserResponse_json C u \<noteq> JNull"
  by (simp add: UserResponse_json_def)

lemma those_map_Some: "(\<And>x. x \<in> set xs \<Longrightarrow> f x = Some (g x)) \<Longrightarrow> those (map f xs) = Some (map g xs)"
  by (induction xs) auto

lemma client_page_decode_json:
  assumes "\<forall>u \<in> set us. timeParse C (timeText C (r_CreatedAt u)) = Some (r_CreatedAt u)"
    and "in_int64 cnt" "in_int64 page" "in_int64 perPage"
  shows "client_page_decode C (ListUsersResponse_json C us cnt page perPage) =
    Some \<lparr>cp_Data = Some (map (\<lambda>u. Some (mirror C u)) us), cp_Total = cnt, cp_Page = page, cp_PerPage = perPage\<rparr>"
proof -
  have "users_decode C (JArr (map (UserResponse_json C) us)) = Some (map (\<lambda>u. Some (mirror C u)) us)"
    unfolding users_decode_def json.case list.map_comp comp_def
    by (rule those_map_Some) (use assms(1) in \<open>simp add: client_user_decode_json UserResponse_json_obj\<close>)
  then show ?thesis
    using assms(2-4)
    by (simp add: client_page_decode_def ListUsersResponse_json_def obj_pairs_def json_int_def Let_def user_keys)
qed

lemma UpdateUserRequest_decode_json: "UpdateUserRequest_decode (UpdateUserRequest_json p) = Some p"
proof (cases p)
  case (fields e r a)
  then show ?thesis
    by (cases e; cases r; cases a)
      (simp_all add: UpdateUserRequest_decode_def UpdateUserRequest_json_def obj_pairs_def json_str_def json_bool_def
        Let_def user_keys)
qed

lemma apiErrorBody_decode_json:
  "in_int64 c \<Longrightarrow> apiErrorBody_decode (ErrorResponse c m) = Some (c, m)"
  by (simp add: apiErrorBody_decode_def ErrorResponse_def apiError_fields_def obj_pairs_def json_int_def json_str_def
      Let_def user_keys)

section \<open>Calls through a handler\<close>

lemma call_error:
  assumes "H (arrive (out_request_of c m p body)) new_rw w = reply q (WriteError e new_rw) w1" and "http_error e"
  shows "fst (Client_do (serve_net arrive H) c m p (map_option Inr body) out zero w) = Inl (api_error e)"
proof -
  have b: "rw_body (WriteError e new_rw) = [BJson (ErrorResponse (fst (public_view e)) (snd (public_view e)))]"
    "status_of (WriteError e new_rw) = fst (public_view e)"
    using WriteError_fresh [of new_rw e] by (simp_all add: new_rw_def)
  have i: "in_int64 (fst (public_view e))" using assms(2) by (simp add: http_error_def in_int64_def)
  have d: "n_do (serve_net arrive H) (out_request_of c m p body) w =
      (Inr \<lparr>ir_status = fst (public_view e), ir_body = Some (ErrorResponse (fst (public_view e)) (snd (public_view e)))\<rparr>, w1)"
    using assms(1) by (simp add: serve_net_def reply_def reply_of_def b body_json_def)
  have n: "n_invalid (serve_net arrive H) k u = None" for k u by (simp add: serve_net_def)
  from assms(2) have "fst (public_view e) \<noteq> 204" "400 \<le> fst (public_view e)" "snd (public_view e) \<noteq> []"
    by (auto simp: http_error_def)
  moreover obtain k t where "public_view e = (k, t)" by fastforce
  ultimately show ?thesis
    using d i by (cases body) (simp_all add: Client_do_def n Let_def api_error_def apiErrorBody_decode_json)
qed

lemma call_json:
  assumes "H (arrive (out_request_of c m p body)) new_rw w = send_json E q st j new_rw w1"
    and "jsonText E j \<noteq> None" and "st < 400" and "st \<noteq> 204" and "dec j = Some v"
  shows "fst (Client_do (serve_net arrive H) c m p (map_option Inr body) (Some dec) zero w) = Inr v"
  using assms
  by (cases body) (auto simp: Client_do_def serve_net_def reply_of_def send_json_def encodeJSON_def reply_def body_json_def
      Let_def rw_defs new_rw_def status_of_def)

text \<open>
  C29.  The client sees the page the server computed: against the handler of \<open>GET /users\<close>, for a request that arrives
  with an administrator's role and the page asked for, the list call returns the users, the total, the page and the
  page size of the service's answer, each identifier in its text form and each time to the nanosecond; an error of
  the service is reported with its status and its public message.
\<close>

theorem client_list_mirrors_page:
  assumes "arrive (out_request_of c ''GET'' (list_path page perPage) None) = q"
    and "c_role (q_ctx q) = Some ''admin''" and "list_page q = (page, perPage)"
    and "in_int64 page" and "in_int64 perPage"
    and "svc_List svc perPage (wrap64 (wrap64 (page - 1) * perPage)) w = (res, w1)"
    and "\<forall>us cnt. res = Inr (us, cnt) \<longrightarrow> in_int64 cnt \<and> jsonText E (ListUsersResponse_json E us cnt page perPage) \<noteq> None \<and>
      (\<forall>u \<in> set us. timeParse E (timeText E (r_CreatedAt u)) = Some (r_CreatedAt u))"
    and "\<forall>e. res = Inl e \<longrightarrow> http_error e"
  shows "fst (UsersService_List E (serve_net arrive (UserHandler_ListUsers E svc)) c page perPage w) =
    (case res of
       Inl e \<Rightarrow> Inl (api_error e)
     | Inr (us, cnt) \<Rightarrow> Inr \<lparr>cp_Data = Some (map (\<lambda>u. Some (mirror E u)) us), cp_Total = cnt, cp_Page = page, cp_PerPage = perPage\<rparr>)"
proof (cases res)
  case (Inl e)
  have h: "UserHandler_ListUsers E svc (arrive (out_request_of c ''GET'' (list_path page perPage) None)) new_rw w =
      reply q (WriteError e new_rw)
        (end_failed ''handler/ListUsers'' [(''pagination.page'', itoa page), (''pagination.per_page'', itoa perPage)] e w1)"
    using assms(1-3,6) Inl by (simp add: UserHandler_ListUsers_def ctx_string_def send_error_def Let_def)
  from call_error [where arrive = arrive and H = "UserHandler_ListUsers E svc", OF h] assms(8) Inl show ?thesis by (simp add: UsersService_List_def)
next
  case (Inr p)
  obtain us cnt where p: "p = (us, cnt)" by fastforce
  have h: "UserHandler_ListUsers E svc (arrive (out_request_of c ''GET'' (list_path page perPage) None)) new_rw w =
      send_json E q 200 (ListUsersResponse_json E us cnt page perPage) new_rw
        (end_ok ''handler/ListUsers'' [(''pagination.page'', itoa page), (''pagination.per_page'', itoa perPage)] w1)"
    using assms(1-3,6) Inr p by (simp add: UserHandler_ListUsers_def ctx_string_def Let_def)
  have d: "client_page_decode E (ListUsersResponse_json E us cnt page perPage) =
      Some \<lparr>cp_Data = Some (map (\<lambda>u. Some (mirror E u)) us), cp_Total = cnt, cp_Page = page, cp_PerPage = perPage\<rparr>"
    using assms(4,5,7) Inr p by (intro client_page_decode_json) auto
  have "jsonText E (ListUsersResponse_json E us cnt page perPage) \<noteq> None" using assms(7) Inr p by simp
  from call_json [where arrive = arrive and H = "UserHandler_ListUsers E svc" and dec = "client_page_decode E", OF h this _ _ d] show ?thesis using Inr p by (simp add: UsersService_List_def)
qed

definition ref_list_request :: request where
  "ref_list_request = ref_request\<lparr>q_query := [(''page'', ''1''), (''per_page'', ''20'')],
     q_ctx := empty_ctx\<lparr>c_role := Some ''admin''\<rparr>\<rparr>"

lemma ref_up_codec: "jsonText ref_up_env j \<noteq> None" "timeParse ref_up_env (timeText ref_up_env t) = Some t"
  by (simp_all add: ref_up_env_def)

definition ref_client :: client where
  "ref_client = client_New ''http://localhost:8080'' ''token''"

definition ref_patch :: update_user_request where
  "ref_patch = \<lparr>p_Email = Some ''new@b.c'', p_Role = None, p_IsActive = Some False\<rparr>"

theorem client_list_mirrors_page_witness:
  "case fst (UsersService_List ref_up_env
       (serve_net (\<lambda>_. ref_list_request) (UserHandler_ListUsers ref_up_env (main_userSvc ref_up_env))) ref_client 1 20
       (ref_world 7 ref_tables [] [])) of
     Inr p \<Rightarrow> map_option (map (map_option cu_Email)) (cp_Data p) = Some [Some ''x@y.z'', Some ''a@b.c''] \<and> cp_Total p = 2
   | Inl _ \<Rightarrow> False"
proof -
  define us where "us = map User_ToResponse (rev (users ref_tables))"
  define r where "r = svc_List (main_userSvc ref_up_env) 20 (wrap64 (wrap64 (1 - 1) * 20)) (ref_world 7 ref_tables [] [])"
  have f: "fst r = Inr (us, 2)" "map r_Email us = [''x@y.z'', ''a@b.c'']" unfolding r_def us_def by code_simp+
  then have l: "svc_List (main_userSvc ref_up_env) 20 (wrap64 (wrap64 (1 - 1) * 20)) (ref_world 7 ref_tables [] []) =
      (Inr (us, 2), snd r)" by (simp add: r_def prod_eq_iff)
  have q: "c_role (q_ctx ref_list_request) = Some ''admin''" "list_page ref_list_request = (1, 20)" by code_simp+
  have i: "in_int64 1" "in_int64 20" by (simp_all add: in_int64_def)
  have "fst (UsersService_List ref_up_env (serve_net (\<lambda>_. ref_list_request)
      (UserHandler_ListUsers ref_up_env (main_userSvc ref_up_env))) ref_client 1 20 (ref_world 7 ref_tables [] [])) =
    Inr \<lparr>cp_Data = Some (map (\<lambda>u. Some (mirror ref_up_env u)) us), cp_Total = 2, cp_Page = 1, cp_PerPage = 20\<rparr>"
    using client_list_mirrors_page [where E = ref_up_env, OF refl q i l] by (simp add: ref_up_codec in_int64_def)
  moreover have "map (\<lambda>u. Some (cu_Email (mirror ref_up_env u))) us = map Some (map r_Email us)" by (simp add: mirror_def)
  ultimately show ?thesis by (simp add: f(2) comp_def)
qed


definition ref_arrive :: "out_request \<Rightarrow> request" where
  "ref_arrive out = ref_request\<lparr>q_method := oq_method out, q_params := [(''id'', ''5'')], q_body := oq_body out,
     q_ctx := empty_ctx\<lparr>c_userID := Some ''5'', c_role := Some ''user''\<rparr>\<rparr>"


end
