(* ===== verification/Configstore.thy ===== *)
theory Configstore
  imports Jwt
begin

text \<open>
  \<open>pkg/configstore\<close>: the configuration file of the command line.  The operating system and the YAML library are the
  record \<open>os\<close>; what is assumed of its files is the locale \<open>file_system\<close>: a successful write replaces the content of
  its file, a failed one may leave anything in it, and no call touches another file.
\<close>

section \<open>Paths\<close>

text \<open>\<open>filepath.Clean\<close> and \<open>filepath.Join\<close> on Unix: empty and dot elements go, a double dot removes the element before
  it where there is one.\<close>

fun clean_step :: "bool \<Rightarrow> string list \<Rightarrow> string \<Rightarrow> string list" where
  "clean_step rooted st e =
     (if e = [] \<or> e = ''.'' then st
      else if e = ''..'' then
        (case st of [] \<Rightarrow> if rooted then [] else [''..''] | x # r \<Rightarrow> if x = ''..'' then ''..'' # st else r)
      else e # st)"

definition fp_Clean :: "string \<Rightarrow> string" where
  "fp_Clean p =
     (if p = [] then ''.''
      else let rooted = (hd p = CHR ''/'');
               s = join ''/'' (rev (foldl (clean_step rooted) [] (Split (CHR ''/'') p)))
           in if rooted then CHR ''/'' # s else if s = [] then ''.'' else s)"

definition fp_Join :: "string list \<Rightarrow> string" where
  "fp_Join es = (let es' = dropWhile (\<lambda>e. e = []) es in if es' = [] then [] else fp_Clean (join ''/'' es'))"

section \<open>The operating system\<close>

text \<open>What is stored: the address of the API, the access token and its expiry.\<close>

record stored =
  st_APIURL :: string
  st_AccessToken :: string
  st_ExpiresAt :: int

definition zero_stored :: stored where
  "zero_stored = \<lparr>st_APIURL = [], st_AccessToken = [], st_ExpiresAt = time_zero\<rparr>"

text \<open>A failed read says whether \<open>os.IsNotExist\<close> holds of its error.\<close>

record 'f os =
  os_Getenv :: "string \<Rightarrow> string"
  os_UserHomeDir :: "goerr + string"
  os_ReadFile :: "string \<Rightarrow> 'f \<Rightarrow> (bool \<times> goerr) + string"
  os_MkdirAll :: "string \<Rightarrow> nat \<Rightarrow> 'f \<Rightarrow> goerr option \<times> 'f"
  os_WriteFile :: "string \<Rightarrow> string \<Rightarrow> nat \<Rightarrow> 'f \<Rightarrow> goerr option \<times> 'f"
  os_Chmod :: "string \<Rightarrow> nat \<Rightarrow> 'f \<Rightarrow> goerr option \<times> 'f"
  yaml_Marshal :: "stored \<Rightarrow> goerr + string"
  yaml_Unmarshal :: "string \<Rightarrow> goerr + stored"

section \<open>Operations\<close>

definition store_Dir :: "'f os \<Rightarrow> goerr + string" where
  "store_Dir F =
     (let base = os_Getenv F ''XDG_CONFIG_HOME''
      in if base = [] then
           (case os_UserHomeDir F of
              Inl e \<Rightarrow> Inl (Wrapf ''configstore: get home dir: '' e)
            | Inr home \<Rightarrow> Inr (fp_Join [fp_Join [home, ''.config''], ''kleido'']))
         else Inr (fp_Join [base, ''kleido'']))"

definition store_Path :: "'f os \<Rightarrow> goerr + string" where
  "store_Path F = (case store_Dir F of Inl e \<Rightarrow> Inl e | Inr dir \<Rightarrow> Inr (fp_Join [dir, ''config.yaml'']))"

text \<open>File modes: octal 600 is 384, octal 700 is 448.\<close>

definition store_Load :: "'f os \<Rightarrow> 'f \<Rightarrow> goerr + stored" where
  "store_Load F s =
     (case store_Path F of
        Inl e \<Rightarrow> Inl e
      | Inr p \<Rightarrow>
          (case os_ReadFile F p s of
             Inl (missing, e) \<Rightarrow> if missing then Inr zero_stored else Inl (Wrapf ''configstore: read: '' e)
           | Inr txt0 \<Rightarrow>
               (case yaml_Unmarshal F txt0 of
                  Inl e \<Rightarrow> Inl (Wrapf ''configstore: unmarshal: '' e)
                | Inr cfg \<Rightarrow> Inr cfg)))"

definition store_Save :: "'f os \<Rightarrow> stored \<Rightarrow> 'f \<Rightarrow> goerr option \<times> 'f" where
  "store_Save F cfg s =
     (case store_Dir F of
        Inl e \<Rightarrow> (Some e, s)
      | Inr dir \<Rightarrow>
     (case os_MkdirAll F dir 448 s of
        (Some e, s1) \<Rightarrow> (Some (Wrapf ''configstore: mkdir: '' e), s1)
      | (None, s1) \<Rightarrow>
     (let p = fp_Join [dir, ''config.yaml'']
      in case yaml_Marshal F cfg of
           Inl e \<Rightarrow> (Some (Wrapf ''configstore: marshal: '' e), s1)
         | Inr txt0 \<Rightarrow>
     (case os_WriteFile F p txt0 384 s1 of
        (Some e, s2) \<Rightarrow> (Some (Wrapf ''configstore: write: '' e), s2)
      | (None, s2) \<Rightarrow>
     (case os_Chmod F p 384 s2 of
        (Some e, s3) \<Rightarrow> (Some (Wrapf ''configstore: chmod: '' e), s3)
      | (None, s3) \<Rightarrow> (None, s3))))))"

definition store_ClearToken :: "'f os \<Rightarrow> 'f \<Rightarrow> goerr option \<times> 'f" where
  "store_ClearToken F s =
     (case store_Load F s of
        Inl e \<Rightarrow> (Some e, s)
      | Inr cfg \<Rightarrow> store_Save F (cfg\<lparr>st_AccessToken := [], st_ExpiresAt := time_zero\<rparr>) s)"

section \<open>What is assumed of the file system\<close>

unbundle bit_operations_syntax

text \<open>\<open>content\<close> reads a file and its mode off a state.  A new file has at most the permissions asked for.\<close>

locale file_system =
  fixes F :: "'f os" and content :: "'f \<Rightarrow> string \<Rightarrow> (string \<times> nat) option"
  assumes write_ok: "os_WriteFile F p d m s = (None, s') \<Longrightarrow>
      \<exists>m'. content s' = (content s)(p \<mapsto> (d, m')) \<and> (case content s p of None \<Rightarrow> m' AND m = m' | Some (_, m0) \<Rightarrow> m' = m0)"
    and write_fail: "os_WriteFile F p d m s = (Some e, s') \<Longrightarrow> q \<noteq> p \<Longrightarrow> content s' q = content s q"
    and chmod_ok: "os_Chmod F p m s = (None, s') \<Longrightarrow>
      content s' = (content s)(p := map_option (\<lambda>(d, _). (d, m)) (content s p))"
    and chmod_fail: "os_Chmod F p m s = (Some e, s') \<Longrightarrow> content s' = content s"
    and mkdir: "os_MkdirAll F p m s = (r, s') \<Longrightarrow> content s' = content s"
    and read_ok: "os_ReadFile F p s = Inr d \<Longrightarrow> \<exists>m. content s p = Some (d, m)"
    and read_missing: "os_ReadFile F p s = Inl (True, e) \<Longrightarrow> content s p = None"
begin

lemma path_of_dir: "store_Dir F = Inr dir \<Longrightarrow> store_Path F = Inr (fp_Join [dir, ''config.yaml''])"
  by (simp add: store_Path_def)

text \<open>Only the file of the store is ever written.\<close>

lemma save_other:
  assumes "store_Save F cfg s = (r, s')" and "store_Path F \<noteq> Inr q"
  shows "content s' q = content s q"
proof (cases "store_Dir F")
  case (Inl e)
  with assms(1) show ?thesis by (simp add: store_Save_def)
next
  case (Inr dir)
  define p where "p = fp_Join [dir, ''config.yaml'']"
  from Inr assms(2) have q: "q \<noteq> p" by (auto simp: path_of_dir p_def)
  obtain e1 s1 where m: "os_MkdirAll F dir 448 s = (e1, s1)" by fastforce
  note c1 = mkdir [OF m]
  show ?thesis
  proof (cases "e1 \<noteq> None \<or> (\<exists>e. yaml_Marshal F cfg = Inl e)")
    case True
    with assms(1) Inr m c1 show ?thesis by (auto simp: store_Save_def Let_def split: option.splits sum.splits)
  next
    case False
    then obtain txt0 where y: "yaml_Marshal F cfg = Inr txt0" by (cases "yaml_Marshal F cfg") auto
    obtain e2 s2 where wr: "os_WriteFile F p txt0 384 s1 = (e2, s2)" by fastforce
    have c2: "content s2 q = content s1 q"
      using wr q write_ok [of p txt0 384 s1 s2] write_fail [of p txt0 384 s1 _ s2 q] by (cases e2) auto
    obtain e3 s3 where ch: "os_Chmod F p 384 s2 = (e3, s3)" by fastforce
    have c3: "content s3 q = content s2 q"
      using ch q chmod_ok [of p 384 s2 s3] chmod_fail [of p 384 s2 _ s3] by (cases e3) auto
    from assms(1) Inr m False y wr ch have "s' \<in> {s2, s3}"
      by (auto simp: store_Save_def Let_def p_def [symmetric] split: option.splits)
    with c1 c2 c3 show ?thesis by auto
  qed
qed

lemma save_ok:
  assumes "store_Save F cfg s = (None, s')"
  obtains p d where "store_Path F = Inr p" "yaml_Marshal F cfg = Inr d" "content s' = (content s)(p \<mapsto> (d, 384))"
proof -
  from assms obtain dir s1 d s2 where x: "store_Dir F = Inr dir" "os_MkdirAll F dir 448 s = (None, s1)"
    "yaml_Marshal F cfg = Inr d" "os_WriteFile F (fp_Join [dir, ''config.yaml'']) d 384 s1 = (None, s2)"
    "os_Chmod F (fp_Join [dir, ''config.yaml'']) 384 s2 = (None, s')"
    by (auto simp: store_Save_def Let_def split: sum.splits prod.splits option.splits)
  obtain m' where "content s2 = (content s1)(fp_Join [dir, ''config.yaml''] \<mapsto> (d, m'))"
    using write_ok [OF x(4)] by blast
  with chmod_ok [OF x(5)] mkdir [OF x(2)] have "content s' = (content s)(fp_Join [dir, ''config.yaml''] \<mapsto> (d, 384))" by simp
  with path_of_dir [OF x(1)] x(3) show ?thesis by (rule that)
qed

lemma load_after_save:
  assumes "store_Save F cfg s = (None, s')"
    and "\<And>d. yaml_Marshal F cfg = Inr d \<Longrightarrow> yaml_Unmarshal F d = Inr cfg'"
    and "store_Load F s' = Inr c"
  shows "c = cfg'"
proof -
  obtain p d where x: "store_Path F = Inr p" "yaml_Marshal F cfg = Inr d" "content s' = (content s)(p \<mapsto> (d, 384))"
    by (rule save_ok [OF assms(1)])
  show ?thesis
  proof (cases "os_ReadFile F p s'")
    case (Inl b)
    with assms(3) x read_missing [of p s'] show ?thesis
      by (cases b) (auto simp: store_Load_def split: if_splits)
  next
    case (Inr txt0)
    with x read_ok [OF Inr] have "txt0 = d" by simp
    with assms(2) [OF x(2)] assms(3) x Inr show ?thesis by (simp add: store_Load_def)
  qed
qed

end

section \<open>A file system with a fault script\<close>

text \<open>Each change takes the next fault; a failed write leaves an empty file.  The text of a configuration is the list
  of its fields.\<close>

type_synonym ref_files = "(string \<Rightarrow> (string \<times> nat) option) \<times> bool list"

definition ref_change :: "(string \<Rightarrow> (string \<times> nat) option) \<Rightarrow> (string \<Rightarrow> (string \<times> nat) option) \<Rightarrow> bool list \<Rightarrow>
    goerr option \<times> ref_files" where
  "ref_change good bad fs =
     (case fs of
        True # r \<Rightarrow> (Some (ExtErr ''input/output error''), (bad, r))
      | _ \<Rightarrow> (None, (good, tl fs)))"

definition ref_yaml :: "string \<Rightarrow> goerr + stored" where
  "ref_yaml d =
     (case nets (Suc (length d)) d of
        Some [u, t, x] \<Rightarrow>
          (case dec_int x of
             Some n \<Rightarrow> Inr \<lparr>st_APIURL = u, st_AccessToken = t, st_ExpiresAt = n\<rparr>
           | None \<Rightarrow> Inl (ExtErr ''yaml: bad time''))
      | Some [] \<Rightarrow> Inr zero_stored
      | _ \<Rightarrow> Inl (ExtErr ''yaml: bad document''))"

definition ref_os :: "ref_files os" where
  "ref_os = \<lparr>
     os_Getenv = (\<lambda>k. if k = ''XDG_CONFIG_HOME'' then ''/home/u/.config'' else []),
     os_UserHomeDir = Inr ''/home/u'',
     os_ReadFile = (\<lambda>p s. case fst s p of None \<Rightarrow> Inl (True, ExtErr ''no such file'') | Some (d, m) \<Rightarrow> Inr d),
     os_MkdirAll = (\<lambda>p m s. ref_change (fst s) (fst s) (snd s)),
     os_WriteFile = (\<lambda>p d m s. let m' = (case fst s p of None \<Rightarrow> m | Some (_, m0) \<Rightarrow> m0)
       in ref_change ((fst s)(p \<mapsto> (d, m'))) ((fst s)(p \<mapsto> ([], m'))) (snd s)),
     os_Chmod = (\<lambda>p m s. ref_change ((fst s)(p := map_option (\<lambda>(d, _). (d, m)) (fst s p))) (fst s) (snd s)),
     yaml_Marshal = (\<lambda>c. Inr (concat (map net [st_APIURL c, st_AccessToken c, itoa (st_ExpiresAt c)]))),
     yaml_Unmarshal = ref_yaml\<rparr>"

lemma ref_os_simps [simp]:
  "os_ReadFile ref_os p s = (case fst s p of None \<Rightarrow> Inl (True, ExtErr ''no such file'') | Some (d, m) \<Rightarrow> Inr d)"
  "os_MkdirAll ref_os p m s = ref_change (fst s) (fst s) (snd s)"
  "os_WriteFile ref_os p d m s = (let m' = (case fst s p of None \<Rightarrow> m | Some (_, m0) \<Rightarrow> m0)
     in ref_change ((fst s)(p \<mapsto> (d, m'))) ((fst s)(p \<mapsto> ([], m'))) (snd s))"
  "os_Chmod ref_os p m s = ref_change ((fst s)(p := map_option (\<lambda>(d, _). (d, m)) (fst s p))) (fst s) (snd s)"
  "yaml_Marshal ref_os c = Inr (concat (map net [st_APIURL c, st_AccessToken c, itoa (st_ExpiresAt c)]))"
  "yaml_Unmarshal ref_os = ref_yaml"
  by (simp_all add: ref_os_def)

lemma ref_change_cases:
  "ref_change good bad fs = (r, s') \<Longrightarrow> (r = None \<and> fst s' = good) \<or> (r \<noteq> None \<and> fst s' = bad)"
  by (auto simp: ref_change_def split: list.splits bool.splits)

interpretation ref_files: file_system ref_os fst
  by unfold_locales
    (auto simp: Let_def fun_upd_def split: option.splits dest!: ref_change_cases)

lemma ref_yaml_roundtrip: "\<forall>c d. yaml_Marshal ref_os c = Inr d \<longrightarrow> yaml_Unmarshal ref_os d = Inr c"
proof (intro allI impI)
  fix c d
  assume "yaml_Marshal ref_os c = Inr d"
  then have d: "d = concat (map net [st_APIURL c, st_AccessToken c, itoa (st_ExpiresAt c)])" by simp
  have n: "1 \<le> length (net s)" for s by (simp add: net_def)
  have "3 \<le> length d" unfolding d using n [of "st_APIURL c"] n [of "st_AccessToken c"] n [of "itoa (st_ExpiresAt c)"] by simp
  then have "nets (Suc (length d)) d = Some [st_APIURL c, st_AccessToken c, itoa (st_ExpiresAt c)]"
    unfolding d by (intro nets_concat) simp
  then show "yaml_Unmarshal ref_os d = Inr c" by (simp add: ref_yaml_def)
qed

text \<open>
  What is saved is what is loaded: after a successful save, loading gives the saved configuration or reports that
  the file could not be read, never another or an empty one; the file has mode 600 whatever its mode was before, and
  no other file has changed.  Removing the token keeps the address and drops token and expiry.
\<close>

theorem configstore_roundtrip:
  assumes "file_system F content" and "\<forall>c d. yaml_Marshal F c = Inr d \<longrightarrow> yaml_Unmarshal F d = Inr c"
    and "store_Save F cfg s = (None, s1)" and "store_ClearToken F s1 = (None, s2)"
  shows "(case store_Load F s1 of Inr c \<Rightarrow> c = cfg | Inl e \<Rightarrow> \<exists>x. e = Wrapf ''configstore: read: '' x) \<and>
    (\<forall>c. store_Load F s2 = Inr c \<longrightarrow> c = cfg\<lparr>st_AccessToken := [], st_ExpiresAt := time_zero\<rparr>) \<and>
    (\<exists>p d. store_Path F = Inr p \<and> content s1 p = Some (d, 384) \<and> (\<forall>q. q \<noteq> p \<longrightarrow> content s2 q = content s q))"
proof -
  note fs = file_system.save_ok [OF assms(1)] file_system.load_after_save [OF assms(1)] file_system.save_other [OF assms(1)]
  obtain p d where x: "store_Path F = Inr p" "yaml_Marshal F cfg = Inr d" "content s1 = (content s)(p \<mapsto> (d, 384))"
    by (rule fs(1) [OF assms(3)])
  have l: "case store_Load F s1 of Inr c \<Rightarrow> c = cfg | Inl e \<Rightarrow> \<exists>x. e = Wrapf ''configstore: read: '' x"
  proof (cases "store_Load F s1")
    case (Inr c)
    with fs(2) [OF assms(3) _ Inr] assms(2) show ?thesis by simp
  next
    case (Inl e)
    then show ?thesis
      using x assms(2) file_system.read_missing [OF assms(1), of p s1] file_system.read_ok [OF assms(1), of p s1]
      by (auto simp: store_Load_def split: sum.splits if_splits prod.splits)
  qed
  from assms(4) obtain c where c: "store_Load F s1 = Inr c"
    "store_Save F (c\<lparr>st_AccessToken := [], st_ExpiresAt := time_zero\<rparr>) s1 = (None, s2)"
    by (auto simp: store_ClearToken_def split: sum.splits)
  with l have "c = cfg" by simp
  with fs(2) [OF c(2)] assms(2)
  have "\<forall>c. store_Load F s2 = Inr c \<longrightarrow> c = cfg\<lparr>st_AccessToken := [], st_ExpiresAt := time_zero\<rparr>" by blast
  moreover have "content s2 q = content s q" if "q \<noteq> p" for q
    using fs(3) [OF c(2), of q] x(1,3) that by simp
  ultimately show ?thesis using l x by auto
qed

definition ref_stored :: stored where
  "ref_stored = \<lparr>st_APIURL = ''http://localhost:8080'', st_AccessToken = ''token'', st_ExpiresAt = 90\<rparr>"

lemma ref_dir [simp]: "store_Dir ref_os = Inr ''/home/u/.config/kleido''" by code_simp

lemma ref_save:
  "store_Save ref_os c (m, []) = (None, (m(''/home/u/.config/kleido/config.yaml'' \<mapsto>
     (concat (map net [st_APIURL c, st_AccessToken c, itoa (st_ExpiresAt c)]), 384)), []))"
proof -
  have "fp_Join [''/home/u/.config/kleido'', ''config.yaml''] = ''/home/u/.config/kleido/config.yaml''" by code_simp
  then show ?thesis by (simp add: store_Save_def ref_change_def Let_def)
qed

lemma ref_load_save: "store_Load ref_os (snd (store_Save ref_os c (m, []))) = Inr c"
proof -
  have "fp_Join [''/home/u/.config/kleido'', ''config.yaml''] = ''/home/u/.config/kleido/config.yaml''" by code_simp
  then have p: "store_Path ref_os = Inr ''/home/u/.config/kleido/config.yaml''" by (simp add: store_Path_def)
  from ref_yaml_roundtrip have "ref_yaml (concat (map net [st_APIURL c, st_AccessToken c, itoa (st_ExpiresAt c)])) = Inr c"
    by (metis ref_os_simps(5,6))
  then show ?thesis by (simp add: store_Load_def p ref_save del: concat.simps list.map)
qed

theorem configstore_roundtrip_witness:
  "let s1 = snd (store_Save ref_os ref_stored (Map.empty(''/home/u/.config/kleido/config.yaml'' \<mapsto> ([], 420)), []));
       s2 = snd (store_ClearToken ref_os s1)
   in (\<exists>d. fst s1 ''/home/u/.config/kleido/config.yaml'' = Some (d, 384)) \<and>
      store_Load ref_os s1 = Inr ref_stored \<and>
      (\<forall>c. store_Load ref_os s2 = Inr c \<longrightarrow> c = ref_stored\<lparr>st_AccessToken := [], st_ExpiresAt := time_zero\<rparr>)"
proof -
  define s where "s = ((Map.empty(''/home/u/.config/kleido/config.yaml'' \<mapsto> ([], 420)), []) :: ref_files)"
  define s1 where "s1 = snd (store_Save ref_os ref_stored s)"
  define s2 where "s2 = snd (store_ClearToken ref_os s1)"
  have r: "store_Save ref_os ref_stored s = (None, s1)" by (simp add: s1_def s_def ref_save)
  have k: "store_Load ref_os s1 = Inr ref_stored" by (simp add: s1_def s_def ref_load_save)
  have c: "store_ClearToken ref_os s1 = (None, s2)"
    using k by (simp add: s2_def store_ClearToken_def) (simp add: s1_def s_def ref_save)
  have f: "\<exists>d. fst s1 ''/home/u/.config/kleido/config.yaml'' = Some (d, 384)" by (simp add: s1_def s_def ref_save)
  from configstore_roundtrip [OF ref_files.file_system_axioms ref_yaml_roundtrip r c] f k show ?thesis
    unfolding Let_def s_def [symmetric] s1_def [symmetric] s2_def [symmetric] by blast
qed

end
