(* ===== verification/Cli.thy ===== *)
theory Cli
  imports Client Configstore
begin

text \<open>
  \<open>internal/cli\<close> and \<open>cmd/cli\<close>: what each command does once cobra has parsed its flags and arguments.  A command runs in
  a \<open>shell\<close> (clock, files, network, the two output streams); the terminal and the libraries that lay out text are the
  record \<open>terminal\<close>.  A command returns an error or none, exits the process, or crashes on a nil pointer.
\<close>

section \<open>Shell and terminal\<close>

record ('f, 'n) shell =
  sh_now :: int
  sh_fs :: 'f
  sh_net :: 'n
  sh_out :: string
  sh_err :: string

datatype render_data = RUser client_user | RPage client_page | ROther json

text \<open>\<open>tm_scan\<close> is what \<open>Fscanln\<close> reads for the address, \<open>tm_password\<close> what \<open>term.ReadPassword\<close> reads, \<open>tm_line\<close> the next
  line of standard input; \<open>tm_table\<close> lays out a table, \<open>tm_json\<close> and \<open>tm_yaml\<close> are the indenting encoders.\<close>

record terminal =
  tm_scan :: "goerr + string"
  tm_password :: "goerr + string"
  tm_line :: "string option"
  tm_table :: "string list \<Rightarrow> string list list \<Rightarrow> string"
  tm_rfc3339 :: "int \<Rightarrow> string"
  tm_json :: "json \<Rightarrow> goerr + string"
  tm_yaml :: "render_data \<Rightarrow> goerr + string"

datatype outcome = Returned "goerr option" | Exited nat | Crashed

definition newline :: string where
  "newline = [CHR 0x0A]"

definition print :: "string \<Rightarrow> ('f, 'n) shell \<Rightarrow> ('f, 'n) shell" where
  "print t sh = sh\<lparr>sh_out := sh_out sh @ t\<rparr>"

definition print_err :: "string \<Rightarrow> ('f, 'n) shell \<Rightarrow> ('f, 'n) shell" where
  "print_err t sh = sh\<lparr>sh_err := sh_err sh @ t\<rparr>"

section \<open>Output (render.go)\<close>

definition client_user_json :: "'c codec_scheme \<Rightarrow> client_user \<Rightarrow> json" where
  "client_user_json C u = JObj
     [(''id'', JStr (cu_ID u)), (''email'', JStr (cu_Email u)), (''role'', JStr (cu_Role u)),
      (''is_active'', JBool (cu_IsActive u)), (''created_at'', JStr (timeText C (cu_CreatedAt u)))]"

definition client_page_json :: "'c codec_scheme \<Rightarrow> client_page \<Rightarrow> json" where
  "client_page_json C p = JObj
     [(''data'', case cp_Data p of None \<Rightarrow> JNull
         | Some us \<Rightarrow> JArr (map (\<lambda>u. case u of None \<Rightarrow> JNull | Some v \<Rightarrow> client_user_json C v) us)),
      (''total'', JInt (cp_Total p)), (''page'', JInt (cp_Page p)), (''per_page'', JInt (cp_PerPage p))]"

definition data_json :: "'c codec_scheme \<Rightarrow> render_data \<Rightarrow> json" where
  "data_json C d = (case d of RUser u \<Rightarrow> client_user_json C u | RPage p \<Rightarrow> client_page_json C p | ROther j \<Rightarrow> j)"

definition bool_text :: "bool \<Rightarrow> string" where
  "bool_text b = (if b then ''true'' else ''false'')"

definition renderUserTable :: "terminal \<Rightarrow> client_user \<Rightarrow> string" where
  "renderUserTable T u = tm_table T [''FIELD'', ''VALUE'']
     [[''ID'', cu_ID u], [''EMAIL'', cu_Email u], [''ROLE'', cu_Role u], [''ACTIVE'', bool_text (cu_IsActive u)],
      [''CREATED'', tm_rfc3339 T (cu_CreatedAt u)]]"

text \<open>A nil user in the list is dereferenced: \<open>None\<close> is the panic.\<close>

definition renderUsersTable :: "terminal \<Rightarrow> client_user option list \<Rightarrow> string option" where
  "renderUsersTable T us =
     map_option (\<lambda>vs. tm_table T [''ID'', ''EMAIL'', ''ROLE'', ''ACTIVE'', ''CREATED'']
         (map (\<lambda>u. [cu_ID u, cu_Email u, cu_Role u, bool_text (cu_IsActive u), tm_rfc3339 T (cu_CreatedAt u)]) vs))
       (those us)"

text \<open>The text written, an error, or (\<open>None\<close>) a panic.\<close>

definition renderTable :: "'c codec_scheme \<Rightarrow> terminal \<Rightarrow> render_data \<Rightarrow> (goerr + string) option" where
  "renderTable C T d =
     (case d of
        RUser u \<Rightarrow> Some (Inr (renderUserTable T u))
      | RPage p \<Rightarrow> map_option Inr (renderUsersTable T (case cp_Data p of None \<Rightarrow> [] | Some us \<Rightarrow> us))
      | ROther j \<Rightarrow>
          (case tm_json T j of
             Inl e \<Rightarrow> Some (Inl (Wrapf ''render table fallback json: '' e)) | Inr t \<Rightarrow> Some (Inr t)))"

definition renderOutput :: "'c codec_scheme \<Rightarrow> terminal \<Rightarrow> string \<Rightarrow> render_data \<Rightarrow> (goerr + string) option" where
  "renderOutput C T format d =
     (if format = ''json'' then
        (case tm_json T (data_json C d) of Inl e \<Rightarrow> Some (Inl (Wrapf ''render json: '' e)) | Inr t \<Rightarrow> Some (Inr t))
      else if format = ''yaml'' then
        (case tm_yaml T d of Inl e \<Rightarrow> Some (Inl (Wrapf ''render yaml: '' e)) | Inr t \<Rightarrow> Some (Inr t))
      else renderTable C T d)"

definition show_data :: "'c codec_scheme \<Rightarrow> terminal \<Rightarrow> string \<Rightarrow> render_data \<Rightarrow> ('f, 'n) shell \<Rightarrow> outcome \<times> ('f, 'n) shell" where
  "show_data C T format d sh =
     (case renderOutput C T format d of
        None \<Rightarrow> (Crashed, sh)
      | Some (Inl e) \<Rightarrow> (Returned (Some e), sh)
      | Some (Inr t) \<Rightarrow> (Returned None, print t sh))"

section \<open>The stored session (root.go)\<close>

definition checkAuth :: "'f os \<Rightarrow> ('f, 'n) shell \<Rightarrow> goerr + stored" where
  "checkAuth F sh =
     (case store_Load F (sh_fs sh) of
        Inl e \<Rightarrow> Inl (Wrapf ''load config: '' e)
      | Inr cfg \<Rightarrow>
          if st_AccessToken cfg = [] then
            Inl (Errorf (''not logged in '' @ em_dash @ '' run: kleido auth login''))
          else if st_ExpiresAt cfg \<noteq> time_zero \<and> sh_now sh > st_ExpiresAt cfg then
            Inl (Errorf (''access token has expired '' @ em_dash @ '' run: kleido auth login''))
          else Inr cfg)"

text \<open>\<open>requireAuth\<close> ends the process when there is no session; \<open>rest\<close> is what the command does with one.\<close>

definition requireAuth ::
    "'f os \<Rightarrow> (stored \<Rightarrow> ('f, 'n) shell \<Rightarrow> outcome \<times> ('f, 'n) shell) \<Rightarrow> ('f, 'n) shell \<Rightarrow> outcome \<times> ('f, 'n) shell" where
  "requireAuth F rest sh =
     (case checkAuth F sh of
        Inl e \<Rightarrow> (Exited 1, print_err (''Error: '' @ Error e @ newline) sh)
      | Inr cfg \<Rightarrow> rest cfg sh)"

definition newClient :: "stored \<Rightarrow> client" where
  "newClient cfg = client_New (st_APIURL cfg) (st_AccessToken cfg)"

text \<open>A call of the client from a command.\<close>

definition call :: "('n \<Rightarrow> (goerr + 'a) \<times> 'n) \<Rightarrow> ('f, 'n) shell \<Rightarrow> (goerr + 'a) \<times> ('f, 'n) shell" where
  "call f sh = (case f (sh_net sh) of (r, n) \<Rightarrow> (r, sh\<lparr>sh_net := n\<rparr>))"

section \<open>Authentication (auth.go)\<close>

definition readPassword :: "'f os \<Rightarrow> terminal \<Rightarrow> ('f, 'n) shell \<Rightarrow> (goerr + string) \<times> ('f, 'n) shell" where
  "readPassword F T sh =
     (if os_Getenv F ''MYAPP_PASSWORD'' \<noteq> [] then (Inr (os_Getenv F ''MYAPP_PASSWORD''), sh)
      else let sh' = print newline (print ''Password: '' sh)
           in case tm_password T of
                Inl e \<Rightarrow> (Inl (Wrapf ''read password: '' e), sh')
              | Inr p \<Rightarrow> (Inr p, sh'))"

definition auth_login ::
    "'c codec_scheme \<Rightarrow> 'f os \<Rightarrow> 'n net \<Rightarrow> terminal \<Rightarrow> string \<Rightarrow> ('f, 'n) shell \<Rightarrow> outcome \<times> ('f, 'n) shell" where
  "auth_login C F N T apiURL sh =
     (let sh0 = print ''Email: '' sh
      in case tm_scan T of
           Inl e \<Rightarrow> (Returned (Some (Wrapf ''read email: '' e)), sh0)
         | Inr email \<Rightarrow>
     (case readPassword F T sh0 of
        (Inl e, sh1) \<Rightarrow> (Returned (Some e), sh1)
      | (Inr password, sh1) \<Rightarrow>
     (case call (AuthService_Login C N (client_New apiURL []) email password) sh1 of
        (Inl e, sh2) \<Rightarrow> (Returned (Some (Wrapf [] e)), sh2)
      | (Inr resp, sh2) \<Rightarrow>
     (case store_Save F \<lparr>st_APIURL = apiURL, st_AccessToken = lr_AccessToken resp, st_ExpiresAt = lr_ExpiresAt resp\<rparr>
             (sh_fs sh2) of
        (Some e, fs) \<Rightarrow> (Returned (Some (Wrapf ''save config: '' e)), sh2\<lparr>sh_fs := fs\<rparr>)
      | (None, fs) \<Rightarrow> (Returned None, print (''Logged in successfully.'' @ newline) (sh2\<lparr>sh_fs := fs\<rparr>))))))"

definition auth_logout :: "'f os \<Rightarrow> 'n net \<Rightarrow> ('f, 'n) shell \<Rightarrow> outcome \<times> ('f, 'n) shell" where
  "auth_logout F N sh =
     (case checkAuth F sh of
        Inl _ \<Rightarrow> (Returned None, print (''Not logged in.'' @ newline) sh)
      | Inr cfg \<Rightarrow>
     (let (r, sh1) = call (AuthService_Logout N (newClient cfg)) sh;
          sh2 = (case r of
                   Inl e \<Rightarrow> print_err (''Warning: server logout failed: '' @ Error e @ newline) sh1
                 | Inr _ \<Rightarrow> sh1)
      in case store_ClearToken F (sh_fs sh2) of
           (Some e, fs) \<Rightarrow> (Returned (Some (Wrapf ''clear token: '' e)), sh2\<lparr>sh_fs := fs\<rparr>)
         | (None, fs) \<Rightarrow> (Returned None, print (''Logged out.'' @ newline) (sh2\<lparr>sh_fs := fs\<rparr>))))"

section \<open>Users (users.go)\<close>

text \<open>A command that shows what a call returned.\<close>

definition show_call ::
    "'c codec_scheme \<Rightarrow> terminal \<Rightarrow> string \<Rightarrow> ('a \<Rightarrow> render_data) \<Rightarrow> ('n \<Rightarrow> (goerr + 'a) \<times> 'n) \<Rightarrow> ('f, 'n) shell \<Rightarrow>
     outcome \<times> ('f, 'n) shell" where
  "show_call C T format k f sh =
     (case call f sh of
        (Inl e, sh1) \<Rightarrow> (Returned (Some (Wrapf [] e)), sh1)
      | (Inr v, sh1) \<Rightarrow> show_data C T format (k v) sh1)"

definition users_me ::
    "'c codec_scheme \<Rightarrow> 'f os \<Rightarrow> 'n net \<Rightarrow> terminal \<Rightarrow> string \<Rightarrow> ('f, 'n) shell \<Rightarrow> outcome \<times> ('f, 'n) shell" where
  "users_me C F N T format =
     requireAuth F (\<lambda>cfg. show_call C T format RUser (UsersService_Me C N (newClient cfg)))"

definition users_get ::
    "'c codec_scheme \<Rightarrow> 'f os \<Rightarrow> 'n net \<Rightarrow> terminal \<Rightarrow> string \<Rightarrow> string \<Rightarrow> ('f, 'n) shell \<Rightarrow> outcome \<times> ('f, 'n) shell" where
  "users_get C F N T format i =
     requireAuth F (\<lambda>cfg. show_call C T format RUser (UsersService_Get C N (newClient cfg) i))"

definition users_list ::
    "'c codec_scheme \<Rightarrow> 'f os \<Rightarrow> 'n net \<Rightarrow> terminal \<Rightarrow> string \<Rightarrow> int \<Rightarrow> int \<Rightarrow> ('f, 'n) shell \<Rightarrow> outcome \<times> ('f, 'n) shell" where
  "users_list C F N T format page perPage =
     requireAuth F (\<lambda>cfg. show_call C T format RPage (UsersService_List C N (newClient cfg) page perPage))"

text \<open>A flag that was given is set in the patch; \<open>--active\<close> counts as true for the text true only.\<close>

definition update_flags :: "string option \<Rightarrow> string option \<Rightarrow> string option \<Rightarrow> update_user_request" where
  "update_flags email role active =
     \<lparr>p_Email = email, p_Role = role, p_IsActive = map_option (\<lambda>a. a = ''true'') active\<rparr>"

definition users_update ::
    "'c codec_scheme \<Rightarrow> 'f os \<Rightarrow> 'n net \<Rightarrow> terminal \<Rightarrow> string \<Rightarrow> string \<Rightarrow> update_user_request \<Rightarrow> ('f, 'n) shell \<Rightarrow>
     outcome \<times> ('f, 'n) shell" where
  "users_update C F N T format i req =
     requireAuth F (\<lambda>cfg. show_call C T format RUser (UsersService_Update C N (newClient cfg) i req))"

definition confirmPrompt :: "terminal \<Rightarrow> string \<Rightarrow> ('f, 'n) shell \<Rightarrow> bool \<times> ('f, 'n) shell" where
  "confirmPrompt T message sh =
     (let sh' = print (message @ '' [y/N]: '') sh
      in case tm_line T of
           None \<Rightarrow> (False, sh')
         | Some line \<Rightarrow> (let answer = TrimSpace (ToLower line) in (answer = ''y'' \<or> answer = ''yes'', sh')))"

definition users_delete ::
    "'f os \<Rightarrow> 'n net \<Rightarrow> terminal \<Rightarrow> bool \<Rightarrow> string \<Rightarrow> ('f, 'n) shell \<Rightarrow> outcome \<times> ('f, 'n) shell" where
  "users_delete F N T yes i sh =
     (let (go, sh0) = (if yes then (True, sh) else confirmPrompt T (''Delete user '' @ i @ ''?'') sh)
      in if \<not> go then (Returned None, print (''Aborted.'' @ newline) sh0)
         else requireAuth F (\<lambda>cfg sh1.
             case call (UsersService_Delete N (newClient cfg) i) sh1 of
               (Inl e, sh2) \<Rightarrow> (Returned (Some (Wrapf [] e)), sh2)
             | (Inr _, sh2) \<Rightarrow> (Returned None, print (''User deleted.'' @ newline) sh2)) sh0)"

section \<open>Version, completion and the process\<close>

definition version_cmd :: "string \<Rightarrow> bool \<Rightarrow> ('f, 'n) shell \<Rightarrow> outcome \<times> ('f, 'n) shell" where
  "version_cmd appVersion short sh =
     (Returned None, print ((if short then appVersion else ''kleido version '' @ appVersion) @ newline) sh)"

text \<open>\<open>gen\<close> are cobra's generators, by the shell they are for; \<open>usage\<close> is \<open>cmd.Usage\<close>.\<close>

definition completion_cmd ::
    "(string \<Rightarrow> ('f, 'n) shell \<Rightarrow> goerr option \<times> ('f, 'n) shell) \<Rightarrow>
     (('f, 'n) shell \<Rightarrow> goerr option \<times> ('f, 'n) shell) \<Rightarrow> string \<Rightarrow> ('f, 'n) shell \<Rightarrow> outcome \<times> ('f, 'n) shell" where
  "completion_cmd gen usage arg sh =
     apfst Returned (if arg \<in> {''bash'', ''zsh'', ''fish'', ''powershell''} then gen arg sh else usage sh)"

section \<open>The command tree\<close>

text \<open>
  The tree as the code hands it to cobra: every command with its texts, its flags and their defaults, its check of the
  arguments and what it runs.
\<close>

datatype flag_value = FString string | FInt int | FBool bool

record flag_decl =
  fl_name :: string
  fl_shorthand :: string
  fl_default :: flag_value
  fl_usage :: string

text \<open>What a command reads of its flags: the values, and which were given.\<close>

record flag_state =
  fs_value :: "string \<Rightarrow> flag_value"
  fs_changed :: "string \<Rightarrow> bool"

type_synonym ('f, 'n) run = "string list \<Rightarrow> flag_state \<Rightarrow> ('f, 'n) shell \<Rightarrow> outcome \<times> ('f, 'n) shell"

datatype 'r cobra =
  Cobra (cc_Use: string) (cc_Short: string) (cc_Long: string) (cc_ExactArgs: "nat option")
    (cc_ValidArgs: "string list") (cc_Flags: "flag_decl list") (cc_PersistentFlags: "flag_decl list")
    (cc_RunE: "'r option") (cc_Commands: "'r cobra list")

definition leaf :: "string \<Rightarrow> string \<Rightarrow> nat option \<Rightarrow> flag_decl list \<Rightarrow> 'r \<Rightarrow> 'r cobra" where
  "leaf use short args flags run = Cobra use short [] args [] flags [] (Some run) []"

definition StringVar :: "string \<Rightarrow> string \<Rightarrow> string \<Rightarrow> flag_decl" where
  "StringVar n d u = \<lparr>fl_name = n, fl_shorthand = [], fl_default = FString d, fl_usage = u\<rparr>"

definition IntVar :: "string \<Rightarrow> int \<Rightarrow> string \<Rightarrow> flag_decl" where
  "IntVar n d u = \<lparr>fl_name = n, fl_shorthand = [], fl_default = FInt d, fl_usage = u\<rparr>"

definition BoolVarP :: "string \<Rightarrow> string \<Rightarrow> bool \<Rightarrow> string \<Rightarrow> flag_decl" where
  "BoolVarP n s d u = \<lparr>fl_name = n, fl_shorthand = s, fl_default = FBool d, fl_usage = u\<rparr>"

text \<open>The variable a flag is bound to.\<close>

definition string_var :: "flag_state \<Rightarrow> string \<Rightarrow> string" where
  "string_var fs n = (case fs_value fs n of FString s \<Rightarrow> s | _ \<Rightarrow> [])"

definition int_var :: "flag_state \<Rightarrow> string \<Rightarrow> int" where
  "int_var fs n = (case fs_value fs n of FInt i \<Rightarrow> i | _ \<Rightarrow> 0)"

definition bool_var :: "flag_state \<Rightarrow> string \<Rightarrow> bool" where
  "bool_var fs n = (case fs_value fs n of FBool b \<Rightarrow> b | _ \<Rightarrow> False)"

text \<open>A field of the patch is set when its flag was given.\<close>

definition changed_var :: "flag_state \<Rightarrow> string \<Rightarrow> string option" where
  "changed_var fs n = (if fs_changed fs n then Some (string_var fs n) else None)"

definition outputFormat :: "flag_state \<Rightarrow> string" where
  "outputFormat fs = string_var fs ''output''"

definition newAuthLoginCmd :: "'c codec_scheme \<Rightarrow> 'f os \<Rightarrow> 'n net \<Rightarrow> terminal \<Rightarrow> ('f, 'n) run cobra" where
  "newAuthLoginCmd C F N T =
     leaf ''login'' ''Authenticate and store credentials'' None
       [StringVar ''api-url'' ''http://localhost:8080'' ''API base URL'']
       (\<lambda>args fs. auth_login C F N T (string_var fs ''api-url''))"

definition newAuthLogoutCmd :: "'f os \<Rightarrow> 'n net \<Rightarrow> ('f, 'n) run cobra" where
  "newAuthLogoutCmd F N =
     leaf ''logout'' ''Revoke session and clear stored credentials'' None [] (\<lambda>args fs. auth_logout F N)"

definition newAuthCmd :: "'c codec_scheme \<Rightarrow> 'f os \<Rightarrow> 'n net \<Rightarrow> terminal \<Rightarrow> ('f, 'n) run cobra" where
  "newAuthCmd C F N T =
     Cobra ''auth'' ''Authentication commands'' [] None [] [] [] None
       [newAuthLoginCmd C F N T, newAuthLogoutCmd F N]"

definition newUsersMeCmd :: "'c codec_scheme \<Rightarrow> 'f os \<Rightarrow> 'n net \<Rightarrow> terminal \<Rightarrow> ('f, 'n) run cobra" where
  "newUsersMeCmd C F N T =
     leaf ''me'' ''Show the authenticated user's profile'' None []
       (\<lambda>args fs. users_me C F N T (outputFormat fs))"

definition newUsersGetCmd :: "'c codec_scheme \<Rightarrow> 'f os \<Rightarrow> 'n net \<Rightarrow> terminal \<Rightarrow> ('f, 'n) run cobra" where
  "newUsersGetCmd C F N T =
     leaf ''get <id>'' ''Get a user by UUID'' (Some 1) []
       (\<lambda>args fs. users_get C F N T (outputFormat fs) (hd args))"

definition newUsersListCmd :: "'c codec_scheme \<Rightarrow> 'f os \<Rightarrow> 'n net \<Rightarrow> terminal \<Rightarrow> ('f, 'n) run cobra" where
  "newUsersListCmd C F N T =
     leaf ''list'' ''List all users (admin only)'' None
       [IntVar ''page'' 1 ''Page number (1-based)'', IntVar ''per-page'' 20 ''Items per page (max 100)'']
       (\<lambda>args fs. users_list C F N T (outputFormat fs) (int_var fs ''page'') (int_var fs ''per-page''))"

definition newUsersUpdateCmd :: "'c codec_scheme \<Rightarrow> 'f os \<Rightarrow> 'n net \<Rightarrow> terminal \<Rightarrow> ('f, 'n) run cobra" where
  "newUsersUpdateCmd C F N T =
     leaf ''update <id>'' ''Update a user's fields'' (Some 1)
       [StringVar ''email'' [] ''New email address'', StringVar ''role'' [] ''New role (user|admin)'',
        StringVar ''active'' [] ''Set active status (true|false)'']
       (\<lambda>args fs. users_update C F N T (outputFormat fs) (hd args)
         (update_flags (changed_var fs ''email'') (changed_var fs ''role'') (changed_var fs ''active'')))"

definition newUsersDeleteCmd :: "'f os \<Rightarrow> 'n net \<Rightarrow> terminal \<Rightarrow> ('f, 'n) run cobra" where
  "newUsersDeleteCmd F N T =
     leaf ''delete <id>'' ''Delete (deactivate) a user (admin only)'' (Some 1)
       [BoolVarP ''yes'' ''y'' False ''Skip confirmation prompt'']
       (\<lambda>args fs. users_delete F N T (bool_var fs ''yes'') (hd args))"

definition newUsersCmd :: "'c codec_scheme \<Rightarrow> 'f os \<Rightarrow> 'n net \<Rightarrow> terminal \<Rightarrow> ('f, 'n) run cobra" where
  "newUsersCmd C F N T =
     Cobra ''users'' ''User management commands'' [] None [] [] [] None
       [newUsersMeCmd C F N T, newUsersGetCmd C F N T, newUsersListCmd C F N T, newUsersUpdateCmd C F N T,
        newUsersDeleteCmd F N T]"

definition newVersionCmd :: "string \<Rightarrow> ('f, 'n) run cobra" where
  "newVersionCmd appVersion =
     leaf ''version'' ''Print the CLI version'' None [BoolVarP ''short'' [] False ''Print only the version string'']
       (\<lambda>args fs. version_cmd appVersion (bool_var fs ''short''))"

definition completion_long :: string where
  "completion_long = concat (map (\<lambda>l. l @ newline)
     [''Generate a shell completion script for kleido.'', [],
      ''To load completions:'', [],
      ''Bash:'', ''  $ source <(kleido completion bash)'', [],
      ''Zsh:'', ''  $ kleido completion zsh > '' @ [CHR 0x22] @ ''${fpath[1]}/_kleido'' @ [CHR 0x22], [],
      ''Fish:'', ''  $ kleido completion fish | source'', [],
      ''PowerShell:'', ''  PS> kleido completion powershell | Out-String | Invoke-Expression''])"

definition newCompletionCmd ::
    "(string \<Rightarrow> ('f, 'n) shell \<Rightarrow> goerr option \<times> ('f, 'n) shell) \<Rightarrow>
     (('f, 'n) shell \<Rightarrow> goerr option \<times> ('f, 'n) shell) \<Rightarrow> ('f, 'n) run cobra" where
  "newCompletionCmd gen usage =
     Cobra ''completion [bash|zsh|fish|powershell]'' ''Generate shell completion script'' completion_long (Some 1)
       [''bash'', ''zsh'', ''fish'', ''powershell''] [] [] (Some (\<lambda>args fs. completion_cmd gen usage (hd args))) []"

definition NewRootCmd ::
    "'c codec_scheme \<Rightarrow> 'f os \<Rightarrow> 'n net \<Rightarrow> terminal \<Rightarrow> (string \<Rightarrow> ('f, 'n) shell \<Rightarrow> goerr option \<times> ('f, 'n) shell) \<Rightarrow>
     (('f, 'n) shell \<Rightarrow> goerr option \<times> ('f, 'n) shell) \<Rightarrow> string \<Rightarrow> ('f, 'n) run cobra" where
  "NewRootCmd C F N T gen usage appVersion =
     Cobra ''kleido'' (''kleido '' @ em_dash @ '' CLI for the kleido API'') [] None [] []
       [\<lparr>fl_name = ''output'', fl_shorthand = ''o'', fl_default = FString ''table'',
         fl_usage = ''Output format: table, json, yaml''\<rparr>] None
       [newAuthCmd C F N T, newUsersCmd C F N T, newVersionCmd appVersion, newCompletionCmd gen usage]"

section \<open>Running a command of the tree\<close>

text \<open>
  A user's request for a command of the tree: the leaf, its arguments, and the flags that were given.  It runs what the
  tree holds under that path, the first words of the use texts, with the declared default for every flag not given.
\<close>

datatype auth_args = ALogin "string option" | ALogout

datatype users_args =
    UMe
  | UGet string
  | UList "int option" "int option"
  | UUpdate string "string option" "string option" "string option"
  | UDelete bool string

datatype command = CAuth auth_args | CUsers users_args | CVersion bool | CCompletion string

definition command_path :: "command \<Rightarrow> string list" where
  "command_path cmd =
     (case cmd of
        CAuth (ALogin u) \<Rightarrow> [''auth'', ''login'']
      | CAuth ALogout \<Rightarrow> [''auth'', ''logout'']
      | CUsers UMe \<Rightarrow> [''users'', ''me'']
      | CUsers (UGet i) \<Rightarrow> [''users'', ''get'']
      | CUsers (UList p n) \<Rightarrow> [''users'', ''list'']
      | CUsers (UUpdate i e r a) \<Rightarrow> [''users'', ''update'']
      | CUsers (UDelete y i) \<Rightarrow> [''users'', ''delete'']
      | CVersion s \<Rightarrow> [''version'']
      | CCompletion x \<Rightarrow> [''completion''])"

definition command_args :: "command \<Rightarrow> string list" where
  "command_args cmd =
     (case cmd of
        CUsers (UGet i) \<Rightarrow> [i]
      | CUsers (UUpdate i e r a) \<Rightarrow> [i]
      | CUsers (UDelete y i) \<Rightarrow> [i]
      | CCompletion x \<Rightarrow> [x]
      | _ \<Rightarrow> [])"

definition opt_flag :: "string \<Rightarrow> ('a \<Rightarrow> flag_value) \<Rightarrow> 'a option \<Rightarrow> (string \<times> flag_value) list" where
  "opt_flag n k v = (case v of None \<Rightarrow> [] | Some x \<Rightarrow> [(n, k x)])"

definition command_flags :: "command \<Rightarrow> (string \<times> flag_value) list" where
  "command_flags cmd =
     (case cmd of
        CAuth (ALogin u) \<Rightarrow> opt_flag ''api-url'' FString u
      | CUsers (UList p n) \<Rightarrow> opt_flag ''page'' FInt p @ opt_flag ''per-page'' FInt n
      | CUsers (UUpdate i e r a) \<Rightarrow> opt_flag ''email'' FString e @ opt_flag ''role'' FString r @ opt_flag ''active'' FString a
      | CUsers (UDelete y i) \<Rightarrow> [(''yes'', FBool y)]
      | CVersion s \<Rightarrow> [(''short'', FBool s)]
      | _ \<Rightarrow> [])"

definition flag_state_of :: "flag_decl list \<Rightarrow> (string \<times> flag_value) list \<Rightarrow> flag_state" where
  "flag_state_of ds flags =
     \<lparr>fs_value = (\<lambda>n. case map_of flags n of
          Some v \<Rightarrow> v
        | None \<Rightarrow> (case find (\<lambda>d. fl_name d = n) ds of Some d \<Rightarrow> fl_default d | None \<Rightarrow> FString [])),
      fs_changed = (\<lambda>n. map_of flags n \<noteq> None)\<rparr>"

fun subcommand :: "'r cobra \<Rightarrow> string list \<Rightarrow> 'r cobra option" where
  "subcommand c [] = Some c"
| "subcommand c (w # ws) =
     (case find (\<lambda>s. takeWhile (\<lambda>x. x \<noteq> CHR '' '') (cc_Use s) = w) (cc_Commands c) of
        None \<Rightarrow> None
      | Some s \<Rightarrow> subcommand s ws)"

definition root_command ::
    "'c codec_scheme \<Rightarrow> 'f os \<Rightarrow> 'n net \<Rightarrow> terminal \<Rightarrow> (string \<Rightarrow> ('f, 'n) shell \<Rightarrow> goerr option \<times> ('f, 'n) shell) \<Rightarrow>
     (('f, 'n) shell \<Rightarrow> goerr option \<times> ('f, 'n) shell) \<Rightarrow> string \<Rightarrow> string option \<Rightarrow> command \<Rightarrow> ('f, 'n) shell \<Rightarrow>
     outcome \<times> ('f, 'n) shell" where
  "root_command C F N T gen usage appVersion output cmd =
     (let root = NewRootCmd C F N T gen usage appVersion; c = the (subcommand root (command_path cmd))
      in the (cc_RunE c) (command_args cmd)
           (flag_state_of (cc_Flags c @ cc_PersistentFlags root) (command_flags cmd @ opt_flag ''output'' FString output)))"

text \<open>\<open>main\<close>: an error is printed and the process ends with 1; a panic ends it with 2.\<close>

definition cli_main :: "outcome \<times> ('f, 'n) shell \<Rightarrow> nat \<times> ('f, 'n) shell" where
  "cli_main r =
     (case r of
        (Returned None, sh) \<Rightarrow> (0, sh)
      | (Returned (Some e), sh) \<Rightarrow> (1, print_err (''Error: '' @ Error e @ newline) sh)
      | (Exited n, sh) \<Rightarrow> (n, sh)
      | (Crashed, sh) \<Rightarrow> (2, sh))"

text \<open>The process: \<open>Execute\<close> is cobra's, on the tree with the version that was linked in.\<close>

definition cli_process ::
    "(('f, 'n) run cobra \<Rightarrow> string list \<Rightarrow> ('f, 'n) shell \<Rightarrow> outcome \<times> ('f, 'n) shell) \<Rightarrow> 'c codec_scheme \<Rightarrow> 'f os \<Rightarrow> 'n net \<Rightarrow>
     terminal \<Rightarrow> (string \<Rightarrow> ('f, 'n) shell \<Rightarrow> goerr option \<times> ('f, 'n) shell) \<Rightarrow>
     (('f, 'n) shell \<Rightarrow> goerr option \<times> ('f, 'n) shell) \<Rightarrow> string \<Rightarrow> string list \<Rightarrow> ('f, 'n) shell \<Rightarrow> nat \<times> ('f, 'n) shell" where
  "cli_process Execute C F N T gen usage version args sh =
     cli_main (Execute (NewRootCmd C F N T gen usage version) args sh)"

lemmas users_cmd_defs = users_me_def users_get_def users_list_def users_update_def

lemma shell_frames [simp]:
  "sh_fs (print t sh) = sh_fs sh" "sh_net (print t sh) = sh_net sh" "sh_now (print t sh) = sh_now sh"
  "sh_fs (print_err t sh) = sh_fs sh" "sh_net (print_err t sh) = sh_net sh" "sh_now (print_err t sh) = sh_now sh"
  "sh_out (print_err t sh) = sh_out sh" "sh_err (print t sh) = sh_err sh"
  by (simp_all add: print_def print_err_def)

lemma call_frame: "call f sh = (r, sh') \<Longrightarrow> sh_fs sh' = sh_fs sh \<and> sh_now sh' = sh_now sh \<and> sh_out sh' = sh_out sh"
  by (auto simp: call_def split: prod.splits)

lemma checkAuth_frame: "sh_fs sh' = sh_fs sh \<Longrightarrow> sh_now sh' = sh_now sh \<Longrightarrow> checkAuth F sh' = checkAuth F sh"
  unfolding checkAuth_def by (simp cong: sum.case_cong if_cong)

lemmas tree_defs = NewRootCmd_def newAuthCmd_def newUsersCmd_def newAuthLoginCmd_def newAuthLogoutCmd_def
  newUsersMeCmd_def newUsersGetCmd_def newUsersListCmd_def newUsersUpdateCmd_def newUsersDeleteCmd_def
  newVersionCmd_def newCompletionCmd_def leaf_def StringVar_def IntVar_def BoolVarP_def

lemmas var_defs = string_var_def int_var_def bool_var_def changed_var_def outputFormat_def

lemmas command_splits = command.split auth_args.split users_args.split

text \<open>The tree, followed along the words of each command.\<close>

lemma use_words [simp]:
  "takeWhile (\<lambda>x. x \<noteq> CHR '' '') (cc_Use (newAuthCmd C F N T)) = ''auth''"
  "takeWhile (\<lambda>x. x \<noteq> CHR '' '') (cc_Use (newUsersCmd C F N T)) = ''users''"
  "takeWhile (\<lambda>x. x \<noteq> CHR '' '') (cc_Use (newVersionCmd v)) = ''version''"
  "takeWhile (\<lambda>x. x \<noteq> CHR '' '') (cc_Use (newCompletionCmd gen usage)) = ''completion''"
  "takeWhile (\<lambda>x. x \<noteq> CHR '' '') (cc_Use (newAuthLoginCmd C F N T)) = ''login''"
  "takeWhile (\<lambda>x. x \<noteq> CHR '' '') (cc_Use (newAuthLogoutCmd F N)) = ''logout''"
  "takeWhile (\<lambda>x. x \<noteq> CHR '' '') (cc_Use (newUsersMeCmd C F N T)) = ''me''"
  "takeWhile (\<lambda>x. x \<noteq> CHR '' '') (cc_Use (newUsersGetCmd C F N T)) = ''get''"
  "takeWhile (\<lambda>x. x \<noteq> CHR '' '') (cc_Use (newUsersListCmd C F N T)) = ''list''"
  "takeWhile (\<lambda>x. x \<noteq> CHR '' '') (cc_Use (newUsersUpdateCmd C F N T)) = ''update''"
  "takeWhile (\<lambda>x. x \<noteq> CHR '' '') (cc_Use (newUsersDeleteCmd F N T)) = ''delete''"
  by (simp_all add: tree_defs)

lemma tree_commands [simp]:
  "cc_Commands (NewRootCmd C F N T gen usage v) =
    [newAuthCmd C F N T, newUsersCmd C F N T, newVersionCmd v, newCompletionCmd gen usage]"
  "cc_Commands (newAuthCmd C F N T) = [newAuthLoginCmd C F N T, newAuthLogoutCmd F N]"
  "cc_Commands (newUsersCmd C F N T) =
    [newUsersMeCmd C F N T, newUsersGetCmd C F N T, newUsersListCmd C F N T, newUsersUpdateCmd C F N T,
     newUsersDeleteCmd F N T]"
  by (simp_all add: NewRootCmd_def newAuthCmd_def newUsersCmd_def)

lemma tree_leaves:
  "subcommand (NewRootCmd C F N T gen usage v) (command_path cmd) = Some
     (case cmd of
        CAuth (ALogin u) \<Rightarrow> newAuthLoginCmd C F N T
      | CAuth ALogout \<Rightarrow> newAuthLogoutCmd F N
      | CUsers UMe \<Rightarrow> newUsersMeCmd C F N T
      | CUsers (UGet i) \<Rightarrow> newUsersGetCmd C F N T
      | CUsers (UList p n) \<Rightarrow> newUsersListCmd C F N T
      | CUsers (UUpdate i e r a) \<Rightarrow> newUsersUpdateCmd C F N T
      | CUsers (UDelete y i) \<Rightarrow> newUsersDeleteCmd F N T
      | CVersion s \<Rightarrow> newVersionCmd v
      | CCompletion x \<Rightarrow> newCompletionCmd gen usage)"
  by (simp add: command_path_def split: command_splits)

lemma leaf_fields [simp]:
  "cc_Flags (leaf use short args flags run) = flags" "cc_RunE (leaf use short args flags run) = Some run"
  by (simp_all add: leaf_def)

lemma output_flag:
  "cc_PersistentFlags (NewRootCmd C F N T gen usage v) = [\<lparr>fl_name = ''output'', fl_shorthand = ''o'',
     fl_default = FString ''table'', fl_usage = ''Output format: table, json, yaml''\<rparr>]"
  by (simp add: NewRootCmd_def)

lemmas leaf_defs = newAuthLoginCmd_def newAuthLogoutCmd_def newUsersMeCmd_def newUsersGetCmd_def newUsersListCmd_def
  newUsersUpdateCmd_def newUsersDeleteCmd_def newVersionCmd_def newCompletionCmd_def StringVar_def IntVar_def BoolVarP_def

lemmas request_defs = command_args_def command_flags_def opt_flag_def flag_state_of_def

text \<open>What a request runs, read off the tree.\<close>

lemma root_command_runs:
  "root_command C F N T gen usage v output cmd =
     (let format = (case output of None \<Rightarrow> ''table'' | Some x \<Rightarrow> x)
      in case cmd of
           CAuth (ALogin u) \<Rightarrow> auth_login C F N T (case u of None \<Rightarrow> ''http://localhost:8080'' | Some x \<Rightarrow> x)
         | CAuth ALogout \<Rightarrow> auth_logout F N
         | CUsers UMe \<Rightarrow> users_me C F N T format
         | CUsers (UGet i) \<Rightarrow> users_get C F N T format i
         | CUsers (UList p n) \<Rightarrow> users_list C F N T format (case p of None \<Rightarrow> 1 | Some x \<Rightarrow> x) (case n of None \<Rightarrow> 20 | Some x \<Rightarrow> x)
         | CUsers (UUpdate i e r a) \<Rightarrow> users_update C F N T format i (update_flags e r a)
         | CUsers (UDelete y i) \<Rightarrow> users_delete F N T y i
         | CVersion s \<Rightarrow> version_cmd v s
         | CCompletion x \<Rightarrow> completion_cmd gen usage x)"
proof (cases cmd)
  case (CAuth a)
  then show ?thesis
    by (cases a) (simp_all add: root_command_def tree_leaves output_flag leaf_defs request_defs var_defs split: option.split)
next
  case (CUsers a)
  then show ?thesis
    by (cases a) (simp_all add: root_command_def tree_leaves output_flag leaf_defs request_defs var_defs split: option.split)
qed (simp_all add: root_command_def tree_leaves output_flag leaf_defs request_defs var_defs)

section \<open>Sessions\<close>

text \<open>
  C31.  Without a session no user command reaches the server: when there is no stored token, or it has expired, or the
  file cannot be read, each of them, with whatever flags, leaves the network and the files as they were, prints the
  reason and makes the process exit with 1.  A deletion asks before it looks at the session: one that is not confirmed
  ends without an error, and one that is confirmed exits with 1 too.
\<close>

theorem cli_needs_session:
  assumes "checkAuth F sh = Inl e"
    and "cli_main (root_command C F N T gen usage v output (CUsers a) sh) = (code, sh')"
  shows "sh_net sh' = sh_net sh \<and> sh_fs sh' = sh_fs sh \<and>
    (case a of
       UDelete False i \<Rightarrow>
         if fst (confirmPrompt T (''Delete user '' @ i @ ''?'') sh)
         then code = 1 \<and> sh_err sh' = sh_err sh @ ''Error: '' @ Error e @ newline
         else code = 0 \<and> sh_err sh' = sh_err sh
     | _ \<Rightarrow> code = 1 \<and> sh' = print_err (''Error: '' @ Error e @ newline) sh)"
proof -
  have p: "checkAuth F (print t sh) = Inl e" for t using assms(1) by (simp add: checkAuth_frame [of "print t sh" sh])
  note defs = root_command_runs Let_def users_cmd_defs cli_main_def requireAuth_def
  show ?thesis
  proof (cases a)
    case (UDelete yes i)
    with assms p show ?thesis
      by (cases yes) (auto simp: defs users_delete_def confirmPrompt_def Let_def print_err_def print_def split: option.splits if_splits)
  qed (use assms in \<open>auto simp: defs\<close>)
qed

text \<open>A network that answers every request alike and counts them, and a terminal, for the witnesses.\<close>

definition ref_net :: "int \<Rightarrow> json option \<Rightarrow> nat net" where
  "ref_net st b = \<lparr>n_invalid = (\<lambda>_ _. None), n_do = (\<lambda>q n. (Inr \<lparr>ir_status = st, ir_body = b\<rparr>, Suc n))\<rparr>"

definition ref_terminal :: terminal where
  "ref_terminal = \<lparr>tm_scan = Inr ''a@b.c'', tm_password = Inr ''secret99'', tm_line = Some ''No'',
     tm_table = (\<lambda>h rs. concat (map concat (h # rs))), tm_rfc3339 = itoa, tm_json = (\<lambda>j. Inr []), tm_yaml = (\<lambda>d. Inr [])\<rparr>"

definition ref_shell :: "int \<Rightarrow> ref_files \<Rightarrow> (ref_files, nat) shell" where
  "ref_shell t fs = \<lparr>sh_now = t, sh_fs = fs, sh_net = 0, sh_out = [], sh_err = []\<rparr>"

definition ref_logged_in :: ref_files where
  "ref_logged_in = snd (store_Save ref_os ref_stored (Map.empty, []))"

lemma ref_logged_in_load: "store_Load ref_os ref_logged_in = Inr ref_stored"
  by (simp add: ref_logged_in_def ref_load_save)

theorem cli_needs_session_witness:
  "fst (cli_main (root_command ref_env ref_os (ref_net 200 None) ref_terminal (\<lambda>_ sh. (None, sh)) (\<lambda>sh. (None, sh)) ''dev''
     None (CUsers (UList None (Some 5))) (ref_shell 91 ref_logged_in))) = 1"
proof -
  have "checkAuth ref_os (ref_shell 91 ref_logged_in) =
      Inl (Errorf (''access token has expired '' @ em_dash @ '' run: kleido auth login''))"
    by (simp add: checkAuth_def ref_shell_def ref_logged_in_load ref_stored_def time_zero_def)
  from cli_needs_session [OF this prod.collapse [symmetric], of ref_env "ref_net 200 None" ref_terminal _ _ _ _ "UList _ _"]
  show ?thesis by simp
qed

lemma auth_logout_called:
  assumes "auth_logout F N sh = (Returned None, sh')" and "checkAuth F sh = Inr cfg"
  shows "sh_net sh' = snd (AuthService_Logout N (newClient cfg) (sh_net sh))"
    and "isl (fst (AuthService_Logout N (newClient cfg) (sh_net sh))) \<longleftrightarrow> sh_err sh' \<noteq> sh_err sh"
    and "store_ClearToken F (sh_fs sh) = (None, sh_fs sh')"
proof -
  obtain r n where a: "AuthService_Logout N (newClient cfg) (sh_net sh) = (r, n)" by fastforce
  have c: "call (AuthService_Logout N (newClient cfg)) sh = (r, sh\<lparr>sh_net := n\<rparr>)" by (simp add: call_def a)
  obtain cl fs where cl: "store_ClearToken F (sh_fs sh) = (cl, fs)" by fastforce
  have s: "cl = None" "sh_fs sh' = fs" "sh_net sh' = n" "isl r \<longleftrightarrow> sh_err sh' \<noteq> sh_err sh"
    using assms(1) by (cases r; cases cl; simp add: auth_logout_def assms(2) c cl print_err_def print_def newline_def; force)+
  with a cl show "sh_net sh' = snd (AuthService_Logout N (newClient cfg) (sh_net sh))"
    "isl (fst (AuthService_Logout N (newClient cfg) (sh_net sh))) \<longleftrightarrow> sh_err sh' \<noteq> sh_err sh"
    "store_ClearToken F (sh_fs sh) = (None, sh_fs sh')"
    by simp_all
qed

lemma logout_leaves_nothing:
  assumes "file_system F content" and "\<forall>c d. yaml_Marshal F c = Inr d \<longrightarrow> yaml_Unmarshal F d = Inr c"
    and "auth_logout F N sh = (Returned None, sh')" and "checkAuth F sh = Inr cfg"
  shows "\<exists>e. checkAuth F (sh'\<lparr>sh_now := t\<rparr>) = Inl e"
proof -
  note out = auth_logout_called [OF assms(3,4)]
  obtain c0 where c0: "store_Load F (sh_fs sh) = Inr c0"
    "store_Save F (c0\<lparr>st_AccessToken := [], st_ExpiresAt := time_zero\<rparr>) (sh_fs sh) = (None, sh_fs sh')"
    using out(3) by (auto simp: store_ClearToken_def split: sum.splits)
  show ?thesis
  proof (cases "store_Load F (sh_fs sh')")
    case (Inr c1)
    with file_system.load_after_save [OF assms(1) c0(2) _ Inr] assms(2) have "st_AccessToken c1 = []" by simp
    with Inr show ?thesis by (simp add: checkAuth_def)
  qed (simp add: checkAuth_def)
qed

text \<open>
  C30.  Logging out forgets the session, whatever the server says: after a logout that returned without error no
  command finds a session, now or later; the server was told with the stored token, and when it refused, a warning
  says so.
\<close>

theorem cli_logout_forgets:
  assumes "file_system F content" and "\<forall>c d. yaml_Marshal F c = Inr d \<longrightarrow> yaml_Unmarshal F d = Inr c"
    and "auth_logout F N sh = (Returned None, sh')" and "sh_now sh \<le> t"
  shows "(\<exists>e. checkAuth F (sh'\<lparr>sh_now := t\<rparr>) = Inl e) \<and>
    (case checkAuth F sh of
       Inl _ \<Rightarrow> sh_net sh' = sh_net sh
     | Inr cfg \<Rightarrow> sh_net sh' = snd (AuthService_Logout N (newClient cfg) (sh_net sh)) \<and>
         (isl (fst (AuthService_Logout N (newClient cfg) (sh_net sh))) \<longleftrightarrow> sh_err sh' \<noteq> sh_err sh))"
proof (cases "checkAuth F sh")
  case (Inl e)
  with assms(3,4) show ?thesis
    by (auto simp: auth_logout_def checkAuth_def split: sum.splits if_splits)
next
  case (Inr cfg)
  with auth_logout_called [OF assms(3) Inr] logout_leaves_nothing [OF assms(1-3) Inr] show ?thesis by simp
qed

theorem cli_logout_forgets_witness:
  "let sh' = snd (auth_logout ref_os (ref_net 500 None) (ref_shell 7 ref_logged_in))
   in (\<exists>e. checkAuth ref_os (sh'\<lparr>sh_now := 8\<rparr>) = Inl e) \<and> sh_net sh' = 1 \<and> sh_err sh' \<noteq> []"
proof -
  let ?sh = "ref_shell 7 ref_logged_in" let ?N = "ref_net 500 None"
  define sh' where "sh' = snd (auth_logout ref_os ?N ?sh)"
  have c: "checkAuth ref_os ?sh = Inr ref_stored"
    by (simp add: checkAuth_def ref_shell_def ref_logged_in_load ref_stored_def)
  have a: "AuthService_Logout ?N (newClient ref_stored) (sh_net ?sh) =
      (Inl (Errorf (''API '' @ itoa 500 @ '': unexpected response'')), 1)"
    by (simp add: AuthService_Logout_def Client_do_def ref_net_def ref_shell_def Let_def)
  have "call (AuthService_Logout ?N (newClient ref_stored)) ?sh =
      (Inl (Errorf (''API '' @ itoa 500 @ '': unexpected response'')), ?sh\<lparr>sh_net := 1\<rparr>)"
    unfolding call_def a by simp
  moreover have "fst (store_ClearToken ref_os ref_logged_in) = None"
    by (simp add: store_ClearToken_def ref_logged_in_load) (simp add: ref_logged_in_def ref_save)
  moreover have "sh_fs ?sh = ref_logged_in" by (simp add: ref_shell_def)
  ultimately have "fst (auth_logout ref_os ?N ?sh) = Returned None"
    unfolding auth_logout_def c by (simp add: Let_def case_prod_beta)
  then have r: "auth_logout ref_os ?N ?sh = (Returned None, sh')" by (simp add: sh'_def prod_eq_iff)
  have "sh_now ?sh \<le> 8" by (simp add: ref_shell_def)
  from cli_logout_forgets [OF ref_files.file_system_axioms ref_yaml_roundtrip r this] show ?thesis
    unfolding Let_def sh'_def [symmetric] by (simp add: c a) (simp add: ref_shell_def)
qed

text \<open>
  A login stores exactly the session the server granted: when it succeeds, the server accepted the address and the
  password, and later commands run with the address of the API and the token the server sent, up to the expiry it
  sent (with no expiry for as long as the file stays), and not after; when the server refuses, the files are
  untouched, so an earlier session stays.
\<close>

theorem cli_login_stores_session:
  assumes "file_system F content" and "\<forall>c d. yaml_Marshal F c = Inr d \<longrightarrow> yaml_Unmarshal F d = Inr c"
    and "auth_login C F N T apiURL sh = (r, sh')"
    and "tm_scan T = Inr email" and "readPassword F T (print ''Email: '' sh) = (Inr pw, sh1)"
    and "AuthService_Login C N (client_New apiURL []) email pw (sh_net sh1) = (res, n)"
  shows "sh_net sh' = n \<and>
    (case res of
       Inl e \<Rightarrow> r = Returned (Some (Wrapf [] e)) \<and> sh_fs sh' = sh_fs sh
     | Inr resp \<Rightarrow> r = Returned None \<longrightarrow> (\<forall>t cfg. checkAuth F (sh'\<lparr>sh_now := t\<rparr>) = Inr cfg \<longrightarrow>
         cfg = \<lparr>st_APIURL = apiURL, st_AccessToken = lr_AccessToken resp, st_ExpiresAt = lr_ExpiresAt resp\<rparr> \<and>
         (lr_ExpiresAt resp = time_zero \<or> t \<le> lr_ExpiresAt resp)))"
proof -
  have f: "sh_fs sh1 = sh_fs sh"
    using assms(5) by (auto simp: readPassword_def Let_def split: if_splits sum.splits)
  have c: "call (AuthService_Login C N (client_New apiURL []) email pw) sh1 = (res, sh1\<lparr>sh_net := n\<rparr>)"
    by (simp add: call_def assms(6))
  show ?thesis
  proof (cases res)
    case (Inl e)
    with assms(3,4,5) c f show ?thesis by (auto simp: auth_login_def Let_def)
  next
    case (Inr resp)
    let ?cfg = "\<lparr>st_APIURL = apiURL, st_AccessToken = lr_AccessToken resp, st_ExpiresAt = lr_ExpiresAt resp\<rparr>"
    obtain e fs where sv: "store_Save F ?cfg (sh_fs sh1) = (e, fs)" by fastforce
    have s: "sh_net sh' = n" "r = Returned None \<longrightarrow> e = None \<and> sh_fs sh' = fs"
      using assms(3,4,5) c sv Inr by (auto simp: auth_login_def Let_def split: option.splits)
    have "cfg = ?cfg \<and> (lr_ExpiresAt resp = time_zero \<or> t \<le> lr_ExpiresAt resp)"
      if "r = Returned None" "checkAuth F (sh'\<lparr>sh_now := t\<rparr>) = Inr cfg" for t cfg
    proof -
      from that(2) have l: "store_Load F (sh_fs sh') = Inr cfg" "st_ExpiresAt cfg = time_zero \<or> t \<le> st_ExpiresAt cfg"
        by (auto simp: checkAuth_def split: sum.splits if_splits)
      from s that(1) sv l(1) have "cfg = ?cfg"
        using file_system.load_after_save [OF assms(1), of ?cfg "sh_fs sh1" fs ?cfg cfg] assms(2) by simp
      with l(2) show ?thesis by simp
    qed
    with s Inr show ?thesis by simp
  qed
qed

definition ref_granted :: json where
  "ref_granted = JObj [(''access_token'', JStr ''fresh''), (''expires_at'', JStr ''90'')]"

theorem cli_login_stores_session_witness:
  "let sh' = snd (auth_login ref_env ref_os (ref_net 200 (Some ref_granted)) ref_terminal ''http://x'' (ref_shell 7 (Map.empty, [])))
   in sh_net sh' = 1 \<and> (\<exists>cfg. checkAuth ref_os (sh'\<lparr>sh_now := 8\<rparr>) = Inr cfg \<and> st_AccessToken cfg = ''fresh'')"
proof -
  let ?sh = "ref_shell 7 (Map.empty, [])" let ?N = "ref_net 200 (Some ref_granted)"
  define sh' where "sh' = snd (auth_login ref_env ref_os ?N ref_terminal ''http://x'' ?sh)"
  define sh1 where "sh1 = print newline (print ''Password: '' (print ''Email: '' ?sh))"
  have p: "readPassword ref_os ref_terminal (print ''Email: '' ?sh) = (Inr ''secret99'', sh1)"
    by (simp add: readPassword_def ref_os_def ref_terminal_def sh1_def Let_def)
  have m: "tm_scan ref_terminal = Inr ''a@b.c''" by (simp add: ref_terminal_def)
  have "dec_int ''90'' = Some 90" by code_simp
  then have l: "AuthService_Login ref_env ?N (client_New ''http://x'' []) ''a@b.c'' ''secret99'' (sh_net sh1) =
      (Inr \<lparr>lr_AccessToken = ''fresh'', lr_ExpiresAt = 90\<rparr>, 1)"
    by (simp add: AuthService_Login_def Client_do_def ref_net_def sh1_def ref_shell_def Let_def ref_granted_def
        LoginResponse_decode_def obj_pairs_def json_str_def dec_time_def user_keys)
  have "fst (auth_login ref_env ref_os ?N ref_terminal ''http://x'' ?sh) = Returned None \<and>
      sh_fs sh' = snd (store_Save ref_os \<lparr>st_APIURL = ''http://x'', st_AccessToken = ''fresh'', st_ExpiresAt = 90\<rparr> (Map.empty, []))"
    unfolding sh'_def auth_login_def Let_def m p sum.case prod.case call_def l
    by (simp add: sh1_def ref_shell_def ref_save)
  then have r: "auth_login ref_env ref_os ?N ref_terminal ''http://x'' ?sh = (Returned None, sh')"
    and f: "store_Load ref_os (sh_fs sh') = Inr \<lparr>st_APIURL = ''http://x'', st_AccessToken = ''fresh'', st_ExpiresAt = 90\<rparr>"
    using ref_load_save by (auto simp: sh'_def intro: prod_eqI)
  from f have "\<exists>cfg. checkAuth ref_os (sh'\<lparr>sh_now := 8\<rparr>) = Inr cfg" by (simp add: checkAuth_def)
  with cli_login_stores_session [OF ref_files.file_system_axioms ref_yaml_roundtrip r m p l] show ?thesis
    unfolding Let_def sh'_def [symmetric] by fastforce
qed

end
