(* ===== verification/Interleaving.thy ===== *)
theory Interleaving
  imports Rate_Limit
begin

text \<open>
  Requests run concurrently, and Redis executes one command at a time: \<open>Pipeline()\<close> of go-redis batches commands
  into one round trip but wraps them in no transaction, so the commands of other requests may run between two of
  them.  A caller of the session store is here a \<open>client\<close>: the next command to send and what it does with the reply.
  \<open>client_step\<close> lets any one of a list of clients send its next command to the shared key space.
  The operations of \<open>internal/repository/redis/session.go\<close> are given once more as clients, and
  \<open>calls_run_as_clients\<close> ties them to the definitions of \<open>Session_Repo\<close>, which are these clients run without
  interruption.
\<close>

section \<open>Clients of the key space\<close>

datatype 'a client = Done 'a | Send rcmd "rreply \<Rightarrow> 'a client"

text \<open>A batch of commands and what is done with all of their replies.\<close>

fun send_all :: "rcmd list \<Rightarrow> (rreply list \<Rightarrow> 'a client) \<Rightarrow> 'a client" where
  "send_all [] f = f []"
| "send_all (c # cs) f = Send c (\<lambda>r. send_all cs (\<lambda>rs. f (r # rs)))"

text \<open>A client alone with the server.\<close>

primrec solo :: "int \<Rightarrow> 'a client \<Rightarrow> store \<Rightarrow> 'a \<times> store" where
  "solo t (Done a) = (\<lambda>st. (a, st))"
| "solo t (Send c k) = (\<lambda>st. (\<lambda>r. solo t (k r)) (fst (redis_step t c st)) (snd (redis_step t c st)))"

lemma solo_send_all:
  "solo t (send_all cs f) st = solo t (f (fst (redis_run t cs st))) (snd (redis_run t cs st))"
  by (induction cs arbitrary: st f) (simp_all add: case_prod_beta Let_def)

text \<open>Any client may be the next to be served; the server's clock does not go back.\<close>

type_synonym 'a system = "'a client list \<times> int \<times> store"

inductive client_step :: "'a system \<Rightarrow> 'a system \<Rightarrow> bool" where
  serve: "i < length cls \<Longrightarrow> cls ! i = Send c k \<Longrightarrow> t \<le> t' \<Longrightarrow> redis_step t' c st = (r, st') \<Longrightarrow>
    client_step (cls, t, st) (cls[i := k r], t', st')"

inductive_cases client_stepE: "client_step (cls, t, st) y"

text \<open>Serving the clients in the order of a list of their numbers, all at one time; an answered client is skipped.\<close>

fun serve_list :: "int \<Rightarrow> nat list \<Rightarrow> 'a client list \<Rightarrow> store \<Rightarrow> 'a client list \<times> store" where
  "serve_list t [] cls st = (cls, st)"
| "serve_list t (i # is) cls st =
     (case cls ! i of
        Done a \<Rightarrow> serve_list t is cls st
      | Send c k \<Rightarrow> (let (r, st') = redis_step t c st in serve_list t is (cls[i := k r]) st'))"

lemma serve_list_reach:
  "\<forall>i \<in> set is. i < length cls \<Longrightarrow> serve_list t is cls st = (cls', st') \<Longrightarrow>
    client_step\<^sup>*\<^sup>* (cls, t, st) (cls', t, st')"
proof (induction "is" arbitrary: cls st)
  case (Cons i js)
  show ?case
  proof (cases "cls ! i")
    case (Send c k)
    let ?r = "fst (redis_step t c st)" and ?st = "snd (redis_step t c st)"
    have "client_step (cls, t, st) (cls[i := k ?r], t, ?st)"
      using Cons.prems(1) Send by (intro serve) simp_all
    moreover have "client_step\<^sup>*\<^sup>* (cls[i := k ?r], t, ?st) (cls', t, st')"
      using Cons.prems Send by (intro Cons.IH) (simp_all add: case_prod_beta Let_def)
    ultimately show ?thesis by (rule converse_rtranclp_into_rtranclp)
  qed (use Cons in simp)
qed simp

section \<open>Every run ends\<close>

text \<open>\<open>ends_in n c\<close>: whatever it is told, the client sends at most \<open>n\<close> commands.\<close>

primrec ends_in :: "'a client \<Rightarrow> nat \<Rightarrow> bool" where
  "ends_in (Done a) = (\<lambda>n. True)"
| "ends_in (Send c k) = (\<lambda>n. 0 < n \<and> (\<forall>r. (\<lambda>s. ends_in (k s)) r (n - 1)))"

lemma ends_in_mono: "ends_in c m \<Longrightarrow> m \<le> n \<Longrightarrow> ends_in c n"
proof (induction c arbitrary: m n)
  case (Send c k)
  from Send.prems have "ends_in (k r) (m - 1)" "m - 1 \<le> n - 1" for r by auto
  with Send.IH [OF rangeI] Send.prems show ?case by auto
qed simp

lemma ends_in_send_all: "(\<And>rs. ends_in (f rs) n) \<Longrightarrow> ends_in (send_all cs f) (length cs + n)"
  by (induction cs arbitrary: f) simp_all

lemma sum_list_dec: "i < length ns \<Longrightarrow> 0 < ns ! i \<Longrightarrow> Suc (sum_list (ns[i := ns ! i - 1])) = (sum_list ns :: nat)"
  by (induction ns arbitrary: i) (auto split: nat.splits)

lemma client_step_bound:
  assumes "client_step (cls, t, st) (cls', t', st')" and "list_all2 ends_in cls ns"
  obtains ns' where "list_all2 ends_in cls' ns'" "Suc (sum_list ns') = sum_list ns"
proof -
  from assms(1) obtain i c k r where i: "i < length cls" "cls ! i = Send c k" "cls' = cls[i := k r]"
    by (auto elim: client_stepE)
  with assms(2) have n: "i < length ns" and e: "ends_in (Send c k) (ns ! i)"
    by (auto simp: list_all2_conv_all_nth)
  have "Suc (sum_list (ns[i := ns ! i - 1])) = sum_list ns" using e by (intro sum_list_dec [OF n]) simp
  moreover have "list_all2 ends_in cls' (ns[i := ns ! i - 1])"
    using i assms(2) e by (auto simp: list_all2_conv_all_nth nth_list_update)
  ultimately show thesis by (rule that [rotated])
qed

lemma run_bound:
  "(client_step ^^ n) (cls, t, st) y \<Longrightarrow> list_all2 ends_in cls ns \<Longrightarrow> n \<le> sum_list ns"
proof (induction n arbitrary: cls t st ns)
  case (Suc n)
  from Suc.prems(1) obtain c1 t1 s1 where
    s: "client_step (cls, t, st) (c1, t1, s1)" "(client_step ^^ n) (c1, t1, s1) y"
    by (metis prod_cases3 relpowp_Suc_D2)
  from client_step_bound [OF s(1) Suc.prems(2)] obtain ns' where
    "list_all2 ends_in c1 ns'" "Suc (sum_list ns') = sum_list ns" by blast
  with Suc.IH [OF s(2)] show ?case by fastforce
qed simp

lemma stuck_answered:
  assumes "\<nexists>y. client_step (cls, t, st) y" and "c \<in> set cls"
  shows "\<exists>a. c = Done a"
proof (cases c)
  case (Send d k)
  from assms(2) obtain i where "i < length cls" "cls ! i = c" by (auto simp: in_set_conv_nth)
  with Send have "client_step (cls, t, st) (cls[i := k (fst (redis_step t d st))], t, snd (redis_step t d st))"
    by (intro serve) simp_all
  with assms(1) show ?thesis by blast
qed simp

section \<open>The session store as clients\<close>

text \<open>The operations of the interface with their arguments; the clock reading of the rate limiter is the caller's.\<close>

datatype session_call =
    CStoreRefresh string string int
  | CValidate string
  | CRevoke string
  | CBlocklist string int
  | CIsBlocklisted string
  | CRate string int int
  | CRotate string string string int
  | CIncr string int
  | CFailures string
  | CClear string
  | CIsLockedOut string
  | CRateUser string string int int
  | CStoreReset string string
  | CConsume string

datatype answer =
    AErr "goerr option"
  | AStr "goerr + string"
  | ABool "goerr + bool"
  | ARate "bool \<times> int \<times> int \<times> goerr option"
  | ACount "int \<times> goerr option"
  | AInt "goerr + int"
  | ALocked "bool \<times> goerr option"

text \<open>What the operations make of the replies of an answered pipeline.\<close>

definition err_answer :: "string \<Rightarrow> rreply list \<Rightarrow> answer" where
  "err_answer p rs = AErr (wrap_err p (reply_error (nth_reply 0 rs)))"

definition validate_answer :: "rreply list \<Rightarrow> answer" where
  "validate_answer rs = AStr
     (case nth_reply 0 rs of
        RNil \<Rightarrow> Inl (Unauthorized ''refresh token invalid or expired'')
      | RError m \<Rightarrow> Inl (Wrapf ''session: validate refresh token: '' (ExtErr m))
      | RBulk userID \<Rightarrow> Inr userID
      | _ \<Rightarrow> Inl (Wrapf ''session: validate refresh token: '' (ExtErr ''unexpected reply'')))"

definition blocklisted_answer :: "rreply list \<Rightarrow> answer" where
  "blocklisted_answer rs = ABool
     (case reply_error (nth_reply 0 rs) of
        Some e \<Rightarrow> Inl (Wrapf ''session: check blocklist: '' e)
      | None \<Rightarrow> (case nth_reply 0 rs of RInt n \<Rightarrow> Inr (n > 0)
                | _ \<Rightarrow> Inl (Wrapf ''session: check blocklist: '' (ExtErr ''unexpected reply''))))"

definition rotate_answer :: "rreply list \<Rightarrow> answer" where
  "rotate_answer rs = AErr (wrap_err ''rotate refresh token: '' (first_error rs))"

definition incr_answer :: "rreply list \<Rightarrow> answer" where
  "incr_answer rs = ACount
     (case first_error rs of
        Some e \<Rightarrow> (0, Some (Wrapf ''incr login failure: '' e))
      | None \<Rightarrow> (case nth_reply 0 rs of RInt n \<Rightarrow> n | _ \<Rightarrow> 0, None))"

definition failures_answer :: "rreply list \<Rightarrow> goerr + int" where
  "failures_answer rs =
     (case nth_reply 0 rs of
        RNil \<Rightarrow> Inr 0
      | RError m \<Rightarrow> Inl (Wrapf ''get login failures: '' (ExtErr m))
      | RBulk s \<Rightarrow> (case Atoi s of Some n \<Rightarrow> Inr n
                   | None \<Rightarrow> Inl (Wrapf ''get login failures: '' (ExtErr ''invalid syntax'')))
      | _ \<Rightarrow> Inl (Wrapf ''get login failures: '' (ExtErr ''unexpected reply'')))"

definition locked_answer :: "rreply list \<Rightarrow> answer" where
  "locked_answer rs = ALocked
     (case failures_answer rs of Inl e \<Rightarrow> (False, Some e) | Inr cnt \<Rightarrow> (cnt \<ge> loginLockoutThreshold, None))"

definition rate_answer :: "int \<Rightarrow> int \<Rightarrow> rreply list \<Rightarrow> answer" where
  "rate_answer limit resetAt rs = ARate
     (if first_error rs \<noteq> None then (True, limit, resetAt, None)
      else let cnt = (case nth_reply 2 rs of RInt n \<Rightarrow> n | _ \<Rightarrow> 0)
           in if cnt > limit then (False, 0, resetAt, None) else (True, limit - cnt, resetAt, None))"

definition consume_answer :: "rreply list \<Rightarrow> answer" where
  "consume_answer rs = AStr
     (if first_error rs \<notin> {None, Some RedisNil} then Inl (Wrapf ''consume reset token: '' (the (first_error rs)))
      else case nth_reply 0 rs of
          RNil \<Rightarrow> Inl (Errorf ''reset token not found or already used'')
        | RBulk userID \<Rightarrow> Inr userID
        | RError m \<Rightarrow> Inl (Wrapf ''get reset token: '' (ExtErr m))
        | _ \<Rightarrow> Inl (Wrapf ''get reset token: '' (ExtErr ''unexpected reply'')))"

lemmas answer_defs = err_answer_def validate_answer_def blocklisted_answer_def rotate_answer_def incr_answer_def
  failures_answer_def locked_answer_def rate_answer_def consume_answer_def

text \<open>The keys and pipelines.\<close>

definition rate_pipeline :: "string \<Rightarrow> int \<Rightarrow> int \<Rightarrow> rcmd list" where
  "rate_pipeline rKey now window =
     [ZREMRANGEBYSCORE rKey 0 (UnixMilli (now - window)), ZADD rKey (UnixMilli now) now, ZCARD rKey, EXPIRE rKey window]"

definition rotate_pipeline :: "('s, 'd) env \<Rightarrow> string \<Rightarrow> string \<Rightarrow> string \<Rightarrow> int \<Rightarrow> rcmd list" where
  [simp]: "rotate_pipeline E oldToken newToken userID ttl =
     [DEL [refreshKey E oldToken], SET (refreshKey E newToken) userID ttl]"

definition incr_pipeline :: "('s, 'd) env \<Rightarrow> string \<Rightarrow> int \<Rightarrow> rcmd list" where
  [simp]: "incr_pipeline E email ttl = [INCR (lockoutKey E email), EXPIRE (lockoutKey E email) ttl]"

definition consume_pipeline :: "('s, 'd) env \<Rightarrow> string \<Rightarrow> rcmd list" where
  [simp]: "consume_pipeline E token = [GET (resetKey E token), DEL [resetKey E token]]"

definition limit_key :: "string \<Rightarrow> string" where
  "limit_key key = ''rate:limit:'' @ key"

definition limit_user_key :: "string \<Rightarrow> string \<Rightarrow> string" where
  "limit_user_key userID endpoint = ''rate:user:'' @ userID @ '':'' @ endpoint"

fun call_cmds :: "('s, 'd) env \<Rightarrow> int \<Rightarrow> session_call \<Rightarrow> rcmd list" where
  "call_cmds E now (CStoreRefresh token userID ttl) = [SET (refreshKey E token) userID ttl]"
| "call_cmds E now (CValidate token) = [GET (refreshKey E token)]"
| "call_cmds E now (CRevoke token) = [DEL [refreshKey E token]]"
| "call_cmds E now (CBlocklist jti ttl) = [SET (blocklistKey jti) ''1'' ttl]"
| "call_cmds E now (CIsBlocklisted jti) = [EXISTS (blocklistKey jti)]"
| "call_cmds E now (CRate key limit window) = rate_pipeline (limit_key key) now window"
| "call_cmds E now (CRotate oldToken newToken userID ttl) = rotate_pipeline E oldToken newToken userID ttl"
| "call_cmds E now (CIncr email ttl) = incr_pipeline E email ttl"
| "call_cmds E now (CFailures email) = [GET (lockoutKey E email)]"
| "call_cmds E now (CClear email) = [DEL [lockoutKey E email]]"
| "call_cmds E now (CIsLockedOut email) = [GET (lockoutKey E email)]"
| "call_cmds E now (CRateUser userID endpoint limit window) = rate_pipeline (limit_user_key userID endpoint) now window"
| "call_cmds E now (CStoreReset token userID) = [SET (resetKey E token) userID passwordResetTTL]"
| "call_cmds E now (CConsume token) = consume_pipeline E token"

fun call_answer :: "int \<Rightarrow> session_call \<Rightarrow> rreply list \<Rightarrow> answer" where
  "call_answer now (CStoreRefresh token userID ttl) = err_answer ''session: store refresh token: ''"
| "call_answer now (CValidate token) = validate_answer"
| "call_answer now (CRevoke token) = err_answer ''session: revoke refresh token: ''"
| "call_answer now (CBlocklist jti ttl) = err_answer ''session: blocklist jti: ''"
| "call_answer now (CIsBlocklisted jti) = blocklisted_answer"
| "call_answer now (CRate key limit window) = rate_answer limit (now + window)"
| "call_answer now (CRotate oldToken newToken userID ttl) = rotate_answer"
| "call_answer now (CIncr email ttl) = incr_answer"
| "call_answer now (CFailures email) = (\<lambda>rs. AInt (failures_answer rs))"
| "call_answer now (CClear email) = err_answer ''clear login failures: ''"
| "call_answer now (CIsLockedOut email) = locked_answer"
| "call_answer now (CRateUser userID endpoint limit window) = rate_answer limit (now + window)"
| "call_answer now (CStoreReset token userID) = err_answer ''store reset token: ''"
| "call_answer now (CConsume token) = consume_answer"

definition call_client :: "('s, 'd) env \<Rightarrow> int \<Rightarrow> session_call \<Rightarrow> answer client" where
  "call_client E now call = send_all (call_cmds E now call) (\<lambda>rs. Done (call_answer now call rs))"

text \<open>The same call of the repository.\<close>

fun session_op :: "('s, 'd) env \<Rightarrow> session_call \<Rightarrow> ('s, 'd) world \<Rightarrow> answer \<times> ('s, 'd) world" where
  "session_op E (CStoreRefresh token userID ttl) w = map_prod AErr id (StoreRefreshToken (NewSessionRepo E) token userID ttl w)"
| "session_op E (CValidate token) w = map_prod AStr id (ValidateRefreshToken (NewSessionRepo E) token w)"
| "session_op E (CRevoke token) w = map_prod AErr id (RevokeRefreshToken (NewSessionRepo E) token w)"
| "session_op E (CBlocklist jti ttl) w = map_prod AErr id (BlocklistJTI (NewSessionRepo E) jti ttl w)"
| "session_op E (CIsBlocklisted jti) w = map_prod ABool id (IsBlocklisted (NewSessionRepo E) jti w)"
| "session_op E (CRate key limit window) w = map_prod ARate id (RateLimitAllow (NewSessionRepo E) key limit window w)"
| "session_op E (CRotate oldToken newToken userID ttl) w =
     map_prod AErr id (RotateRefreshToken (NewSessionRepo E) oldToken newToken userID ttl w)"
| "session_op E (CIncr email ttl) w = map_prod ACount id (IncrLoginFailure (NewSessionRepo E) email ttl w)"
| "session_op E (CFailures email) w = map_prod AInt id (GetLoginFailures (NewSessionRepo E) email w)"
| "session_op E (CClear email) w = map_prod AErr id (ClearLoginFailures (NewSessionRepo E) email w)"
| "session_op E (CIsLockedOut email) w = map_prod ALocked id (IsLockedOut (NewSessionRepo E) email w)"
| "session_op E (CRateUser userID endpoint limit window) w =
     map_prod ARate id (RateLimitAllowUser (NewSessionRepo E) userID endpoint limit window w)"
| "session_op E (CStoreReset token userID) w = map_prod AErr id (StorePasswordResetToken (NewSessionRepo E) token userID w)"
| "session_op E (CConsume token) w = map_prod AStr id (ConsumePasswordResetToken (NewSessionRepo E) token w)"

lemma session_op_answered:
  assumes "redis_exec E (call_cmds E (w_now w) call) w = (Inr rs, w')"
  shows "session_op E call w = (call_answer (w_now w) call rs, w')"
proof (cases call)
  case (CValidate x)
  with assms show ?thesis
    by (simp add: NewSessionRepo_def sessionRepo_ValidateRefreshToken_def redis_do_def validate_answer_def reply_error_def
      split: rreply.splits)
qed (use assms in \<open>auto simp: NewSessionRepo_def session_defs sessionRepo_RateLimitAllow_def
    sessionRepo_RateLimitAllowUser_def rateLimitByKey_def rate_pipeline_def limit_key_def limit_user_key_def
    redis_do_def redis_err_def answer_defs reply_error_def Let_def
    split: rreply.splits option.splits sum.splits if_splits\<close>)

text \<open>
  The fourteen operations of the session store, called on a server that answers, do what their clients do when
  no other client is served in between: same answer, same key space.
\<close>

theorem calls_run_as_clients:
  assumes "session_op E call w = (a, w')" and "redis_server E kv" and "always_answers E w"
  shows "solo (w_now w) (call_client E (w_now w) call) (kv (w_redis w)) = (a, kv (w_redis w'))"
proof -
  obtain rs w1 where x: "redis_exec E (call_cmds E (w_now w) call) w = (Inr rs, w1)"
    using answers_exec [OF assms(3)] by blast
  with session_op_answered [OF x] assms(1) have "a = call_answer (w_now w) call rs" "w1 = w'" by simp_all
  moreover have "redis_run (w_now w) (call_cmds E (w_now w) call) (kv (w_redis w)) = (rs, kv (w_redis w1))"
    using redis_server.pipeline_ok(1) [OF assms(2) x] by simp
  ultimately show ?thesis by (simp add: call_client_def solo_send_all)
qed

theorem calls_run_as_clients_witness:
  "fst (solo 5 (call_client ref_env 5 (CRate ''ip:1'' 0 second)) (\<lambda>_. None)) = ARate (False, 0, 5 + second, None)"
proof -
  let ?w = "ref_world 5 empty_tables [] []"
  obtain a w' where "session_op ref_env (CRate ''ip:1'' 0 second) ?w = (a, w')" by fastforce
  moreover have "fst (session_op ref_env (CRate ''ip:1'' 0 second) ?w) = ARate (False, 0, 5 + second, None)"
    by code_simp
  ultimately show ?thesis
    using calls_run_as_clients [OF _ reference.redis_server_axioms ref_answers, of "CRate ''ip:1'' 0 second" 5 empty_tables "[]" a w']
    by (simp add: ref_world_def)
qed

section \<open>Progress of a batch\<close>

text \<open>A client that has got the replies \<open>rs\<close> of the batch \<open>cs\<close>.\<close>

definition in_batch :: "rcmd list \<Rightarrow> (rreply list \<Rightarrow> 'a) \<Rightarrow> rreply list \<Rightarrow> 'a client \<Rightarrow> bool" where
  "in_batch cs f rs c \<longleftrightarrow>
     length rs \<le> length cs \<and> c = send_all (drop (length rs) cs) (\<lambda>xs. Done (f (rs @ xs)))"

lemma in_batch_start: "in_batch cs f [] (send_all cs (\<lambda>rs. Done (f rs)))"
  by (simp add: in_batch_def)

lemma in_batch_step:
  assumes "in_batch cs f rs (Send d k)"
  shows "length rs < length cs" "d = cs ! length rs" "in_batch cs f (rs @ [r]) (k r)"
proof -
  show l: "length rs < length cs"
    using assms by (auto simp: in_batch_def not_less intro: ccontr)
  with assms show "d = cs ! length rs" "in_batch cs f (rs @ [r]) (k r)"
    by (auto simp: in_batch_def Cons_nth_drop_Suc [symmetric])
qed

lemma in_batch_done:
  assumes "in_batch cs f rs (Done a)"
  shows "length rs = length cs" "a = f rs"
proof -
  show l: "length rs = length cs"
  proof (rule ccontr)
    assume "length rs \<noteq> length cs"
    with assms have "length rs < length cs" by (simp add: in_batch_def)
    with assms show False by (simp add: in_batch_def Cons_nth_drop_Suc [symmetric])
  qed
  with assms show "a = f rs" by (simp add: in_batch_def)
qed

text \<open>Clients that never change a key: every command leaves it alone or only reads.\<close>

fun reads :: "rcmd \<Rightarrow> bool" where
  "reads (GET k) = True"
| "reads (EXISTS k) = True"
| "reads (ZCARD k) = True"
| "reads _ = False"

definition harmless :: "string \<Rightarrow> rcmd \<Rightarrow> bool" where
  "harmless key c \<longleftrightarrow> key \<notin> cmd_keys c \<or> reads c"

lemma reads_step: "reads c \<Longrightarrow> snd (redis_step t c st) = st"
  by (cases c) (auto split: option.splits prod.splits rval.splits)

lemma harmless_step: "harmless key c \<Longrightarrow> snd (redis_step t c st) key = st key"
  unfolding harmless_def using redis_step_other reads_step by metis

primrec spares :: "'a client \<Rightarrow> string \<Rightarrow> bool" where
  "spares (Done a) = (\<lambda>key. True)"
| "spares (Send c k) = (\<lambda>key. harmless key c \<and> (\<forall>r. (\<lambda>s. spares (k s)) r key))"

lemma spares_send_all:
  "(\<And>rs. spares (f rs) key) \<Longrightarrow> \<forall>c \<in> set cs. harmless key c \<Longrightarrow> spares (send_all cs f) key"
  by (induction cs arbitrary: f) simp_all

lemma call_client_spares:
  "\<forall>c \<in> set (call_cmds E now call). harmless key c \<Longrightarrow> spares (call_client E now call) key"
  by (simp add: call_client_def spares_send_all)

text \<open>The rate limiter's keys are its own: no other call of the session store has a command for them.\<close>

lemma limit_key_private:
  assumes "\<forall>l W. call \<noteq> CRate key l W" and "c \<in> set (call_cmds E now call)"
  shows "harmless (limit_key key) c"
  using assms
  by (cases call) (auto simp: harmless_def limit_key_def limit_user_key_def rate_pipeline_def refreshKey_def
    blocklistKey_def lockoutKey_def resetKey_def loginLockoutKeyPrefix_def passwordResetKeyPrefix_def)

section \<open>A key shared by overlapping batches\<close>

text \<open>
  The participants \<open>P\<close> run the batches \<open>cs i\<close> on one key while all other clients spare it.  \<open>good g t e\<close> speaks of the
  replies the participants have got so far, the clock and the entry of the key; it has to survive one command of a
  participant before the time \<open>B\<close>.
\<close>

locale shared_key =
  fixes key :: string and cs :: "nat \<Rightarrow> rcmd list" and dec :: "nat \<Rightarrow> rreply list \<Rightarrow> 'a" and P :: "nat set"
    and B :: int and good :: "(nat \<Rightarrow> rreply list) \<Rightarrow> int \<Rightarrow> entry option \<Rightarrow> bool"
  assumes good_step: "good g t (st key) \<Longrightarrow> i \<in> P \<Longrightarrow> length (g i) < length (cs i) \<Longrightarrow> t \<le> t' \<Longrightarrow> t' < B \<Longrightarrow>
      redis_step t' (cs i ! length (g i)) st = (r, st') \<Longrightarrow> good (g(i := g i @ [r])) t' (st' key)"
    and good_clock: "good g t e \<Longrightarrow> t \<le> t' \<Longrightarrow> t' < B \<Longrightarrow> good g t' e"
begin

definition holds_at :: "'a system \<Rightarrow> bool" where
  "holds_at s \<longleftrightarrow> (case s of (cls, t, st) \<Rightarrow>
     \<exists>g. (\<forall>i \<in> P. i < length cls \<and> in_batch (cs i) (dec i) (g i) (cls ! i)) \<and>
         (\<forall>i < length cls. i \<notin> P \<longrightarrow> spares (cls ! i) key) \<and> good g t (st key))"

lemma holds_step:
  assumes "client_step (cls, t, st) (cls', t', st')" and "holds_at (cls, t, st)" and "t' < B"
  shows "holds_at (cls', t', st')"
proof -
  from assms(1) obtain i c k r where i: "i < length cls" "cls ! i = Send c k" "cls' = cls[i := k r]"
    and t: "t \<le> t'" and x: "redis_step t' c st = (r, st')"
    by (auto elim: client_stepE)
  from assms(2) obtain g where g: "\<forall>i \<in> P. i < length cls \<and> in_batch (cs i) (dec i) (g i) (cls ! i)"
    "\<forall>i < length cls. i \<notin> P \<longrightarrow> spares (cls ! i) key" "good g t (st key)"
    by (auto simp: holds_at_def)
  show ?thesis
  proof (cases "i \<in> P")
    case True
    with g(1) i have b: "in_batch (cs i) (dec i) (g i) (Send c k)" by auto
    have "good (g(i := g i @ [r])) t' (st' key)"
      using good_step [where st = st, of g t i t' r st'] g(3) True in_batch_step(1,2) [OF b] t assms(3) x by simp
    with i g True in_batch_step(3) [OF b] show ?thesis
      by (auto simp: holds_at_def nth_list_update intro!: exI [of _ "g(i := g i @ [r])"])
  next
    case False
    with g(2) i have s: "harmless key c" "spares (k r) key" by auto
    with harmless_step [OF s(1), of t' st] x have "st' key = st key" by simp
    with good_clock [OF g(3) t assms(3)] have "good g t' (st' key)" by simp
    with i g s False show ?thesis
      by (auto simp: holds_at_def nth_list_update intro!: exI [of _ g])
  qed
qed

lemma step_clock: "client_step (cls, t, st) (cls', t', st') \<Longrightarrow> t \<le> t' \<and> length cls' = length cls"
  by (auto elim: client_stepE)

lemma holds_run:
  assumes "client_step\<^sup>*\<^sup>* x y" and "holds_at x" and "fst (snd y) < B"
  shows "holds_at y \<and> length (fst y) = length (fst x)"
  using assms(1,3)
proof (induction rule: rtranclp_induct)
  case (step y z)
  obtain c1 t1 s1 where y: "y = (c1, t1, s1)" by (metis prod_cases3)
  obtain c2 t2 s2 where z: "z = (c2, t2, s2)" by (metis prod_cases3)
  from step.hyps(2) have l: "t1 \<le> t2" "length c2 = length c1" unfolding y z using step_clock by blast+
  with step.prems have "t1 < B" "t2 < B" by (simp_all add: z)
  with step.IH have "holds_at (c1, t1, s1)" "length c1 = length (fst x)" by (simp_all add: y)
  with holds_step [of c1 t1 s1 c2 t2 s2] step.hyps(2) \<open>t2 < B\<close> l show ?case by (simp add: y z)
qed (use assms(2) in simp)

end

end
