(* ===== verification/Races.thy ===== *)
theory Races
  imports Interleaving
begin

text \<open>
  What the session store still promises when its callers overlap, and what it does not.  The sliding window keeps
  its limit and the failure counter loses nothing, however the commands of the callers interleave; the check for a
  lockout and the use of a reset token are not atomic, and overlapping callers get past them.
  The clock may advance between any two commands, as long as the run is shorter than the key's lifetime.
\<close>

section \<open>The sliding window\<close>

text \<open>The callers that read a count within the limit, and a caller's member in the entry.\<close>

definition counted :: "int \<Rightarrow> nat set \<Rightarrow> (nat \<Rightarrow> rreply list) \<Rightarrow> nat set" where
  "counted limit P g = {i \<in> P. 3 \<le> length (g i) \<and> (\<exists>n. g i ! 2 = RInt n \<and> n \<le> limit)}"

definition has_member :: "entry option \<Rightarrow> int \<Rightarrow> bool" where
  "has_member e a \<longleftrightarrow> (\<exists>zs ex. e = Some (VZSet zs, ex) \<and> (a, UnixMilli a) \<in> set zs)"

definition window_good ::
    "(nat \<Rightarrow> int) \<Rightarrow> int \<Rightarrow> int \<Rightarrow> int \<Rightarrow> nat set \<Rightarrow> (nat \<Rightarrow> rreply list) \<Rightarrow> int \<Rightarrow> entry option \<Rightarrow> bool" where
  "window_good a W limit T P g t e \<longleftrightarrow>
     T \<le> t \<and> 0 \<le> limit \<and> inj_on a P \<and> finite P \<and>
     (\<forall>i \<in> P. \<forall>j \<in> P. UnixMilli (a i - W) < UnixMilli (a j)) \<and>
     (e = None \<or> (\<exists>zs ex. e = Some (VZSet zs, ex) \<and> (\<forall>x. ex = Some x \<longrightarrow> T + W \<le> x))) \<and>
     (\<forall>i \<in> P. 2 \<le> length (g i) \<longrightarrow> has_member e (a i)) \<and>
     (\<forall>i \<in> P. \<forall>r \<in> set (g i). \<exists>n. r = RInt n) \<and>
     int (card (counted limit P g)) \<le> limit"

lemma live_before: "(\<forall>x. ex = Some x \<longrightarrow> t < x) \<Longrightarrow> st k = Some (v, ex) \<Longrightarrow> live t st k = Some (v, ex)"
  by (cases ex) (auto simp: live_def)

lemma card_le_zset:
  assumes "inj_on a S" "\<forall>i \<in> S. (a i, UnixMilli (a i)) \<in> set zs"
  shows "card S \<le> length zs"
proof -
  have "card S = card ((\<lambda>i. (a i, UnixMilli (a i))) ` S)"
    using assms(1) by (intro card_image [symmetric]) (auto simp: inj_on_def)
  also have "\<dots> \<le> card (set zs)" using assms(2) by (intro card_mono) auto
  also have "\<dots> \<le> length zs" by (rule card_length)
  finally show ?thesis .
qed

text \<open>What one command of the pipeline does to the entry.\<close>

lemma window_entry_cases:
  assumes "window_good a W limit T P g t (st k)" and "t \<le> t'" and "t' < T + W"
  obtains "st k = None" "live t' st k = None"
  | zs ex where "st k = Some (VZSet zs, ex)" "live t' st k = Some (VZSet zs, ex)" "\<forall>x. ex = Some x \<longrightarrow> T + W \<le> x"
proof -
  from assms(1) consider "st k = None" | zs ex where "st k = Some (VZSet zs, ex)" "\<forall>x. ex = Some x \<longrightarrow> T + W \<le> x"
    by (auto simp: window_good_def)
  then show thesis
  proof cases
    case 1
    then show thesis by (intro that(1)) (simp_all add: live_def)
  next
    case 2
    with assms(3) show thesis by (intro that(2)) (auto intro!: live_before)
  qed
qed

lemma window_good_reply:
  assumes g: "window_good a W limit T P g t e" and "i \<in> P" and "t \<le> t'" and l: "length (g i) \<noteq> 2"
    and "e' = None \<or> (\<exists>zs ex. e' = Some (VZSet zs, ex) \<and> (\<forall>x. ex = Some x \<longrightarrow> T + W \<le> x))"
    and m: "\<forall>j \<in> P. 2 \<le> length (g j) \<or> (j = i \<and> length (g i) = 1) \<longrightarrow> has_member e' (a j)"
    and "r = RInt n"
  shows "window_good a W limit T P (g(i := g i @ [r])) t' e'"
proof -
  have c: "counted limit P (g(i := g i @ [r])) = counted limit P g"
    using l by (auto simp: counted_def nth_append)
  have "has_member e' (a j)" if "j \<in> P" "2 \<le> length ((g(i := g i @ [r])) j)" for j
    using m that by (cases "j = i") auto
  with g assms(2,3,5,7) show ?thesis unfolding window_good_def c by simp
qed

lemma window_good_count:
  assumes g: "window_good a W limit T P g t e" and i: "i \<in> P" and "t \<le> t'" and l: "length (g i) = 2"
    and e: "e = Some (VZSet zs, ex)" and r: "r = RInt (int (length zs))"
  shows "window_good a W limit T P (g(i := g i @ [r])) t' e"
proof -
  have c: "counted limit P (g(i := g i @ [r])) =
      (if int (length zs) \<le> limit then insert i (counted limit P g) else counted limit P g)"
    using i l r by (auto simp: counted_def nth_append)
  have "int (card (counted limit P (g(i := g i @ [r])))) \<le> limit"
  proof (cases "int (length zs) \<le> limit")
    case True
    have gP: "inj_on a P" using g by (simp add: window_good_def)
    have sub: "insert i (counted limit P g) \<subseteq> {j \<in> P. 2 \<le> length (g j)}"
      using i l by (auto simp: counted_def)
    then have "\<forall>j \<in> insert i (counted limit P g). (a j, UnixMilli (a j)) \<in> set zs"
      using g e unfolding window_good_def has_member_def by auto
    moreover have "inj_on a (insert i (counted limit P g))"
      using gP by (rule inj_on_subset) (use sub in auto)
    ultimately have "card (insert i (counted limit P g)) \<le> length zs" by (intro card_le_zset)
    with c True show ?thesis by simp
  next
    case False
    with c g show ?thesis by (simp add: window_good_def)
  qed
  moreover have "has_member e (a j)" if "j \<in> P" "2 \<le> length ((g(i := g i @ [r])) j)" for j
    using g that l unfolding window_good_def by (cases "j = i") auto
  ultimately show ?thesis using g assms(2,3) r unfolding window_good_def by simp
qed

text \<open>One command of a caller: trim, add, count, renew.\<close>

lemma window_good_step:
  assumes g: "window_good a W limit T P g t (st k)" and i: "i \<in> P" and l: "length (g i) < length (rate_pipeline k (a i) W)"
    and t: "t \<le> t'" "t' < T + W" and x: "redis_step t' (rate_pipeline k (a i) W ! length (g i)) st = (r, st')"
  shows "window_good a W limit T P (g(i := g i @ [r])) t' (st' k)"
proof -
  note gd = g [unfolded window_good_def]
  from l have "length (g i) < 4" by (simp add: rate_pipeline_def)
  then consider "length (g i) = 0" | "length (g i) = 1" | "length (g i) = 2" | "length (g i) = 3"
    by linarith
  then show ?thesis
  proof cases
    case 1
    let ?out = "\<lambda>p. 0 \<le> snd p \<and> snd p \<le> UnixMilli (a i - W)"
    have s: "redis_step t' (ZREMRANGEBYSCORE k 0 (UnixMilli (a i - W))) st = (r, st')"
      using x 1 by (simp add: rate_pipeline_def)
    from g t show ?thesis
    proof (cases rule: window_entry_cases)
      case 1
      with s have "r = RInt 0" "st' = st" by auto
      with 1 gd i t \<open>length (g i) = 0\<close> show ?thesis by (intro window_good_reply [OF g i t(1)]) auto
    next
      case (2 zs ex)
      have "\<not> ?out (a j, UnixMilli (a j))" if "j \<in> P" for j
      proof -
        have "UnixMilli (a i - W) < UnixMilli (a j)" using gd i that by blast
        then show ?thesis by simp
      qed
      then have m: "(a j, UnixMilli (a j)) \<in> set (filter (\<lambda>p. \<not> ?out p) zs)" if "j \<in> P" "has_member (st k) (a j)" for j
        using that 2 by (auto simp: has_member_def)
      from 2 s have r: "r = RInt (int (length (filter ?out zs)))" and st: "st' k = put_zset k (filter (\<lambda>p. \<not> ?out p) zs) ex st k"
        by (simp_all add: Let_def case_prod_unfold)
      have "has_member (st' k) (a j)" if "j \<in> P" "has_member (st k) (a j)" for j
        using m [OF that] by (force simp: st put_zset_def has_member_def filter_empty_conv)
      with \<open>length (g i) = 0\<close> 2 gd show ?thesis
        by (intro window_good_reply [OF g i t(1) _ _ _ r]) (auto simp: st put_zset_def)
    qed
  next
    case len: 2
    have s: "redis_step t' (ZADD k (UnixMilli (a i)) (a i)) st = (r, st')"
      using x len by (simp add: rate_pipeline_def)
    from g t show ?thesis
    proof (cases rule: window_entry_cases)
      case 1
      with s have "r = RInt 1" "st' k = Some (VZSet [(a i, UnixMilli (a i))], None)" by (auto simp: put_zset_def)
      with 1 gd len show ?thesis by (intro window_good_reply [OF g i t(1)]) (auto simp: has_member_def)
    next
      case (2 zs ex)
      then have e: "st' k = Some (VZSet ((a i, UnixMilli (a i)) # filter (\<lambda>p. fst p \<noteq> a i) zs), ex)"
        and r: "\<exists>n. r = RInt n"
        using s by (auto simp: put_zset_def)
      have "has_member (st' k) (a j)" if "j \<in> P" "j = i \<or> has_member (st k) (a j)" for j
        using that 2 e gd i by (cases "j = i") (auto simp: has_member_def dest: inj_onD)
      with r gd len e 2 show ?thesis by (elim exE) (intro window_good_reply [OF g i t(1)], auto)
    qed
  next
    case len: 3
    have s: "redis_step t' (ZCARD k) st = (r, st')" using x len by (simp add: rate_pipeline_def)
    from gd i len have "has_member (st k) (a i)" by auto
    with g t obtain zs ex where "st k = Some (VZSet zs, ex)" "live t' st k = Some (VZSet zs, ex)"
      by (cases rule: window_entry_cases) (auto simp: has_member_def)
    with s g i t len show ?thesis by (auto intro!: window_good_count)
  next
    case len: 4
    have s: "redis_step t' (EXPIRE k W) st = (r, st')" using x len by (simp add: rate_pipeline_def)
    have W: "0 < W" "T \<le> t'" using gd t by auto
    from g t show ?thesis
    proof (cases rule: window_entry_cases)
      case 1
      with gd i len have False by (auto simp: has_member_def)
      then show ?thesis ..
    next
      case (2 zs ex)
      with s W have r: "r = RInt 1" and e: "st' k = Some (VZSet zs, Some (t' + W))" by auto
      have m: "has_member (st' k) b \<longleftrightarrow> has_member (st k) b" for b using 2 e by (auto simp: has_member_def)
      have "\<forall>j \<in> P. 2 \<le> length (g j) \<or> (j = i \<and> length (g i) = 1) \<longrightarrow> has_member (st' k) (a j)"
        using gd len unfolding m by auto
      with e W len show ?thesis by (intro window_good_reply [OF g i t(1) _ _ _ r]) auto
    qed
  qed
qed

lemma window_good_clock: "window_good a W limit T P g t e \<Longrightarrow> t \<le> t' \<Longrightarrow> window_good a W limit T P g t' e"
  by (simp add: window_good_def)

interpretation window: shared_key k "\<lambda>i. rate_pipeline k (a i) W" "\<lambda>i. rate_answer limit (a i + W)" P "T + W"
  "window_good a W limit T P" for k a W limit P T
  by unfold_locales (blast intro: window_good_step window_good_clock)+

text \<open>The start: every client at the beginning of its call.\<close>

definition callers :: "(int \<times> session_call) list \<Rightarrow> (session_call \<Rightarrow> bool) \<Rightarrow> nat set" where
  "callers reqs isp = {i. i < length reqs \<and> isp (snd (reqs ! i))}"

definition call_clients :: "('s, 'd) env \<Rightarrow> (int \<times> session_call) list \<Rightarrow> answer client list" where
  "call_clients E reqs = map (\<lambda>(now, call). call_client E now call) reqs"

lemma length_call_clients [simp]: "length (call_clients E reqs) = length reqs"
  by (simp add: call_clients_def)

lemma call_clients_nth: "i < length reqs \<Longrightarrow> call_clients E reqs ! i = call_client E (fst (reqs ! i)) (snd (reqs ! i))"
  by (simp add: call_clients_def case_prod_beta)

lemma call_clients_batch:
  "i < length reqs \<Longrightarrow> call_cmds E (fst (reqs ! i)) (snd (reqs ! i)) = cs \<Longrightarrow>
   call_answer (fst (reqs ! i)) (snd (reqs ! i)) = f \<Longrightarrow> in_batch cs f [] (call_clients E reqs ! i)"
  by (auto simp: call_clients_nth call_client_def in_batch_start)

lemma callers_finite [simp]: "finite (callers reqs isp)"
  by (simp add: callers_def)

lemma callersD: "i \<in> callers reqs isp \<Longrightarrow> i < length reqs \<and> isp (snd (reqs ! i))"
  by (simp add: callers_def)

lemma callers_spare:
  assumes "\<forall>(now, c) \<in> set reqs. isp c \<or> (\<forall>d \<in> set (call_cmds E now c). harmless k d)"
    and "i < length reqs" and "i \<notin> callers reqs isp"
  shows "spares (call_clients E reqs ! i) k"
proof -
  have "\<forall>d \<in> set (call_cmds E (fst (reqs ! i)) (snd (reqs ! i))). harmless k d"
    using bspec [OF assms(1) nth_mem [OF assms(2)]] assms(2,3) by (simp add: callers_def case_prod_beta)
  then show ?thesis unfolding call_clients_nth [OF assms(2)] by (rule call_client_spares)
qed

text \<open>What a caller with all its replies was told.\<close>

lemma rate_answer_allowed:
  assumes "\<forall>r \<in> set rs. \<exists>n. r = RInt n" "length rs = 4" "rate_answer limit x rs = ARate (True, rem, y, z)"
  shows "\<exists>n. rs ! 2 = RInt n \<and> n \<le> limit"
proof -
  have "\<forall>r \<in> set rs. reply_error r = None \<Longrightarrow> first_error rs = None" for rs
    by (induction rs) simp_all
  with assms(1) have "first_error rs = None" by (fastforce simp: reply_error_def)
  moreover obtain n where "rs ! 2 = RInt n" using assms(1,2) by (metis nth_mem numeral_less_iff semiring_norm(76,78))
  ultimately show ?thesis using assms(2,3) by (auto simp: rate_answer_def nth_reply_def Let_def split: if_splits)
qed

text \<open>
  C9.  Overlapping requests never exceed the limit: whatever calls of the session store run concurrently, in whatever
  order Redis serves their commands, at most \<open>limit\<close> of the rate checks for one key whose clock readings are
  distinct and fall into one window are allowed.
\<close>

theorem limiter_safe_when_interleaved:
  assumes "client_step\<^sup>*\<^sup>* (call_clients E reqs, T, st0) (cls, t, st)" and "t < T + W"
    and "P = callers reqs (\<lambda>c. c = CRate key limit W)"
    and "\<forall>(now, c) \<in> set reqs. c = CRate key limit W \<or> (\<forall>l w. c \<noteq> CRate key l w)"
    and "inj_on (\<lambda>i. fst (reqs ! i)) P"
    and "\<forall>i \<in> P. \<forall>j \<in> P. in_window W (fst (reqs ! i)) (fst (reqs ! j))"
    and "st0 (limit_key key) = None" and "0 \<le> limit"
  shows "int (card {i \<in> P. \<exists>rem resetAt. cls ! i = Done (ARate (True, rem, resetAt, None))}) \<le> limit"
proof -
  define a where "a = (\<lambda>i. fst (reqs ! i))"
  let ?g = "window_good a W limit T P"
  let ?h = "shared_key.holds_at (limit_key key) (\<lambda>i. rate_pipeline (limit_key key) (a i) W)
      (\<lambda>i. rate_answer limit (a i + W)) P ?g"
  have p: "i < length reqs \<and> snd (reqs ! i) = CRate key limit W" if "i \<in> P" for i
    using that callersD assms(3) by blast
  have "\<forall>(now, c) \<in> set reqs. c = CRate key limit W \<or> (\<forall>d \<in> set (call_cmds E now c). harmless (limit_key key) d)"
    using assms(4) by (blast intro: limit_key_private)
  from callers_spare [OF this]
  have sp: "spares (call_clients E reqs ! i) (limit_key key)" if "i < length reqs" "i \<notin> P" for i
    using that assms(3) by blast
  have "?g (\<lambda>_. []) T (st0 (limit_key key))"
    using assms(3,5-8) by (simp add: window_good_def a_def in_window_def counted_def)
  then have "?h (call_clients E reqs, T, st0)"
    using p sp by (auto simp: window.holds_at_def a_def intro!: exI [of _ "\<lambda>_. []"] call_clients_batch)
  with assms(1,2) have "?h (cls, t, st)" using window.holds_run by fastforce
  then obtain g where
    b: "\<forall>i \<in> P. in_batch (rate_pipeline (limit_key key) (a i) W) (rate_answer limit (a i + W)) (g i) (cls ! i)"
    and g: "?g g t (st (limit_key key))"
    by (auto simp: window.holds_at_def)
  have "{i \<in> P. \<exists>rem resetAt. cls ! i = Done (ARate (True, rem, resetAt, None))} \<subseteq> counted limit P g"
  proof safe
    fix i rem resetAt assume i: "i \<in> P" "cls ! i = Done (ARate (True, rem, resetAt, None))"
    with b have "in_batch (rate_pipeline (limit_key key) (a i) W) (rate_answer limit (a i + W)) (g i)
        (Done (ARate (True, rem, resetAt, None)))" by metis
    from in_batch_done [OF this] have l: "length (g i) = 4"
      and r: "rate_answer limit (a i + W) (g i) = ARate (True, rem, resetAt, None)"
      by (simp_all add: rate_pipeline_def)
    from g i(1) have "\<forall>r \<in> set (g i). \<exists>n. r = RInt n" by (simp add: window_good_def)
    from rate_answer_allowed [OF this l r] i(1) l show "i \<in> counted limit P g" by (simp add: counted_def)
  qed
  moreover have "finite (counted limit P g)" "int (card (counted limit P g)) \<le> limit"
    using g by (simp_all add: counted_def window_good_def)
  ultimately show ?thesis by (meson card_mono of_nat_mono order_trans)
qed

theorem limiter_safe_when_interleaved_witness:
  "let reqs = [(5, CRate ''ip'' 1 second), (6, CRate ''ip'' 1 second), (9, CConsume ''tok'')];
       cls = fst (serve_list 7 [0, 1, 2, 1, 0, 0, 2, 1, 1, 0] (call_clients ref_env reqs) (\<lambda>_. None));
       P = callers reqs (\<lambda>c. c = CRate ''ip'' 1 second)
   in int (card {i \<in> P. \<exists>rem resetAt. cls ! i = Done (ARate (True, rem, resetAt, None))}) \<le> 1"
proof -
  let ?reqs = "[(5, CRate ''ip'' 1 second), (6, CRate ''ip'' 1 second), (9, CConsume ''tok'')]"
  obtain cls st where s: "serve_list 7 [0, 1, 2, 1, 0, 0, 2, 1, 1, 0] (call_clients ref_env ?reqs) (\<lambda>_. None) = (cls, st)"
    by fastforce
  have run: "client_step\<^sup>*\<^sup>* (call_clients ref_env ?reqs, 7, \<lambda>_. None) (cls, 7, st)"
    by (rule serve_list_reach [OF _ s]) simp
  have P: "callers ?reqs (\<lambda>c. c = CRate ''ip'' 1 second) = {0, 1}"
    by (auto simp: callers_def less_Suc_eq numeral_3_eq_3)
  show ?thesis
    using limiter_safe_when_interleaved [OF run _ refl, of second "''ip''" 1] s P
    by (simp add: in_window_def UnixMilli_def second_def)
qed

section \<open>The failure counter\<close>

definition begun :: "nat set \<Rightarrow> (nat \<Rightarrow> rreply list) \<Rightarrow> nat set" where
  "begun P g = {i \<in> P. g i \<noteq> []}"

definition count_entry :: "int \<Rightarrow> int \<Rightarrow> entry option \<Rightarrow> bool" where
  "count_entry B n e \<longleftrightarrow>
     (if n = 0 then e = None else \<exists>ex. e = Some (VStr (itoa n), ex) \<and> (\<forall>x. ex = Some x \<longrightarrow> B \<le> x))"

definition counter_good ::
    "int \<Rightarrow> int \<Rightarrow> int \<Rightarrow> int \<Rightarrow> nat set \<Rightarrow> (nat \<Rightarrow> rreply list) \<Rightarrow> int \<Rightarrow> entry option \<Rightarrow> bool" where
  "counter_good n0 ttl T B P g t e \<longleftrightarrow>
     T \<le> t \<and> B \<le> T + ttl \<and> finite P \<and> 0 \<le> n0 \<and> in_int64 (n0 + int (card P)) \<and>
     count_entry B (n0 + int (card (begun P g))) e \<and>
     (\<lambda>i. g i ! 0) ` begun P g = RInt ` {n0 + 1 .. n0 + int (card (begun P g))} \<and>
     (\<forall>i \<in> P. 2 \<le> length (g i) \<longrightarrow> g i ! 1 = RInt 1)"

lemma counter_incr:
  assumes "count_entry B n (st k)" and "t' < B" and "0 \<le> n" and "in_int64 (n + 1)"
    and "redis_step t' (INCR k) st = (r, st')"
  shows "r = RInt (n + 1)" "count_entry B (n + 1) (st' k)"
proof -
  have "r = RInt (n + 1) \<and> count_entry B (n + 1) (st' k)"
  proof (cases "n = 0")
    case True
    with assms(1,5) show ?thesis by (auto simp: count_entry_def live_def)
  next
    case False
    with assms(1) obtain ex where st: "st k = Some (VStr (itoa n), ex)" and ex: "\<forall>x. ex = Some x \<longrightarrow> B \<le> x"
      by (auto simp: count_entry_def)
    then have "live t' st k = Some (VStr (itoa n), ex)" using assms(2) by (intro live_before) auto
    moreover have "in_int64 n" using assms(3,4) by (auto simp: in_int64_def)
    ultimately show ?thesis using ex assms(3-5) by (auto simp: count_entry_def)
  qed
  then show "r = RInt (n + 1)" "count_entry B (n + 1) (st' k)" by simp_all
qed

lemma counter_good_step:
  assumes g: "counter_good n0 ttl T B P g t (st k)" and i: "i \<in> P" and l: "length (g i) < length [INCR k, EXPIRE k ttl]"
    and t: "t \<le> t'" "t' < B" and x: "redis_step t' ([INCR k, EXPIRE k ttl] ! length (g i)) st = (r, st')"
  shows "counter_good n0 ttl T B P (g(i := g i @ [r])) t' (st' k)"
proof -
  let ?m = "int (card (begun P g))"
  note gd = g [unfolded counter_good_def]
  have fin: "finite (begun P g)" using gd by (simp add: begun_def)
  show ?thesis
  proof (cases "g i = []")
    case True
    have b: "begun P (g(i := g i @ [r])) = insert i (begun P g)" "i \<notin> begun P g"
      using i True by (auto simp: begun_def)
    then have c: "int (card (begun P (g(i := g i @ [r])))) = ?m + 1" using fin by simp
    have "?m + 1 \<le> int (card P)"
      using c gd card_mono [of P "begun P (g(i := g i @ [r]))"] by (auto simp: begun_def)
    then have "in_int64 (n0 + ?m + 1)" using gd by (auto simp: in_int64_def)
    from counter_incr [OF _ t(2) _ this] gd x True
    have r: "r = RInt (n0 + ?m + 1)" and e: "count_entry B (n0 + ?m + 1) (st' k)" by auto
    have "(\<lambda>j. (g(i := g i @ [r])) j ! 0) ` insert i (begun P g) =
        insert r ((\<lambda>j. g j ! 0) ` begun P g)"
      using b(2) True by (auto simp: image_iff)
    also have "\<dots> = RInt ` {n0 + 1 .. n0 + (?m + 1)}"
    proof -
      have "{n0 + 1 .. n0 + (?m + 1)} = insert (n0 + ?m + 1) {n0 + 1 .. n0 + ?m}" by auto
      then show ?thesis using gd r by simp
    qed
    finally show ?thesis
      using gd t c e True unfolding counter_good_def b(1) [symmetric] by (simp add: algebra_simps)
  next
    case False
    then have len: "length (g i) = 1" using l by (cases "g i") auto
    have b: "begun P (g(i := g i @ [r])) = begun P g" using i False by (auto simp: begun_def)
    have "i \<in> begun P g" using i False by (simp add: begun_def)
    then have pos: "0 < ?m" using fin by (simp add: card_gt_0_iff) blast
    then obtain v ex where "st k = Some (v, ex)" "\<forall>x. ex = Some x \<longrightarrow> B \<le> x" "v = VStr (itoa (n0 + ?m))"
      using gd by (auto simp: count_entry_def)
    moreover then have "live t' st k = Some (v, ex)" using t by (intro live_before) auto
    ultimately have r: "r = RInt 1" and e: "st' k = Some (VStr (itoa (n0 + ?m)), Some (t' + ttl))"
      using x len gd t by auto
    have "(\<lambda>j. (g(i := g i @ [r])) j ! 0) ` begun P g = (\<lambda>j. g j ! 0) ` begun P g"
      using False by (intro image_cong) (auto simp: nth_append)
    then show ?thesis
      using gd t pos r len unfolding counter_good_def b by (auto simp: e count_entry_def nth_append)
  qed
qed

lemma counter_good_clock: "counter_good n0 ttl T B P g t e \<Longrightarrow> t \<le> t' \<Longrightarrow> counter_good n0 ttl T B P g t' e"
  by (simp add: counter_good_def)

interpretation counter: shared_key k "\<lambda>i. [INCR k, EXPIRE k ttl]" "\<lambda>i. incr_answer" P B "counter_good n0 ttl T B P"
  for k ttl P B n0 T
  by unfold_locales (blast intro: counter_good_step counter_good_clock)+

text \<open>
  C12.  No failed login is lost: however the calls of the session store interleave, with lockout checks among them
  but without a clearing of the counter, the failures counted for an address get pairwise different counts, from the
  old count on without a gap, and the counter ends at their number.
\<close>

theorem failures_never_lost:
  assumes "client_step\<^sup>*\<^sup>* (call_clients E reqs, T, st0) (cls, t, st)" and "t < B" and "B \<le> T + ttl" and "T < B"
    and "P = callers reqs (\<lambda>c. c = CIncr email ttl)"
    and "\<forall>(now, c) \<in> set reqs. c = CIncr email ttl \<or> (\<forall>d \<in> set (call_cmds E now c). harmless (lockoutKey E email) d)"
    and "0 \<le> n0" and "in_int64 (n0 + int (card P))" and "count_entry B n0 (st0 (lockoutKey E email))"
    and "\<forall>i \<in> P. \<exists>a. cls ! i = Done a"
  shows "(\<lambda>i. cls ! i) ` P = (\<lambda>n. Done (ACount (n, None))) ` {n0 + 1 .. n0 + int (card P)} \<and>
    count_entry B (n0 + int (card P)) (st (lockoutKey E email))"
proof -
  let ?k = "lockoutKey E email"
  let ?g = "counter_good n0 ttl T B P"
  let ?h = "shared_key.holds_at ?k (\<lambda>i. [INCR ?k, EXPIRE ?k ttl]) (\<lambda>i. incr_answer) P ?g"
  have p: "i < length reqs \<and> snd (reqs ! i) = CIncr email ttl" if "i \<in> P" for i
    using that callersD assms(5) by blast
  have sp: "spares (call_clients E reqs ! i) ?k" if "i < length reqs" "i \<notin> P" for i
    using callers_spare [OF assms(6)] that assms(5) by blast
  have "?g (\<lambda>_. []) T (st0 ?k)"
    using assms(3,5,7-9) by (simp add: counter_good_def begun_def)
  then have "?h (call_clients E reqs, T, st0)"
    using p sp by (auto simp: counter.holds_at_def intro!: exI [of _ "\<lambda>_. []"] call_clients_batch)
  with assms(1,2) have "?h (cls, t, st)" using counter.holds_run by fastforce
  then obtain g where b: "\<forall>i \<in> P. in_batch [INCR ?k, EXPIRE ?k ttl] incr_answer (g i) (cls ! i)" and g: "?g g t (st ?k)"
    by (auto simp: counter.holds_at_def)
  have d: "length (g i) = 2 \<and> cls ! i = Done (incr_answer (g i))" if "i \<in> P" for i
  proof -
    from assms(10) that obtain a where a: "cls ! i = Done a" by blast
    with b that have "in_batch [INCR ?k, EXPIRE ?k ttl] incr_answer (g i) (Done a)" by metis
    from in_batch_done [OF this] a show ?thesis by simp
  qed
  have "g i \<noteq> []" if "i \<in> P" for i using d [OF that] by auto
  then have "begun P g = P" by (auto simp: begun_def)
  with g have e: "count_entry B (n0 + int (card P)) (st ?k)"
    and im: "(\<lambda>i. g i ! 0) ` P = RInt ` {n0 + 1 .. n0 + int (card P)}" and "\<forall>i \<in> P. 2 \<le> length (g i) \<longrightarrow> g i ! 1 = RInt 1"
    by (simp_all add: counter_good_def)
  define told where "told r = Done (ACount (case r of RInt n \<Rightarrow> n | _ \<Rightarrow> 0, None))" for r
  have "cls ! i = told (g i ! 0)" if i: "i \<in> P" for i
  proof -
    obtain n where n: "g i ! 0 = RInt n" using im i by (metis image_iff)
    have "g i = [RInt n, RInt 1]"
      using d [OF i] n \<open>\<forall>i \<in> P. 2 \<le> length (g i) \<longrightarrow> g i ! 1 = RInt 1\<close> i by (auto simp: list_eq_iff_nth_eq less_2_cases_iff)
    with d [OF i] show ?thesis by (simp add: told_def incr_answer_def reply_error_def nth_reply_def)
  qed
  then have "(\<lambda>i. cls ! i) ` P = told ` (\<lambda>i. g i ! 0) ` P" by (auto simp: image_image intro!: image_cong)
  also have "\<dots> = (\<lambda>n. Done (ACount (n, None))) ` {n0 + 1 .. n0 + int (card P)}"
    unfolding im by (simp add: image_image told_def)
  finally show ?thesis using e by simp
qed

theorem failures_never_lost_witness:
  "\<exists>cls st. client_step\<^sup>*\<^sup>* (call_clients ref_env [(5, CIncr ''a@b.c'' 100), (6, CIncr ''a@b.c'' 100), (7, CIsLockedOut ''a@b.c'')],
      5, \<lambda>_. None) (cls, 5, st) \<and> (\<lambda>i. cls ! i) ` {0, 1} = (\<lambda>n. Done (ACount (n, None))) ` {1 .. 2}"
proof -
  let ?reqs = "[(5, CIncr ''a@b.c'' 100), (6, CIncr ''a@b.c'' 100), (7, CIsLockedOut ''a@b.c'')]"
  obtain cls st where s: "serve_list 5 [0, 2, 1, 0, 1] (call_clients ref_env ?reqs) (\<lambda>_. None) = (cls, st)" by fastforce
  have run: "client_step\<^sup>*\<^sup>* (call_clients ref_env ?reqs, 5, \<lambda>_. None) (cls, 5, st)"
    by (rule serve_list_reach [OF _ s]) simp
  have P: "callers ?reqs (\<lambda>c. c = CIncr ''a@b.c'' 100) = {0, 1}"
    by (auto simp: callers_def less_Suc_eq numeral_3_eq_3)
  have "\<forall>i \<in> {0, 1}. \<exists>a. cls ! i = Done a"
    using s by (auto simp: call_clients_def call_client_def case_prod_beta Let_def simp del: redis_step.simps)
  with failures_never_lost [OF run _ _ _ refl, of 100 100 "''a@b.c''" 0] run show ?thesis
    by (auto simp: P harmless_def count_entry_def in_int64_def)
qed

end
