(* ===== verification/Overlap.thy ===== *)
theory Overlap
  imports Races Auth_Props
begin

text \<open>
  Checks that are not atomic with the action they guard: the lockout check of a login and the single use of a reset
  token; and the end of every concurrent run.
\<close>

section \<open>Reset tokens\<close>

definition token_good :: "nat set \<Rightarrow> (nat \<Rightarrow> rreply list) \<Rightarrow> int \<Rightarrow> entry option \<Rightarrow> bool" where
  "token_good P g t e \<longleftrightarrow> (\<forall>v x. e = Some (v, x) \<longrightarrow> (\<exists>y. x = Some y \<and> y \<le> t)) \<and>
     (\<forall>i \<in> P. g i \<in> {[], [RNil], [RNil, RInt 0]})"

lemma live_None_iff: "live t st k = None \<longleftrightarrow> (\<forall>v x. st k = Some (v, x) \<longrightarrow> (\<exists>y. x = Some y \<and> y \<le> t))"
  by (auto simp: live_def split: option.splits)

lemma token_good_step:
  assumes g: "token_good P g t (st k)" and i: "i \<in> P" and l: "length (g i) < length [GET k, DEL [k]]"
    and t: "t \<le> t'" and x: "redis_step t' ([GET k, DEL [k]] ! length (g i)) st = (r, st')"
  shows "token_good P (g(i := g i @ [r])) t' (st' k)"
proof -
  have "live t st k = None" using g by (simp add: token_good_def live_None_iff)
  from live_antimono [OF t this] have n: "live t' st k = None" .
  from g i l consider "g i = []" | "g i = [RNil]" by (auto simp: token_good_def)
  then show ?thesis
  proof cases
    case 1
    with x n have "r = RNil" "st' = st" by auto
    with 1 g n show ?thesis by (auto simp: token_good_def live_None_iff)
  next
    case 2
    with x n have "r = RInt 0" "st' k = None" by auto
    with 2 g show ?thesis by (auto simp: token_good_def)
  qed
qed

lemma token_good_clock: "token_good P g t e \<Longrightarrow> t \<le> t' \<Longrightarrow> token_good P g t' e"
  by (fastforce simp: token_good_def)

interpretation token: shared_key k "\<lambda>i. [GET k, DEL [k]]" "\<lambda>i. consume_answer" P B "token_good P"
  for k P B
  by unfold_locales (blast intro: token_good_step token_good_clock)+

text \<open>
  C14.  A reset token that one call has consumed is worth nothing to any call that starts later, however those calls
  and all others interleave, as long as no new token with the same hash is stored.
\<close>

theorem spent_token_stays_spent:
  assumes "client_step\<^sup>*\<^sup>* (call_clients E reqs, T, snd (solo T (call_client E now (CConsume token)) st0)) (cls, t, st)"
    and "\<forall>(now, c) \<in> set reqs. c = CConsume token \<or> (\<forall>d \<in> set (call_cmds E now c). harmless (resetKey E token) d)"
    and "i \<in> callers reqs (\<lambda>c. c = CConsume token)" and "cls ! i = Done a"
  shows "a = AStr (Inl (Errorf ''reset token not found or already used''))"
proof -
  let ?k = "resetKey E token" and ?P = "callers reqs (\<lambda>c. c = CConsume token)"
  let ?h = "shared_key.holds_at ?k (\<lambda>i. [GET ?k, DEL [?k]]) (\<lambda>i. consume_answer) ?P (token_good ?P)"
  let ?st = "snd (solo T (call_client E now (CConsume token)) st0)"
  have "?st ?k = None" by (simp add: call_client_def solo_send_all)
  then have "token_good ?P (\<lambda>_. []) T (?st ?k)" by (simp add: token_good_def)
  moreover have "j < length reqs \<and> snd (reqs ! j) = CConsume token" if "j \<in> ?P" for j
    using that callersD by fastforce
  ultimately have "?h (call_clients E reqs, T, ?st)"
    using callers_spare [OF assms(2)] by (auto simp: token.holds_at_def intro!: exI [of _ "\<lambda>_. []"] call_clients_batch)
  with assms(1) have "?h (cls, t, st)" using token.holds_run [where B = "t + 1"] by fastforce
  then obtain g where bs: "\<forall>i \<in> ?P. in_batch [GET ?k, DEL [?k]] consume_answer (g i) (cls ! i)"
    and g: "\<forall>i \<in> ?P. g i \<in> {[], [RNil], [RNil, RInt 0]}"
    by (auto simp: token.holds_at_def token_good_def)
  have b: "in_batch [GET ?k, DEL [?k]] consume_answer (g i) (Done a)" using bs assms(3,4) by metis
  have "g i \<in> {[], [RNil], [RNil, RInt 0]}" using g assms(3) by blast
  with in_batch_done [OF b] have "g i = [RNil, RInt 0]" "a = consume_answer (g i)" by auto
  then show ?thesis by (simp add: consume_answer_def reply_error_def nth_reply_def)
qed

theorem spent_token_stays_spent_witness:
  "fst (serve_list 9 [0, 1, 0, 1] (call_clients ref_env [(9, CConsume ''tok''), (9, CConsume ''tok'')])
      (snd (solo 9 (call_client ref_env 8 (CConsume ''tok'')) [resetKey ref_env ''tok'' \<mapsto> (VStr ''id'', Some 100)]))) ! 1
    = Done (AStr (Inl (Errorf ''reset token not found or already used'')))"
proof -
  let ?reqs = "[(9, CConsume ''tok''), (9, CConsume ''tok'')]"
  let ?st = "snd (solo 9 (call_client ref_env 8 (CConsume ''tok'')) [resetKey ref_env ''tok'' \<mapsto> (VStr ''id'', Some 100)])"
  obtain cls st where s: "serve_list 9 [0, 1, 0, 1] (call_clients ref_env ?reqs) ?st = (cls, st)" by fastforce
  have run: "client_step\<^sup>*\<^sup>* (call_clients ref_env ?reqs, 9, ?st) (cls, 9, st)"
    by (rule serve_list_reach [OF _ s]) simp
  have "\<exists>a. cls ! 1 = Done a"
    using s by (auto simp: call_clients_def call_client_def case_prod_beta Let_def simp del: redis_step.simps)
  then obtain a where a: "cls ! 1 = Done a" ..
  have "1 \<in> callers ?reqs (\<lambda>c. c = CConsume ''tok'')" by (simp add: callers_def)
  from spent_token_stays_spent [OF run _ this a] a s show ?thesis by simp
qed

text \<open>
  Consuming is no test-and-delete: of two overlapping calls with one live token both get its user, because both
  may read it before either deletes it.
\<close>

theorem reset_token_double_spend:
  assumes "live_str T st0 (resetKey E token) = Some userID"
  shows "\<exists>st. client_step\<^sup>*\<^sup>* (call_clients E [(T, CConsume token), (T, CConsume token)], T, st0)
    ([Done (AStr (Inr userID)), Done (AStr (Inr userID))], T, st)"
proof -
  let ?k = "resetKey E token" and ?cls = "call_clients E [(T, CConsume token), (T, CConsume token)]"
  from assms obtain ex where l: "live T st0 ?k = Some (VStr userID, ex)"
    by (auto simp: live_str_def split: option.splits prod.splits rval.splits)
  have "\<exists>st. serve_list T [0, 1, 0, 1] ?cls st0 = ([Done (AStr (Inr userID)), Done (AStr (Inr userID))], st)"
    using l by (simp add: call_clients_def call_client_def live_def consume_answer_def nth_reply_def reply_error_def)
  then obtain st where sl: "serve_list T [0, 1, 0, 1] ?cls st0 = ([Done (AStr (Inr userID)), Done (AStr (Inr userID))], st)" ..
  have "client_step\<^sup>*\<^sup>* (?cls, T, st0) ([Done (AStr (Inr userID)), Done (AStr (Inr userID))], T, st)"
    by (rule serve_list_reach [OF _ sl]) simp
  then show ?thesis by blast
qed

theorem reset_token_double_spend_witness:
  "\<exists>st. client_step\<^sup>*\<^sup>* (call_clients ref_env [(5, CConsume ''tok''), (5, CConsume ''tok'')], 5,
      [resetKey ref_env ''tok'' \<mapsto> (VStr ''id'', Some 9)])
    ([Done (AStr (Inr ''id'')), Done (AStr (Inr ''id''))], 5, st)"
  by (rule reset_token_double_spend) simp

section \<open>The lockout check\<close>

text \<open>
  What a login with a wrong password sends to Redis: the lockout check and, unless it refuses, after the comparison of
  the password the count of the failure.  The answer says whether the password was compared.
\<close>

definition wrong_login :: "('s, 'd) env \<Rightarrow> string \<Rightarrow> bool client" where
  "wrong_login E email =
     send_all (call_cmds E 0 (CIsLockedOut email)) (\<lambda>rs.
       if locked_answer rs = ALocked (True, None) then Done False
       else send_all (call_cmds E 0 (CIncr email loginLockoutWindow)) (\<lambda>_. Done True))"

lemma locked_answer_cases: "locked_answer rs = ALocked (l, e) \<Longrightarrow> l \<longleftrightarrow> locked_answer rs = ALocked (True, None)"
  by (auto simp: locked_answer_def split: sum.splits)

lemma redis_frames [simp]:
  "w_redis (auditLog c ev m u x w) = w_redis w" "w_redis (warn_error msg le w) = w_redis w"
  "w_redis (end_failed sp as err w) = w_redis w" "w_now (warn_error msg le w) = w_now w"
  by (simp_all add: auditLog_def warn_error_def end_failed_def split: option.splits)

text \<open>The service's login with a wrong password is this client run alone.\<close>

lemma wrong_login_runs_as_client:
  assumes "redis_server E kv" and "always_answers E w" and s: "as_sessions s = NewSessionRepo E"
    and look: "\<And>w1 r w2. svc_GetByEmail (as_users s) email w1 = (r, w2) \<Longrightarrow>
      w_now w2 = w_now w1 \<and> w_redis w2 = w_redis w1 \<and> (\<exists>u. r = Inr u \<and> bcryptCompare E (u_PasswordHash u) password \<noteq> None)"
    and l: "authService_Login E s c email password w = (r, w')"
  shows "solo (w_now w) (wrong_login E email) (kv (w_redis w)) =
    (r = Inl (Unauthorized ''invalid credentials''), kv (w_redis w'))"
proof -
  obtain rs w1 where x: "redis_exec E (call_cmds E (w_now w) (CIsLockedOut email)) w = (Inr rs, w1)"
    using answers_exec [OF assms(2)] by blast
  from redis_server.pipeline_ok [OF assms(1) x]
  have r1: "redis_run (w_now w) (call_cmds E 0 (CIsLockedOut email)) (kv (w_redis w)) = (rs, kv (w_redis w1))"
    and n1: "w_now w1 = w_now w" by simp_all
  obtain b e where be: "locked_answer rs = ALocked (b, e)" by (cases "failures_answer rs") (auto simp: locked_answer_def)
  with session_op_answered [OF x] have lo: "IsLockedOut (NewSessionRepo E) email w = ((b, e), w1)"
    by (cases "IsLockedOut (NewSessionRepo E) email w") auto
  have la: "locked_answer rs = ALocked (True, None) \<longleftrightarrow> b" using locked_answer_cases [OF be] by simp
  have up: "always_answers E w1" using answers_step [OF assms(2) x] .
  show ?thesis
  proof (cases b)
    case True
    then have "authService_Login E s c email password w = fail ''service/Login'' locked_error
        (auditLog c EventLoginLocked email [] [] (warn_error ''lockout check failed'' e w1))"
      using lo s by (simp add: authService_Login_def)
    with l have "r = Inl locked_error" "w_redis w' = w_redis w1" by (auto simp: fail_def)
    moreover have "locked_error \<noteq> Unauthorized ''invalid credentials''"
      by (simp add: locked_error_def New_def Unauthorized_def)
    ultimately show ?thesis
      unfolding wrong_login_def solo_send_all r1 fst_conv snd_conv using la True by simp
  next
    case False
    let ?w1 = "warn_error ''lockout check failed'' e w1"
    obtain g w2 where g: "svc_GetByEmail (as_users s) email ?w1 = (g, w2)" by fastforce
    from look [OF g] obtain u where u: "g = Inr u" "bcryptCompare E (u_PasswordHash u) password \<noteq> None"
      and f: "w_now w2 = w_now w1" "w_redis w2 = w_redis w1"
      by auto
    have "always_answers E w2" using up f(2) by (simp add: always_answers_def)
    then obtain qs w3 where y: "redis_exec E (call_cmds E (w_now w2) (CIncr email loginLockoutWindow)) w2 = (Inr qs, w3)"
      using answers_exec by blast
    from redis_server.pipeline_ok [OF assms(1) y] f n1
    have r3: "redis_run (w_now w) (call_cmds E 0 (CIncr email loginLockoutWindow)) (kv (w_redis w1)) = (qs, kv (w_redis w3))"
      by simp
    obtain n ie where "IncrLoginFailure (NewSessionRepo E) email loginLockoutWindow w2 = ((n, ie), w3)"
      using session_op_answered [OF y]
      by (cases "IncrLoginFailure (NewSessionRepo E) email loginLockoutWindow w2") auto
    then have "r = Inl (Unauthorized ''invalid credentials'')" "w_redis w' = w_redis w3"
      using l lo s False g u by (auto simp: authService_Login_def Let_def fail_def)
    moreover have "locked_answer rs \<noteq> ALocked (True, None)" using la False by simp
    ultimately show ?thesis
      unfolding wrong_login_def solo_send_all r1 fst_conv snd_conv by (simp add: solo_send_all r3 del: call_cmds.simps)
  qed
qed

lemma solo_reach:
  "i < length cls \<Longrightarrow> cls ! i = c \<Longrightarrow>
   client_step\<^sup>*\<^sup>* (cls, t, st) (cls[i := Done (fst (solo t c st))], t, snd (solo t c st))"
proof (induction c arbitrary: cls st)
  case (Done a)
  then show ?case by (metis fst_conv list_update_id rtranclp.rtrancl_refl snd_conv solo.simps(1))
next
  case (Send c k)
  let ?r = "fst (redis_step t c st)" and ?st = "snd (redis_step t c st)"
  have "client_step (cls, t, st) (cls[i := k ?r], t, ?st)"
    using Send.prems by (intro serve) auto
  moreover have "client_step\<^sup>*\<^sup>* (cls[i := k ?r], t, ?st)
      (cls[i := k ?r, i := Done (fst (solo t (k ?r) ?st))], t, snd (solo t (k ?r) ?st))"
    using Send.prems by (intro Send.IH [OF rangeI]) simp_all
  ultimately show ?case by (simp add: converse_rtranclp_into_rtranclp)
qed

text \<open>Clients that answer the same whatever they are told, served one after the other.\<close>

lemma drain_reach:
  assumes "\<And>st. fst (solo t c st) = a"
  shows "\<exists>st'. client_step\<^sup>*\<^sup>* (pre @ replicate n c, t, st) (pre @ replicate n (Done a), t, st')"
proof (induction n arbitrary: pre st)
  case 0
  then show ?case by auto
next
  case (Suc n)
  have "client_step\<^sup>*\<^sup>* (pre @ replicate (Suc n) c, t, st) ((pre @ [Done a]) @ replicate n c, t, snd (solo t c st))"
    using solo_reach [of "length pre" "pre @ replicate (Suc n) c" c t st] assms by simp
  moreover obtain st' where "client_step\<^sup>*\<^sup>* ((pre @ [Done a]) @ replicate n c, t, snd (solo t c st))
      ((pre @ [Done a]) @ replicate n (Done a), t, st')"
    using Suc.IH by blast
  ultimately show ?case by (auto intro: rtranclp_trans)
qed

lemma read_reach:
  assumes "redis_step t c st = (r, st)"
  shows "client_step\<^sup>*\<^sup>* (pre @ replicate n (Send c k), t, st) (pre @ replicate n (k r), t, st)"
proof (induction n arbitrary: pre)
  case (Suc n)
  have "client_step (pre @ replicate (Suc n) (Send c k), t, st)
      ((pre @ replicate (Suc n) (Send c k))[length pre := k r], t, st)"
    using assms by (intro serve) simp_all
  moreover have "(pre @ replicate (Suc n) (Send c k))[length pre := k r] = (pre @ [k r]) @ replicate n (Send c k)"
    by simp
  ultimately have "client_step (pre @ replicate (Suc n) (Send c k), t, st) ((pre @ [k r]) @ replicate n (Send c k), t, st)"
    by metis
  with Suc.IH [of "pre @ [k r]"] show ?case by (simp add: converse_rtranclp_into_rtranclp)
qed simp

text \<open>
  C35.  The lockout bounds attempts only one after the other: for an address below the threshold any number of
  overlapping logins with wrong passwords may all get their password compared, because all may pass the check before
  the first failure is counted.
\<close>

theorem overlapping_logins_pass_lockout:
  assumes "count_entry B n0 (st0 (lockoutKey E email))" and "0 \<le> n0" and "n0 < loginLockoutThreshold" and "T < B"
  shows "\<exists>st. client_step\<^sup>*\<^sup>* (replicate N (wrong_login E email), T, st0) (replicate N (Done True), T, st)"
proof -
  let ?k = "lockoutKey E email"
  let ?rest = "send_all (call_cmds E 0 (CIncr email loginLockoutWindow)) (\<lambda>_. Done True)"
  have lim: "in_int64 n0" using assms(2,3) by (simp add: in_int64_def loginLockoutThreshold_def)
  obtain r where r: "redis_step T (GET ?k) st0 = (r, st0)" "failures_answer [r] = Inr n0"
  proof (cases "n0 = 0")
    case True
    with assms(1) show thesis by (intro that [of RNil]) (auto simp: count_entry_def live_def failures_answer_def nth_reply_def)
  next
    case False
    with assms(1) obtain ex where "st0 ?k = Some (VStr (itoa n0), ex)" "\<forall>x. ex = Some x \<longrightarrow> B \<le> x"
      by (auto simp: count_entry_def)
    moreover then have "live T st0 ?k = Some (VStr (itoa n0), ex)" using assms(4) by (intro live_before) auto
    ultimately show thesis
      using lim by (intro that [of "RBulk (itoa n0)"]) (auto simp: failures_answer_def nth_reply_def)
  qed
  have "wrong_login E email = Send (GET ?k) (\<lambda>r. if locked_answer [r] = ALocked (True, None) then Done False else ?rest)"
    by (simp add: wrong_login_def)
  moreover have "locked_answer [r] = ALocked (False, None)"
    using r(2) assms(3) by (simp add: locked_answer_def)
  ultimately have "client_step\<^sup>*\<^sup>* (replicate N (wrong_login E email), T, st0) (replicate N ?rest, T, st0)"
    using read_reach [OF r(1), of "[]" N "\<lambda>r. if locked_answer [r] = ALocked (True, None) then Done False else ?rest"] by simp
  moreover obtain st where "client_step\<^sup>*\<^sup>* (replicate N ?rest, T, st0) (replicate N (Done True), T, st)"
    using drain_reach [of T ?rest True "[]" N st0] by (auto simp: solo_send_all)
  ultimately show ?thesis by (meson rtranclp_trans)
qed

theorem overlapping_logins_pass_lockout_witness:
  "\<exists>st. client_step\<^sup>*\<^sup>* (replicate 100 (wrong_login ref_env ''a@b.c''), 5,
      [lockoutKey ref_env ''a@b.c'' \<mapsto> (VStr (itoa 9), Some 50)]) (replicate 100 (Done True), 5, st)"
  by (rule overlapping_logins_pass_lockout [of 50 9]) (simp_all add: count_entry_def loginLockoutThreshold_def)

section \<open>Two requests at one instant\<close>

text \<open>The members of the window are the callers' clock readings: a second request in the same nanosecond adds none,
  and two requests pass a limit of one.\<close>

lemma same_instant_counts_once:
  assumes "1000000 \<le> W" and "0 \<le> now"
  shows "fst (solo now (call_client E now (CRate key 1 W)) (snd (solo now (call_client E now (CRate key 1 W)) (\<lambda>_. None)))) =
    ARate (True, 0, now + W, None)"
proof -
  have "\<not> UnixMilli now \<le> UnixMilli (now - W)" using in_window_self [OF assms(1)] by (simp add: in_window_def not_le)
  then show ?thesis
    using assms by (simp add: call_client_def rate_pipeline_def live_def put_zset_def rate_answer_def nth_reply_def
      reply_error_def)
qed

section \<open>Every run ends\<close>

text \<open>
  Concurrent calls of the session store neither block each other nor run on: a run has at most four commands for
  each call, and as long as one call is not answered the run can go on.
\<close>

theorem concurrent_calls_finish:
  assumes "(client_step ^^ n) (call_clients E reqs, T, st0) (cls, t, st)"
  shows "n \<le> 4 * length reqs \<and> ((\<exists>y. client_step (cls, t, st) y) \<or> (\<forall>c \<in> set cls. \<exists>a. c = Done a))"
proof -
  have "ends_in (call_client E now c) 4" for now c
  proof -
    have "ends_in (call_client E now c) (length (call_cmds E now c) + 0)"
      unfolding call_client_def by (rule ends_in_send_all) simp
    moreover have "length (call_cmds E now c) \<le> 4" by (cases c) (simp_all add: rate_pipeline_def)
    ultimately show ?thesis using ends_in_mono by fastforce
  qed
  then have "list_all2 ends_in (call_clients E reqs) (replicate (length reqs) 4)"
    by (auto simp: list_all2_conv_all_nth call_clients_nth)
  from run_bound [OF assms this] have "n \<le> 4 * length reqs" by (simp add: sum_list_replicate)
  with stuck_answered show ?thesis by metis
qed

theorem concurrent_calls_finish_witness:
  "\<exists>y. client_step (call_clients ref_env [(5, CConsume ''tok''), (6, CIncr ''a@b.c'' 9)], 5, \<lambda>_. None) y"
proof -
  have "(client_step ^^ 0) (call_clients ref_env [(5, CConsume ''tok''), (6, CIncr ''a@b.c'' 9)], 5, \<lambda>_. None)
      (call_clients ref_env [(5, CConsume ''tok''), (6, CIncr ''a@b.c'' 9)], 5, \<lambda>_. None)"
    by simp
  from concurrent_calls_finish [OF this] show ?thesis
    by (simp add: call_clients_def call_client_def)
qed

end
