(* ===== verification/Logout_Routes.thy ===== *)
theory Logout_Routes
  imports Overlap Access_Control
begin

text \<open>
  Logout from end to end: from the answer 204 of the logout route, over any concurrent traffic at the session store,
  to the refusal of the token on every protected and admin route.
\<close>

section \<open>The blocklist entry\<close>

text \<open>An entry that stays at least until \<open>B\<close>; later logouts with the same token only renew it.\<close>

definition kept_until :: "int \<Rightarrow> entry option \<Rightarrow> bool" where
  "kept_until B e \<longleftrightarrow> (\<exists>v x. e = Some (v, Some x) \<and> B \<le> x)"

definition block_good :: "int \<Rightarrow> int \<Rightarrow> int \<Rightarrow> (nat \<Rightarrow> rreply list) \<Rightarrow> int \<Rightarrow> entry option \<Rightarrow> bool" where
  "block_good T ttl B g t e \<longleftrightarrow> T \<le> t \<and> 0 < ttl \<and> B \<le> T + ttl \<and> kept_until B e"

interpretation block: shared_key k "\<lambda>i. [SET k v ttl]" "\<lambda>i. err_answer p" P B "block_good T ttl B" for k v ttl p P B T
proof (unfold_locales, goal_cases)
  case (1 g t st i t' r st')
  then show ?case by (auto simp: block_good_def kept_until_def)
next
  case (2 g t e t')
  then show ?case by (simp add: block_good_def)
qed

text \<open>Only the logout with the same token has a changing command for a blocklist key.\<close>

lemma blocklist_key_private:
  assumes "\<forall>d. call \<noteq> CBlocklist jti d" and "c \<in> set (call_cmds E now call)"
  shows "harmless (blocklistKey jti) c"
  using assms
  by (cases call) (auto simp: harmless_def limit_key_def limit_user_key_def rate_pipeline_def refreshKey_def
    blocklistKey_def lockoutKey_def resetKey_def loginLockoutKeyPrefix_def passwordResetKeyPrefix_def)

lemma block_survives:
  assumes "client_step\<^sup>*\<^sup>* (call_clients E reqs, T, st0) (cls, t, st)" and "t < T + ttl" and "0 < ttl"
    and "\<forall>(now, c) \<in> set reqs. c = CBlocklist jti ttl \<or> (\<forall>d. c \<noteq> CBlocklist jti d)"
    and "kept_until (T + ttl) (st0 (blocklistKey jti))"
  shows "kept_until (T + ttl) (st (blocklistKey jti))"
proof -
  let ?k = "blocklistKey jti" and ?P = "callers reqs (\<lambda>c. c = CBlocklist jti ttl)"
  let ?h = "shared_key.holds_at ?k (\<lambda>i. [SET ?k ''1'' ttl]) (\<lambda>i. err_answer ''session: blocklist jti: '') ?P
      (block_good T ttl (T + ttl))"
  have "\<forall>(now, c) \<in> set reqs. c = CBlocklist jti ttl \<or> (\<forall>d \<in> set (call_cmds E now c). harmless ?k d)"
    using assms(4) by (blast intro: blocklist_key_private)
  moreover have "j < length reqs \<and> snd (reqs ! j) = CBlocklist jti ttl" if "j \<in> ?P" for j
    using that callersD by fastforce
  ultimately have "?h (call_clients E reqs, T, st0)"
    using callers_spare assms(3,5)
    by (auto simp: block.holds_at_def block_good_def intro!: exI [of _ "\<lambda>_. []"] call_clients_batch)
  with assms(1,2) have "?h (cls, t, st)" using block.holds_run [where B = "T + ttl"] by fastforce
  then show ?thesis by (auto simp: block.holds_at_def block_good_def)
qed

section \<open>The logout route\<close>

lemma rate_now: "rateLimitByKey E k limit W w = (r, w') \<Longrightarrow> w_now w' = w_now w"
  by (auto simp: rateLimitByKey_def Let_def dest!: redis_exec_frame split: prod.splits sum.splits if_splits)
    (metis world.select_convs(1) world.simps(1) world.surjective world.update_convs(2))+

lemma blocklisted_now: "IsBlocklisted (NewSessionRepo E) j w = (r, w') \<Longrightarrow> w_now w' = w_now w"
  by (auto simp: NewSessionRepo_def sessionRepo_IsBlocklisted_def dest!: redis_do_frame split: prod.splits sum.splits rreply.splits)
    (metis world.select_convs(1) world.surjective world.update_convs(2))+

text \<open>A logout that the handler answers with 204 left the entry, with the full lifetime.\<close>

lemma logout_service_blocks:
  assumes "redis_server E kv" and "main_logout E jwt base c jti tok w = (None, w')" and "0 < JWTService_RefreshTTL jwt"
  shows "kept_until (w_now w + JWTService_RefreshTTL jwt) (kv (w_redis w') (blocklistKey jti))"
proof -
  obtain w1 w2 where b: "sessionRepo_BlocklistJTI E jti (JWTService_RefreshTTL jwt) w = (None, w1)"
    and r: "sessionRepo_RevokeRefreshToken E tok w1 = (None, w2)" and w': "w_redis w' = w_redis w2"
    using assms(2) by (auto simp: authService_Logout_def NewSessionRepo_def fail_opt_def end_defs auditLog_def
      split: prod.splits option.splits)
  have b1: "redis_err E (SET (blocklistKey jti) ''1'' (JWTService_RefreshTTL jwt)) w = (None, w1)"
    using b by (auto simp: sessionRepo_BlocklistJTI_def wrap_err_def split: prod.splits)
  have e1: "kv (w_redis w1) (blocklistKey jti) = Some (VStr ''1'', Some (w_now w + JWTService_RefreshTTL jwt))"
    using redis_server.err_none [OF assms(1) b1] assms(3) by simp (metis fun_upd_same)
  obtain e where r1: "redis_err E (DEL [refreshKey E tok]) w1 = (e, w2)"
    using r by (auto simp: sessionRepo_RevokeRefreshToken_def split: prod.splits)
  have "blocklistKey jti \<notin> cmd_keys (DEL [refreshKey E tok])" by (simp add: blocklistKey_def refreshKey_def)
  from redis_server.err_other [OF assms(1) r1 this] e1 show ?thesis by (simp add: kept_until_def w')
qed

lemma logout_handler_blocks:
  assumes "redis_server E kv" and "ah_svc h = NewAuthService E (main_auth E jwt base)"
    and "status_of (sv_rw (AuthHandler_Logout h q r w)) = 204" and "rw_sent r = None" and "0 < JWTService_RefreshTTL jwt"
  shows "kept_until (w_now w + JWTService_RefreshTTL jwt)
    (kv (w_redis (sv_world (AuthHandler_Logout h q r w))) (blocklistKey (ctx_string (c_jti (q_ctx q)))))"
proof -
  let ?tok = "case map_of (q_cookies q) ''refresh_token'' of None \<Rightarrow> [] | Some v \<Rightarrow> v"
  let ?jti = "ctx_string (c_jti (q_ctx q))"
  obtain x w1 where l: "main_logout E jwt base (q_ctx q) ?jti ?tok w = (x, w1)" by fastforce
  have svc: "auth_Logout (ah_svc h) = main_logout E jwt base" by (simp add: assms(2) NewAuthService_def)
  show ?thesis
  proof (cases x)
    case None
    with l svc have "w_redis (sv_world (AuthHandler_Logout h q r w)) = w_redis w1"
      by (simp add: AuthHandler_Logout_def Let_def end_defs)
    with logout_service_blocks [OF assms(1) l [unfolded None] assms(5)] show ?thesis by simp
  next
    case (Some e)
    then have "\<exists>y. e = Internal y"
      using l by (auto simp: authService_Logout_def fail_opt_def split: prod.splits option.splits)
    with l svc Some have "status_of (sv_rw (AuthHandler_Logout h q r w)) = 500"
      by (auto simp: AuthHandler_Logout_def Let_def send_error_def WriteError_fresh [OF assms(4)] app_defs)
    with assms(3) show ?thesis by simp
  qed
qed

lemma rate_cases: "(\<And>a b c d w. x = ((a, b, c, d), w) \<Longrightarrow> P) \<Longrightarrow> P"
  by (cases x) auto

lemma logout_route_blocks:
  assumes "redis_server E kv" and "d_sessions D = NewSessionRepo E" and "d_auth D = NewAuthService E (main_auth E (d_jwt D) base)"
    and "valid_token E (d_jwt D) q (w_now w) = Some c" and "rw_sent r = None" and "0 < JWTService_RefreshTTL (d_jwt D)"
    and "s = protected_group E D (AuthHandler_Logout (NewAuthHandler (d_auth D) (d_jwt D) p reg)) q r w"
    and "status_of (sv_rw s) = 204"
  shows "kept_until (w_now w + JWTService_RefreshTTL (d_jwt D)) (kv (w_redis (sv_world s)) (blocklistKey (cl_ID c)))"
proof -
  let ?R = "NewSessionRepo E" and ?h = "NewAuthHandler (d_auth D) (d_jwt D) p reg"
  let ?q = "WithContext q ((q_ctx q)\<lparr>c_userID := Some (cl_Subject c), c_role := Some (cl_Role c), c_jti := Some (cl_ID c)\<rparr>)"
  have jti: "ctx_string (c_jti (q_ctx ?q)) = cl_ID c" by (simp add: WithContext_def ctx_string_def)
  obtain b w1 where bl: "IsBlocklisted ?R (cl_ID c) w = (b, w1)" by fastforce
  obtain a rem at e w2 where r1: "RateLimitAllow ?R (''ip:'' @ q_remote ?q) 100 minute w1 = ((a, rem, at, e), w2)"
    by (cases "RateLimitAllow ?R (''ip:'' @ q_remote ?q) 100 minute w1" rule: rate_cases)
  have n1: "w_now w1 = w_now w" and n2: "w_now w2 = w_now w1"
    using blocklisted_now [OF bl] r1 by (auto simp: NewSessionRepo_def sessionRepo_RateLimitAllow_def dest: rate_now)
  have run: "s = (if b = Inr True then reply q (WriteError (Unauthorized ''token has been revoked'') r) w1
      else if \<not> a then reply ?q (WriteError TooManyRequests (limit_headers 100 rem at r)) w2
      else RateLimitUser ?R 200 minute (AuthHandler_Logout ?h) ?q (limit_headers 100 rem at r) w2)"
    unfolding assms(2,7) protected_group_def JWT_token [OF assms(4)] bl RateLimit_def Let_def r1 prod.case by (rule refl)
  have fresh: "rw_sent (limit_headers 100 rem at r) = None" using assms(5) by simp
  have "b \<noteq> Inr True"
  proof
    assume "b = Inr True"
    with run have "status_of (sv_rw s) = 401" by (simp add: WriteError_fresh [OF assms(5)] app_defs)
    with assms(8) show False by simp
  qed
  moreover have a
  proof (rule ccontr)
    assume "\<not> a"
    with run \<open>b \<noteq> Inr True\<close> have "status_of (sv_rw s) = 429" by (simp add: WriteError_fresh [OF fresh] app_defs)
    with assms(8) show False by simp
  qed
  ultimately have s: "s = RateLimitUser ?R 200 minute (AuthHandler_Logout ?h) ?q (limit_headers 100 rem at r) w2"
    using run by simp
  have "\<exists>r' w3. s = AuthHandler_Logout ?h ?q r' w3 \<and> rw_sent r' = None \<and> w_now w3 = w_now w2"
  proof (cases "ctx_string (c_userID (q_ctx ?q)) = []")
    case True
    with s have "s = AuthHandler_Logout ?h ?q (limit_headers 100 rem at r) w2" by (simp add: RateLimitUser_def)
    with fresh show ?thesis by blast
  next
    case False
    obtain a' rem' at' e' w3 where r2: "RateLimitAllowUser ?R (ctx_string (c_userID (q_ctx ?q)))
        (routePattern (c_pattern (q_ctx ?q)) (q_path ?q)) 200 minute w2 = ((a', rem', at', e'), w3)"
      by (cases "RateLimitAllowUser ?R (ctx_string (c_userID (q_ctx ?q)))
        (routePattern (c_pattern (q_ctx ?q)) (q_path ?q)) 200 minute w2" rule: rate_cases)
    have fresh2: "rw_sent (limit_headers 200 rem' at' (limit_headers 100 rem at r)) = None" using fresh by simp
    have "w_now w3 = w_now w2"
      using r2 by (auto simp: NewSessionRepo_def sessionRepo_RateLimitAllowUser_def dest: rate_now)
    moreover have "s = AuthHandler_Logout ?h ?q (limit_headers 200 rem' at' (limit_headers 100 rem at r)) w3"
      using s False r2 assms(8)
      by (auto simp: RateLimitUser_def Let_def WriteError_fresh [OF fresh2] app_defs split: if_splits)
    ultimately show ?thesis using fresh2 by blast
  qed
  then obtain r' w3 where s: "s = AuthHandler_Logout ?h ?q r' w3" "rw_sent r' = None" "w_now w3 = w_now w2" by blast
  have "ah_svc ?h = NewAuthService E (main_auth E (d_jwt D) base)" by (simp add: NewAuthHandler_def assms(3))
  from logout_handler_blocks [OF assms(1) this assms(8) [unfolded s(1)] s(2) assms(6)] show ?thesis
    unfolding s(1) jti s(3) n2 n1 .
qed

lemma blocked_refused:
  assumes "redis_server E kv" and "kept_until B (kv (w_redis w) (blocklistKey jti))" and "w_now w < B"
    and "IsBlocklisted (NewSessionRepo E) jti w = (Inr b, w')"
  shows "b"
proof -
  have "live (w_now w) (kv (w_redis w)) (blocklistKey jti) \<noteq> None"
    using assms(2,3) by (auto simp: kept_until_def live_def)
  moreover have "b = blocked (session_view E kv w) jti"
    using redis_server.impl_blocked_ok [OF assms(1)] assms(4) by (simp add: NewSessionRepo_def)
  ultimately show ?thesis by (simp add: session_view_def store_view_def)
qed

text \<open>From an entry on, the token is refused everywhere.\<close>

lemma kept_entry_closes:
  assumes "redis_server E kv" and "d_sessions D = NewSessionRepo E" and "0 < JWTService_RefreshTTL (d_jwt D)"
    and "kept_until (T + JWTService_RefreshTTL (d_jwt D)) (st0 (blocklistKey jti))"
    and "client_step\<^sup>*\<^sup>* (call_clients E reqs, T, st0) (cls, t, kv (w_redis w2))"
    and "\<forall>(now, cl) \<in> set reqs. \<forall>d. cl = CBlocklist jti d \<longrightarrow> d = JWTService_RefreshTTL (d_jwt D)"
    and "t \<le> w_now w2" and "w_now w2 < T + JWTService_RefreshTTL (d_jwt D)"
    and "(m, p, h) \<in> set (protected_routes E D @ admin_routes E D)" and "rw_sent r2 = None"
    and "valid_token E (d_jwt D) q2 (w_now w2) = Some c2" and "cl_ID c2 = jti"
    and "IsBlocklisted (NewSessionRepo E) jti w2 = (Inr b, w3)"
  shows "status_of (sv_rw (h q2 r2 w2)) = 401 \<and> sv_world (h q2 r2 w2) = w3"
proof -
  let ?ttl = "JWTService_RefreshTTL (d_jwt D)"
  have "\<forall>(now, cl) \<in> set reqs. cl = CBlocklist jti ?ttl \<or> (\<forall>d. cl \<noteq> CBlocklist jti d)"
    using assms(6) by fastforce
  from block_survives [OF assms(5) _ assms(3) this assms(4)] assms(7,8)
  have "kept_until (T + ?ttl) (kv (w_redis w2) (blocklistKey jti))" by simp
  from blocked_refused [OF assms(1) this assms(8,13)] have b: "b" .
  obtain k where h: "h = JWT E (d_jwt D) (d_sessions D) k"
    using assms(9) by (auto simp: route_defs protected_group_def admin_group_def Let_def)
  show ?thesis
    unfolding h JWT_token [OF assms(11)] assms(2,12,13) Let_def prod.case
    by (simp add: b WriteError_fresh [OF assms(10)] Unauthorized_def New_def)
qed

lemma logout_route_handler:
  assumes "(''POST'', ''/api/v1/auth/logout'', lh) \<in> set (protected_routes E D)"
  shows "lh = protected_group E D (AuthHandler_Logout (NewAuthHandler (d_auth D) (d_jwt D) (isProd D) (d_registration D)))"
  using assms by (simp add: protected_routes_def Let_def)

text \<open>
  C4.  Logout takes effect on every route: once the logout route has answered 204 to a token, that token is answered 401
  by every protected and every admin route for as long as the blocklist entry lives (the lifetime of a refresh token),
  whatever calls of the session store interleave in between, and the refused request changes no table; the
  check has to be answered by Redis, since the code lets requests through when it is not.
\<close>

theorem logout_closes_routes:
  assumes "redis_server E kv" and "d_sessions D = NewSessionRepo E"
    and "d_auth D = NewAuthService E (main_auth E (d_jwt D) base)" and "0 < JWTService_RefreshTTL (d_jwt D)"
    and "(''POST'', ''/api/v1/auth/logout'', lh) \<in> set (protected_routes E D)" and "s = lh q r w" and "rw_sent r = None"
    and "valid_token E (d_jwt D) q (w_now w) = Some c" and "status_of (sv_rw s) = 204"
    and "client_step\<^sup>*\<^sup>* (call_clients E reqs, w_now w, kv (w_redis (sv_world s))) (cls, t, kv (w_redis w2))"
    and "\<forall>(now, cl) \<in> set reqs. \<forall>d. cl = CBlocklist (cl_ID c) d \<longrightarrow> d = JWTService_RefreshTTL (d_jwt D)"
    and "t \<le> w_now w2" and "w_now w2 < w_now w + JWTService_RefreshTTL (d_jwt D)"
    and "(m, p, h) \<in> set (protected_routes E D @ admin_routes E D)" and "rw_sent r2 = None"
    and "valid_token E (d_jwt D) q2 (w_now w2) = Some c2" and "cl_ID c2 = cl_ID c"
    and "IsBlocklisted (NewSessionRepo E) (cl_ID c) w2 = (Inr b, w3)"
  shows "status_of (sv_rw (h q2 r2 w2)) = 401 \<and> sv_world (h q2 r2 w2) = w3"
proof -
  note lh = logout_route_handler [OF assms(5)]
  show ?thesis
    by (rule kept_entry_closes [OF assms(1,2,4) logout_route_blocks [OF assms(1-3,8,7,4) assms(6) [unfolded lh] assms(9)]
        assms(10-18)])
qed

definition ref_logout :: "(ref_redis, ref_db) world served" where
  "ref_logout = protected_group ref_env ref_deps
     (AuthHandler_Logout (NewAuthHandler (d_auth ref_deps) (d_jwt ref_deps) (isProd ref_deps) (d_registration ref_deps)))
     (ref_signed ''user'') new_rw (ref_world 5 empty_tables [] [])"

definition ref_closed :: "(ref_redis, ref_db) world served \<Rightarrow> bool" where
  "ref_closed s \<longleftrightarrow> status_of (sv_rw s) = 204 \<and> w_now (sv_world s) = 5 \<and>
     fst (IsBlocklisted (NewSessionRepo ref_env) ''j'' (sv_world s)) = Inr True"

lemma ref_logout_closed: "ref_closed ref_logout"
  by code_simp

theorem logout_closes_routes_witness:
  "status_of (sv_rw ref_logout) = 204 \<and>
   status_of (sv_rw (protected_group ref_env ref_deps (UserHandler_GetMe ref_env (d_users ref_deps))
     (ref_signed ''user'') new_rw (sv_world ref_logout))) = 401"
proof -
  let ?w = "ref_world 5 empty_tables [] []" and ?w2 = "sv_world ref_logout"
  have out: "status_of (sv_rw ref_logout) = 204" and now: "w_now ?w2 = 5"
    using ref_logout_closed by (simp_all add: ref_closed_def)
  have tok: "case valid_token ref_env (d_jwt ref_deps) (ref_signed ''user'') 5 of None \<Rightarrow> False | Some c \<Rightarrow> cl_ID c = ''j''"
    by code_simp
  then obtain c where c: "valid_token ref_env (d_jwt ref_deps) (ref_signed ''user'') 5 = Some c" "cl_ID c = ''j''"
    by (auto split: option.splits)
  have ttl: "0 < JWTService_RefreshTTL (d_jwt ref_deps)" by code_simp
  obtain w3 where b: "IsBlocklisted (NewSessionRepo ref_env) (cl_ID c) ?w2 = (Inr True, w3)"
    using ref_logout_closed c(2) unfolding ref_closed_def by (metis prod.collapse)
  have in1: "(''POST'', ''/api/v1/auth/logout'', protected_group ref_env ref_deps
      (AuthHandler_Logout (NewAuthHandler (d_auth ref_deps) (d_jwt ref_deps) (isProd ref_deps) (d_registration ref_deps))))
      \<in> set (protected_routes ref_env ref_deps)"
    by (simp add: protected_routes_def Let_def)
  have in2: "(''GET'', ''/api/v1/users/me'', protected_group ref_env ref_deps (UserHandler_GetMe ref_env (d_users ref_deps)))
      \<in> set (protected_routes ref_env ref_deps @ admin_routes ref_env ref_deps)"
    by (simp add: route_defs Let_def)
  have parts: "d_sessions ref_deps = NewSessionRepo ref_env"
    "d_auth ref_deps = NewAuthService ref_env (main_auth ref_env (d_jwt ref_deps) (cfg_API_BaseURL ref_config))"
    by (simp_all add: ref_deps_def main_deps_def)
  have sent: "rw_sent new_rw = None" by (simp add: new_rw_def)
  have w5: "w_now ?w = 5" by (simp add: ref_world_def)
  have run: "client_step\<^sup>*\<^sup>* (call_clients ref_env [], w_now ?w, fst (w_redis ?w2)) ([], 5, fst (w_redis ?w2))"
    by (simp add: call_clients_def w5)
  have "status_of (sv_rw (protected_group ref_env ref_deps (UserHandler_GetMe ref_env (d_users ref_deps))
      (ref_signed ''user'') new_rw ?w2)) = 401 \<and> sv_world (protected_group ref_env ref_deps
        (UserHandler_GetMe ref_env (d_users ref_deps)) (ref_signed ''user'') new_rw ?w2) = w3"
    using ttl now
    by (intro logout_closes_routes [OF reference.redis_server_axioms parts ttl in1 ref_logout_def sent _ out run _ _ _ in2 sent _ refl b])
      (simp_all add: w5 c)
  with out show ?thesis by blast
qed

end
