(* ===== verification/Api_Docs.thy ===== *)
theory Api_Docs
  imports Http
begin

text \<open>
  \<open>docs/docs.go\<close>: the OpenAPI (Swagger 2.0) description that swag generated from the handlers' annotations, as
  data: its operations with their parameters and responses, its schemas and its general information; and what it means
  that a JSON value fits a schema.  The document is a Go template; the fields of \<open>SwaggerInfo\<close> are what the template fills
  in.
\<close>

section \<open>Schemas\<close>

datatype schema =
    SString
  | SInteger
  | SBoolean
  | SObject "(string \<times> schema) list"
  | SMap schema
  | SArray schema
  | SRef string
  | SExample json schema

lemma size_member: "p \<in> set ps \<Longrightarrow> size (snd p :: schema) < Suc (size_list (size_prod (\<lambda>x. 0) size) ps)"
  by (induction ps) auto

text \<open>
  \<open>conforms D n s j\<close>: the value fits the schema, an object with exactly the documented properties.  References are looked
  up in the definitions \<open>D\<close>, nested at most \<open>n\<close> deep.
\<close>

function conforms :: "(string \<times> schema) list \<Rightarrow> nat \<Rightarrow> schema \<Rightarrow> json \<Rightarrow> bool" where
  "conforms D n SString j \<longleftrightarrow> (case j of JStr s \<Rightarrow> True | _ \<Rightarrow> False)"
| "conforms D n SInteger j \<longleftrightarrow> (case j of JInt i \<Rightarrow> True | _ \<Rightarrow> False)"
| "conforms D n SBoolean j \<longleftrightarrow> (case j of JBool b \<Rightarrow> True | _ \<Rightarrow> False)"
| "conforms D n (SObject ps) j \<longleftrightarrow>
     (case j of
        JObj fs \<Rightarrow> distinct (map fst fs) \<and> set (map fst fs) = set (map fst ps) \<and>
          (\<forall>p \<in> set ps. case map_of fs (fst p) of None \<Rightarrow> False | Some v \<Rightarrow> conforms D n (snd p) v)
      | _ \<Rightarrow> False)"
| "conforms D n (SMap s) j \<longleftrightarrow> (case j of JObj fs \<Rightarrow> \<forall>f \<in> set fs. conforms D n s (snd f) | _ \<Rightarrow> False)"
| "conforms D n (SArray s) j \<longleftrightarrow> (case j of JArr js \<Rightarrow> \<forall>v \<in> set js. conforms D n s v | _ \<Rightarrow> False)"
| "conforms D n (SRef r) j \<longleftrightarrow>
     (case n of 0 \<Rightarrow> False
      | Suc m \<Rightarrow> (case map_of D r of None \<Rightarrow> False | Some s \<Rightarrow> conforms D m s j))"
| "conforms D n (SExample e s) j \<longleftrightarrow> conforms D n s j"
  by pat_completeness auto

termination
  by (relation "measures [\<lambda>(D, n, s, j). n, \<lambda>(D, n, s, j). size s]") (auto dest: size_member)

section \<open>The document\<close>

record doc_parameter =
  pa_name :: string
  pa_in :: string
  pa_required :: bool
  pa_description :: string
  pa_schema :: schema
  pa_format :: "string option"
  pa_default :: "json option"

record doc_response =
  re_description :: string
  re_schema :: "schema option"

record doc_operation =
  op_path :: string
  op_method :: string
  op_security :: "string list"
  op_description :: string
  op_consumes :: "string list"
  op_produces :: "string list"
  op_tags :: "string list"
  op_summary :: string
  op_parameters :: "doc_parameter list"
  op_responses :: "(int \<times> doc_response) list"

definition doc_post_forgot_password :: doc_operation where
  \<open>doc_post_forgot_password = \<lparr>
     op_path = ''/auth/forgot-password'', op_method = ''post'',
     op_security = [],
     op_description = ''Sends a password reset email. Always returns 200 regardless of whether'' @ [CHR 0x0A] @ ''the email is registered, to prevent account enumeration.'',
     op_consumes = [''application/json''], op_produces = [''application/json''], op_tags = [''auth''],
     op_summary = ''Request password reset'',
     op_parameters = [\<lparr>pa_name = ''body'', pa_in = ''body'', pa_required = True, pa_description = ''Email address'', pa_schema = SRef ''handler.ForgotPasswordRequest'', pa_format = None, pa_default = None\<rparr>],
     op_responses =
       [(200, \<lparr>re_description = ''message: if your email is registered, a reset link has been sent'', re_schema = Some (SMap SString)\<rparr>),
        (400, \<lparr>re_description = ''Bad Request'', re_schema = Some (SRef ''apperror.ErrorResponse'')\<rparr>)]\<rparr>\<close>

definition doc_post_login :: doc_operation where
  \<open>doc_post_login = \<lparr>
     op_path = ''/auth/login'', op_method = ''post'',
     op_security = [],
     op_description = ''Validates credentials and returns an access token. The refresh token is set as an httpOnly cookie.'',
     op_consumes = [''application/json''], op_produces = [''application/json''], op_tags = [''auth''],
     op_summary = ''Authenticate a user'',
     op_parameters = [\<lparr>pa_name = ''body'', pa_in = ''body'', pa_required = True, pa_description = ''Login payload'', pa_schema = SRef ''handler.LoginRequest'', pa_format = None, pa_default = None\<rparr>],
     op_responses =
       [(200, \<lparr>re_description = ''OK'', re_schema = Some (SRef ''handler.TokenResponse'')\<rparr>),
        (400, \<lparr>re_description = ''Missing or malformed request body'', re_schema = Some (SRef ''apperror.ErrorResponse'')\<rparr>),
        (401, \<lparr>re_description = ''Invalid credentials'', re_schema = Some (SRef ''apperror.ErrorResponse'')\<rparr>)]\<rparr>\<close>

definition doc_post_logout :: doc_operation where
  \<open>doc_post_logout = \<lparr>
     op_path = ''/auth/logout'', op_method = ''post'',
     op_security = [''BearerAuth''],
     op_description = ''Blocklists the access token'' @ [CHR 0x27] @ ''s JTI and revokes the refresh token. Clears the refresh_token cookie.'',
     op_consumes = [], op_produces = [''application/json''], op_tags = [''auth''],
     op_summary = ''Revoke the current session'',
     op_parameters = [],
     op_responses =
       [(204, \<lparr>re_description = ''No content'', re_schema = None\<rparr>),
        (401, \<lparr>re_description = ''Unauthorized'', re_schema = Some (SRef ''apperror.ErrorResponse'')\<rparr>)]\<rparr>\<close>

definition doc_post_refresh :: doc_operation where
  \<open>doc_post_refresh = \<lparr>
     op_path = ''/auth/refresh'', op_method = ''post'',
     op_security = [],
     op_description = ''Issues a new access token using the refresh_token cookie. The old refresh token is revoked and replaced with a new one (rotation).'',
     op_consumes = [], op_produces = [''application/json''], op_tags = [''auth''],
     op_summary = ''Refresh access token'',
     op_parameters = [],
     op_responses =
       [(200, \<lparr>re_description = ''New access token; new refresh_token cookie set'', re_schema = Some (SRef ''handler.TokenResponse'')\<rparr>),
        (401, \<lparr>re_description = ''Missing or invalid refresh token cookie'', re_schema = Some (SRef ''apperror.ErrorResponse'')\<rparr>)]\<rparr>\<close>

definition doc_post_register :: doc_operation where
  \<open>doc_post_register = \<lparr>
     op_path = ''/auth/register'', op_method = ''post'',
     op_security = [],
     op_description = ''Creates a new user account with the "user" role.'',
     op_consumes = [''application/json''], op_produces = [''application/json''], op_tags = [''auth''],
     op_summary = ''Register a new user'',
     op_parameters = [\<lparr>pa_name = ''body'', pa_in = ''body'', pa_required = True, pa_description = ''Registration payload'', pa_schema = SRef ''handler.RegisterRequest'', pa_format = None, pa_default = None\<rparr>],
     op_responses =
       [(201, \<lparr>re_description = ''Created'', re_schema = Some (SRef ''model.UserResponse'')\<rparr>),
        (400, \<lparr>re_description = ''Bad Request'', re_schema = Some (SRef ''apperror.ErrorResponse'')\<rparr>),
        (409, \<lparr>re_description = ''Email already registered'', re_schema = Some (SRef ''apperror.ErrorResponse'')\<rparr>)]\<rparr>\<close>

definition doc_post_reset_password :: doc_operation where
  \<open>doc_post_reset_password = \<lparr>
     op_path = ''/auth/reset-password'', op_method = ''post'',
     op_security = [],
     op_description = ''Sets a new password using a valid reset token from the email link.'' @ [CHR 0x0A] @ ''The token is single-use and expires after 1 hour.'',
     op_consumes = [''application/json''], op_produces = [''application/json''], op_tags = [''auth''],
     op_summary = ''Reset password using token'',
     op_parameters = [\<lparr>pa_name = ''body'', pa_in = ''body'', pa_required = True, pa_description = ''Reset token and new password'', pa_schema = SRef ''handler.ResetPasswordRequest'', pa_format = None, pa_default = None\<rparr>],
     op_responses =
       [(200, \<lparr>re_description = ''message: password updated'', re_schema = Some (SMap SString)\<rparr>),
        (400, \<lparr>re_description = ''Invalid/expired token or weak password'', re_schema = Some (SRef ''apperror.ErrorResponse'')\<rparr>)]\<rparr>\<close>

definition doc_get_healthz :: doc_operation where
  \<open>doc_get_healthz = \<lparr>
     op_path = ''/healthz'', op_method = ''get'',
     op_security = [],
     op_description = ''Returns 200 if the process is running. No downstream checks.'',
     op_consumes = [], op_produces = [''application/json''], op_tags = [''system''],
     op_summary = ''Liveness probe'',
     op_parameters = [],
     op_responses =
       [(200, \<lparr>re_description = ''status: ok'', re_schema = Some (SRef ''handler.healthResponse'')\<rparr>)]\<rparr>\<close>

definition doc_get_readyz :: doc_operation where
  \<open>doc_get_readyz = \<lparr>
     op_path = ''/readyz'', op_method = ''get'',
     op_security = [],
     op_description = ''Returns 200 when PostgreSQL and Redis are reachable. Returns 503 if either is down.'',
     op_consumes = [], op_produces = [''application/json''], op_tags = [''system''],
     op_summary = ''Readiness probe'',
     op_parameters = [],
     op_responses =
       [(200, \<lparr>re_description = ''OK'', re_schema = Some (SRef ''handler.ReadyzResponse'')\<rparr>),
        (503, \<lparr>re_description = ''Service Unavailable'', re_schema = Some (SRef ''handler.ReadyzResponse'')\<rparr>)]\<rparr>\<close>

definition doc_get_users :: doc_operation where
  \<open>doc_get_users = \<lparr>
     op_path = ''/users'', op_method = ''get'',
     op_security = [''BearerAuth''],
     op_description = ''Returns a paginated list of all users. Admin only.'',
     op_consumes = [], op_produces = [''application/json''], op_tags = [''users''],
     op_summary = ''List users'',
     op_parameters = [\<lparr>pa_name = ''page'', pa_in = ''query'', pa_required = False, pa_description = ''Page number (1-based)'', pa_schema = SInteger, pa_format = None, pa_default = Some (JInt 1)\<rparr>,
       \<lparr>pa_name = ''per_page'', pa_in = ''query'', pa_required = False, pa_description = ''Items per page (max 100)'', pa_schema = SInteger, pa_format = None, pa_default = Some (JInt 20)\<rparr>],
     op_responses =
       [(200, \<lparr>re_description = ''OK'', re_schema = Some (SRef ''handler.ListUsersResponse'')\<rparr>),
        (401, \<lparr>re_description = ''Unauthorized'', re_schema = Some (SRef ''apperror.ErrorResponse'')\<rparr>),
        (403, \<lparr>re_description = ''Forbidden'', re_schema = Some (SRef ''apperror.ErrorResponse'')\<rparr>)]\<rparr>\<close>

definition doc_get_users_me :: doc_operation where
  \<open>doc_get_users_me = \<lparr>
     op_path = ''/users/me'', op_method = ''get'',
     op_security = [''BearerAuth''],
     op_description = ''Returns the profile of the currently authenticated user.'',
     op_consumes = [], op_produces = [''application/json''], op_tags = [''users''],
     op_summary = ''Get the authenticated user'' @ [CHR 0x27] @ ''s profile'',
     op_parameters = [],
     op_responses =
       [(200, \<lparr>re_description = ''OK'', re_schema = Some (SRef ''model.UserResponse'')\<rparr>),
        (401, \<lparr>re_description = ''Unauthorized'', re_schema = Some (SRef ''apperror.ErrorResponse'')\<rparr>),
        (404, \<lparr>re_description = ''Not Found'', re_schema = Some (SRef ''apperror.ErrorResponse'')\<rparr>)]\<rparr>\<close>

definition doc_get_users_id :: doc_operation where
  \<open>doc_get_users_id = \<lparr>
     op_path = ''/users/{id}'', op_method = ''get'',
     op_security = [''BearerAuth''],
     op_description = ''Returns a single active user by UUID. Admins can see all users; regular users can only fetch their own profile.'',
     op_consumes = [], op_produces = [''application/json''], op_tags = [''users''],
     op_summary = ''Get user by ID'',
     op_parameters = [\<lparr>pa_name = ''id'', pa_in = ''path'', pa_required = True, pa_description = ''User UUID'', pa_schema = SString, pa_format = Some ''uuid'', pa_default = None\<rparr>],
     op_responses =
       [(200, \<lparr>re_description = ''OK'', re_schema = Some (SRef ''model.UserResponse'')\<rparr>),
        (400, \<lparr>re_description = ''Invalid UUID'', re_schema = Some (SRef ''apperror.ErrorResponse'')\<rparr>),
        (401, \<lparr>re_description = ''Unauthorized'', re_schema = Some (SRef ''apperror.ErrorResponse'')\<rparr>),
        (403, \<lparr>re_description = ''Non-admin fetching another user'', re_schema = Some (SRef ''apperror.ErrorResponse'')\<rparr>),
        (404, \<lparr>re_description = ''Not Found'', re_schema = Some (SRef ''apperror.ErrorResponse'')\<rparr>)]\<rparr>\<close>

definition doc_put_users_id :: doc_operation where
  \<open>doc_put_users_id = \<lparr>
     op_path = ''/users/{id}'', op_method = ''put'',
     op_security = [''BearerAuth''],
     op_description = ''Partially updates a user'' @ [CHR 0x27] @ ''s email, role, or active status. Role changes require admin privileges; non-admins may only update their own profile.'',
     op_consumes = [''application/json''], op_produces = [''application/json''], op_tags = [''users''],
     op_summary = ''Update user'',
     op_parameters = [\<lparr>pa_name = ''id'', pa_in = ''path'', pa_required = True, pa_description = ''User UUID'', pa_schema = SString, pa_format = None, pa_default = None\<rparr>,
       \<lparr>pa_name = ''body'', pa_in = ''body'', pa_required = True, pa_description = ''Fields to update (all optional)'', pa_schema = SRef ''model.UpdateUserRequest'', pa_format = None, pa_default = None\<rparr>],
     op_responses =
       [(200, \<lparr>re_description = ''OK'', re_schema = Some (SRef ''model.UserResponse'')\<rparr>),
        (400, \<lparr>re_description = ''Bad Request'', re_schema = Some (SRef ''apperror.ErrorResponse'')\<rparr>),
        (401, \<lparr>re_description = ''Unauthorized'', re_schema = Some (SRef ''apperror.ErrorResponse'')\<rparr>),
        (403, \<lparr>re_description = ''Non-admin updating another user'', re_schema = Some (SRef ''apperror.ErrorResponse'')\<rparr>),
        (404, \<lparr>re_description = ''Not Found'', re_schema = Some (SRef ''apperror.ErrorResponse'')\<rparr>),
        (409, \<lparr>re_description = ''Email already taken'', re_schema = Some (SRef ''apperror.ErrorResponse'')\<rparr>)]\<rparr>\<close>

definition doc_delete_users_id :: doc_operation where
  \<open>doc_delete_users_id = \<lparr>
     op_path = ''/users/{id}'', op_method = ''delete'',
     op_security = [''BearerAuth''],
     op_description = ''Soft-deletes a user (sets is_active = false). Admin only.'',
     op_consumes = [], op_produces = [''application/json''], op_tags = [''users''],
     op_summary = ''Delete user'',
     op_parameters = [\<lparr>pa_name = ''id'', pa_in = ''path'', pa_required = True, pa_description = ''User UUID'', pa_schema = SString, pa_format = None, pa_default = None\<rparr>],
     op_responses =
       [(204, \<lparr>re_description = ''No content'', re_schema = None\<rparr>),
        (401, \<lparr>re_description = ''Unauthorized'', re_schema = Some (SRef ''apperror.ErrorResponse'')\<rparr>),
        (403, \<lparr>re_description = ''Forbidden'', re_schema = Some (SRef ''apperror.ErrorResponse'')\<rparr>),
        (404, \<lparr>re_description = ''Not Found'', re_schema = Some (SRef ''apperror.ErrorResponse'')\<rparr>)]\<rparr>\<close>

definition doc_paths :: "doc_operation list" where
  \<open>doc_paths =
     [doc_post_forgot_password,
      doc_post_login,
      doc_post_logout,
      doc_post_refresh,
      doc_post_register,
      doc_post_reset_password,
      doc_get_healthz,
      doc_get_readyz,
      doc_get_users,
      doc_get_users_me,
      doc_get_users_id,
      doc_put_users_id,
      doc_delete_users_id]\<close>

definition doc_definitions :: "(string \<times> schema) list" where
  \<open>doc_definitions =
     [(''apperror.ErrorResponse'', SObject [(''error'', SObject [(''code'', SInteger), (''message'', SString)])]),
      (''handler.ForgotPasswordRequest'', SObject [(''email'', SString)]),
      (''handler.ListUsersResponse'', SObject [(''data'', SArray (SRef ''model.UserResponse'')), (''page'', SInteger), (''per_page'', SInteger), (''total'', SInteger)]),
      (''handler.LoginRequest'', SObject [(''email'', SExample (JStr ''user@example.com'') SString), (''password'', SExample (JStr ''Password1!'') SString)]),
      (''handler.ReadyzResponse'', SObject [(''db'', SExample (JBool True) SBoolean), (''redis'', SExample (JBool True) SBoolean), (''status'', SExample (JStr ''ready'') SString)]),
      (''handler.RegisterRequest'', SObject [(''email'', SExample (JStr ''newuser@example.com'') SString), (''password'', SExample (JStr ''Password1!'') SString)]),
      (''handler.ResetPasswordRequest'', SObject [(''new_password'', SString), (''token'', SString)]),
      (''handler.TokenResponse'', SObject [(''access_token'', SString), (''expires_at'', SString)]),
      (''handler.healthResponse'', SObject [(''status'', SString)]),
      (''model.UpdateUserRequest'', SObject [(''email'', SString), (''is_active'', SBoolean), (''role'', SString)]),
      (''model.UserResponse'', SObject [(''created_at'', SString), (''email'', SString), (''id'', SString), (''is_active'', SBoolean), (''role'', SString)])]\<close>

text \<open>The one security scheme, and the fields the template is filled with.\<close>

record security_scheme =
  ss_key :: string
  ss_description :: string
  ss_type :: string
  ss_name :: string
  ss_in :: string

definition doc_security :: "security_scheme list" where
  \<open>doc_security = [\<lparr>ss_key = ''BearerAuth'',
     ss_description = ''Type "Bearer" followed by a space and the JWT access token. Example: "Bearer eyJhbGci..."'',
     ss_type = ''apiKey'', ss_name = ''Authorization'', ss_in = ''header''\<rparr>]\<close>

record swagger_info =
  si_Version :: string
  si_Host :: string
  si_BasePath :: string
  si_Schemes :: "string list"
  si_Title :: string
  si_Description :: string

definition SwaggerInfo :: swagger_info where
  "SwaggerInfo = \<lparr>
     si_Version = ''1.0'',
     si_Host = ''localhost:8080'',
     si_BasePath = ''/api/v1'',
     si_Schemes = [''http'', ''https''],
     si_Title = ''Kleido API'',
     si_Description = ''Production-grade Go REST API. JWT RS256 authentication required on all /api/v1/ endpoints except /auth/register and /auth/login.''\<rparr>"

section \<open>Reading the document\<close>

definition fits_schema :: "schema \<Rightarrow> json \<Rightarrow> bool" where
  "fits_schema s j = conforms doc_definitions 2 s j"

text \<open>The documented statuses with the schema of the body; \<open>None\<close> when there is none.\<close>

definition doc_answers :: "doc_operation \<Rightarrow> (int \<times> schema option) list" where
  "doc_answers d = map (\<lambda>(c, r). (c, re_schema r)) (op_responses d)"

text \<open>Every example in the schemas fits its own schema, and every reference of the document is defined.\<close>

fun schema_ok :: "schema \<Rightarrow> bool" where
  "schema_ok (SObject ps) \<longleftrightarrow> distinct (map fst ps) \<and> (\<forall>p \<in> set ps. schema_ok (snd p))"
| "schema_ok (SMap s) \<longleftrightarrow> schema_ok s"
| "schema_ok (SArray s) \<longleftrightarrow> schema_ok s"
| "schema_ok (SRef r) \<longleftrightarrow> r \<in> fst ` set doc_definitions"
| "schema_ok (SExample e s) \<longleftrightarrow> fits_schema s e \<and> schema_ok s"
| "schema_ok _ \<longleftrightarrow> True"

lemma document_well_formed:
  "(\<forall>d \<in> set doc_definitions. schema_ok (snd d)) \<and>
   (\<forall>d \<in> set doc_paths. (\<forall>p \<in> set (op_parameters d). schema_ok (pa_schema p)) \<and>
      (\<forall>r \<in> set (op_responses d). case re_schema (snd r) of None \<Rightarrow> True | Some s \<Rightarrow> schema_ok s))"
  by code_simp

end
