(* ===== verification/Docs_Props.thy ===== *)
theory Docs_Props
  imports Api_Docs Server Response_Headers Access_Control
begin

text \<open>
  The server against its own API description: every documented operation is a route, behind the token check exactly when
  the document says so, and every answer of these routes has a documented status with a body of the documented shape,
  but for the statuses listed in \<open>undocumented\<close>, which come with the error object.
\<close>

section \<open>The statuses of the services' errors\<close>

abbreviation code_of :: "goerr \<Rightarrow> int" where
  "code_of e \<equiv> fst (public_view e)"

lemma main_repo_same:
  "fst (repo_Create (main_userRepo E) u w) = fst (userRepository_Create E u w)"
  "fst (repo_FindByID (main_userRepo E) i w) = fst (userRepository_FindByID E i w)"
  "fst (repo_FindByEmail (main_userRepo E) m w) = fst (userRepository_FindByEmail E m w)"
  "fst (repo_Update (main_userRepo E) u w) = fst (userRepository_Update E u w)"
  "fst (repo_Delete (main_userRepo E) i w) = fst (userRepository_Delete E i w)"
  "fst (repo_List (main_userRepo E) l off w) = fst (userRepository_List E l off w)"
  using transparent_trans [OF transparent_instrumented transparent_traced, of "NewUserRepository E" E]
  unfolding main_userRepo_def [symmetric] transparent_def alike_def by (simp_all add: NewUserRepository_def)

lemma scan_codes: "scanUser r = Inl e \<Longrightarrow> code_of e = 500"
  by (auto simp: scanUser_def split: sqlres.splits list.splits)

lemma sql_codes: "sql_error r = Some e \<Longrightarrow> code_of e = 500"
  by (auto simp: sql_error_def split: sqlres.splits)

lemma repo_codes:
  "fst (repo_Create (main_userRepo E) u w) = Some e \<Longrightarrow> code_of e \<in> {409, 500}"
  "fst (repo_FindByID (main_userRepo E) i w) = Inl e \<Longrightarrow> code_of e \<in> {404, 500}"
  "fst (repo_FindByEmail (main_userRepo E) m w) = Inl e \<Longrightarrow> code_of e \<in> {404, 500}"
  "fst (repo_Update (main_userRepo E) u w) = Some e \<Longrightarrow> code_of e = 500"
  "fst (repo_Delete (main_userRepo E) i w) = Some e \<Longrightarrow> code_of e = 500"
  "fst (repo_List (main_userRepo E) l off w) = Inl e \<Longrightarrow> code_of e = 500"
  unfolding main_repo_same
  by (auto simp: user_repo_defs app_defs dest: sql_codes scan_codes
    split: prod.splits option.splits sum.splits sqlres.splits if_splits)

lemma repo_codes_eq:
  "repo_Create (main_userRepo E) u w = (Some e, w') \<Longrightarrow> code_of e = 409 \<or> code_of e = 500"
  "repo_FindByID (main_userRepo E) i w = (Inl e, w') \<Longrightarrow> code_of e = 404 \<or> code_of e = 500"
  "repo_Update (main_userRepo E) u w = (Some e, w') \<Longrightarrow> code_of e = 500"
  "repo_Delete (main_userRepo E) i w = (Some e, w') \<Longrightarrow> code_of e = 500"
  "repo_List (main_userRepo E) l off w = (Inl e, w') \<Longrightarrow> code_of e = 500"
  using repo_codes(1) [of E u w e] repo_codes(2) [of E i w e] repo_codes(4) [of E u w e] repo_codes(5) [of E i w e]
    repo_codes(6) [of E l off w e] by simp_all

text \<open>What the user service and the authentication service add.\<close>

lemma user_svc_codes:
  "fst (svc_GetByID (main_userSvc E) i w) = Inl e \<Longrightarrow> code_of e \<in> {404, 500}"
  "fst (svc_Create (main_userSvc E) m pw role w) = Inl e \<Longrightarrow> code_of e \<in> {409, 500}"
  "fst (svc_List (main_userSvc E) l off w) = Inl e \<Longrightarrow> code_of e = 500"
  "fst (svc_Update (main_userSvc E) i req role w) = Inl e \<Longrightarrow> code_of e \<in> {404, 500}"
  "fst (svc_Delete (main_userSvc E) i w) = Some e \<Longrightarrow> code_of e \<in> {404, 500}"
  by (auto simp: main_ops user_service_defs app_defs Let_def dest: repo_codes_eq
    split: prod.splits option.splits sum.splits if_splits)

lemma user_svc_codes_eq:
  "svc_GetByID (main_userSvc E) i w = (Inl e, w') \<Longrightarrow> code_of e = 404 \<or> code_of e = 500"
  "svc_Create (main_userSvc E) m pw role w = (Inl e, w') \<Longrightarrow> code_of e = 409 \<or> code_of e = 500"
  "svc_List (main_userSvc E) l off w = (Inl e, w') \<Longrightarrow> code_of e = 500"
  "svc_Update (main_userSvc E) i req role w = (Inl e, w') \<Longrightarrow> code_of e = 404 \<or> code_of e = 500"
  "svc_Delete (main_userSvc E) i w = (Some e, w') \<Longrightarrow> code_of e = 404 \<or> code_of e = 500"
  using user_svc_codes(1) [of E i w e] user_svc_codes(2) [of E m pw role w e] user_svc_codes(3) [of E l off w e]
    user_svc_codes(4) [of E i req role w e] user_svc_codes(5) [of E i w e] by simp_all

lemma login_tokens_codes: "login_tokens E s c m u w = (Inl e, w') \<Longrightarrow> code_of e = 500"
  by (auto simp: login_tokens_def fail_def app_defs split: prod.splits sum.splits option.splits)

lemma auth_svc_codes:
  "authService_Register (main_auth E jwt base) m pw w = (Inl e, w') \<Longrightarrow> code_of e = 409 \<or> code_of e = 500"
  "authService_Login E (main_auth E jwt base) c m pw w = (Inl e, w') \<Longrightarrow> code_of e = 401 \<or> code_of e = 429 \<or> code_of e = 500"
  "authService_Refresh E (main_auth E jwt base) c t w = (Inl e, w') \<Longrightarrow> code_of e = 401 \<or> code_of e = 500"
  "authService_Logout (main_auth E jwt base) c j t w = (Some e, w') \<Longrightarrow> code_of e = 500"
  "authService_ResetPassword E (main_auth E jwt base) c t pw w = (Some e, w') \<Longrightarrow> code_of e = 400 \<or> code_of e = 500"
proof -
  show "code_of e = 409 \<or> code_of e = 500" if "authService_Register (main_auth E jwt base) m pw w = (Inl e, w')"
    using that by (auto simp: authService_Register_def dest: user_svc_codes_eq split: prod.splits sum.splits)
  show "code_of e = 401 \<or> code_of e = 429 \<or> code_of e = 500" if "authService_Login E (main_auth E jwt base) c m pw w = (Inl e, w')"
    using that by (auto simp: authService_Login_def fail_def locked_error_def app_defs Let_def dest: login_tokens_codes
      split: prod.splits sum.splits if_splits)
  show "code_of e = 401 \<or> code_of e = 500" if "authService_Refresh E (main_auth E jwt base) c t w = (Inl e, w')"
    using that by (auto simp: authService_Refresh_def fail_def app_defs split: prod.splits sum.splits option.splits)
  show "code_of e = 500" if "authService_Logout (main_auth E jwt base) c j t w = (Some e, w')"
    using that by (auto simp: authService_Logout_def fail_opt_def app_defs split: prod.splits option.splits)
  show "code_of e = 400 \<or> code_of e = 500" if "authService_ResetPassword E (main_auth E jwt base) c t pw w = (Some e, w')"
    using that by (auto simp: authService_ResetPassword_def fail_opt_def app_defs Let_def
      split: prod.splits sum.splits option.splits if_splits)
qed

section \<open>Answers that fit\<close>

abbreviation error_schema :: schema where
  "error_schema \<equiv> SRef ''apperror.ErrorResponse''"

text \<open>A writer that nothing was written to, and an encoder that accepts every value of the handlers.\<close>

definition fresh :: "rw \<Rightarrow> bool" where
  "fresh r \<longleftrightarrow> rw_sent r = None \<and> rw_body r = []"

definition encodes_all :: "('s, 'd) env \<Rightarrow> bool" where
  "encodes_all E \<longleftrightarrow> (\<forall>v. jsonText E v \<noteq> None)"

definition fits :: "(int \<times> schema option) list \<Rightarrow> 'w served \<Rightarrow> bool" where
  "fits os s \<longleftrightarrow>
     (case map_of os (status_of (sv_rw s)) of
        None \<Rightarrow> False
      | Some None \<Rightarrow> rw_body (sv_rw s) = []
      | Some (Some sch) \<Rightarrow> (\<exists>j. rw_body (sv_rw s) = [BJson j] \<and> fits_schema sch j))"

lemma error_fits_schema: "fits_schema error_schema (ErrorResponse c m)"
  by (simp add: fits_schema_def doc_definitions_def ErrorResponse_def numeral_2_eq_2)

lemma fits_WriteError:
  "fresh r \<Longrightarrow> map_of os (code_of e) = Some (Some error_schema) \<Longrightarrow> fits os (reply q (WriteError e r) w)"
  by (simp add: fits_def fresh_def WriteError_fresh error_fits_schema reply_def)

lemma fits_send_error:
  "fresh r \<Longrightarrow> map_of os (code_of e) = Some (Some error_schema) \<Longrightarrow> fits os (send_error sp as q e r w)"
  by (simp add: send_error_def fits_WriteError)

lemma sent_json:
  assumes "fresh r"
  shows "status_of (Write (BJson v) (WriteHeader c (Set_Header k x r))) = c"
    "rw_body (Write (BJson v) (WriteHeader c (Set_Header k x r))) = [BJson v]"
  using assms by (simp_all add: fresh_def rw_defs status_of_def)

lemma fits_send_json:
  assumes "encodes_all E" "fresh r" "map_of os c = Some (Some sch)" "fits_schema sch v"
  shows "fits os (send_json E q c v r w)"
proof -
  obtain y where "jsonText E v = Some y" using assms(1) by (auto simp: encodes_all_def)
  with assms(2-4) show ?thesis by (simp add: send_json_def encodeJSON_def Let_def reply_def fits_def sent_json)
qed

lemma fits_writeJSON:
  assumes "encodes_all E" "fresh r" "map_of os c = Some (Some sch)" "fits_schema sch v"
  shows "fits os (writeJSON E q c v r w)"
proof -
  obtain y where "jsonText E v = Some y" using assms(1) by (auto simp: encodes_all_def)
  with assms(2-4) show ?thesis by (simp add: writeJSON_def Let_def reply_def fits_def sent_json)
qed

lemma fits_no_body:
  "fresh r \<Longrightarrow> map_of os c = Some None \<Longrightarrow> fits os (reply q (WriteHeader c r) w)"
  by (simp add: fits_def fresh_def WriteHeader_def status_of_def reply_def)

lemma fresh_simps [simp]:
  "fresh (limit_headers a b c r) = fresh r" "fresh (SetCookie k r) = fresh r" "fresh (Set_Header x y r) = fresh r"
  by (simp_all add: fresh_def limit_headers_def SetCookie_def Set_Header_def)

text \<open>The schemas of the handlers' values.\<close>

lemma fits_values:
  "fits_schema (SRef ''model.UserResponse'') (UserResponse_json C u)"
  "fits_schema (SRef ''handler.TokenResponse'') (TokenResponse_json C p)"
  "fits_schema (SRef ''handler.ListUsersResponse'') (ListUsersResponse_json C us n pg per)"
  "fits_schema (SRef ''handler.ReadyzResponse'') (ReadyzResponse_json st db rd)"
  "fits_schema (SRef ''handler.healthResponse'') (JObj [(''status'', JStr x)])"
  "fits_schema (SMap SString) (JObj [(''message'', JStr x)])"
  by (auto simp: fits_schema_def doc_definitions_def UserResponse_json_def TokenResponse_json_def ListUsersResponse_json_def
    ReadyzResponse_json_def numeral_2_eq_2)

lemmas fits_intros = fits_WriteError fits_send_error fits_send_json fits_writeJSON fits_no_body fits_values

section \<open>The handlers\<close>

text \<open>The documented answers, and an error object for each of some more statuses.\<close>

definition doc_all :: "doc_operation \<Rightarrow> int list \<Rightarrow> (int \<times> schema option) list" where
  "doc_all d extra = doc_answers d @ map (\<lambda>c. (c, Some error_schema)) extra"

text \<open>The statuses the operations answer with beside the documented ones.\<close>

definition undocumented :: "(doc_operation \<times> int list) list" where
  "undocumented =
     [(doc_post_forgot_password, []),
      (doc_post_login, [429, 500]),
      (doc_post_logout, [429, 500]),
      (doc_post_refresh, [500]),
      (doc_post_register, [403, 500]),
      (doc_post_reset_password, [500]),
      (doc_get_healthz, []),
      (doc_get_readyz, []),
      (doc_get_users, [429, 500]),
      (doc_get_users_me, [429, 500]),
      (doc_get_users_id, [429, 500]),
      (doc_put_users_id, [429, 500]),
      (doc_delete_users_id, [400, 429, 500])]"

lemmas doc_defs = doc_all_def doc_answers_def
  doc_post_forgot_password_def
  doc_post_login_def
  doc_post_logout_def
  doc_post_refresh_def
  doc_post_register_def
  doc_post_reset_password_def
  doc_get_healthz_def
  doc_get_readyz_def
  doc_get_users_def
  doc_get_users_me_def
  doc_get_users_id_def
  doc_put_users_id_def
  doc_delete_users_id_def

abbreviation main_authH :: "('s, 'd) env \<Rightarrow> jwt_service \<Rightarrow> string \<Rightarrow> bool \<Rightarrow> bool \<Rightarrow> ('s, 'd) auth_handler" where
  "main_authH E jwt base p reg \<equiv> NewAuthHandler (NewAuthService E (main_auth E jwt base)) jwt p reg"

lemma main_authH_sel:
  "ah_registrationEnabled (main_authH E jwt base p reg) = reg"
  "auth_Register (ah_svc (main_authH E jwt base p reg)) = authService_Register (main_auth E jwt base)"
  "auth_Login (ah_svc (main_authH E jwt base p reg)) = authService_Login E (main_auth E jwt base)"
  "auth_Refresh (ah_svc (main_authH E jwt base p reg)) = authService_Refresh E (main_auth E jwt base)"
  "auth_Logout (ah_svc (main_authH E jwt base p reg)) = authService_Logout (main_auth E jwt base)"
  "auth_ForgotPassword (ah_svc (main_authH E jwt base p reg)) = authService_ForgotPassword E (main_auth E jwt base)"
  "auth_ResetPassword (ah_svc (main_authH E jwt base p reg)) = authService_ResetPassword E (main_auth E jwt base)"
  by (simp_all add: NewAuthHandler_def NewAuthService_def)

text \<open>The answer tables, evaluated.\<close>

lemma doc_tables:
  "doc_all doc_post_forgot_password [] = [(200, Some (SMap SString)), (400, Some error_schema)]"
  "doc_all doc_post_login [429, 500] = [(200, Some (SRef ''handler.TokenResponse'')), (400, Some error_schema),
     (401, Some error_schema), (429, Some error_schema), (500, Some error_schema)]"
  "doc_all doc_post_logout [429, 500] = [(204, None), (401, Some error_schema), (429, Some error_schema), (500, Some error_schema)]"
  "doc_all doc_post_refresh [500] = [(200, Some (SRef ''handler.TokenResponse'')), (401, Some error_schema), (500, Some error_schema)]"
  "doc_all doc_post_register [403, 500] = [(201, Some (SRef ''model.UserResponse'')), (400, Some error_schema),
     (409, Some error_schema), (403, Some error_schema), (500, Some error_schema)]"
  "doc_all doc_post_reset_password [500] = [(200, Some (SMap SString)), (400, Some error_schema), (500, Some error_schema)]"
  "doc_all doc_get_healthz [] = [(200, Some (SRef ''handler.healthResponse''))]"
  "doc_all doc_get_readyz [] = [(200, Some (SRef ''handler.ReadyzResponse'')), (503, Some (SRef ''handler.ReadyzResponse''))]"
  "doc_all doc_get_users [429, 500] = [(200, Some (SRef ''handler.ListUsersResponse'')), (401, Some error_schema),
     (403, Some error_schema), (429, Some error_schema), (500, Some error_schema)]"
  "doc_all doc_get_users_me [429, 500] = [(200, Some (SRef ''model.UserResponse'')), (401, Some error_schema),
     (404, Some error_schema), (429, Some error_schema), (500, Some error_schema)]"
  "doc_all doc_get_users_id [429, 500] = [(200, Some (SRef ''model.UserResponse'')), (400, Some error_schema),
     (401, Some error_schema), (403, Some error_schema), (404, Some error_schema), (429, Some error_schema),
     (500, Some error_schema)]"
  "doc_all doc_put_users_id [429, 500] = [(200, Some (SRef ''model.UserResponse'')), (400, Some error_schema),
     (401, Some error_schema), (403, Some error_schema), (404, Some error_schema), (409, Some error_schema),
     (429, Some error_schema), (500, Some error_schema)]"
  "doc_all doc_delete_users_id [400, 429, 500] = [(204, None), (401, Some error_schema), (403, Some error_schema),
     (404, Some error_schema), (400, Some error_schema), (429, Some error_schema), (500, Some error_schema)]"
  by (simp_all add: doc_defs)

lemmas handler_answers = bad_body_def bad_user_id_def app_defs Let_def
lemmas service_codes = auth_svc_codes user_svc_codes_eq

lemma fits_Register:
  assumes "encodes_all E" "fresh r"
  shows "fits (doc_all doc_post_register [403, 500]) (AuthHandler_Register E (main_authH E jwt base p reg) q r w)"
  unfolding doc_tables AuthHandler_Register_def main_authH_sel
  using assms by (auto simp: handler_answers dest!: service_codes intro!: fits_intros split: option.splits prod.splits sum.splits)

lemma fits_Login:
  assumes "encodes_all E" "fresh r"
  shows "fits (doc_all doc_post_login [429, 500]) (AuthHandler_Login E (main_authH E jwt base p reg) q r w)"
  unfolding doc_tables AuthHandler_Login_def main_authH_sel send_tokens_def
  using assms by (auto simp: handler_answers dest!: service_codes intro!: fits_intros split: option.splits prod.splits sum.splits)

lemma fits_Refresh:
  assumes "encodes_all E" "fresh r"
  shows "fits (doc_all doc_post_refresh [500]) (AuthHandler_Refresh E (main_authH E jwt base p reg) q r w)"
  unfolding doc_tables AuthHandler_Refresh_def main_authH_sel send_tokens_def
  using assms by (auto simp: handler_answers dest!: service_codes intro!: fits_intros split: option.splits prod.splits sum.splits)

lemma fits_ForgotPassword:
  assumes "encodes_all E" "fresh r"
  shows "fits (doc_all doc_post_forgot_password []) (AuthHandler_ForgotPassword E (main_authH E jwt base p reg) q r w)"
  unfolding doc_tables AuthHandler_ForgotPassword_def main_authH_sel
  using assms by (auto simp: handler_answers intro!: fits_intros split: option.splits prod.splits sum.splits)

lemma fits_ResetPassword:
  assumes "encodes_all E" "fresh r"
  shows "fits (doc_all doc_post_reset_password [500]) (AuthHandler_ResetPassword E (main_authH E jwt base p reg) q r w)"
  unfolding doc_tables AuthHandler_ResetPassword_def main_authH_sel
  using assms by (auto simp: handler_answers dest!: service_codes intro!: fits_intros split: option.splits prod.splits sum.splits)

lemma fits_Healthz:
  assumes "encodes_all E" "fresh r"
  shows "fits (doc_all doc_get_healthz []) (Healthz E q r w)"
  unfolding doc_tables Healthz_def using assms by (auto intro!: fits_intros)

lemma fits_Readyz:
  assumes "encodes_all E" "fresh r"
  shows "fits (doc_all doc_get_readyz []) (Readyz E pg rd q r w)"
  unfolding doc_tables Readyz_def Let_def using assms by (auto intro!: fits_intros)

lemma fits_Logout:
  assumes "encodes_all E" "fresh r"
  shows "fits (doc_all doc_post_logout [429, 500]) (AuthHandler_Logout (main_authH E jwt base p reg) q r w)"
  unfolding doc_tables AuthHandler_Logout_def main_authH_sel
  using assms by (auto simp: handler_answers dest!: service_codes intro!: fits_intros split: option.splits prod.splits sum.splits)

lemma fits_GetMe:
  assumes "encodes_all E" "fresh r"
  shows "fits (doc_all doc_get_users_me [429, 500]) (UserHandler_GetMe E (main_userSvc E) q r w)"
  unfolding doc_tables UserHandler_GetMe_def
  using assms by (auto simp: handler_answers dest!: service_codes intro!: fits_intros split: option.splits prod.splits sum.splits)

lemma fits_GetUser:
  assumes "encodes_all E" "fresh r"
  shows "fits (doc_all doc_get_users_id [429, 500]) (UserHandler_GetUser E (main_userSvc E) q r w)"
  unfolding doc_tables UserHandler_GetUser_def
  using assms by (auto simp: handler_answers dest!: service_codes intro!: fits_intros split: option.splits prod.splits sum.splits)

lemma fits_ListUsers:
  assumes "encodes_all E" "fresh r"
  shows "fits (doc_all doc_get_users [429, 500]) (UserHandler_ListUsers E (main_userSvc E) q r w)"
  unfolding doc_tables UserHandler_ListUsers_def
  using assms by (auto simp: handler_answers dest!: service_codes intro!: fits_intros split: option.splits prod.splits sum.splits)

lemma fits_UpdateUser:
  assumes "encodes_all E" "fresh r"
  shows "fits (doc_all doc_put_users_id [429, 500]) (UserHandler_UpdateUser E (main_userSvc E) q r w)"
  unfolding doc_tables UserHandler_UpdateUser_def
  using assms by (auto simp: handler_answers dest!: service_codes intro!: fits_intros split: option.splits prod.splits sum.splits)

lemma fits_DeleteUser:
  assumes "encodes_all E" "fresh r"
  shows "fits (doc_all doc_delete_users_id [400, 429, 500]) (UserHandler_DeleteUser E (main_userSvc E) q r w)"
  unfolding doc_tables UserHandler_DeleteUser_def
  using assms by (auto simp: handler_answers dest!: service_codes intro!: fits_intros split: option.splits prod.splits sum.splits)

text \<open>The middleware in front of them.\<close>

lemma fits_JWT:
  assumes "\<And>q w. fits os (next q r w)" and "fresh r" and "map_of os 401 = Some (Some error_schema)"
  shows "fits os (JWT E j s next q r w)"
  unfolding JWT_def using assms
  by (auto simp: Let_def app_defs intro!: fits_WriteError split: sum.split prod.split)

lemma fits_RequireRole:
  assumes "\<And>q w. fits os (next q r w)" and "fresh r" and "map_of os 403 = Some (Some error_schema)"
  shows "fits os (RequireRole role next q r w)"
  unfolding RequireRole_def using assms by (auto simp: app_defs intro!: fits_WriteError)

lemma fits_RateLimit:
  assumes "\<And>q r w. fresh r \<Longrightarrow> fits os (next q r w)" and "fresh r" and "map_of os 429 = Some (Some error_schema)"
  shows "fits os (RateLimit l n W next q r w)" and "fits os (RateLimitUser l n W next q r w)"
  unfolding RateLimit_def RateLimitUser_def using assms
  by (auto simp: Let_def app_defs intro!: fits_WriteError split: prod.split)

lemma fits_protected:
  assumes "\<And>q r w. fresh r \<Longrightarrow> fits os (next q r w)" and "fresh r"
    and "map_of os 401 = Some (Some error_schema)" and "map_of os 429 = Some (Some error_schema)"
  shows "fits os (protected_group E D next q r w)"
  unfolding protected_group_def
  by (intro fits_JWT fits_RateLimit assms)

section \<open>The routes\<close>

text \<open>Where an operation is served: the API below its base path, the probes at the root.\<close>

definition doc_url :: "doc_operation \<Rightarrow> string" where
  "doc_url d = (if op_tags d = [''system''] then op_path d else si_BasePath SwaggerInfo @ op_path d)"

definition doc_key :: "doc_operation \<Rightarrow> string \<times> string" where
  "doc_key d = (map upper_char (op_method d), doc_url d)"

lemma doc_keys:
  "map doc_key doc_paths =
     [(''POST'', ''/api/v1/auth/forgot-password''), (''POST'', ''/api/v1/auth/login''), (''POST'', ''/api/v1/auth/logout''),
      (''POST'', ''/api/v1/auth/refresh''), (''POST'', ''/api/v1/auth/register''), (''POST'', ''/api/v1/auth/reset-password''),
      (''GET'', ''/healthz''), (''GET'', ''/readyz''), (''GET'', ''/api/v1/users''), (''GET'', ''/api/v1/users/me''),
      (''GET'', ''/api/v1/users/{id}''), (''PUT'', ''/api/v1/users/{id}''), (''DELETE'', ''/api/v1/users/{id}'')]"
  by code_simp

text \<open>The keys of the route table.\<close>

definition public_keys :: "bool \<Rightarrow> (string \<times> string) list" where
  "public_keys inProd =
     [([], ''/metrics''), (''GET'', ''/healthz''), (''GET'', ''/readyz'')] @
     (if inProd then [] else [(''GET'', ''/swagger/*'')]) @
     [(''GET'', ''/api/v1/tenants''), (''GET'', ''/api/v1/tenants/{id}''), (''GET'', ''/api/v1/tenant-demo/status''),
      (''POST'', ''/api/v1/auth/register''), (''POST'', ''/api/v1/auth/login''), (''POST'', ''/api/v1/auth/refresh''),
      (''POST'', ''/api/v1/auth/forgot-password''), (''POST'', ''/api/v1/auth/reset-password'')]"

definition guarded_keys :: "(string \<times> string) list" where
  "guarded_keys =
     [(''POST'', ''/api/v1/auth/logout''), (''GET'', ''/api/v1/users/me''), (''GET'', ''/api/v1/users''),
      (''GET'', ''/api/v1/users/{id}''), (''PUT'', ''/api/v1/users/{id}''), (''DELETE'', ''/api/v1/users/{id}''),
      (''GET'', ''/admin/users''), (''DELETE'', ''/admin/users/{id}'')]"

definition ui_keys :: "(string \<times> string) list" where
  "ui_keys = [(''GET'', ''/assets/*''), (''GET'', ''/favicon.ico''), (''GET'', ''/robots.txt''), (''GET'', ''/manifest.json''),
     (''GET'', ''/*'')]"

lemma route_key_lists:
  "route_keys (public_routes E X D) = public_keys (isProd D)"
  "route_keys (protected_routes E D @ admin_routes E D) = guarded_keys"
  "route_keys (registerUIRoutes f fs) = ui_keys"
  "route_keys (routes E X D) = public_keys (isProd D) @ guarded_keys @ ui_keys"
  by (simp_all add: routes_def route_defs route_keys_def public_keys_def guarded_keys_def ui_keys_def Let_def)

definition doc_routed :: "bool \<Rightarrow> doc_operation \<Rightarrow> bool" where
  "doc_routed inProd d \<longleftrightarrow>
     length (filter (\<lambda>k. k = doc_key d) (public_keys inProd @ guarded_keys @ ui_keys)) = 1 \<and>
     (op_security d = [''BearerAuth''] \<longleftrightarrow> doc_key d \<in> set guarded_keys) \<and>
     (op_security d = [] \<longleftrightarrow> doc_key d \<in> set (public_keys inProd)) \<and>
     (op_tags d = [''system''] \<longrightarrow>
       (fst (doc_key d), si_BasePath SwaggerInfo @ op_path d) \<notin> set (public_keys inProd @ guarded_keys @ ui_keys))"

lemma all_doc_routed: "list_all (doc_routed True) doc_paths" "list_all (doc_routed False) doc_paths"
  by code_simp+

text \<open>The handler behind each documented key.\<close>

lemma routed:
  assumes "(m, p, h) \<in> set (routes E X D)"
  shows
    "(m, p) = (''POST'', ''/api/v1/auth/forgot-password'') \<Longrightarrow>
      h = AuthHandler_ForgotPassword E (NewAuthHandler (d_auth D) (d_jwt D) (isProd D) (d_registration D))"
    "(m, p) = (''POST'', ''/api/v1/auth/login'') \<Longrightarrow>
      h = AuthHandler_Login E (NewAuthHandler (d_auth D) (d_jwt D) (isProd D) (d_registration D))"
    "(m, p) = (''POST'', ''/api/v1/auth/logout'') \<Longrightarrow>
      h = protected_group E D (AuthHandler_Logout (NewAuthHandler (d_auth D) (d_jwt D) (isProd D) (d_registration D)))"
    "(m, p) = (''POST'', ''/api/v1/auth/refresh'') \<Longrightarrow>
      h = AuthHandler_Refresh E (NewAuthHandler (d_auth D) (d_jwt D) (isProd D) (d_registration D))"
    "(m, p) = (''POST'', ''/api/v1/auth/register'') \<Longrightarrow>
      h = AuthHandler_Register E (NewAuthHandler (d_auth D) (d_jwt D) (isProd D) (d_registration D))"
    "(m, p) = (''POST'', ''/api/v1/auth/reset-password'') \<Longrightarrow>
      h = AuthHandler_ResetPassword E (NewAuthHandler (d_auth D) (d_jwt D) (isProd D) (d_registration D))"
    "(m, p) = (''GET'', ''/healthz'') \<Longrightarrow>
      h = Healthz E"
    "(m, p) = (''GET'', ''/readyz'') \<Longrightarrow>
      h = Readyz E (d_pgPing D) (d_redisPing D)"
    "(m, p) = (''GET'', ''/api/v1/users'') \<Longrightarrow>
      h = protected_group E D (UserHandler_ListUsers E (d_users D))"
    "(m, p) = (''GET'', ''/api/v1/users/me'') \<Longrightarrow>
      h = protected_group E D (UserHandler_GetMe E (d_users D))"
    "(m, p) = (''GET'', ''/api/v1/users/{id}'') \<Longrightarrow>
      h = protected_group E D (UserHandler_GetUser E (d_users D))"
    "(m, p) = (''PUT'', ''/api/v1/users/{id}'') \<Longrightarrow>
      h = protected_group E D (UserHandler_UpdateUser E (d_users D))"
    "(m, p) = (''DELETE'', ''/api/v1/users/{id}'') \<Longrightarrow>
      h = protected_group E D (RequireRole ''admin'' (UserHandler_DeleteUser E (d_users D)))"
  using assms by (auto simp: routes_def route_defs Let_def split: if_splits)

lemma doc_key_of:
  "doc_key doc_post_forgot_password = (''POST'', ''/api/v1/auth/forgot-password'')"
  "doc_key doc_post_login = (''POST'', ''/api/v1/auth/login'')"
  "doc_key doc_post_logout = (''POST'', ''/api/v1/auth/logout'')"
  "doc_key doc_post_refresh = (''POST'', ''/api/v1/auth/refresh'')"
  "doc_key doc_post_register = (''POST'', ''/api/v1/auth/register'')"
  "doc_key doc_post_reset_password = (''POST'', ''/api/v1/auth/reset-password'')"
  "doc_key doc_get_healthz = (''GET'', ''/healthz'')"
  "doc_key doc_get_readyz = (''GET'', ''/readyz'')"
  "doc_key doc_get_users = (''GET'', ''/api/v1/users'')"
  "doc_key doc_get_users_me = (''GET'', ''/api/v1/users/me'')"
  "doc_key doc_get_users_id = (''GET'', ''/api/v1/users/{id}'')"
  "doc_key doc_put_users_id = (''PUT'', ''/api/v1/users/{id}'')"
  "doc_key doc_delete_users_id = (''DELETE'', ''/api/v1/users/{id}'')"
  using doc_keys by (simp_all add: doc_paths_def)

lemma doc_security:
  "op_security doc_post_forgot_password = []" "op_security doc_post_login = []"
  "op_security doc_post_logout = [''BearerAuth'']" "op_security doc_post_refresh = []"
  "op_security doc_post_register = []" "op_security doc_post_reset_password = []"
  "op_security doc_get_healthz = []" "op_security doc_get_readyz = []"
  "op_security doc_get_users = [''BearerAuth'']" "op_security doc_get_users_me = [''BearerAuth'']"
  "op_security doc_get_users_id = [''BearerAuth'']" "op_security doc_put_users_id = [''BearerAuth'']"
  "op_security doc_delete_users_id = [''BearerAuth'']"
  by code_simp+

text \<open>A documented operation's handler checks the token first, or never looks at the headers of a request.\<close>

lemma answers_headers:
  "reply (q\<lparr>q_headers := hs\<rparr>) = (reply q :: rw \<Rightarrow> ('s, 'd) world \<Rightarrow> ('s, 'd) world served)"
  "send_error sp as (q\<lparr>q_headers := hs\<rparr>) e r w = send_error sp as q e r w"
  "send_json E (q\<lparr>q_headers := hs\<rparr>) c v r w = send_json E q c v r w"
  "send_tokens E h sp (q\<lparr>q_headers := hs\<rparr>) p r w = send_tokens E h sp q p r w"
  "writeJSON E (q\<lparr>q_headers := hs\<rparr>) c v r w = writeJSON E q c v r w"
  by (simp_all add: send_defs Let_def fun_eq_iff split: option.split)

lemma public_headers:
  "AuthHandler_ForgotPassword E h (q\<lparr>q_headers := hs\<rparr>) r w = AuthHandler_ForgotPassword E h q r w"
  "AuthHandler_Login E h (q\<lparr>q_headers := hs\<rparr>) r w = AuthHandler_Login E h q r w"
  "AuthHandler_Refresh E h (q\<lparr>q_headers := hs\<rparr>) r w = AuthHandler_Refresh E h q r w"
  "AuthHandler_Register E h (q\<lparr>q_headers := hs\<rparr>) r w = AuthHandler_Register E h q r w"
  "AuthHandler_ResetPassword E h (q\<lparr>q_headers := hs\<rparr>) r w = AuthHandler_ResetPassword E h q r w"
  "Healthz E (q\<lparr>q_headers := hs\<rparr>) r w = Healthz E q r w"
  "Readyz E pg rd (q\<lparr>q_headers := hs\<rparr>) r w = Readyz E pg rd q r w"
  by (simp_all add: handler_defs answers_headers Let_def cong: if_cong option.case_cong prod.case_cong sum.case_cong)

lemma documented_handler:
  assumes "d \<in> set doc_paths" and "(m, p, h) \<in> set (routes E X D)" and "(m, p) = doc_key d"
  shows "op_security d = [''BearerAuth''] \<and> (\<exists>k. h = JWT E (d_jwt D) (d_sessions D) k) \<or>
    op_security d = [] \<and> (\<forall>q hs r w. h (q\<lparr>q_headers := hs\<rparr>) r w = h q r w)"
proof -
  note at = routed [OF assms(2)] and sec = doc_security
  from assms(1) show ?thesis
    unfolding doc_paths_def list.set insert_iff empty_iff
    by (elim disjE FalseE)
      (use at assms(3) in \<open>auto simp: doc_key_of sec public_headers protected_group_def\<close>)
qed





text \<open>The document promises 409 for an address that is taken, but an update never gives it: the unique violation is no
  application error and comes out as a 500.\<close>

lemma sent_status:
  assumes "rw_sent r = None"
  shows "status_of (sv_rw (send_error sp as q e r w)) = code_of e" "status_of (sv_rw (send_json E q c v r w)) = c"
  by (simp add: send_error_def reply_def WriteError_fresh [OF assms])
    (use assms in \<open>auto simp: send_json_def encodeJSON_def reply_def rw_defs status_of_def split: option.splits\<close>)

lemma update_never_conflicts:
  assumes "rw_sent r = None"
  shows "status_of (sv_rw (UserHandler_UpdateUser E (main_userSvc E) q r w)) \<noteq> 409"
  unfolding UserHandler_UpdateUser_def
  by (auto simp: handler_answers sent_status [OF assms] dest!: user_svc_codes_eq split: option.splits prod.splits sum.splits)

section \<open>Requests\<close>

lemma two_keys:
  assumes "distinct (map fst fs)" and "set (map fst fs) = {f, g}" and "f \<noteq> g"
  obtains a b where "fs = [(f, a), (g, b)]" | a b where "fs = [(g, b), (f, a)]"
proof -
  have "length fs = 2" using distinct_card [OF assms(1)] assms(2,3) by simp
  then obtain x y where fs: "fs = [x, y]" by (auto simp: numeral_2_eq_2 length_Suc_conv)
  with assms have "(fst x = f \<and> fst y = g) \<or> (fst x = g \<and> fst y = f)" by (auto simp: doubleton_eq_iff)
  with fs that show thesis by (metis prod.collapse)
qed

lemma decode2_fits:
  assumes "distinct (map fst fs)" and "set (map fst fs) = {f, g}" and "f \<noteq> g"
    and v: "map_of fs f = Some (JStr a)" "map_of fs g = Some (JStr b)"
    and "list_all plain_char f" and "list_all plain_char g"
  shows "decode2 f g (Some (JObj fs)) = Some (a, b)"
proof -
  have k: "key_is f f" "key_is g g" "\<not> key_is f g" "\<not> key_is g f"
    using assms(3,6,7) by (auto simp: key_is_plain)
  from assms(1-3) show ?thesis
    by (cases rule: two_keys) (use v assms(3) k in \<open>auto simp: decode2_def obj_pairs_def json_str_def\<close>)
qed

lemma string_field: "conforms D n SString v \<longleftrightarrow> (\<exists>x. v = JStr x)"
  by (cases v) auto

lemma request_schemas:
  "fits_schema (SRef ''handler.RegisterRequest'') (JObj fs) \<Longrightarrow> distinct (map fst fs) \<and> set (map fst fs) = {''email'', ''password''} \<and>
     (\<exists>a. map_of fs ''email'' = Some (JStr a)) \<and> (\<exists>b. map_of fs ''password'' = Some (JStr b))"
  "fits_schema (SRef ''handler.LoginRequest'') (JObj fs) \<Longrightarrow> distinct (map fst fs) \<and> set (map fst fs) = {''email'', ''password''} \<and>
     (\<exists>a. map_of fs ''email'' = Some (JStr a)) \<and> (\<exists>b. map_of fs ''password'' = Some (JStr b))"
  "fits_schema (SRef ''handler.ResetPasswordRequest'') (JObj fs) \<Longrightarrow> distinct (map fst fs) \<and>
     set (map fst fs) = {''token'', ''new_password''} \<and>
     (\<exists>a. map_of fs ''token'' = Some (JStr a)) \<and> (\<exists>b. map_of fs ''new_password'' = Some (JStr b))"
  by (auto simp: fits_schema_def doc_definitions_def numeral_2_eq_2 string_field simp del: conforms.simps(1) split: option.splits)

text \<open>
  Documented bodies are understood: a body that fits the documented schema of a registration, login or password reset
  decodes without an error, to exactly the strings it carries.
\<close>

theorem documented_bodies_decode:
  assumes "(sch, f, g, dec) \<in>
    {(''handler.RegisterRequest'', ''email'', ''password'', RegisterRequest_decode),
     (''handler.LoginRequest'', ''email'', ''password'', LoginRequest_decode),
     (''handler.ResetPasswordRequest'', ''token'', ''new_password'', ResetPasswordRequest_decode)}"
    and "fits_schema (SRef sch) (JObj fs)"
  shows "\<exists>a b. dec (Some (JObj fs)) = Some (a, b) \<and> map_of fs f = Some (JStr a) \<and> map_of fs g = Some (JStr b)"
proof -
  have plain: "list_all plain_char ''email''" "list_all plain_char ''password''" "list_all plain_char ''token''"
    "list_all plain_char ''new_password''"
    by code_simp+
  from assms(1) show ?thesis
    unfolding insert_iff empty_iff prod.inject
  proof (elim disjE conjE FalseE, goal_cases)
    case 1
    with assms(2) have fs: "distinct (map fst fs) \<and> set (map fst fs) = {''email'', ''password''} \<and>
        (\<exists>a. map_of fs ''email'' = Some (JStr a)) \<and> (\<exists>b. map_of fs ''password'' = Some (JStr b))"
      by (intro request_schemas(1)) simp
    then obtain a b where ab: "map_of fs ''email'' = Some (JStr a)" "map_of fs ''password'' = Some (JStr b)" by blast
    have "decode2 ''email'' ''password'' (Some (JObj fs)) = Some (a, b)" using fs ab plain by (intro decode2_fits) simp_all
    with ab show ?case unfolding 1 RegisterRequest_decode_def by blast
  next
    case 2
    with assms(2) have fs: "distinct (map fst fs) \<and> set (map fst fs) = {''email'', ''password''} \<and>
        (\<exists>a. map_of fs ''email'' = Some (JStr a)) \<and> (\<exists>b. map_of fs ''password'' = Some (JStr b))"
      by (intro request_schemas(2)) simp
    then obtain a b where ab: "map_of fs ''email'' = Some (JStr a)" "map_of fs ''password'' = Some (JStr b)" by blast
    have "decode2 ''email'' ''password'' (Some (JObj fs)) = Some (a, b)" using fs ab plain by (intro decode2_fits) simp_all
    with ab show ?case unfolding 2 LoginRequest_decode_def by blast
  next
    case 3
    with assms(2) have fs: "distinct (map fst fs) \<and> set (map fst fs) = {''token'', ''new_password''} \<and>
        (\<exists>a. map_of fs ''token'' = Some (JStr a)) \<and> (\<exists>b. map_of fs ''new_password'' = Some (JStr b))"
      by (intro request_schemas(3)) simp
    then obtain a b where ab: "map_of fs ''token'' = Some (JStr a)" "map_of fs ''new_password'' = Some (JStr b)" by blast
    have "decode2 ''token'' ''new_password'' (Some (JObj fs)) = Some (a, b)" using fs ab plain by (intro decode2_fits) simp_all
    with ab show ?case unfolding 3 ResetPasswordRequest_decode_def by blast
  qed
qed

theorem documented_bodies_decode_witness:
  "LoginRequest_decode (Some (JObj [(''email'', JStr ''a@b.c''), (''password'', JStr ''secret99'')])) = Some (''a@b.c'', ''secret99'')"
proof -
  let ?fs = "[(''email'', JStr ''a@b.c''), (''password'', JStr ''secret99'')]"
  have "fits_schema (SRef ''handler.LoginRequest'') (JObj ?fs)" by code_simp
  from documented_bodies_decode [OF _ this, of "''email''" "''password''" LoginRequest_decode] show ?thesis by auto
qed

end
