(* ===== verification/Logging.thy ===== *)
theory Logging
  imports Reqctx Startup Response_Headers
begin

text \<open>
  The loggers of the server: the handlers of \<open>internal/logger\<close> and \<open>internal/telemetry\<close> over the library's own
  handler, the logger kept in the request's context, and the logger \<open>run\<close> builds (\<open>cmd/api/main.go\<close>).  A logger is
  its handler; a written attribute carries the names of the groups it stands in.
\<close>

section \<open>Handlers\<close>

type_synonym placed = "string list \<times> string \<times> string"

record written =
  wr_level :: level
  wr_msg :: string
  wr_attrs :: "placed list"

text \<open>
  \<open>Builtin\<close> is the text or JSON handler of package slog: its options, the attributes it was given and the groups it
  has open.  The two wrappers embed a handler.
\<close>

datatype slog_handler =
    Builtin logger_config "placed list" "string list"
  | TraceHandler slog_handler
  | TraceInjectingHandler slog_handler

definition place :: "string list \<Rightarrow> string \<times> string \<Rightarrow> placed" where
  "place gs a = (gs, fst a, snd a)"

definition replace_at :: "placed \<Rightarrow> placed" where
  "replace_at p = place (fst p) (replaceAttr (snd p))"

text \<open>\<open>Enabled\<close> is promoted from the embedded handler.\<close>

fun h_Enabled :: "slog_handler \<Rightarrow> level \<Rightarrow> bool" where
  "h_Enabled (Builtin c as gs) l = (lg_level c \<le> l)"
| "h_Enabled (TraceHandler h) l = h_Enabled h l"
| "h_Enabled (TraceInjectingHandler h) l = h_Enabled h l"

fun h_WithAttrs :: "slog_handler \<Rightarrow> (string \<times> string) list \<Rightarrow> slog_handler" where
  "h_WithAttrs (Builtin c as gs) kvs = Builtin c (as @ map (place gs) kvs) gs"
| "h_WithAttrs (TraceHandler h) kvs = TraceHandler (h_WithAttrs h kvs)"
| "h_WithAttrs (TraceInjectingHandler h) kvs = TraceInjectingHandler (h_WithAttrs h kvs)"

fun h_WithGroup :: "slog_handler \<Rightarrow> string \<Rightarrow> slog_handler" where
  "h_WithGroup (Builtin c as gs) g = Builtin c as (gs @ [g])"
| "h_WithGroup (TraceHandler h) g = TraceHandler (h_WithGroup h g)"
| "h_WithGroup (TraceInjectingHandler h) g = TraceInjectingHandler (h_WithGroup h g)"

text \<open>
  The identifiers of the span are added by both wrappers in the same way (\<open>trace_Handle\<close>).  The built-in handler
  writes its base attributes, those it was given and the record's, every one through \<open>replaceAttr\<close>.
\<close>

fun h_Handle :: "slog_handler \<Rightarrow> (string \<times> string) option \<Rightarrow> logline \<Rightarrow> written" where
  "h_Handle (Builtin c as gs) sp r =
     \<lparr>wr_level = l_level r, wr_msg = l_msg r,
      wr_attrs = map replace_at (map (place []) (lg_base c) @ as @ map (place gs) (l_attrs r))\<rparr>"
| "h_Handle (TraceHandler h) sp r = h_Handle h sp (trace_Handle sp r)"
| "h_Handle (TraceInjectingHandler h) sp r = h_Handle h sp (trace_Handle sp r)"

text \<open>\<open>slog.New\<close> of the configuration, and the two functions that wrap a logger.\<close>

definition slog_of :: "logger_config \<Rightarrow> slog_handler" where
  "slog_of c = Builtin c [] []"

definition WrapWithOTel :: "slog_handler \<Rightarrow> string \<Rightarrow> slog_handler" where
  "WrapWithOTel base name = TraceHandler base"

definition NewSlogHandler :: "slog_handler \<Rightarrow> string \<Rightarrow> slog_handler" where
  "NewSlogHandler base name = TraceInjectingHandler base"

text \<open>The methods of \<open>slog.Logger\<close>: an empty group name and an empty list of attributes change nothing; a record
  below the level is not handled.\<close>

definition With :: "slog_handler \<Rightarrow> (string \<times> string) list \<Rightarrow> slog_handler" where
  "With l kvs = (if kvs = [] then l else h_WithAttrs l kvs)"

definition WithGroup :: "slog_handler \<Rightarrow> string \<Rightarrow> slog_handler" where
  "WithGroup l g = (if g = [] then l else h_WithGroup l g)"

definition log_record :: "slog_handler \<Rightarrow> (string \<times> string) option \<Rightarrow> logline \<Rightarrow> written option" where
  "log_record l sp r = (if h_Enabled l (l_level r) then Some (h_Handle l sp r) else None)"

section \<open>The logger of a request\<close>

text \<open>The context's value under \<open>contextKey\<close>, a pointer that may be nil.\<close>

record log_ctx =
  lc_req :: rctx
  lc_logger :: "slog_handler option option"

definition WithContext :: "log_ctx \<Rightarrow> slog_handler option \<Rightarrow> log_ctx" where
  "WithContext ctx l = ctx\<lparr>lc_logger := Some l\<rparr>"

definition FromContext :: "slog_handler \<Rightarrow> log_ctx \<Rightarrow> slog_handler" where
  "FromContext dflt ctx = (case lc_logger ctx of Some (Some l) \<Rightarrow> l | _ \<Rightarrow> dflt)"

text \<open>The context \<open>RequestLogger\<close> passes on.\<close>

definition request_log_ctx :: "slog_handler \<Rightarrow> string \<Rightarrow> string \<Rightarrow> log_ctx \<Rightarrow> log_ctx" where
  "request_log_ctx log ip ua ctx =
     (let ctx = WithContext ctx (Some log)
      in ctx\<lparr>lc_req := WithUserAgent (WithIP (lc_req ctx) ip) ua\<rparr>)"

text \<open>The logger of the server, which is also the default: \<open>run\<close> wraps it when tracing is on.\<close>

definition run_logger :: "string \<Rightarrow> config \<Rightarrow> slog_handler" where
  "run_logger version cfg =
     (let log = slog_of (logger_New (app_LogLevel (cfg_App cfg)) (app_Env (cfg_App cfg))
            (app_ServiceName (cfg_App cfg)) version)
      in if otel_Enabled (cfg_OTel cfg) then NewSlogHandler log (app_ServiceName (cfg_App cfg)) else log)"

section \<open>Derived loggers\<close>

text \<open>A logger is derived by \<open>With\<close> and \<open>WithGroup\<close>; what it adds to a record, written down directly.\<close>

datatype derive_step = Attrs "(string \<times> string) list" | Group string

fun derive :: "slog_handler \<Rightarrow> derive_step list \<Rightarrow> slog_handler" where
  "derive l [] = l"
| "derive l (Attrs kvs # ds) = derive (With l kvs) ds"
| "derive l (Group g # ds) = derive (WithGroup l g) ds"

fun added :: "string list \<Rightarrow> derive_step list \<Rightarrow> placed list" where
  "added gs [] = []"
| "added gs (Attrs kvs # ds) = map (place gs) kvs @ added gs ds"
| "added gs (Group g # ds) = added (if g = [] then gs else gs @ [g]) ds"

fun opened :: "derive_step list \<Rightarrow> string list" where
  "opened [] = []"
| "opened (Attrs kvs # ds) = opened ds"
| "opened (Group g # ds) = (if g = [] then opened ds else g # opened ds)"

text \<open>A handler is a stack of wrappers over a built-in handler: the wrappers commute with the derivation.\<close>

lemma With_wrapped [simp]:
  "With (TraceHandler h) kvs = TraceHandler (With h kvs)"
  "With (TraceInjectingHandler h) kvs = TraceInjectingHandler (With h kvs)"
  by (simp_all add: With_def)

lemma WithGroup_wrapped [simp]:
  "WithGroup (TraceHandler h) g = TraceHandler (WithGroup h g)"
  "WithGroup (TraceInjectingHandler h) g = TraceInjectingHandler (WithGroup h g)"
  by (simp_all add: WithGroup_def)

lemma With_Builtin [simp]: "With (Builtin c as gs) kvs = Builtin c (as @ map (place gs) kvs) gs"
  by (simp add: With_def)

lemma WithGroup_Builtin [simp]: "WithGroup (Builtin c as gs) g = Builtin c as (if g = [] then gs else gs @ [g])"
  by (simp add: WithGroup_def)

lemma derive_Builtin: "derive (Builtin c as gs) ds = Builtin c (as @ added gs ds) (gs @ opened ds)"
proof (induction ds arbitrary: as gs)
  case (Cons d ds)
  then show ?case by (cases d) simp_all
qed simp

lemma derive_TraceHandler: "derive (TraceHandler h) ds = TraceHandler (derive h ds)"
  by (induction h ds rule: derive.induct) simp_all

lemma derive_TraceInjectingHandler: "derive (TraceInjectingHandler h) ds = TraceInjectingHandler (derive h ds)"
  by (induction h ds rule: derive.induct) simp_all

lemmas derive_simps = derive_Builtin derive_TraceHandler derive_TraceInjectingHandler
  slog_of_def WrapWithOTel_def NewSlogHandler_def

text \<open>The two wrappers are the same handler in two packages.\<close>

lemma wrappers_agree:
  "log_record (derive (WrapWithOTel l n) ds) sp r = log_record (derive (NewSlogHandler l n) ds) sp r"
  by (simp add: derive_simps log_record_def)

lemma handler_reads_logger: "FromContext dflt (request_log_ctx log ip ua ctx) = log"
  by (simp add: FromContext_def request_log_ctx_def WithContext_def Let_def)

lemma FromContext_default: "lc_logger ctx = None \<or> lc_logger ctx = Some None \<Longrightarrow> FromContext dflt ctx = dflt"
  by (auto simp: FromContext_def)

definition span_attrs :: "(string \<times> string) option \<Rightarrow> (string \<times> string) list" where
  "span_attrs sp = (case sp of None \<Rightarrow> [] | Some (t, s) \<Rightarrow> [(''trace_id'', t), (''span_id'', s)])"

lemma trace_Handle_attrs: "trace_Handle sp r = r\<lparr>l_attrs := l_attrs r @ span_attrs sp\<rparr>"
  by (cases r) (simp add: trace_Handle_def span_attrs_def split: option.splits prod.splits)

lemma replaceAttr_key [simp]: "fst (replaceAttr a) = fst a"
  by (simp add: replaceAttr_def)

lemma replaceAttr_safe: "ToLower (fst a) \<notin> set redactedKeys \<Longrightarrow> replaceAttr a = a"
  by (simp add: replaceAttr_def)

lemma replaceAttr_sensitive: "ToLower (fst a) \<in> set redactedKeys \<Longrightarrow> snd (replaceAttr a) = ''[REDACTED]''"
  by (simp add: replaceAttr_def)

lemma span_key_names: "ToLower ''trace_id'' \<notin> set redactedKeys" "ToLower ''span_id'' \<notin> set redactedKeys"
  by code_simp+

lemma span_keys_safe: "a \<in> set (span_attrs sp) \<Longrightarrow> replaceAttr a = a"
  using span_key_names by (auto simp: span_attrs_def replaceAttr_safe split: option.splits)

text \<open>
  Every line a logger derived from the server's writes, by any chain of \<open>With\<close> and \<open>WithGroup\<close>, is the one
  written down here: nothing below the configured level; else the service, version and environment at the top, each
  derived attribute in the groups that were open when it was added, the record's attributes and, when tracing is on
  and the context has a valid span, its two identifiers in the groups open at the end, all of them redacted by key
  whatever their depth.  So deriving a logger never loses the tracing wrapper or the redaction.
\<close>

theorem derived_logger_writes:
  "log_record (derive (run_logger version cfg) ds) sp r =
     (if l_level r < parse_level (app_LogLevel (cfg_App cfg)) then None
      else Some \<lparr>wr_level = l_level r, wr_msg = l_msg r,
        wr_attrs = map replace_at
          (map (place []) [(''service'', app_ServiceName (cfg_App cfg)), (''version'', version),
              (''env'', app_Env (cfg_App cfg))] @
           added [] ds @
           map (place (opened ds))
             (l_attrs r @ (if otel_Enabled (cfg_OTel cfg) then span_attrs sp else [])))\<rparr>)"
  by (simp add: run_logger_def derive_simps log_record_def logger_New_def Let_def trace_Handle_attrs not_le [symmetric]
      del: map_append)

text \<open>
  C34.  No line of a request's logger carries a secret: in whatever group, an attribute whose key is in any letter
  case one of the sensitive keys is written as \<open>[REDACTED]\<close>, every other attribute of the record is written as it
  is, and the line has the level the configuration asks for.
\<close>

theorem written_lines_redacted:
  assumes "log_record (derive (FromContext dflt (request_log_ctx (run_logger version cfg) ip ua ctx)) ds) sp r =
    Some out"
  shows "(\<forall>(gs, k, v) \<in> set (wr_attrs out). ToLower k \<in> set redactedKeys \<longrightarrow> v = ''[REDACTED]'') \<and>
    (\<forall>(k, v) \<in> set (l_attrs r). ToLower k \<notin> set redactedKeys \<longrightarrow> (opened ds, k, v) \<in> set (wr_attrs out)) \<and>
    (otel_Enabled (cfg_OTel cfg) \<longrightarrow> (\<forall>(k, v) \<in> set (span_attrs sp). (opened ds, k, v) \<in> set (wr_attrs out))) \<and>
    parse_level (app_LogLevel (cfg_App cfg)) \<le> wr_level out"
proof -
  define attrs where "attrs =
    map (place []) [(''service'', app_ServiceName (cfg_App cfg)), (''version'', version),
        (''env'', app_Env (cfg_App cfg))] @ added [] ds @
    map (place (opened ds)) (l_attrs r @ (if otel_Enabled (cfg_OTel cfg) then span_attrs sp else []))"
  have out: "wr_attrs out = map replace_at attrs" "parse_level (app_LogLevel (cfg_App cfg)) \<le> wr_level out"
    using assms unfolding handler_reads_logger derived_logger_writes attrs_def [symmetric]
    by (auto split: if_splits)
  have kept: "(gs, k, v) \<in> set (wr_attrs out)" if "(gs, k, v) \<in> set attrs" "replaceAttr (k, v) = (k, v)" for gs k v
    using that unfolding out(1) by (force simp: replace_at_def place_def)
  have "v = ''[REDACTED]''" if "(gs, k, v) \<in> set (wr_attrs out)" "ToLower k \<in> set redactedKeys" for gs k v
    using that replaceAttr_sensitive unfolding out(1) by (auto simp: replace_at_def place_def)
  moreover have "(opened ds, k, v) \<in> set (wr_attrs out)"
    if "(k, v) \<in> set (l_attrs r)" "ToLower k \<notin> set redactedKeys" for k v
    using that by (intro kept replaceAttr_safe) (force simp: attrs_def place_def)+
  moreover have "(opened ds, k, v) \<in> set (wr_attrs out)"
    if "otel_Enabled (cfg_OTel cfg)" "(k, v) \<in> set (span_attrs sp)" for k v
    using that by (intro kept span_keys_safe) (force simp: attrs_def place_def)+
  ultimately show ?thesis using out(2) by blast
qed

text \<open>A user handler's line, with tracing on, in a group: the token is hidden, the user and the trace are not.\<close>

definition ref_log_ctx :: log_ctx where
  "ref_log_ctx = \<lparr>lc_req = empty_ctx, lc_logger = None\<rparr>"

definition ref_log_line :: "written option" where
  "ref_log_line =
     log_record (derive (FromContext (slog_of (logger_New [] [] [] []))
         (request_log_ctx (run_logger ''1'' ref_config) ''10.0.0.1'' ''curl'' ref_log_ctx))
       [Attrs [(''TOKEN'', ''t'')], Group ''req''])
     (Some (''4bf9'', ''00f0''))
     \<lparr>l_level = LWarn, l_msg = ''m'', l_attrs = [(''Password'', ''abc''), (''user'', ''bob'')]\<rparr>"

theorem written_lines_redacted_witness:
  "case ref_log_line of
     None \<Rightarrow> False
   | Some out \<Rightarrow> (\<forall>(gs, k, v) \<in> set (wr_attrs out). ToLower k \<in> set redactedKeys \<longrightarrow> v = ''[REDACTED]'') \<and>
       ([''req''], ''user'', ''bob'') \<in> set (wr_attrs out) \<and> ([''req''], ''trace_id'', ''4bf9'') \<in> set (wr_attrs out)"
proof -
  have e: "ref_log_line \<noteq> None" "ToLower ''user'' \<notin> set redactedKeys" "otel_Enabled (cfg_OTel ref_config)"
    by code_simp+
  then obtain out where o: "ref_log_line = Some out" by blast
  from written_lines_redacted [OF o [unfolded ref_log_line_def]] e(2,3) show ?thesis
    unfolding o by (auto simp: span_attrs_def)
qed

end
