(* ===== verification/Lost_Updates.thy ===== *)
theory Lost_Updates
  imports User_Writes
begin

text \<open>
  \<open>Update\<close> of \<open>internal/service/user.go\<close> reads the row, patches it and writes all of its fields back, in two statements
  and no transaction.  Here any number of updates run concurrently, each in these two steps (\<open>updates_step\<close>): what
  holds of the tables whatever the interleaving, and what gets lost.
\<close>

section \<open>An update in two steps\<close>

text \<open>A call: the user, the patch and the caller's role; and how far it has got.\<close>

type_synonym update_call = "uuid \<times> update_user_request \<times> string"

datatype phase = Waiting | Holding user | Finished "goerr option"

definition update_read :: "('s, 'd) env \<Rightarrow> update_call \<Rightarrow> ('s, 'd) world \<Rightarrow> phase \<times> ('s, 'd) world" where
  "update_read E c w =
     (case repo_FindByID (main_userRepo E) (fst c) w of
        (Inl e, w1) \<Rightarrow> (Finished (Some e), end_failed ''service/Update'' [(''user.id'', uuidString E (fst c))] e w1)
      | (Inr u, w1) \<Rightarrow> (Holding u, w1))"

definition update_write :: "('s, 'd) env \<Rightarrow> update_call \<Rightarrow> user \<Rightarrow> ('s, 'd) world \<Rightarrow> (goerr + user) \<times> ('s, 'd) world" where
  "update_write E c u0 w1 =
     (case c of (i, req, callerRole) \<Rightarrow>
       (let attrs = [(''user.id'', uuidString E i)];
            u = patch_user req callerRole u0;
            w2 = (if p_Role req \<noteq> None \<and> callerRole \<noteq> ''admin''
                  then log_at LDebug (''role change ignored '' @ em_dash @ '' caller is not admin'')
                         [(''user_id'', uuidString E i)] w1
                  else w1)
        in case repo_Update (main_userRepo E) u w2 of
             (Some e, w3) \<Rightarrow> (Inl e, end_failed ''service/Update'' attrs e w3)
           | (None, w3) \<Rightarrow>
               (Inr u, end_ok ''service/Update'' attrs
                  (cache_drop (Some (user_cache_of E)) ''cache delete failed'' (userCacheKey E i) w3))))"

definition outcome_error :: "goerr + 'a \<Rightarrow> goerr option" where
  "outcome_error r = (case r of Inl e \<Rightarrow> Some e | Inr _ \<Rightarrow> None)"

text \<open>The service's \<open>Update\<close> is the two steps, one right after the other.\<close>

lemma Update_is_read_write:
  "svc_Update (main_userSvc E) i req role w =
     (case update_read E (i, req, role) w of
        (Holding u, w1) \<Rightarrow> update_write E (i, req, role) u w1
      | (Finished (Some e), w1) \<Rightarrow> (Inl e, w1))"
  by (simp add: main_ops userService_Update_def update_read_def update_write_def Let_def
      split: prod.splits sum.splits option.splits)

inductive updates_step ::
    "('s, 'd) env \<Rightarrow> update_call list \<Rightarrow> phase list \<times> ('s, 'd) world \<Rightarrow> phase list \<times> ('s, 'd) world \<Rightarrow> bool"
  for E cs where
  fetched: "k < length ps \<Longrightarrow> ps ! k = Waiting \<Longrightarrow> update_read E (cs ! k) w = (p, w') \<Longrightarrow>
    updates_step E cs (ps, w) (ps[k := p], w')"
| stored: "k < length ps \<Longrightarrow> ps ! k = Holding u \<Longrightarrow> update_write E (cs ! k) u w = (r, w') \<Longrightarrow>
    updates_step E cs (ps, w) (ps[k := Finished (outcome_error r)], w')"
| later: "w_now w \<le> t \<Longrightarrow> updates_step E cs (ps, w) (ps, w\<lparr>w_now := t\<rparr>)"

section \<open>What every interleaving keeps\<close>

text \<open>\<open>drawn cs u v\<close>: each field of \<open>v\<close> is that of \<open>u\<close> or the one a call asked for, the role only in an
  administrator's call; identifier and password hash are those of \<open>u\<close>.\<close>

definition drawn :: "update_call list \<Rightarrow> user \<Rightarrow> user \<Rightarrow> bool" where
  "drawn cs u v \<longleftrightarrow> u_ID v = u_ID u \<and> u_PasswordHash v = u_PasswordHash u \<and>
     (u_Role v = u_Role u \<or> (\<exists>req. (u_ID u, req, ''admin'') \<in> set cs \<and> p_Role req = Some (u_Role v))) \<and>
     (u_Email v = u_Email u \<or> (\<exists>req role. (u_ID u, req, role) \<in> set cs \<and> p_Email req = Some (u_Email v))) \<and>
     (u_IsActive v = u_IsActive u \<or> (\<exists>req role. (u_ID u, req, role) \<in> set cs \<and> p_IsActive req = Some (u_IsActive v)))"

lemma drawn_refl: "drawn cs u u"
  by (simp add: drawn_def)

lemma drawn_patch:
  assumes "drawn cs u v" and "(u_ID u, req, role) \<in> set cs"
  shows "drawn cs u (patch_user req role v)"
  using assms unfolding drawn_def patch_user_def Let_def
  by (cases "p_Email req"; cases "p_IsActive req"; cases "p_Role req"; cases "role = ''admin''") (simp_all, blast+)

lemma drawn_written:
  assumes "drawn cs u v" and "drawn cs u x" and "u_ID v = u_ID x"
  shows "drawn cs u (updated_row t v x)"
  using assms by (simp add: drawn_def updated_row_def)

definition grown :: "update_call list \<Rightarrow> tables \<Rightarrow> tables \<Rightarrow> bool" where
  "grown cs X Y \<longleftrightarrow> tables_ok Y \<and> (\<forall>j. rel_option (drawn cs) (user_by_id X j) (user_by_id Y j))"

definition held :: "update_call list \<Rightarrow> tables \<Rightarrow> phase list \<Rightarrow> bool" where
  "held cs X ps \<longleftrightarrow> length ps = length cs \<and>
     (\<forall>k < length ps. \<forall>v. ps ! k = Holding v \<longrightarrow> (\<exists>u. user_by_id X (fst (cs ! k)) = Some u \<and> drawn cs u v))"

lemma held_update:
  assumes "held cs X ps" and "\<And>v. p = Holding v \<Longrightarrow> \<exists>u. user_by_id X (fst (cs ! k)) = Some u \<and> drawn cs u v"
  shows "held cs X (ps[k := p])"
  unfolding held_def
proof (intro conjI allI impI)
  show "length (ps[k := p]) = length cs" using assms(1) by (simp add: held_def)
  fix j v
  assume "j < length (ps[k := p])" and "ps[k := p] ! j = Holding v"
  then show "\<exists>u. user_by_id X (fst (cs ! j)) = Some u \<and> drawn cs u v"
    using assms by (cases "j = k") (auto simp: held_def)
qed

context backend begin

lemma read_effect:
  assumes "update_read E c w = (p, w')" and "tables_ok (rows tabs w)"
  shows "rows tabs w' = rows tabs w" and "p = Holding u \<Longrightarrow> user_by_id (rows tabs w) (fst c) = Some u"
    and "p = Holding u \<Longrightarrow> u_IsActive u" and "p \<noteq> Waiting"
  using assms repo.find_view [of "fst c" w] repo.find_ok [of "fst c" w]
  by (auto simp: update_read_def rows_def end_defs split: prod.splits sum.splits)

lemma write_effect:
  assumes "update_write E (i, req, role) u w = (r, w')" and "u_ID u = i"
  shows "rows tabs w' = rows tabs w \<and> (\<exists>e. r = Inl e) \<or>
    rows tabs w' = map_user i (updated_row (w_now w) (patch_user req role u)) (rows tabs w) \<and>
    update_violation (rows tabs w) i (u_Email (patch_user req role u)) (u_Role (patch_user req role u)) = None"
proof -
  define w2 where "w2 = (if p_Role req \<noteq> None \<and> role \<noteq> ''admin''
      then log_at LDebug (''role change ignored '' @ em_dash @ '' caller is not admin'') [(''user_id'', uuidString E i)] w
      else w)"
  have w2: "tabs (w_db w2) = tabs (w_db w)" "w_now w2 = w_now w" by (simp_all add: w2_def)
  obtain q w3 where up: "repo_Update (main_userRepo E) (patch_user req role u) w2 = (q, w3)" by fastforce
  have w': "tabs (w_db w') = tabs (w_db w3)" "q \<noteq> None \<Longrightarrow> \<exists>e. r = Inl e"
    using assms(1) [unfolded update_write_def Let_def prod.case, folded w2_def] up
    by (auto simp: users.after_drop(1) end_defs split: option.splits)
  have id: "u_ID (patch_user req role u) = i" using assms(2) by (simp add: users.patch_id)
  show ?thesis
  proof (cases q)
    case None
    from repo.update_ok [OF up [unfolded None]] show ?thesis unfolding rows_def w' id w2 by simp
  next
    case (Some e)
    from repo.update_fail [OF up [unfolded Some]] w'(2) show ?thesis unfolding rows_def w' id w2 Some by blast
  qed
qed

text \<open>One step keeps the tables grown from those at the start.\<close>

lemma grown_write:
  assumes "grown cs X (rows tabs w)" and "update_write E c v w = (r, w')" and "c \<in> set cs"
    and "user_by_id X (fst c) = Some u" and "drawn cs u v"
  shows "grown cs X (rows tabs w')"
proof -
  obtain i req role where c: "c = (i, req, role)" by (cases c)
  have ui: "u_ID u = i" using user_by_id_Some assms(4) c by fastforce
  let ?p = "patch_user req role v"
  have p: "drawn cs u ?p" using drawn_patch [OF assms(5)] assms(3) c ui by simp
  then have pi: "u_ID ?p = i" using ui by (simp add: drawn_def)
  from write_effect [OF assms(2) [unfolded c]] p ui
  consider "rows tabs w' = rows tabs w" | "rows tabs w' = map_user i (updated_row (w_now w) ?p) (rows tabs w)"
    "update_violation (rows tabs w) i (u_Email ?p) (u_Role ?p) = None"
    by (auto simp: drawn_def users.patch_id)
  then show ?thesis
  proof cases
    case 2
    have ok: "tables_ok (rows tabs w)" and g: "\<And>j. rel_option (drawn cs) (user_by_id X j) (user_by_id (rows tabs w) j)"
      using assms(1) by (simp_all add: grown_def)
    have "rel_option (drawn cs) (user_by_id X j) (user_by_id (rows tabs w') j)" for j
    proof (cases "user_by_id (rows tabs w) j")
      case (Some x)
      with g [of j] obtain y where y: "user_by_id X j = Some y" "drawn cs y x" by (auto simp: option_rel_Some2)
      have xj: "u_ID x = j" using user_by_id_Some [OF Some] by simp
      have "drawn cs y (if u_ID x = i then updated_row (w_now w) ?p x else x)"
      proof (cases "u_ID x = i")
        case True
        with xj y(1) assms(4) c have "y = u" by simp
        with drawn_written [OF p] y(2) True pi show ?thesis by simp
      qed (use y(2) in simp)
      then show ?thesis unfolding 2(1) by (simp add: user_by_id_map_user users.updated_id Some y(1))
    qed (use g [of j] in \<open>simp add: 2(1) user_by_id_map_user users.updated_id\<close>)
    moreover have "tables_ok (rows tabs w')"
      unfolding 2(1) using tables_ok_update [OF ok, of ?p] 2(2) pi by simp
    ultimately show ?thesis by (simp add: grown_def)
  qed (use assms(1) in simp)
qed

lemma updates_step_grown:
  assumes "updates_step E cs (ps, w) (ps', w')" and "grown cs X (rows tabs w)" and "held cs X ps"
  shows "grown cs X (rows tabs w') \<and> held cs X ps'"
  using assms(1)
proof cases
  case (fetched k p)
  have ok: "tables_ok (rows tabs w)" using assms(2) by (simp add: grown_def)
  note r = read_effect [OF fetched(4) ok]
  have "held cs X (ps[k := p])"
  proof (rule held_update [OF assms(3)])
    fix v
    assume "p = Holding v"
    then have "user_by_id (rows tabs w) (fst (cs ! k)) = Some v" using r(2) by blast
    with assms(2) show "\<exists>u. user_by_id X (fst (cs ! k)) = Some u \<and> drawn cs u v"
      by (metis grown_def option_rel_Some2)
  qed
  with r(1) assms(2) fetched(1) show ?thesis by simp
next
  case (stored k v r)
  with assms(3) obtain u where u: "user_by_id X (fst (cs ! k)) = Some u" "drawn cs u v" "k < length cs"
    unfolding held_def using stored(2,3) by metis
  have "grown cs X (rows tabs w')"
    by (rule grown_write [OF assms(2) stored(4) _ u(1,2)]) (use u(3) in simp)
  moreover have "held cs X ps'" unfolding stored(1) by (rule held_update [OF assms(3)]) simp
  ultimately show ?thesis ..
next
  case (later t)
  then show ?thesis using assms(2,3) by (simp add: rows_def)
qed

lemma updates_grown:
  "(updates_step E cs)\<^sup>*\<^sup>* s s' \<Longrightarrow> grown cs X (rows tabs (snd s)) \<Longrightarrow> held cs X (fst s) \<Longrightarrow>
    grown cs X (rows tabs (snd s')) \<and> held cs X (fst s')"
proof (induction rule: rtranclp_induct)
  case (step y z)
  with updates_step_grown [of cs "fst y" "snd y" "fst z" "snd z" X] show ?case by simp
qed simp

end

text \<open>
  C11.  Updates that overlap stay within what was asked for: however the reads and writes of any number of concurrent
  updates interleave, and whichever fail, the keys stay unique, no user appears or disappears, no password hash
  changes, and every field of a row is what it was at the start or what one of the calls for this user asked for, the
  role only in a call with an administrator's token.
\<close>

theorem overlapping_updates_stay_authorised:
  assumes "backend E kv tabs" and "tables_ok (rows tabs w)"
    and "(updates_step E cs)\<^sup>*\<^sup>* (replicate (length cs) Waiting, w) (ps, w')"
  shows "tables_ok (rows tabs w') \<and>
    (\<forall>j. rel_option (\<lambda>u v. u_PasswordHash v = u_PasswordHash u \<and>
        (u_Role v = u_Role u \<or> (\<exists>req. (j, req, ''admin'') \<in> set cs \<and> p_Role req = Some (u_Role v))) \<and>
        (u_Email v = u_Email u \<or> (\<exists>req role. (j, req, role) \<in> set cs \<and> p_Email req = Some (u_Email v))) \<and>
        (u_IsActive v = u_IsActive u \<or> (\<exists>req role. (j, req, role) \<in> set cs \<and> p_IsActive req = Some (u_IsActive v))))
      (user_by_id (rows tabs w) j) (user_by_id (rows tabs w') j))"
proof -
  have "grown cs (rows tabs w) (rows tabs w)"
    using assms(2) by (simp add: grown_def option.rel_refl drawn_refl)
  then have g: "grown cs (rows tabs w) (rows tabs w')"
    using backend.updates_grown [OF assms(1,3), of "rows tabs w"] by (simp add: held_def)
  have "rel_option (\<lambda>u v. u_PasswordHash v = u_PasswordHash u \<and>
        (u_Role v = u_Role u \<or> (\<exists>req. (j, req, ''admin'') \<in> set cs \<and> p_Role req = Some (u_Role v))) \<and>
        (u_Email v = u_Email u \<or> (\<exists>req role. (j, req, role) \<in> set cs \<and> p_Email req = Some (u_Email v))) \<and>
        (u_IsActive v = u_IsActive u \<or> (\<exists>req role. (j, req, role) \<in> set cs \<and> p_IsActive req = Some (u_IsActive v))))
      (user_by_id (rows tabs w) j) (user_by_id (rows tabs w') j)" for j
  proof -
    have "rel_option (drawn cs) (user_by_id (rows tabs w) j) (user_by_id (rows tabs w') j)"
      using g by (simp add: grown_def)
    then show ?thesis
    proof (rule option.rel_mono_strong)
      fix u v
      assume "u \<in> set_option (user_by_id (rows tabs w) j)" and d: "drawn cs u v"
      then have "u_ID u = j" using user_by_id_Some by (simp add: elem_set)
      with d show "u_PasswordHash v = u_PasswordHash u \<and>
        (u_Role v = u_Role u \<or> (\<exists>req. (j, req, ''admin'') \<in> set cs \<and> p_Role req = Some (u_Role v))) \<and>
        (u_Email v = u_Email u \<or> (\<exists>req role. (j, req, role) \<in> set cs \<and> p_Email req = Some (u_Email v))) \<and>
        (u_IsActive v = u_IsActive u \<or> (\<exists>req role. (j, req, role) \<in> set cs \<and> p_IsActive req = Some (u_IsActive v)))"
        unfolding drawn_def by blast
    qed
  qed
  with g show ?thesis by (simp add: grown_def)
qed

section \<open>What gets lost\<close>

lemma undo_run:
  assumes "update_read E (i, req, role) w0 = (Holding u, w1)"
    and "svc_Update (main_userSvc E) i req' ''admin'' w1 = (Inr v, w2)"
    and "update_write E (i, req, role) u w2 = (Inr u', w3)"
  shows "(updates_step E [(i, req, role), (i, req', ''admin'')])\<^sup>*\<^sup>* ([Waiting, Waiting], w0) ([Finished None, Finished None], w3)"
proof -
  let ?cs = "[(i, req, role), (i, req', ''admin'')]"
  let ?S = "updates_step E ?cs"
  obtain x wm where r: "update_read E (i, req', ''admin'') w1 = (Holding x, wm)"
    "update_write E (i, req', ''admin'') x wm = (Inr v, w2)"
    using assms(2) unfolding Update_is_read_write
    by (auto simp: update_read_def split: prod.splits sum.splits)
  have "?S ([Waiting, Waiting], w0) ([Holding u, Waiting], w1)"
    using updates_step.fetched [of 0 "[Waiting, Waiting]" E ?cs w0] assms(1) by simp
  moreover have "?S ([Holding u, Waiting], w1) ([Holding u, Holding x], wm)"
    using updates_step.fetched [of 1 "[Holding u, Waiting]" E ?cs w1] r(1) by simp
  moreover have "?S ([Holding u, Holding x], wm) ([Holding u, Finished None], w2)"
    using updates_step.stored [of 1 "[Holding u, Holding x]" x E ?cs wm "Inr v" w2] r(2) by (simp add: outcome_error_def)
  moreover have "?S ([Holding u, Finished None], w2) ([Finished None, Finished None], w3)"
    using updates_step.stored [of 0 "[Holding u, Finished None]" u E ?cs w2 "Inr u'" w3] assms(3) by (simp add: outcome_error_def)
  ultimately show ?thesis by (meson converse_rtranclp_into_rtranclp rtranclp.rtrancl_refl)
qed

context backend begin

lemma undone_row:
  assumes "tables_ok (rows tabs w0)" and "update_read E (i, req, role) w0 = (Holding u, w1)"
    and "svc_Update (main_userSvc E) i req' ''admin'' w1 = (Inr v, w2)"
    and "update_write E (i, req, role) u w2 = (Inr u', w3)"
  shows "user_by_id (rows tabs w0) i = Some u \<and> u_IsActive u \<and>
    (\<exists>x. user_by_id (rows tabs w3) i = Some x \<and> u_Role x = u_Role (patch_user req role u) \<and>
      u_IsActive x = u_IsActive (patch_user req role u))"
proof -
  note r = read_effect [OF assms(2,1)]
  have u: "user_by_id (rows tabs w0) i = Some u" "u_IsActive u" "u_ID u = i"
    using r(2,3) user_by_id_Some by fastforce+
  have "tables_ok (rows tabs w1)" using r(1) assms(1) by simp
  with main_update_guard [OF assms(3) this, of i] r(1) u(1) obtain y where y: "user_by_id (rows tabs w2) i = Some y"
    by (metis map_option_eq_Some)
  from write_effect [OF assms(4) u(3)]
  have "rows tabs w3 = map_user i (updated_row (w_now w2) (patch_user req role u)) (rows tabs w2)" by simp
  with y have "user_by_id (rows tabs w3) i = Some (updated_row (w_now w2) (patch_user req role u) y)"
    using user_by_id_Some [OF y] by (simp add: user_by_id_map_user users.updated_id)
  with u(1,2) show ?thesis by (simp add: updated_row_def)
qed

end

text \<open>
  C36.  A demotion can be undone by the user it demotes: when an update without an administrator's token has read the row
  and an administrator's update of the same user then succeeds, a successful write of the first one puts the old role
  back and, unless it changes the status itself, makes the account active again, because it writes every field as it
  read it.  Both calls report success.
\<close>

theorem demotion_undone_by_overlap:
  assumes "backend E kv tabs" and "tables_ok (rows tabs w0)"
    and "update_read E (i, req, role) w0 = (Holding u, w1)" and "role \<noteq> ''admin''" and "p_IsActive req = None"
    and "svc_Update (main_userSvc E) i req' ''admin'' w1 = (Inr v, w2)"
    and "update_write E (i, req, role) u w2 = (Inr u', w3)"
  shows "(updates_step E [(i, req, role), (i, req', ''admin'')])\<^sup>*\<^sup>*
      ([Waiting, Waiting], w0) ([Finished None, Finished None], w3) \<and>
    (\<exists>x y. user_by_id (rows tabs w0) i = Some x \<and> user_by_id (rows tabs w3) i = Some y \<and>
      u_Role y = u_Role x \<and> u_IsActive y)"
proof (rule conjI)
  show "(updates_step E [(i, req, role), (i, req', ''admin'')])\<^sup>*\<^sup>*
      ([Waiting, Waiting], w0) ([Finished None, Finished None], w3)"
    by (rule undo_run [OF assms(3,6,7)])
  have "u_Role (patch_user req role u) = u_Role u" "u_IsActive (patch_user req role u) = u_IsActive u"
    using assms(4,5) by (simp_all add: patch_user_def Let_def split: option.splits)
  with backend.undone_row [OF assms(1,2,3,6,7)]
  show "\<exists>x y. user_by_id (rows tabs w0) i = Some x \<and> user_by_id (rows tabs w3) i = Some y \<and>
      u_Role y = u_Role x \<and> u_IsActive y" by auto
qed

text \<open>User 6, an administrator, changes the address of the account while another administrator demotes and deactivates
  it.\<close>

definition lost_mail :: update_user_request where
  "lost_mail = \<lparr>p_Email = Some ''new@b.c'', p_Role = None, p_IsActive = None\<rparr>"

definition lost_demotion :: update_user_request where
  "lost_demotion = \<lparr>p_Email = None, p_Role = Some ''user'', p_IsActive = Some False\<rparr>"

definition lost_w1 :: "(ref_redis, ref_db) world" where
  "lost_w1 = snd (update_read ref_up_env (6, lost_mail, ''user'') (ref_world 0 ref_tables [] []))"

definition lost_w2 :: "(ref_redis, ref_db) world" where
  "lost_w2 = snd (svc_Update (main_userSvc ref_up_env) 6 lost_demotion ''admin'' lost_w1)"

definition lost_w3 :: "(ref_redis, ref_db) world" where
  "lost_w3 = snd (update_write ref_up_env (6, lost_mail, ''user'') (ref_user 6 ''x@y.z'' ''admin'') lost_w2)"

lemma lost_facts:
  "fst (update_read ref_up_env (6, lost_mail, ''user'') (ref_world 0 ref_tables [] [])) = Holding (ref_user 6 ''x@y.z'' ''admin'')"
  "\<not> isl (fst (svc_Update (main_userSvc ref_up_env) 6 lost_demotion ''admin'' lost_w1))"
  "\<not> isl (fst (update_write ref_up_env (6, lost_mail, ''user'') (ref_user 6 ''x@y.z'' ''admin'') lost_w2))"
  "map_option u_Role (user_by_id (rows fst lost_w2) 6) = Some ''user''"
  by code_simp+

lemma lost_calls:
  obtains v u' where
    "update_read ref_up_env (6, lost_mail, ''user'') (ref_world 0 ref_tables [] []) = (Holding (ref_user 6 ''x@y.z'' ''admin''), lost_w1)"
    "svc_Update (main_userSvc ref_up_env) 6 lost_demotion ''admin'' lost_w1 = (Inr v, lost_w2)"
    "update_write ref_up_env (6, lost_mail, ''user'') (ref_user 6 ''x@y.z'' ''admin'') lost_w2 = (Inr u', lost_w3)"
  using lost_facts(1-3) unfolding lost_w1_def lost_w2_def lost_w3_def
  by (metis isl_def prod.collapse sum.exhaust_disc sum.collapse(2))

theorem demotion_undone_by_overlap_witness:
  "map_option u_Role (user_by_id (rows fst lost_w2) 6) = Some ''user'' \<and>
   map_option u_Role (user_by_id (rows fst lost_w3) 6) = map_option u_Role (user_by_id ref_tables 6)"
proof -
  obtain v u' where c:
    "update_read ref_up_env (6, lost_mail, ''user'') (ref_world 0 ref_tables [] []) = (Holding (ref_user 6 ''x@y.z'' ''admin''), lost_w1)"
    "svc_Update (main_userSvc ref_up_env) 6 lost_demotion ''admin'' lost_w1 = (Inr v, lost_w2)"
    "update_write ref_up_env (6, lost_mail, ''user'') (ref_user 6 ''x@y.z'' ''admin'') lost_w2 = (Inr u', lost_w3)"
    using lost_calls by blast
  have "tables_ok (rows fst (ref_world 0 ref_tables [] []))" by (simp add: ref_tables_ok)
  from demotion_undone_by_overlap [OF reference_up.backend_axioms this c(1) _ _ c(2,3)] lost_facts(4)
  show ?thesis by (auto simp: lost_mail_def)
qed

theorem overlapping_updates_stay_authorised_witness:
  "tables_ok (rows fst lost_w3) \<and> user_by_id (rows fst lost_w3) 5 \<noteq> None \<and>
   map_option u_Role (user_by_id (rows fst lost_w3) 6) \<in> Some ` {''admin'', ''user''}"
proof -
  let ?cs = "[(6, lost_mail, ''user''), (6, lost_demotion, ''admin'')]"
  have run: "(updates_step ref_up_env ?cs)\<^sup>*\<^sup>* (replicate (length ?cs) Waiting, ref_world 0 ref_tables [] [])
      ([Finished None, Finished None], lost_w3)"
    by (rule lost_calls, drule (2) undo_run) (simp add: numeral_2_eq_2)
  have ok: "tables_ok (rows fst (ref_world 0 ref_tables [] []))" by (simp add: ref_tables_ok)
  note A = overlapping_updates_stay_authorised [OF reference_up.backend_axioms ok run]
  have rows0: "user_by_id (rows fst (ref_world 0 ref_tables [] [])) 5 \<noteq> None"
    "map_option u_Role (user_by_id (rows fst (ref_world 0 ref_tables [] [])) 6) = Some ''admin''"
    by code_simp+
  have "user_by_id (rows fst lost_w3) 5 \<noteq> None"
    by (rule option.rel_cases [OF spec [OF conjunct2 [OF A], of 5]]) (use rows0(1) in simp_all)
  moreover have "map_option u_Role (user_by_id (rows fst lost_w3) 6) \<in> Some ` {''admin'', ''user''}"
    by (rule option.rel_cases [OF spec [OF conjunct2 [OF A], of 6]])
      (use rows0(2) in \<open>auto simp: lost_mail_def lost_demotion_def\<close>)
  ultimately show ?thesis using conjunct1 [OF A] by blast
qed

end
