(* ===== verification/Account_Flows.thy ===== *)
theory Account_Flows
  imports Auth_Liveness
begin

text \<open>
  The flows of an account from end to end, through the authentication service, the user service, the repositories and the
  session store: who registers can log in, and who has forgotten the password gets a link with which a new one can be
  set.  With servers that answer these flows return; a password that bcrypt refuses ends them with an error.
\<close>

text \<open>
  What package bcrypt documents: a hash it generates matches its password, and a password is accepted up to 72 bytes and
  refused above.
\<close>

definition bcrypt_documented :: "('s, 'd) env \<Rightarrow> bool" where
  "bcrypt_documented E \<longleftrightarrow>
     (\<forall>pw n h. bcryptGenerate E pw 12 n = Inr h \<longrightarrow> bcryptCompare E h pw = None) \<and>
     (\<forall>pw n. length pw \<le> 72 \<longleftrightarrow> (\<exists>h. bcryptGenerate E pw 12 n = Inr h))"

lemma bcryptD:
  assumes "bcrypt_documented E"
  shows "bcryptGenerate E pw 12 n = Inr h \<Longrightarrow> bcryptCompare E h pw = None"
    and "length pw \<le> 72 \<Longrightarrow> \<exists>h. bcryptGenerate E pw 12 n = Inr h"
    and "72 < length pw \<Longrightarrow> \<exists>e. bcryptGenerate E pw 12 n = Inl e"
proof -
  show "bcryptGenerate E pw 12 n = Inr h \<Longrightarrow> bcryptCompare E h pw = None"
    using assms by (simp add: bcrypt_documented_def)
  have len: "length pw \<le> 72 \<longleftrightarrow> (\<exists>h. bcryptGenerate E pw 12 n = Inr h)"
    using assms by (simp add: bcrypt_documented_def)
  then show "length pw \<le> 72 \<Longrightarrow> \<exists>h. bcryptGenerate E pw 12 n = Inr h" by simp
  show "72 < length pw \<Longrightarrow> \<exists>e. bcryptGenerate E pw 12 n = Inl e"
    using len by (cases "bcryptGenerate E pw 12 n") auto
qed

abbreviation main_register where "main_register E jwt base \<equiv> authService_Register (main_auth E jwt base)"

lemma NewSessionRepo_reset [simp]:
  "StorePasswordResetToken (NewSessionRepo E) = sessionRepo_StorePasswordResetToken E"
  by (simp add: NewSessionRepo_def)

lemma user_by_email_map_user:
  assumes "\<And>v. u_Email (f v) = u_Email v"
  shows "user_by_email (map_user i f T) m = map_option (\<lambda>v. if u_ID v = i then f v else v) (user_by_email T m)"
proof -
  have "u_Email (if u_ID v = i then f v else v) = u_Email v" for v using assms by simp
  from find_map_key [of u_Email, OF this] show ?thesis by (simp add: user_by_email_def map_user_def)
qed

section \<open>Writes on servers that answer\<close>

context redis_server begin

lemma store_reset_up:
  assumes "redis_up E"
  obtains w' where "sessionRepo_StorePasswordResetToken E t u w = (None, w')"
    and "only_redis w w'"
    and "kv (w_redis w') = (kv (w_redis w))(resetKey E t \<mapsto> (VStr u, Some (w_now w + passwordResetTTL)))"
proof -
  obtain s' where x: "redis_exec E [SET (resetKey E t) u passwordResetTTL] w =
      (Inr (fst (redis_run (w_now w) [SET (resetKey E t) u passwordResetTTL] (kv (w_redis w)))), w\<lparr>w_redis := s'\<rparr>)"
    "kv s' = snd (redis_run (w_now w) [SET (resetKey E t) u passwordResetTTL] (kv (w_redis w)))"
    using up_run [OF assms] by metis
  have pos: "0 < passwordResetTTL" by (simp add: passwordResetTTL_def second_def)
  show thesis
  proof (rule that [of "w\<lparr>w_redis := s'\<rparr>"])
    show "sessionRepo_StorePasswordResetToken E t u w = (None, w\<lparr>w_redis := s'\<rparr>)"
      using x(1) by (simp add: sessionRepo_StorePasswordResetToken_def redis_err_def redis_do_def nth_reply_def
          reply_error_def wrap_err_def)
  qed (use x(2) pos in \<open>simp_all add: only_redis_def\<close>)
qed

lemma consume_up:
  assumes "redis_up E" and "reset_of (session_view E kv w) t = Some u"
  obtains w' where "sessionRepo_ConsumePasswordResetToken E t w = (Inr u, w')"
    and "kv (w_redis w') = (kv (w_redis w))(resetKey E t := None)" and "only_redis w w'"
proof -
  have l: "live_str (w_now w) (kv (w_redis w)) (resetKey E t) = Some u"
    using assms(2) by (simp add: session_view_def store_view_def)
  then obtain x where x: "live (w_now w) (kv (w_redis w)) (resetKey E t) = Some (VStr u, x)"
    by (auto simp: live_str_def split: option.splits rval.splits prod.splits)
  obtain s' where r: "redis_exec E [GET (resetKey E t), DEL [resetKey E t]] w =
      (Inr (fst (redis_run (w_now w) [GET (resetKey E t), DEL [resetKey E t]] (kv (w_redis w)))), w\<lparr>w_redis := s'\<rparr>)"
    "kv s' = snd (redis_run (w_now w) [GET (resetKey E t), DEL [resetKey E t]] (kv (w_redis w)))"
    using up_run [OF assms(1)] by metis
  show thesis
  proof (rule that [of "w\<lparr>w_redis := s'\<rparr>"])
    show "sessionRepo_ConsumePasswordResetToken E t w = (Inr u, w\<lparr>w_redis := s'\<rparr>)"
      using r(1) x by (simp add: sessionRepo_ConsumePasswordResetToken_def nth_reply_def reply_error_def Let_def)
  qed (use r(2) x in \<open>simp_all add: only_redis_def fun_eq_iff\<close>)
qed

end

context postgres begin

lemma main_repo_alike:
  "alike (repo_Create (NewUserRepository E) u w) (repo_Create (main_userRepo E) u w)"
  "alike (repo_UpdatePassword (NewUserRepository E) i h w) (repo_UpdatePassword (main_userRepo E) i h w)"
  using transparent_trans [OF transparent_instrumented transparent_traced]
  unfolding main_userRepo_def transparent_def by blast+

lemma create_up:
  assumes "pg_up E" and "insert_violation (tabs (w_db w)) u = None"
  shows "fst (repo_Create (main_userRepo E) u w) = None"
proof -
  obtain q w1 where q: "pg_query E (InsertUser u) w = (q, w1)" by fastforce
  have "q = SqlTag 1" using up_scan [OF assms(1) q] assms(2) by simp
  then have "fst (repo_Create (NewUserRepository E) u w) = None"
    by (simp add: NewUserRepository_def userRepository_Create_def q)
  with main_repo_alike(1) [of u w] show ?thesis by (simp add: alike_def)
qed

lemma password_up:
  assumes "pg_up E"
  shows "fst (repo_UpdatePassword (main_userRepo E) i h w) = None"
proof -
  obtain q w1 where q: "pg_query E (UpdatePasswordRow h i) w = (q, w1)" by fastforce
  have "sql_error q = None" using up_scan [OF assms(1) q] by simp
  then have "fst (repo_UpdatePassword (NewUserRepository E) i h w) = None"
    by (simp add: NewUserRepository_def userRepository_UpdatePassword_def q)
  with main_repo_alike(2) [of i h w] show ?thesis by (simp add: alike_def)
qed

end

section \<open>The steps return\<close>

context backend begin

text \<open>Registration of a free address.\<close>

lemma register_up:
  assumes "pg_up E" and "bcrypt_documented E" and "length pw \<le> 72"
    and "m \<notin> u_Email ` set (users (rows tabs w))" and "uuidNew E (Suc (w_rand w)) \<notin> u_ID ` set (users (rows tabs w))"
  obtains u w' where "main_register E jwt base m pw w = (Inr u, w')" and "u_Email u = m" and "u_Role u = ''user''"
    and "u_IsActive u" and "bcryptCompare E (u_PasswordHash u) pw = None"
    and "rows tabs w' = (rows tabs w)\<lparr>users := users (rows tabs w) @ [stored_user u]\<rparr>"
    and "insert_violation (rows tabs w) u = None"
    and "w_now w' = w_now w" and "w_redis w' = w_redis w"
proof -
  obtain h where h: "bcryptGenerate E pw 12 (w_rand w) = Inr h" using bcryptD(2) [OF assms(2,3)] by blast
  let ?w = "w\<lparr>w_rand := Suc (Suc (w_rand w))\<rparr>"
  let ?u = "new_user (uuidNew E (Suc (w_rand w))) m h ''user''"
  have viol: "insert_violation (tabs (w_db ?w)) ?u = None"
    using assms(4,5) by (auto simp: insert_violation_def new_user_def zero_user_def rows_def roles_def)
  obtain w3 where c: "repo_Create (main_userRepo E) ?u ?w = (None, w3)"
    using create_up [OF assms(1) viol] by (metis prod.collapse)
  have db: "tabs (w_db w3) = (tabs (w_db w))\<lparr>users := users (tabs (w_db w)) @ [stored_user ?u]\<rparr>"
    using repo.create_ok [OF c] by simp
  have fr: "w_now w3 = w_now w" "w_redis w3 = w_redis w"
    using repo.repo_frame(1) [of ?w ?u] c by (simp_all add: db_frame_def)
  obtain w' where r: "main_register E jwt base m pw w = (Inr ?u, w')"
    and w': "w_db w' = w_db w3" "w_now w' = w_now w3" "w_redis w' = w_redis w3"
    using h c by (simp add: authService_Register_def main_ops userService_Create_def draw_def Let_def end_defs)
  show thesis
    by (rule that [OF r]) (use bcryptD(1) [OF assms(2) h] db fr w' viol in \<open>simp_all add: new_user_def rows_def\<close>)
qed

text \<open>Asking for a reset of a known address: the link is in the log (the stub mailer's).\<close>

lemma forgot_up:
  assumes "redis_up E" and "pg_up E" and "issues_tokens E jwt" and "tables_ok (rows tabs w)"
    and "user_by_email (rows tabs w) m = Some u"
  obtains tok w' l where "main_forgot E jwt base c m w = (None, w')" and "rows tabs w' = rows tabs w"
    and "w_now w' = w_now w"
    and "kv (w_redis w') = (kv (w_redis w))(resetKey E tok \<mapsto> (VStr (uuidString E (u_ID u)), Some (w_now w + passwordResetTTL)))"
    and "l \<in> set (w_log w')" and "(''reset_url'', base @ ''/reset-password?token='' @ tok) \<in> set (l_attrs l)"
proof -
  obtain g w0 where q: "repo_FindByEmail (main_userRepo E) m w = (g, w0)" by fastforce
  have g: "g = Inr u" using email_up [OF assms(2), of w m u] assms(4,5) q by (simp add: rows_def)
  have f0: "w_now w0 = w_now w" "w_redis w0 = w_redis w" "tabs (w_db w0) = tabs (w_db w)"
    using repo.repo_frame(3) [of w m] repo.email_view [of m w] q by (simp_all add: db_frame_def)
  obtain w1 where e: "svc_GetByEmail (main_userSvc E) m w = (Inr u, w1)"
    and f1: "w_now w1 = w_now w" "w_redis w1 = w_redis w" "tabs (w_db w1) = tabs (w_db w)"
    using q g f0 by (simp add: main_ops userService_GetByEmail_def end_defs)
  obtain tok w2 where t: "JWTService_IssueRefreshToken E jwt w1 = (Inr tok, w2)"
    using tokens_issued(2) [OF assms(3)] by blast
  then have f2: "w_now w2 = w_now w" "w_redis w2 = w_redis w" "tabs (w_db w2) = tabs (w_db w)"
    using f1 by (auto simp: JWTService_IssueRefreshToken_def draw_def split: sum.splits)
  obtain w3 where st: "sessionRepo_StorePasswordResetToken E tok (uuidString E (u_ID u)) w2 = (None, w3)"
    and o: "only_redis w2 w3"
    and k: "kv (w_redis w3) = (kv (w_redis w2))(resetKey E tok \<mapsto> (VStr (uuidString E (u_ID u)), Some (w_now w2 + passwordResetTTL)))"
    using store_reset_up [OF assms(1)] by blast
  let ?l = "\<lparr>l_level = LInfo, l_msg = ''password reset email (stub)'',
      l_attrs = [(''to'', m), (''reset_url'', base @ ''/reset-password?token='' @ tok)]\<rparr>"
  let ?w = "end_ok ''service/ForgotPassword'' [] (auditLog c EventPasswordResetRequest m (uuidString E (u_ID u)) []
      (log_at LInfo ''password reset email (stub)'' [(''to'', m), (''reset_url'', base @ ''/reset-password?token='' @ tok)] w3))"
  show thesis
  proof (rule that [of ?w tok ?l])
    show "main_forgot E jwt base c m w = (None, ?w)"
      using e t st by (simp add: authService_ForgotPassword_def Let_def StubEmailSender_def
          StubEmailSender_SendPasswordReset_def warn_error_def)
  qed (use f2 k only_redis_simps [OF o] in \<open>simp_all add: rows_def auditLog_def end_defs log_at_def\<close>)
qed

lemma reset_up:
  assumes "redis_up E" and "pg_up E" and "bcrypt_documented E" and "uuid_roundtrip E"
    and "8 \<le> length pw" and "length pw \<le> 72" and "reset_of (session_view E kv w) tok = Some (uuidString E i)"
  obtains w' h n where "main_reset E jwt base c tok pw w = (None, w')"
    and "rows tabs w' = map_user i (password_row (w_now w) h) (rows tabs w)" and "bcryptCompare E h pw = None"
    and "w_now w' = w_now w" and "\<And>m. kv (w_redis w') (lockoutKey E m) = kv (w_redis w) (lockoutKey E m)"
proof -
  obtain w1 where c1: "sessionRepo_ConsumePasswordResetToken E tok w = (Inr (uuidString E i), w1)"
    and k1: "kv (w_redis w1) = (kv (w_redis w))(resetKey E tok := None)" and o: "only_redis w w1"
    using consume_up [OF assms(1,7)] by blast
  obtain h where h: "bcryptGenerate E pw 12 (w_rand w1) = Inr h" using bcryptD(2) [OF assms(3,6)] by blast
  let ?w1 = "w1\<lparr>w_rand := Suc (w_rand w1)\<rparr>"
  obtain w2 where p: "repo_UpdatePassword (main_userRepo E) i h ?w1 = (None, w2)"
    using password_up [OF assms(2)] by (metis prod.collapse)
  have f2: "w_now w2 = w_now w" "w_redis w2 = w_redis w1"
    using repo.repo_frame(5) [of ?w1 i h] p only_redis_simps [OF o] by (simp_all add: db_frame_def)
  have T2: "tabs (w_db w2) = map_user i (password_row (w_now w) h) (tabs (w_db w))"
    using repo.password_ok [OF p] only_redis_simps [OF o] by simp
  define w3 where "w3 = cache_drop (Some (user_cache_of E)) ''cache delete failed after password update'' (userCacheKey E i) w2"
  have f3: "w_now w3 = w_now w2" "rows tabs w3 = rows tabs w2"
    using keeps_drop [where w = w2 and i = i] unfolding w3_def by simp_all
  have k3: "kv (w_redis w3) (lockoutKey E x) = kv (w_redis w2) (lockoutKey E x)" for x
    unfolding w3_def
    by (auto simp: cache_drop_def user_cache_of_def NewCacheRepo_def cacheRepo_Delete_def
        dest: err_other [where k = "lockoutKey E x"] split: prod.splits option.splits)
  obtain w' where r: "main_reset E jwt base c tok pw w = (None, w')"
    and w': "w_now w' = w_now w3" "w_db w' = w_db w3" "w_redis w' = w_redis w3"
    using c1 h p assms(4,5) by (simp add: authService_ResetPassword_def draw_def uuid_roundtrip_def main_ops
        userService_UpdatePassword_def Let_def end_defs auditLog_def w3_def)
  show thesis
    by (rule that [OF r]) (use f2 f3 T2 k3 k1 w' bcryptD(1) [OF assms(3) h] in \<open>simp_all add: rows_def\<close>)
qed

text \<open>A login right after: what decides about the lock is the counter's entry.\<close>

lemma login_after:
  assumes "redis_up E" and "pg_up E" and "issues_tokens E jwt" and "tables_ok (rows tabs w')"
    and "user_by_email (rows tabs w') m = Some u" and "bcryptCompare E (u_PasswordHash u) pw = None"
    and "kv (w_redis w') (lockoutKey E m) = kv (w_redis w) (lockoutKey E m)" and "w_now w' = w_now w"
    and "counter_ok E kv m w" and "failures (session_view E kv w) m < 10"
  shows "\<exists>pair w2. main_login E jwt base c m pw w' = (Inr pair, w2)"
proof -
  have "counter_ok E kv m w'" "failures (session_view E kv w') m < 10"
    using assms(7-10) by (simp_all add: counter_ok_def session_view_def store_view_def live_str_def live_def)
  moreover from locked_up [OF assms(1) this(1)] obtain lk w0 where l: "sessionRepo_IsLockedOut E m w' = ((lk, None), w0)"
    by (metis prod.collapse)
  ultimately have "\<not> lk" using session_contract.locked_ok [OF main_sessions, of m w' lk w0] by simp
  then show ?thesis using login_up [OF assms(1-6)] l by simp
qed

end

text \<open>
  C24.  Who registers can log in: with servers that answer, registering a free address with a password of at most 72 bytes
  returns an active plain user (the identifier that is drawn being new), and a login with that address and password right after returns tokens, whose access
  token is signed for this user in the role user (unless ten failures are still recorded for the address).
\<close>

theorem registered_user_logs_in:
  assumes "backend E kv tabs" and "redis_up E" and "pg_up E" and "issues_tokens E jwt" and "bcrypt_documented E"
    and "0 < JWTService_RefreshTTL jwt" and "tables_ok (rows tabs w)" and "length pw \<le> 72"
    and "m \<notin> u_Email ` set (users (rows tabs w))" and "uuidNew E (Suc (w_rand w)) \<notin> u_ID ` set (users (rows tabs w))"
    and "counter_ok E kv m w" and "failures (session_view E kv w) m < 10"
  shows "\<exists>u w1 pair w2. main_register E jwt base m pw w = (Inr u, w1) \<and> u_Role u = ''user'' \<and> u_IsActive u \<and>
    main_login E jwt base c m pw w1 = (Inr pair, w2) \<and>
    jwtSign E (jwt_priv jwt) (access_claims E jwt (u_ID u) ''user'' (tp_JTI pair) (w_now w1)) = Inr (tp_AccessToken pair)"
proof -
  obtain u w1 where r: "main_register E jwt base m pw w = (Inr u, w1)"
    and u: "u_Email u = m" "u_Role u = ''user''" "u_IsActive u" "bcryptCompare E (u_PasswordHash u) pw = None"
    and T: "rows tabs w1 = (rows tabs w)\<lparr>users := users (rows tabs w) @ [stored_user u]\<rparr>"
    "insert_violation (rows tabs w) u = None"
    and f: "w_now w1 = w_now w" "w_redis w1 = w_redis w"
    by (rule backend.register_up [OF assms(1,3,5,8-10)])
  have ok: "tables_ok (rows tabs w1)" unfolding T(1) by (rule tables_ok_insert [OF assms(7) T(2)])
  have "find (\<lambda>v. u_Email v = m) (users (rows tabs w)) = None" using assms(9) by (auto simp: find_None_iff)
  then have look: "user_by_email (rows tabs w1) m = Some (stored_user u)"
    using u(1) by (simp add: T(1) user_by_email_def find_append stored_user_def)
  have su: "u_ID (stored_user u) = u_ID u" "u_Role (stored_user u) = u_Role u" "u_PasswordHash (stored_user u) = u_PasswordHash u"
    by (simp_all add: stored_user_def)
  obtain pair w2 where l: "main_login E jwt base c m pw w1 = (Inr pair, w2)"
    using backend.login_after [OF assms(1-4) ok look _ _ f(1) assms(11,12)] f(2) u(4) su by metis
  have "jwtSign E (jwt_priv jwt) (access_claims E jwt (u_ID u) ''user'' (tp_JTI pair) (w_now w1)) = Inr (tp_AccessToken pair)"
    by (rule authentication.login_ok [OF backend.main_authentication [OF assms(1), of jwt base] l ok])
      (use assms(6) look su u(2) in simp_all)
  with r u l show ?thesis by blast
qed

text \<open>
  C23.  A forgotten password can be replaced: with servers that answer, asking for a reset of a known address returns
  without an error and sends a link; within the hour, a new password of 8 to 72 bytes with the token of that link is
  accepted, replaces the hash of this user and nothing else of the tables, and logs in right after (unless ten failures
  are recorded for the address at that moment).
\<close>

theorem forgotten_password_replaced:
  assumes "backend E kv tabs" and "redis_up E" and "pg_up E" and "issues_tokens E jwt" and "bcrypt_documented E"
    and "uuid_roundtrip E" and "tables_ok (rows tabs w)" and "user_by_email (rows tabs w) m = Some u"
    and "8 \<le> length pw" and "length pw \<le> 72" and "w_now w \<le> t" and "t < w_now w + passwordResetTTL"
    and "counter_ok E kv m (w\<lparr>w_now := t\<rparr>)" and "failures (session_view E kv (w\<lparr>w_now := t\<rparr>)) m < 10"
  shows "\<exists>tok w1 l w2 h pair w3. main_forgot E jwt base c m w = (None, w1) \<and>
    l \<in> set (w_log w1) \<and> (''reset_url'', base @ ''/reset-password?token='' @ tok) \<in> set (l_attrs l) \<and>
    main_reset E jwt base c' tok pw (w1\<lparr>w_now := t\<rparr>) = (None, w2) \<and>
    rows tabs w2 = map_user (u_ID u) (password_row t h) (rows tabs w) \<and>
    main_login E jwt base c'' m pw w2 = (Inr pair, w3)"
proof -
  obtain tok w1 l where f: "main_forgot E jwt base c m w = (None, w1)" "rows tabs w1 = rows tabs w" "w_now w1 = w_now w"
    and k: "kv (w_redis w1) = (kv (w_redis w))(resetKey E tok \<mapsto> (VStr (uuidString E (u_ID u)), Some (w_now w + passwordResetTTL)))"
    and log: "l \<in> set (w_log w1)" "(''reset_url'', base @ ''/reset-password?token='' @ tok) \<in> set (l_attrs l)"
    by (rule backend.forgot_up [OF assms(1-4,7,8)])
  let ?w1 = "w1\<lparr>w_now := t\<rparr>"
  have live: "reset_of (session_view E kv ?w1) tok = Some (uuidString E (u_ID u))"
    using assms(12) k by (simp add: session_view_def store_view_def live_str_def live_def)
  obtain w2 h where r: "main_reset E jwt base c' tok pw ?w1 = (None, w2)"
    and T: "rows tabs w2 = map_user (u_ID u) (password_row t h) (rows tabs w)" and h: "bcryptCompare E h pw = None"
    and n: "w_now w2 = t" and kl: "\<And>x. kv (w_redis w2) (lockoutKey E x) = kv (w_redis w1) (lockoutKey E x)"
    by (rule backend.reset_up [OF assms(1-3,5,6,9,10) live]) (use f(2) in \<open>auto simp: rows_def\<close>)
  have ok: "tables_ok (rows tabs w2)"
    unfolding T by (rule tables_ok_same_keys [OF _ assms(7)]) (simp add: password_row_def)
  have look: "user_by_email (rows tabs w2) m = Some (password_row t h u)"
    using user_by_email_map_user [of "password_row t h" "u_ID u" "rows tabs w" m] assms(8) by (simp add: T password_row_def)
  have "\<exists>pair w3. main_login E jwt base c'' m pw w2 = (Inr pair, w3)"
    by (rule backend.login_after [OF assms(1-4) ok look _ _ _ assms(13,14)])
      (use h n kl k in \<open>simp_all add: password_row_def\<close>)
  with f(1) log r T show ?thesis by blast
qed

text \<open>
  C32.  A password bcrypt refuses, one of more than 72 bytes, is not recognised as the caller's mistake: registration ends
  with the internal error 500 and creates no user, and a reset ends with 500 too, after it has spent the token, so that
  the user has to ask for a new link; no row changes.
\<close>

theorem long_password_fails_internally:
  assumes "backend E kv tabs" and "bcrypt_documented E" and "72 < length pw"
  shows "(\<exists>cause w'. main_register E jwt base m pw w = (Inl (Wrapf ''register user: '' (AppErr 500 ''internal server error'' (Some cause))), w') \<and>
      rows tabs w' = rows tabs w) \<and>
    (fst (sessionRepo_ConsumePasswordResetToken E tok w) = Inr uid \<longrightarrow>
      (\<exists>cause w'. main_reset E jwt base c tok pw w = (Some (AppErr 500 ''internal server error'' (Some cause)), w') \<and>
         rows tabs w' = rows tabs w \<and> reset_of (session_view E kv w') tok = None))"
proof (intro conjI impI)
  obtain e where "bcryptGenerate E pw 12 (w_rand w) = Inl e" using bcryptD(3) [OF assms(2,3)] by blast
  then show "\<exists>cause w'. main_register E jwt base m pw w = (Inl (Wrapf ''register user: '' (AppErr 500 ''internal server error'' (Some cause))), w') \<and>
      rows tabs w' = rows tabs w"
    by (simp add: authService_Register_def main_ops userService_Create_def draw_def Let_def end_defs rows_def
        Internal_def New_def)
  assume "fst (sessionRepo_ConsumePasswordResetToken E tok w) = Inr uid"
  then obtain w1 where c: "sessionRepo_ConsumePasswordResetToken E tok w = (Inr uid, w1)" by (metis prod.collapse)
  then have c': "ConsumePasswordResetToken (as_sessions (main_auth E jwt base)) tok w = (Inr uid, w1)" by simp
  obtain r w' where r: "main_reset E jwt base c tok pw w = (r, w')" by fastforce
  have "8 \<le> length pw" using assms(3) by simp
  note spent = authentication.reset_spends(2) [OF backend.main_authentication [OF assms(1), of jwt base] this c' r]
  have o: "only_redis w w1"
    using session_contract.consume_frame [OF backend.main_sessions [OF assms(1)], of w tok] c by simp
  obtain e where e: "bcryptGenerate E pw 12 (w_rand w1) = Inl e" using bcryptD(3) [OF assms(2,3)] by blast
  have "\<exists>cause. r = Some (AppErr 500 ''internal server error'' (Some cause)) \<and> w_db w' = w_db w1"
    using r c e assms(3)
    by (auto simp: authService_ResetPassword_def draw_def Let_def fail_opt_def end_defs Internal_def New_def split: option.splits)
  with spent r only_redis_simps(2) [OF o]
  show "\<exists>cause w'. main_reset E jwt base c tok pw w = (Some (AppErr 500 ''internal server error'' (Some cause)), w') \<and>
      rows tabs w' = rows tabs w \<and> reset_of (session_view E kv w') tok = None"
    by (auto simp: rows_def)
qed

section \<open>Instances\<close>

lemma ref_bcrypt: "bcrypt_documented ref_live_env"
  by (simp add: bcrypt_documented_def ref_live_env_def ref_up_env_def ref_bcryptGenerate_def ref_bcryptCompare_def)

theorem registered_user_logs_in_witness:
  "\<exists>u w1 pair w2. main_register ref_live_env ref_jwt_service [] ''n@b.c'' ''hunter22'' (ref_world 0 ref_tables [] []) = (Inr u, w1) \<and>
    u_Role u = ''user'' \<and> main_login ref_live_env ref_jwt_service [] empty_ctx ''n@b.c'' ''hunter22'' w1 = (Inr pair, w2)"
proof -
  let ?w = "ref_world 0 ref_tables [] []"
  have "''n@b.c'' \<notin> u_Email ` set (users (rows fst ?w))"
    "uuidNew ref_live_env (Suc (w_rand ?w)) \<notin> u_ID ` set (users (rows fst ?w))"
    "0 < JWTService_RefreshTTL ref_jwt_service" "failures (session_view ref_live_env fst ?w) ''n@b.c'' < 10"
    by code_simp+
  moreover have "tables_ok (rows fst ?w)" by (simp add: ref_tables_ok)
  moreover have "counter_ok ref_live_env fst ''n@b.c'' ?w" by (simp add: counter_ok_def ref_world_def live_def)
  ultimately show ?thesis
    using registered_user_logs_in [OF reference_live.backend_axioms ref_live(1-3) ref_bcrypt, of ref_jwt_service ?w "''hunter22''" "''n@b.c''" "[]" empty_ctx]
    by simp blast
qed

theorem forgotten_password_replaced_witness:
  "\<exists>tok w1 w2 pair w3. main_forgot ref_live_env ref_jwt_service [] empty_ctx ''a@b.c'' (ref_world 0 ref_tables [] []) = (None, w1) \<and>
    main_reset ref_live_env ref_jwt_service [] empty_ctx tok ''brand new'' (w1\<lparr>w_now := 60 * second\<rparr>) = (None, w2) \<and>
    main_login ref_live_env ref_jwt_service [] empty_ctx ''a@b.c'' ''brand new'' w2 = (Inr pair, w3)"
proof -
  let ?w = "ref_world 0 ref_tables [] []"
  have "user_by_email (rows fst ?w) ''a@b.c'' = Some (ref_user 5 ''a@b.c'' ''user'')"
    "failures (session_view ref_live_env fst (?w\<lparr>w_now := 60 * second\<rparr>)) ''a@b.c'' < 10"
    "60 * second < w_now ?w + passwordResetTTL" "w_now ?w \<le> 60 * second"
    by code_simp+
  moreover have "tables_ok (rows fst ?w)" by (simp add: ref_tables_ok)
  moreover have "counter_ok ref_live_env fst ''a@b.c'' (?w\<lparr>w_now := 60 * second\<rparr>)"
    by (simp add: counter_ok_def ref_world_def live_def)
  ultimately show ?thesis
    using forgotten_password_replaced [OF reference_live.backend_axioms ref_live(1-3) ref_bcrypt ref_live(4),
        of ?w "''a@b.c''" "ref_user 5 ''a@b.c'' ''user''" "''brand new''" "60 * second" ref_jwt_service "[]" empty_ctx empty_ctx empty_ctx]
    by simp blast
qed

theorem long_password_fails_internally_witness:
  "reset_of (session_view ref_live_env fst (snd (main_reset ref_live_env ref_jwt_service [] empty_ctx ''tok''
      (replicate 73 CHR ''x'') (ref_pending)))) ''tok'' = None"
proof -
  have "fst (sessionRepo_ConsumePasswordResetToken ref_live_env ''tok'' ref_pending) = Inr ''5''" by code_simp
  with long_password_fails_internally [OF reference_live.backend_axioms ref_bcrypt, of "replicate 73 CHR ''x''"
      ref_jwt_service "[]" "[]" ref_pending "''tok''" "''5''" empty_ctx]
  show ?thesis by auto
qed

end
