(* ===== verification/Cli_Session.thy ===== *)
theory Cli_Session
  imports Client_Props Cli Account_Flows Access_Control
begin

text \<open>
  The session of the command line from end to end: \<open>kleido auth login\<close> over the client and the login handler of the
  server, and what the session it stores is worth at the server's token check.
\<close>

section \<open>The login call through the handler\<close>

lemma call_world:
  "snd (Client_do (serve_net arrive H) c m p (map_option Inr body) out zero w) =
     sv_world (H (arrive (out_request_of c m p body)) new_rw w)"
  by (cases body) (auto simp: Client_do_def serve_net_def Let_def split: option.split)

lemma call_sent:
  assumes "H (arrive (out_request_of c m p body)) new_rw w = send_json E q 200 j r w1"
    and "rw_sent r = None" and "rw_body r = []" and "jsonText E j \<noteq> None"
  shows "fst (Client_do (serve_net arrive H) c m p (map_option Inr body) (Some dec) zero w) =
    (case dec j of None \<Rightarrow> Inl (Wrapf ''request failed: decode response: '' (ExtErr ''json: cannot decode'')) | Some v \<Rightarrow> Inr v)"
  using assms
  by (cases body) (auto simp: Client_do_def serve_net_def reply_of_def send_json_def encodeJSON_def reply_def body_json_def
      Let_def rw_defs status_of_def split: option.split)

lemma LoginRequest_decode_json: "LoginRequest_decode (Some (credentials_json m pw)) = Some (m, pw)"
  by (simp add: LoginRequest_decode_def decode2_def credentials_json_def obj_pairs_def json_str_def Let_def user_keys)

lemma LoginResponse_decode_json:
  assumes "timeParse C (timeText C (tp_ExpiresAt p)) = Some (tp_ExpiresAt p)"
  shows "LoginResponse_decode C (TokenResponse_json C p) =
    Some \<lparr>lr_AccessToken = tp_AccessToken p, lr_ExpiresAt = tp_ExpiresAt p\<rparr>"
  using assms
  by (simp add: LoginResponse_decode_def TokenResponse_json_def obj_pairs_def json_str_def dec_time_def Let_def user_keys)

lemma login_error_public:
  assumes "authService_Login E s c m pw w = (Inl e, w')"
  shows "http_error e"
proof -
  have t: "http_error e'" if "login_tokens E s c m u v = (Inl e', v')" for u v e' v'
    using that by (auto simp: login_tokens_def fail_def http_error_def app_defs split: sum.splits prod.splits option.splits)
  show ?thesis
    using assms t
    by (auto simp: authService_Login_def fail_def http_error_def app_defs locked_error_def Let_def
        split: sum.splits prod.splits if_splits)
qed

lemma login_handler_run:
  assumes "ah_svc h = NewAuthService E s" and "q_body q = Some (credentials_json m pw)" and "m \<noteq> []" and "pw \<noteq> []"
    and "authService_Login E s (q_ctx q) m pw w = (r, w1)"
  shows "AuthHandler_Login E h q new_rw w =
    (case r of
       Inl e \<Rightarrow> reply q (WriteError e new_rw) (end_failed ''handler/Login'' [] e w1)
     | Inr p \<Rightarrow> send_json E q 200 (TokenResponse_json E p)
         (SetCookie (refresh_cookie h (w_now w1) (tp_RawRefreshToken p)) new_rw) (end_ok ''handler/Login'' [] w1))"
  using assms
  by (simp add: AuthHandler_Login_def LoginRequest_decode_json send_error_def send_tokens_def NewAuthService_def split: sum.split)

lemma login_call_returns:
  assumes "ah_svc h = NewAuthService E s" and "q = arrive (out_request_of c ''POST'' ''/api/v1/auth/login'' (Some (credentials_json m pw)))"
    and "q_body q = Some (credentials_json m pw)" and "m \<noteq> []" and "pw \<noteq> []"
    and "authService_Login E s (q_ctx q) m pw w = (Inr p, w1)" and "jsonText E (TokenResponse_json E p) \<noteq> None"
    and "timeParse E (timeText E (tp_ExpiresAt p)) = Some (tp_ExpiresAt p)"
  shows "AuthService_Login E (serve_net arrive (AuthHandler_Login E h)) c m pw w =
    (Inr \<lparr>lr_AccessToken = tp_AccessToken p, lr_ExpiresAt = tp_ExpiresAt p\<rparr>, end_ok ''handler/Login'' [] w1)"
proof -
  let ?H = "AuthHandler_Login E h"
  note run = login_handler_run [OF assms(1,3,4,5,6), unfolded sum.case, unfolded assms(2)]
  have "fst (AuthService_Login E (serve_net arrive ?H) c m pw w) =
      Inr \<lparr>lr_AccessToken = tp_AccessToken p, lr_ExpiresAt = tp_ExpiresAt p\<rparr>"
    using call_sent [where H = ?H and arrive = arrive and dec = "LoginResponse_decode E" and zero = zero_login, OF run _ _ assms(7)]
    by (simp add: AuthService_Login_def LoginResponse_decode_json assms(8) SetCookie_def new_rw_def)
  moreover have "snd (AuthService_Login E (serve_net arrive ?H) c m pw w) = end_ok ''handler/Login'' [] w1"
    using assms(7) call_world [where H = ?H and arrive = arrive and c = c and m = "''POST''" and p = "''/api/v1/auth/login''" and
        body = "Some (credentials_json m pw)" and out = "Some (LoginResponse_decode E)" and zero = zero_login and w = w] run
    by (auto simp: AuthService_Login_def send_json_def encodeJSON_def reply_def Let_def)
  ultimately show ?thesis by (simp add: prod_eq_iff)
qed

text \<open>A login call that returns a response was answered by the service.\<close>

lemma login_call_granted:
  assumes "ah_svc h = NewAuthService E s" and "q = arrive (out_request_of c ''POST'' ''/api/v1/auth/login'' (Some (credentials_json m pw)))"
    and "q_body q = Some (credentials_json m pw)"
    and "AuthService_Login E (serve_net arrive (AuthHandler_Login E h)) c m pw w = (Inr resp, w')"
  obtains p w1 where "authService_Login E s (q_ctx q) m pw w = (Inr p, w1)"
    and "LoginResponse_decode E (TokenResponse_json E p) = Some resp" and "w_db w' = w_db w1" and "w_redis w' = w_redis w1"
proof -
  let ?H = "AuthHandler_Login E h" and ?o = "out_request_of c ''POST'' ''/api/v1/auth/login'' (Some (credentials_json m pw))"
  let ?dec = "LoginResponse_decode E"
  have d: "Client_do (serve_net arrive ?H) c ''POST'' ''/api/v1/auth/login'' (map_option Inr (Some (credentials_json m pw)))
      (Some ?dec) zero_login w = (Inr resp, w')"
    using assms(4) by (simp add: AuthService_Login_def)
  have no: False if "?H (arrive ?o) new_rw w = reply q (WriteError e new_rw) w1" "http_error e" for e w1
    using call_error [where H = ?H and arrive = arrive, OF that, of "Some ?dec" zero_login] d by simp
  have ne: "m \<noteq> [] \<and> pw \<noteq> []"
  proof (rule ccontr)
    let ?e = "BadRequest ''email and password are required'' None"
    assume "\<not> (m \<noteq> [] \<and> pw \<noteq> [])"
    then have "?H (arrive ?o) new_rw w = reply q (WriteError ?e new_rw) (end_failed ''handler/Login'' [] ?e w)"
      using assms(2,3) by (simp add: AuthHandler_Login_def LoginRequest_decode_json send_error_def)
    moreover have "http_error ?e" by (simp add: http_error_def app_defs)
    ultimately show False by (rule no)
  qed
  obtain r w1 where l: "authService_Login E s (q_ctx q) m pw w = (r, w1)" by fastforce
  have h: "?H (arrive ?o) new_rw w = (case r of Inl e \<Rightarrow> reply q (WriteError e new_rw) (end_failed ''handler/Login'' [] e w1)
      | Inr p \<Rightarrow> send_json E q 200 (TokenResponse_json E p)
         (SetCookie (refresh_cookie h (w_now w1) (tp_RawRefreshToken p)) new_rw) (end_ok ''handler/Login'' [] w1))"
    using login_handler_run [OF assms(1,3) _ _ l] ne assms(2) by simp
  show thesis
  proof (cases r)
    case (Inl e)
    with h no login_error_public l show thesis by fastforce
  next
    case (Inr p)
    let ?r = "SetCookie (refresh_cookie h (w_now w1) (tp_RawRefreshToken p)) new_rw"
    have run: "?H (arrive ?o) new_rw w = send_json E q 200 (TokenResponse_json E p) ?r (end_ok ''handler/Login'' [] w1)"
      using h Inr by simp
    have fresh: "rw_sent ?r = None" "rw_body ?r = []" by (simp_all add: SetCookie_def new_rw_def)
    have dec: "?dec (TokenResponse_json E p) = Some resp"
    proof (cases "jsonText E (TokenResponse_json E p)")
      case None
      then have "fst (Client_do (serve_net arrive ?H) c ''POST'' ''/api/v1/auth/login'' (map_option Inr (Some (credentials_json m pw)))
          (Some ?dec) zero_login w) \<noteq> Inr resp"
        using run fresh by (simp add: Client_do_def serve_net_def reply_of_def send_json_def encodeJSON_def reply_def
            body_json_def Let_def rw_defs status_of_def)
      with d show ?thesis by simp
    next
      case (Some t)
      then show ?thesis
        using call_sent [where H = ?H and arrive = arrive, OF run fresh, of ?dec zero_login] d by (simp split: option.splits)
    qed
    have w': "w_db w' = w_db w1" "w_redis w' = w_redis w1"
      using call_world [where H = ?H and arrive = arrive and c = c and m = "''POST''" and p = "''/api/v1/auth/login''" and
          body = "Some (credentials_json m pw)" and out = "Some ?dec" and zero = zero_login and w = w] run d
      by (auto simp: send_json_def encodeJSON_def reply_def Let_def end_defs log_at_def split: option.splits)
    show thesis by (rule that [OF l [unfolded Inr] dec w'])
  qed
qed

section \<open>What the server grants\<close>

context authentication begin

lemma login_expiry:
  assumes "authService_Login E s c m pw w = (Inr pair, w')"
  shows "tp_ExpiresAt pair = w_now w + jwt_accessTTL (as_jwt s)" and "w_now w' = w_now w"
proof -
  obtain lk le w0 where l: "IsLockedOut (as_sessions s) m w = ((lk, le), w0)" by (metis prod.collapse)
  have w0: "w_now w0 = w_now w" using session.locked_frame [of w m] l only_redis_simps(1) by auto
  have nl: "\<not> lk" using assms l by (auto simp: authService_Login_def fail_def)
  obtain r w2 where g: "svc_GetByEmail (as_users s) m (warn_error ''lockout check failed'' le w0) = (r, w2)" by fastforce
  have w2: "w_now w2 = w_now w" using accounts.acc_email_quiet [OF g] w0 by simp
  obtain u where u: "r = Inr u" and cmp: "bcryptCompare E (u_PasswordHash u) pw = None"
    using assms l nl g by (auto simp: authService_Login_def fail_def Let_def split: sum.splits if_splits prod.splits)
  obtain ce w3 where cl: "ClearLoginFailures (as_sessions s) m w2 = (ce, w3)" by fastforce
  let ?w = "warn_error ''failed to clear login failure counter'' ce w3"
  have t: "login_tokens E s c m u ?w = (Inr pair, w')"
    using assms l nl g u cmp cl by (simp add: authService_Login_def)
  have n: "w_now ?w = w_now w" using session.clear_frame [of w2 m] cl w2 only_redis_simps(1) [of w2 w3] by simp
  obtain tok jti raw w4 where a: "JWTService_IssueAccessToken E (as_jwt s) (u_ID u) (u_Role u) ?w =
      (Inr (tok, jti, tp_ExpiresAt pair), w4)"
    using t by (auto simp: login_tokens_def fail_def split: sum.splits prod.splits option.splits)
  then have ex: "tp_ExpiresAt pair = w_now w + jwt_accessTTL (as_jwt s)" and n4: "w_now w4 = w_now w"
    using n by (auto simp: JWTService_IssueAccessToken_def draw_def Let_def split: sum.splits)
  show "tp_ExpiresAt pair = w_now w + jwt_accessTTL (as_jwt s)" by (rule ex)
  obtain raw w5 where b: "JWTService_IssueRefreshToken E (as_jwt s) w4 = (Inr raw, w5)"
    using t a by (auto simp: login_tokens_def fail_def split: sum.splits prod.splits)
  then have n5: "w_now w5 = w_now w" using n4 by (auto simp: JWTService_IssueRefreshToken_def draw_def split: sum.splits)
  obtain z w6 where d: "StoreRefreshToken (as_sessions s) raw (uuidString E (u_ID u)) (JWTService_RefreshTTL (as_jwt s)) w5 = (z, w6)"
    by fastforce
  then have "w_now w6 = w_now w" using session.store_frame n5 only_redis_simps(1) by (metis snd_conv)
  then show "w_now w' = w_now w"
    using t a b d by (auto simp: login_tokens_def fail_def auditLog_def log_at_def end_defs split: option.splits)
qed

end

text \<open>The login of the command line that returned without an error, taken apart.\<close>

lemma auth_login_saved:
  assumes "auth_login C F N T apiURL sh = (Returned None, sh')"
  obtains m pw sh1 resp where "tm_scan T = Inr m" and "readPassword F T (print ''Email: '' sh) = (Inr pw, sh1)"
    and "AuthService_Login C N (client_New apiURL []) m pw (sh_net sh) = (Inr resp, sh_net sh')"
    and "store_Save F \<lparr>st_APIURL = apiURL, st_AccessToken = lr_AccessToken resp, st_ExpiresAt = lr_ExpiresAt resp\<rparr> (sh_fs sh) =
      (None, sh_fs sh')"
proof -
  obtain m where m: "tm_scan T = Inr m" using assms by (auto simp: auth_login_def Let_def split: sum.splits)
  obtain x sh1 where r: "readPassword F T (print ''Email: '' sh) = (x, sh1)" by fastforce
  have f: "sh_fs sh1 = sh_fs sh" "sh_net sh1 = sh_net sh"
    using r by (auto simp: readPassword_def Let_def print_def split: if_splits sum.splits)
  obtain pw where pw: "x = Inr pw" using assms m r by (auto simp: auth_login_def Let_def split: sum.splits)
  obtain y n where l: "AuthService_Login C N (client_New apiURL []) m pw (sh_net sh) = (y, n)" by fastforce
  obtain resp where resp: "y = Inr resp" using assms m r pw l f by (auto simp: auth_login_def call_def Let_def split: sum.splits)
  let ?cfg = "\<lparr>st_APIURL = apiURL, st_AccessToken = lr_AccessToken resp, st_ExpiresAt = lr_ExpiresAt resp\<rparr>"
  obtain e fs where sv: "store_Save F ?cfg (sh_fs sh) = (e, fs)" by fastforce
  have "e = None" "sh_net sh' = n" "sh_fs sh' = fs"
    using assms m r pw l resp sv f by (auto simp: auth_login_def call_def print_def Let_def split: option.splits)
  with that [OF m] r pw l resp sv show thesis by blast
qed

section \<open>A stored session is a session of the server\<close>

lemma claims_fields:
  "cl_Subject (access_claims E j uid role jti now) = uuidString E uid" "cl_Role (access_claims E j uid role jti now) = role"
  "cl_ID (access_claims E j uid role jti now) = jti"
  by (simp_all add: access_claims_def)

text \<open>A request that arrives with the headers of the client passes the token check as the user the token is signed for.\<close>

lemma client_token_opens:
  assumes "jwt_library E alg keys" and "keys (jwt_pub jwt) (jwt_priv jwt)"
    and "jwtSign E (jwt_priv jwt) (access_claims E jwt uid role jti now) = Inr (cl_token c)" and "cl_token c \<noteq> []"
    and "Header_Get q ''Authorization'' = get_first (oq_headers (out_request_of c meth path b)) ''Authorization''"
    and "now \<le> w_now w" and "w_now w < NewNumericDate (now + jwt_accessTTL jwt)"
  shows "JWT E jwt (NewSessionRepo E) k q r w =
    (let (res, w1) = sessionRepo_IsBlocklisted E jti w
     in if res = Inr True then reply q (WriteError (Unauthorized ''token has been revoked'') r) w1
        else k (WithContext q ((q_ctx q)\<lparr>c_userID := Some (uuidString E uid), c_role := Some role, c_jti := Some jti\<rparr>)) r w1)"
proof -
  have "Header_Get q ''Authorization'' = ''Bearer '' @ cl_token c"
    using assms(4,5) by (simp add: out_request_of_def get_first_def)
  then have "valid_token E jwt q (w_now w) = Some (access_claims E jwt uid role jti now)"
    using jwt_library.signed_verifies [OF assms(1,3,2,6,7)] by (simp add: valid_token_def HasPrefix_def TrimPrefix_def)
  moreover have "IsBlocklisted (NewSessionRepo E) = sessionRepo_IsBlocklisted E" by (simp add: NewSessionRepo_def)
  ultimately show ?thesis by (simp only: JWT_token claims_fields)
qed

text \<open>
  C20.  What \<open>kleido auth login\<close> stores is a session of the server: when the command returned without an error against the
  login handler, the typed password matches a stored hash of the typed address; a command that finds the session sends
  a token that the server's check lets through as this user in this user's role (unless its identifier was revoked),
  from the login until the last whole second before the expiry, and the expiry the command line goes by is the one of
  the token, so no command runs with the session after it.
\<close>

theorem cli_session_opens_routes:
  assumes "backend E kv tabs" and "jwt_library E alg keys" and "keys (jwt_pub jwt) (jwt_priv jwt)"
    and "0 < JWTService_RefreshTTL jwt" and "file_system F content"
    and "\<forall>c d. yaml_Marshal F c = Inr d \<longrightarrow> yaml_Unmarshal F d = Inr c"
    and "\<forall>x. timeParse E (timeText E x) = Some x"
    and "ah_svc h = NewAuthService E (main_auth E jwt base)" and "\<forall>out. q_body (arrive out) = oq_body out"
    and "tables_ok (rows tabs (sh_net sh))"
    and "auth_login E F (serve_net arrive (AuthHandler_Login E h)) T apiURL sh = (Returned None, sh')"
    and "checkAuth F (sh'\<lparr>sh_now := t\<rparr>) = Inr cfg"
  shows "\<exists>m pw u jti ex. tm_scan T = Inr m \<and> fst (readPassword F T (print ''Email: '' sh)) = Inr pw \<and>
    user_by_email (rows tabs (sh_net sh)) m = Some u \<and> bcryptCompare E (u_PasswordHash u) pw = None \<and>
    ex = w_now (sh_net sh) + jwt_accessTTL jwt \<and> (ex = time_zero \<or> t \<le> ex) \<and>
    (\<forall>meth path b q k r w. Header_Get q ''Authorization'' =
         get_first (oq_headers (out_request_of (newClient cfg) meth path b)) ''Authorization'' \<and>
       w_now (sh_net sh) \<le> w_now w \<and> w_now w < NewNumericDate ex \<longrightarrow>
       JWT E jwt (NewSessionRepo E) k q r w =
         (let (res, w1) = sessionRepo_IsBlocklisted E jti w
          in if res = Inr True then reply q (WriteError (Unauthorized ''token has been revoked'') r) w1
             else k (WithContext q ((q_ctx q)\<lparr>c_userID := Some (uuidString E (u_ID u)), c_role := Some (u_Role u),
                c_jti := Some jti\<rparr>)) r w1))"
proof -
  obtain m pw sh1 resp where m: "tm_scan T = Inr m" and pw: "readPassword F T (print ''Email: '' sh) = (Inr pw, sh1)"
    and l: "AuthService_Login E (serve_net arrive (AuthHandler_Login E h)) (client_New apiURL []) m pw (sh_net sh) = (Inr resp, sh_net sh')"
    and sv: "store_Save F \<lparr>st_APIURL = apiURL, st_AccessToken = lr_AccessToken resp, st_ExpiresAt = lr_ExpiresAt resp\<rparr> (sh_fs sh) =
      (None, sh_fs sh')"
    by (rule auth_login_saved [OF assms(11)])
  let ?q = "arrive (out_request_of (client_New apiURL []) ''POST'' ''/api/v1/auth/login'' (Some (credentials_json m pw)))"
  have body: "q_body ?q = Some (credentials_json m pw)" using assms(9) by (simp add: out_request_of_def)
  obtain p w1 where g: "main_login E jwt base (q_ctx ?q) m pw (sh_net sh) = (Inr p, w1)"
    and dec: "LoginResponse_decode E (TokenResponse_json E p) = Some resp"
    by (rule login_call_granted [OF assms(8) refl body l])
  note A = backend.main_authentication [OF assms(1), of jwt base]
  have ttl: "0 < JWTService_RefreshTTL (as_jwt (main_auth E jwt base))" using assms(4) by simp
  obtain u where u: "user_by_email (rows tabs (sh_net sh)) m = Some u" "bcryptCompare E (u_PasswordHash u) pw = None"
    and sg: "jwtSign E (jwt_priv jwt) (access_claims E jwt (u_ID u) (u_Role u) (tp_JTI p) (w_now (sh_net sh))) = Inr (tp_AccessToken p)"
    by (rule authentication.login_ok [OF A g assms(10) ttl]) simp
  let ?ex = "w_now (sh_net sh) + jwt_accessTTL jwt"
  have "tp_ExpiresAt p = ?ex" using authentication.login_expiry(1) [OF A g] by simp
  with dec have resp: "lr_AccessToken resp = tp_AccessToken p" "lr_ExpiresAt resp = ?ex"
    using LoginResponse_decode_json [of E p] assms(7) by auto
  have c: "store_Load F (sh_fs sh') = Inr cfg" "st_AccessToken cfg \<noteq> []" "st_ExpiresAt cfg = time_zero \<or> t \<le> st_ExpiresAt cfg"
    using assms(12) by (auto simp: checkAuth_def split: sum.splits if_splits)
  have "cfg = \<lparr>st_APIURL = apiURL, st_AccessToken = lr_AccessToken resp, st_ExpiresAt = lr_ExpiresAt resp\<rparr>"
    by (rule file_system.load_after_save [OF assms(5) sv _ c(1)]) (use assms(6) in blast)
  then have cfg: "st_AccessToken cfg = tp_AccessToken p" "st_ExpiresAt cfg = ?ex" using resp by simp_all
  then have tok: "cl_token (newClient cfg) = tp_AccessToken p" "cl_token (newClient cfg) \<noteq> []"
    using c(2) by (simp_all add: newClient_def client_New_def)
  note opens = client_token_opens [OF assms(2,3) sg [folded tok(1)] tok(2)]
  show ?thesis using m pw u c(3) cfg(2) opens by (intro exI conjI) auto
qed

text \<open>The reference environment: the library of tokens is the one of \<open>Jwt\<close>.\<close>

lemma ref_live_jwt: "jwt_library ref_live_env ref_alg (=)"
proof -
  have "jwtSign ref_live_env = jwtSign ref_env" "jwtParse ref_live_env = jwtParse ref_env"
    by (simp_all add: ref_live_env_def ref_up_env_def)
  then show ?thesis using ref_jwt.jwt_library_axioms unfolding jwt_library_def by (simp only:)
qed

definition ref_cli_handler :: "(ref_redis, ref_db) auth_handler" where
  "ref_cli_handler = NewAuthHandler (NewAuthService ref_live_env (main_auth ref_live_env ref_jwt_service [])) ref_jwt_service True True"

definition ref_cli_arrive :: "out_request \<Rightarrow> request" where
  "ref_cli_arrive out = ref_request\<lparr>q_method := oq_method out, q_headers := oq_headers out, q_body := oq_body out\<rparr>"

definition ref_cli_shell :: "(ref_files, (ref_redis, ref_db) world) shell" where
  "ref_cli_shell = \<lparr>sh_now = 3, sh_fs = (Map.empty, []), sh_net = ref_world 3 ref_tables [] [], sh_out = [], sh_err = []\<rparr>"

definition ref_cli_login :: "outcome \<times> (ref_files, (ref_redis, ref_db) world) shell" where
  "ref_cli_login = auth_login ref_live_env ref_os (serve_net ref_cli_arrive (AuthHandler_Login ref_live_env ref_cli_handler))
     ref_terminal ''http://x'' ref_cli_shell"

lemma ref_cli_granted:
  obtains resp n where "AuthService_Login ref_live_env (serve_net ref_cli_arrive (AuthHandler_Login ref_live_env ref_cli_handler))
      (client_New ''http://x'' []) ''a@b.c'' ''secret99'' (sh_net ref_cli_shell) = (Inr resp, n)"
    and "w_now n = 3" and "lr_AccessToken resp \<noteq> []" and "lr_ExpiresAt resp = 900 * second + 3"
proof -
  let ?w = "sh_net ref_cli_shell"
    and ?q = "ref_cli_arrive (out_request_of (client_New ''http://x'' []) ''POST'' ''/api/v1/auth/login''
      (Some (credentials_json ''a@b.c'' ''secret99'')))"
  have u: "user_by_email (rows fst ?w) ''a@b.c'' = Some (ref_user 5 ''a@b.c'' ''user'')"
    "bcryptCompare ref_live_env (u_PasswordHash (ref_user 5 ''a@b.c'' ''user'')) ''secret99'' = None"
    "failures (session_view ref_live_env fst ?w) ''a@b.c'' < 10" "0 < JWTService_RefreshTTL ref_jwt_service"
    "w_now ?w = 3" "jwt_accessTTL ref_jwt_service = 900 * second"
    by code_simp+
  have ok: "tables_ok (rows fst ?w)" "counter_ok ref_live_env fst ''a@b.c'' ?w"
    by (simp add: ref_cli_shell_def ref_tables_ok)
      (simp add: ref_cli_shell_def counter_ok_def ref_world_def live_def)
  note A = backend.main_authentication [OF reference_live.backend_axioms, of ref_jwt_service "[]"]
  obtain p w1 where l: "main_login ref_live_env ref_jwt_service [] (q_ctx ?q) ''a@b.c'' ''secret99'' ?w = (Inr p, w1)"
    using reference_live.login_after [OF ref_live(1-3) ok(1) u(1,2) refl refl ok(2) u(3)] by blast
  have side: "ah_svc ref_cli_handler = NewAuthService ref_live_env (main_auth ref_live_env ref_jwt_service [])"
    "q_body ?q = Some (credentials_json ''a@b.c'' ''secret99'')" "jsonText ref_live_env (TokenResponse_json ref_live_env p) \<noteq> None"
    "timeParse ref_live_env (timeText ref_live_env (tp_ExpiresAt p)) = Some (tp_ExpiresAt p)"
    by (simp_all add: ref_cli_handler_def NewAuthHandler_def ref_cli_arrive_def out_request_of_def ref_live_env_def ref_up_codec)
  have "jwtSign ref_live_env (jwt_priv ref_jwt_service) (access_claims ref_live_env ref_jwt_service
      (u_ID (ref_user 5 ''a@b.c'' ''user'')) (u_Role (ref_user 5 ''a@b.c'' ''user'')) (tp_JTI p) (w_now ?w)) = Inr (tp_AccessToken p)"
    by (rule authentication.login_ok [OF A l ok(1)]) (use u in simp_all)
  then have "tp_AccessToken p \<noteq> []"
    by (auto simp: ref_live_env_def ref_up_env_def ref_jwtSign_def ref_fields_def net_def)
  moreover have "tp_ExpiresAt p = 900 * second + 3" using authentication.login_expiry(1) [OF A l] u by simp
  moreover have "w_now (end_ok ''handler/Login'' [] w1) = 3" using authentication.login_expiry(2) [OF A l] u by (simp add: end_defs)
  ultimately show thesis
    using that [OF login_call_returns [where arrive = ref_cli_arrive and c = "client_New ''http://x'' []", OF side(1) refl side(2) _ _ l side(3,4)]] by simp
qed

lemma ref_cli_login_checks:
  obtains cfg where "fst ref_cli_login = Returned None" and "w_now (sh_net (snd ref_cli_login)) = 3"
    and "checkAuth ref_os (snd ref_cli_login\<lparr>sh_now := 4\<rparr>) = Inr cfg"
proof -
  obtain resp n where g: "AuthService_Login ref_live_env (serve_net ref_cli_arrive (AuthHandler_Login ref_live_env ref_cli_handler))
      (client_New ''http://x'' []) ''a@b.c'' ''secret99'' (sh_net ref_cli_shell) = (Inr resp, n)" and n: "w_now n = 3"
    and t: "lr_AccessToken resp \<noteq> []" "lr_ExpiresAt resp = 900 * second + 3"
    by (rule ref_cli_granted)
  let ?cfg = "\<lparr>st_APIURL = ''http://x'', st_AccessToken = lr_AccessToken resp, st_ExpiresAt = lr_ExpiresAt resp\<rparr>"
  define sh1 where "sh1 = print newline (print ''Password: '' (print ''Email: '' ref_cli_shell))"
  have p: "readPassword ref_os ref_terminal (print ''Email: '' ref_cli_shell) = (Inr ''secret99'', sh1)"
    and m: "tm_scan ref_terminal = Inr ''a@b.c''" and s1: "sh_fs sh1 = (Map.empty, [])" "sh_net sh1 = sh_net ref_cli_shell"
    by (simp_all add: readPassword_def ref_os_def ref_terminal_def sh1_def Let_def print_def ref_cli_shell_def)
  have l: "AuthService_Login ref_live_env (serve_net ref_cli_arrive (AuthHandler_Login ref_live_env ref_cli_handler))
      (client_New ''http://x'' []) ''a@b.c'' ''secret99'' (sh_net sh1) = (Inr resp, n)"
    using g by (simp add: s1)
  have "fst ref_cli_login = Returned None \<and> sh_net (snd ref_cli_login) = n \<and>
      sh_fs (snd ref_cli_login) = snd (store_Save ref_os ?cfg (Map.empty, []))"
    unfolding ref_cli_login_def auth_login_def Let_def m p sum.case prod.case call_def l
    by (simp add: s1 ref_save print_def)
  moreover from this ref_load_save [of ?cfg Map.empty] t have "checkAuth ref_os (snd ref_cli_login\<lparr>sh_now := 4\<rparr>) = Inr ?cfg"
    by (simp add: checkAuth_def second_def)
  ultimately show thesis using that n by blast
qed

theorem cli_session_opens_routes_witness:
  "\<exists>cfg jti. checkAuth ref_os (snd ref_cli_login\<lparr>sh_now := 4\<rparr>) = Inr cfg \<and>
     (\<forall>k r. JWT ref_live_env ref_jwt_service (NewSessionRepo ref_live_env) k
        (ref_cli_arrive (out_request_of (newClient cfg) ''GET'' ''/api/v1/users/me'' None)) r (sh_net (snd ref_cli_login)) =
      (let (res, w1) = sessionRepo_IsBlocklisted ref_live_env jti (sh_net (snd ref_cli_login));
           q = ref_cli_arrive (out_request_of (newClient cfg) ''GET'' ''/api/v1/users/me'' None)
       in if res = Inr True then reply q (WriteError (Unauthorized ''token has been revoked'') r) w1
          else k (WithContext q ((q_ctx q)\<lparr>c_userID := Some ''5'', c_role := Some ''user'', c_jti := Some jti\<rparr>)) r w1))"
proof -
  obtain cfg where c: "checkAuth ref_os (snd ref_cli_login\<lparr>sh_now := 4\<rparr>) = Inr cfg"
    and f: "fst ref_cli_login = Returned None" "w_now (sh_net (snd ref_cli_login)) = 3"
    by (rule ref_cli_login_checks)
  let ?q = "ref_cli_arrive (out_request_of (newClient cfg) ''GET'' ''/api/v1/users/me'' None)"
  have l: "auth_login ref_live_env ref_os (serve_net ref_cli_arrive (AuthHandler_Login ref_live_env ref_cli_handler))
      ref_terminal ''http://x'' ref_cli_shell = (Returned None, snd ref_cli_login)"
    using f(1) unfolding ref_cli_login_def by (metis prod.collapse)
  have u: "user_by_email (rows fst (sh_net ref_cli_shell)) ''a@b.c'' = Some (ref_user 5 ''a@b.c'' ''user'')"
    and v: "uuidString ref_live_env (u_ID (ref_user 5 ''a@b.c'' ''user'')) = ''5''" "u_Role (ref_user 5 ''a@b.c'' ''user'') = ''user''"
    and ex: "3 < NewNumericDate (w_now (sh_net ref_cli_shell) + jwt_accessTTL ref_jwt_service)" "w_now (sh_net ref_cli_shell) = 3"
    and pos: "0 < JWTService_RefreshTTL ref_jwt_service" "jwt_pub ref_jwt_service = jwt_priv ref_jwt_service"
    by code_simp+
  have side: "tables_ok (rows fst (sh_net ref_cli_shell))" "tm_scan ref_terminal = Inr ''a@b.c''"
    "ah_svc ref_cli_handler = NewAuthService ref_live_env (main_auth ref_live_env ref_jwt_service [])"
    by (simp_all add: ref_cli_shell_def ref_tables_ok ref_terminal_def ref_cli_handler_def NewAuthHandler_def)
  have arr: "\<forall>out. q_body (ref_cli_arrive out) = oq_body out" by (simp add: ref_cli_arrive_def)
  have tm: "\<forall>x. timeParse ref_live_env (timeText ref_live_env x) = Some x" by (simp add: ref_live_env_def ref_up_codec)
  have hd: "Header_Get ?q ''Authorization'' = get_first (oq_headers (out_request_of (newClient cfg) ''GET'' ''/api/v1/users/me'' None)) ''Authorization''"
  proof -
    have "canon_key ''Authorization'' = ''Authorization''" by code_simp
    then show ?thesis by (simp add: Header_Get_def ref_cli_arrive_def)
  qed
  from cli_session_opens_routes [OF reference_live.backend_axioms ref_live_jwt pos(2,1) ref_files.file_system_axioms
      ref_yaml_roundtrip tm side(3) arr side(1) l c]
  obtain m v jti where mv: "tm_scan ref_terminal = Inr m" "user_by_email (rows fst (sh_net ref_cli_shell)) m = Some v"
    and opens: "\<forall>meth path b q k r w. Header_Get q ''Authorization'' =
         get_first (oq_headers (out_request_of (newClient cfg) meth path b)) ''Authorization'' \<and>
       w_now (sh_net ref_cli_shell) \<le> w_now w \<and>
       w_now w < NewNumericDate (w_now (sh_net ref_cli_shell) + jwt_accessTTL ref_jwt_service) \<longrightarrow>
       JWT ref_live_env ref_jwt_service (NewSessionRepo ref_live_env) k q r w =
         (let (res, w1) = sessionRepo_IsBlocklisted ref_live_env jti w
          in if res = Inr True then reply q (WriteError (Unauthorized ''token has been revoked'') r) w1
             else k (WithContext q ((q_ctx q)\<lparr>c_userID := Some (uuidString ref_live_env (u_ID v)), c_role := Some (u_Role v),
               c_jti := Some jti\<rparr>)) r w1)"
    by blast
  have "v = ref_user 5 ''a@b.c'' ''user''" using mv u side(2) by simp
  then have v5: "uuidString ref_live_env (u_ID v) = ''5''" "u_Role v = ''user''" using v by simp_all
  have cond: "Header_Get ?q ''Authorization'' =
        get_first (oq_headers (out_request_of (newClient cfg) ''GET'' ''/api/v1/users/me'' None)) ''Authorization'' \<and>
      w_now (sh_net ref_cli_shell) \<le> w_now (sh_net (snd ref_cli_login)) \<and>
      w_now (sh_net (snd ref_cli_login)) < NewNumericDate (w_now (sh_net ref_cli_shell) + jwt_accessTTL ref_jwt_service)"
    using hd ex f(2) by simp
  show ?thesis
    unfolding Let_def by (intro exI conjI allI, rule c) (rule opens [unfolded v5 Let_def, rule_format, OF cond])
qed

end
