(* ===== verification/Cli_Logout.thy ===== *)
theory Cli_Logout
  imports Cli_Session Logout_Routes
begin

text \<open>
  \<open>kleido auth logout\<close> over the client and the logout route of the server: a logout without a warning ends the session on
  the server too.
\<close>

section \<open>The logout route as the network\<close>

lemma protected_group_status:
  assumes "rw_sent r = None" and "\<And>q r w. rw_sent r = None \<Longrightarrow> status_of (sv_rw (k q r w)) \<in> S"
  shows "status_of (sv_rw (protected_group E D k q r w)) \<in> {401, 429} \<union> S"
proof -
  have u: "status_of (sv_rw (RateLimitUser R n W k q r w)) \<in> {429} \<union> S" if "rw_sent r = None" for R n W q r w
    using that assms(2) by (auto simp: RateLimitUser_def WriteError_fresh(1) app_defs Let_def split: prod.splits)
  have l: "status_of (sv_rw (RateLimit R n W (RateLimitUser R' n' W' k) q r w)) \<in> {429} \<union> S"
    if "rw_sent r = None" for R n W R' n' W' q r w
    using that u by (auto simp: RateLimit_def WriteError_fresh(1) app_defs Let_def split: prod.splits)
  show ?thesis
    using assms(1) l by (auto simp: protected_group_def JWT_def WriteError_fresh(1) app_defs Let_def split: prod.splits sum.splits)
qed

lemma logout_handler_status:
  assumes "ah_svc h = NewAuthService E s" and "rw_sent r = None"
  shows "status_of (sv_rw (AuthHandler_Logout h q r w)) \<in> {204, 500}"
proof -
  let ?tok = "case map_of (q_cookies q) ''refresh_token'' of None \<Rightarrow> [] | Some v \<Rightarrow> v"
  obtain x w1 where l: "authService_Logout s (q_ctx q) (ctx_string (c_jti (q_ctx q))) ?tok w = (x, w1)" by fastforce
  have svc: "auth_Logout (ah_svc h) = authService_Logout s" by (simp add: assms(1) NewAuthService_def)
  show ?thesis
  proof (cases x)
    case None
    with l svc assms(2) show ?thesis
      by (simp add: AuthHandler_Logout_def Let_def SetCookie_def WriteHeader_def status_of_def)
  next
    case (Some e)
    then have "\<exists>y. e = Internal y"
      using l by (auto simp: authService_Logout_def fail_opt_def split: prod.splits option.splits)
    with l svc Some show ?thesis
      by (auto simp: AuthHandler_Logout_def Let_def send_error_def WriteError_fresh [OF assms(2)] app_defs)
  qed
qed

lemma protected_group_quiet:
  assumes "\<And>q r w. sv_panic (k q r w) = None"
  shows "sv_panic (protected_group E D k q r w) = None"
  by (simp add: protected_group_def JWT_def RateLimit_def RateLimitUser_def reply_def Let_def assms split: sum.split prod.split)

lemma logout_handler_quiet: "sv_panic (AuthHandler_Logout h q r w) = None"
  by (simp add: AuthHandler_Logout_def send_error_def reply_def Let_def split: prod.split option.split)

text \<open>The client of the logout is content with 204 only.\<close>

lemma logout_call_done:
  assumes "isl (fst (AuthService_Logout (serve_net arrive H) c w)) = False"
    and "q = arrive (out_request_of c ''POST'' ''/api/v1/auth/logout'' None)"
    and "status_of (sv_rw (H q new_rw w)) \<in> {401, 429} \<union> {204, 500}"
  shows "status_of (sv_rw (H q new_rw w)) = 204"
  using assms
  by (auto simp: AuthService_Logout_def Client_do_def serve_net_def reply_of_def Let_def
      split: if_splits option.splits prod.splits)

section \<open>The session ends on both sides\<close>

text \<open>
  C21.  A \<open>kleido auth logout\<close> that prints no warning ends the session on the server: when the stored token was good at the
  server, it is answered 401 from then on by every protected and every admin route, for anyone who still has it, as
  long as the blocklist entry lives and whatever calls of the session store interleave (the check has to be answered by
  Redis); and no later command finds a session.
\<close>

theorem cli_logout_closes_routes:
  assumes "redis_server E kv" and "d_sessions D = NewSessionRepo E"
    and "d_auth D = NewAuthService E (main_auth E (d_jwt D) base)" and "0 < JWTService_RefreshTTL (d_jwt D)"
    and "(''POST'', ''/api/v1/auth/logout'', lh) \<in> set (protected_routes E D)"
    and "\<forall>out. Header_Get (arrive out) ''Authorization'' = get_first (oq_headers out) ''Authorization''"
    and "file_system F content" and "\<forall>c d. yaml_Marshal F c = Inr d \<longrightarrow> yaml_Unmarshal F d = Inr c"
    and "checkAuth F sh = Inr cfg" and "JWTService_Verify E (d_jwt D) (w_now (sh_net sh)) (st_AccessToken cfg) = Inr c"
    and "auth_logout F (serve_net arrive lh) sh = (Returned None, sh')" and "sh_err sh' = sh_err sh"
    and "client_step\<^sup>*\<^sup>* (call_clients E reqs, w_now (sh_net sh), kv (w_redis (sh_net sh'))) (cls, t, kv (w_redis w2))"
    and "\<forall>(now, cl) \<in> set reqs. \<forall>d. cl = CBlocklist (cl_ID c) d \<longrightarrow> d = JWTService_RefreshTTL (d_jwt D)"
    and "t \<le> w_now w2" and "w_now w2 < w_now (sh_net sh) + JWTService_RefreshTTL (d_jwt D)"
    and "(m, p, h) \<in> set (protected_routes E D @ admin_routes E D)" and "rw_sent r2 = None"
    and "valid_token E (d_jwt D) q2 (w_now w2) = Some c2" and "cl_ID c2 = cl_ID c"
    and "IsBlocklisted (NewSessionRepo E) (cl_ID c) w2 = (Inr b, w3)"
  shows "status_of (sv_rw (h q2 r2 w2)) = 401 \<and> sv_world (h q2 r2 w2) = w3 \<and> (\<exists>e. checkAuth F sh' = Inl e)"
proof -
  let ?w = "sh_net sh" and ?h = "NewAuthHandler (d_auth D) (d_jwt D) (isProd D) (d_registration D)"
  define q where "q = arrive (out_request_of (newClient cfg) ''POST'' ''/api/v1/auth/logout'' None)"
  define s where "s = lh q new_rw ?w"
  note lh = logout_route_handler [OF assms(5)]
  note out = auth_logout_called [OF assms(11,9)]
  have tok: "st_AccessToken cfg \<noteq> []" using assms(9) by (auto simp: checkAuth_def split: sum.splits if_splits)
  then have "Header_Get q ''Authorization'' = ''Bearer '' @ st_AccessToken cfg"
    using assms(6) by (simp add: q_def newClient_def client_New_def out_request_of_def get_first_def)
  then have v: "valid_token E (d_jwt D) q (w_now ?w) = Some c"
    using assms(10) by (simp add: valid_token_def HasPrefix_def TrimPrefix_def)
  have fresh: "rw_sent new_rw = None" by (simp add: new_rw_def)
  have "ah_svc ?h = NewAuthService E (main_auth E (d_jwt D) base)" by (simp add: NewAuthHandler_def assms(3))
  then have "status_of (sv_rw (lh q new_rw ?w)) \<in> {401, 429} \<union> {204, 500}"
    unfolding lh by (intro protected_group_status fresh logout_handler_status)
  moreover have "isl (fst (AuthService_Logout (serve_net arrive lh) (newClient cfg) ?w)) = False"
    using out(2) assms(12) by simp
  ultimately have answered: "status_of (sv_rw s) = 204" using logout_call_done q_def s_def by metis
  have net: "sh_net sh' = sv_world s"
    using out(1) call_world [where body = None and out = None and zero = "()"]
    by (simp add: AuthService_Logout_def s_def q_def)
  have "kept_until (w_now ?w + JWTService_RefreshTTL (d_jwt D)) (kv (w_redis (sh_net sh')) (blocklistKey (cl_ID c)))"
    unfolding net by (rule logout_route_blocks [OF assms(1-3) v fresh assms(4) s_def [unfolded lh] answered])
  from kept_entry_closes [OF assms(1,2,4) this assms(13-21)] logout_leaves_nothing [OF assms(7,8,11,9), of "sh_now sh'"]
  show ?thesis by simp
qed

section \<open>Witness\<close>

text \<open>The server of \<open>ref_logout\<close>, reached with the headers of the client; the session file holds its token.\<close>

definition ref_token :: string where
  "ref_token = concat (map net [''RS256'', ''key'', ''5'', ''0'', ''0'', ''9'', ''0'', ''0'', ''0'', ''j'', ''user''])"

definition ref_header_arrive :: "out_request \<Rightarrow> request" where
  "ref_header_arrive out = ref_request\<lparr>q_headers := [(''Authorization'', get_first (oq_headers out) ''Authorization'')]\<rparr>"

definition ref_logout_route :: "(ref_redis, ref_db) world handler" where
  "ref_logout_route = protected_group ref_env ref_deps
     (AuthHandler_Logout (NewAuthHandler (d_auth ref_deps) (d_jwt ref_deps) (isProd ref_deps) (d_registration ref_deps)))"

definition ref_token_session :: stored where
  "ref_token_session = \<lparr>st_APIURL = ''http://x'', st_AccessToken = ref_token, st_ExpiresAt = 9\<rparr>"

definition ref_token_shell :: "(ref_files, (ref_redis, ref_db) world) shell" where
  "ref_token_shell = \<lparr>sh_now = 5, sh_fs = snd (store_Save ref_os ref_token_session (Map.empty, [])),
     sh_net = ref_world 5 empty_tables [] [], sh_out = [], sh_err = []\<rparr>"

definition ref_logged_out :: "outcome \<times> (ref_files, (ref_redis, ref_db) world) shell" where
  "ref_logged_out = auth_logout ref_os (serve_net ref_header_arrive ref_logout_route) ref_token_shell"

lemma ref_token_checked: "checkAuth ref_os ref_token_shell = Inr ref_token_session"
proof -
  have "ref_token \<noteq> []" by code_simp
  then show ?thesis
    by (simp add: checkAuth_def ref_token_shell_def ref_load_save) (simp add: ref_token_session_def time_zero_def)
qed

lemma ref_logout_served:
  "ref_header_arrive (out_request_of (newClient ref_token_session) ''POST'' ''/api/v1/auth/logout'' None) = ref_signed ''user''"
proof -
  have "ref_token \<noteq> []" by code_simp
  then show ?thesis
    by (simp add: ref_header_arrive_def out_request_of_def newClient_def client_New_def ref_token_session_def get_first_def
        ref_signed_def ref_token_def del: concat.simps list.map)
qed

lemma ref_logged_out_checks:
  "fst ref_logged_out = Returned None" "sh_err (snd ref_logged_out) = []" "sh_net (snd ref_logged_out) = sv_world ref_logout"
proof -
  have "status_of (sv_rw ref_logout) = 204" using ref_logout_closed by (simp add: ref_closed_def)
  moreover have "ref_logout = ref_logout_route (ref_signed ''user'') new_rw (sh_net ref_token_shell)"
    by (simp add: ref_logout_def ref_logout_route_def ref_token_shell_def)
  moreover have "sv_panic ref_logout = None"
    unfolding ref_logout_def by (intro protected_group_quiet logout_handler_quiet)
  ultimately have "call (AuthService_Logout (serve_net ref_header_arrive ref_logout_route) (newClient ref_token_session)) ref_token_shell =
      (Inr (), ref_token_shell\<lparr>sh_net := sv_world ref_logout\<rparr>)"
    by (simp add: call_def AuthService_Logout_def Client_do_def serve_net_def reply_of_def ref_logout_served Let_def)
  moreover have "fst (store_ClearToken ref_os (sh_fs ref_token_shell)) = None"
    by (simp add: store_ClearToken_def ref_token_shell_def ref_load_save) (simp add: ref_save)
  then obtain fs where "store_ClearToken ref_os (sh_fs ref_token_shell) = (None, fs)" by (metis prod.collapse)
  moreover have "sh_err ref_token_shell = []" by (simp add: ref_token_shell_def)
  ultimately show "fst ref_logged_out = Returned None" "sh_err (snd ref_logged_out) = []"
    "sh_net (snd ref_logged_out) = sv_world ref_logout"
    by (simp_all add: ref_logged_out_def auth_logout_def ref_token_checked Let_def print_def)
qed

theorem cli_logout_closes_routes_witness:
  "fst ref_logged_out = Returned None \<and> sh_err (snd ref_logged_out) = [] \<and>
   status_of (sv_rw (protected_group ref_env ref_deps (UserHandler_GetMe ref_env (d_users ref_deps))
     (ref_signed ''user'') new_rw (sh_net (snd ref_logged_out)))) = 401"
proof -
  let ?w = "sh_net ref_token_shell" and ?w2 = "sh_net (snd ref_logged_out)"
  have now: "w_now ?w2 = 5" using ref_logout_closed by (simp add: ref_closed_def ref_logged_out_checks)
  have w5: "w_now ?w = 5" by (simp add: ref_token_shell_def ref_world_def)
  have tok: "case JWTService_Verify ref_env (d_jwt ref_deps) 5 ref_token of Inl _ \<Rightarrow> False | Inr c \<Rightarrow> cl_ID c = ''j''"
    by code_simp
  then obtain c where c: "JWTService_Verify ref_env (d_jwt ref_deps) 5 ref_token = Inr c" "cl_ID c = ''j''"
    by (auto split: sum.splits)
  have hd: "Header_Get q ''Authorization'' = get_first (q_headers q) ''Authorization''" for q
  proof -
    have "canon_key ''Authorization'' = ''Authorization''" by code_simp
    then show ?thesis by (simp add: Header_Get_def)
  qed
  have v: "valid_token ref_env (d_jwt ref_deps) (ref_signed ''user'') (w_now ?w2) = Some c"
    using c by (simp add: valid_token_def hd ref_signed_def get_first_def HasPrefix_def TrimPrefix_def now ref_token_def
        del: concat.simps list.map)
  have ttl: "0 < JWTService_RefreshTTL (d_jwt ref_deps)" by code_simp
  obtain w3 where b: "IsBlocklisted (NewSessionRepo ref_env) (cl_ID c) ?w2 = (Inr True, w3)"
    using ref_logout_closed c(2) unfolding ref_closed_def ref_logged_out_checks by (metis prod.collapse)
  have in1: "(''POST'', ''/api/v1/auth/logout'', ref_logout_route) \<in> set (protected_routes ref_env ref_deps)"
    by (simp add: protected_routes_def Let_def ref_logout_route_def)
  have in2: "(''GET'', ''/api/v1/users/me'', protected_group ref_env ref_deps (UserHandler_GetMe ref_env (d_users ref_deps)))
      \<in> set (protected_routes ref_env ref_deps @ admin_routes ref_env ref_deps)"
    by (simp add: route_defs Let_def)
  have parts: "d_sessions ref_deps = NewSessionRepo ref_env"
    "d_auth ref_deps = NewAuthService ref_env (main_auth ref_env (d_jwt ref_deps) (cfg_API_BaseURL ref_config))"
    by (simp_all add: ref_deps_def main_deps_def)
  have arr: "\<forall>out. Header_Get (ref_header_arrive out) ''Authorization'' = get_first (oq_headers out) ''Authorization''"
    by (simp add: hd ref_header_arrive_def get_first_def)
  have run: "client_step\<^sup>*\<^sup>* (call_clients ref_env [], w_now ?w, fst (w_redis ?w2)) ([], 5, fst (w_redis ?w2))"
    by (simp add: call_clients_def w5)
  have out: "auth_logout ref_os (serve_net ref_header_arrive ref_logout_route) ref_token_shell = (Returned None, snd ref_logged_out)"
    using ref_logged_out_checks(1) unfolding ref_logged_out_def by (metis prod.collapse)
  have ver: "JWTService_Verify ref_env (d_jwt ref_deps) (w_now ?w) (st_AccessToken ref_token_session) = Inr c"
    using c(1) by (simp add: w5 ref_token_session_def)
  have err: "sh_err (snd ref_logged_out) = sh_err ref_token_shell"
    using ref_logged_out_checks(2) by (simp add: ref_token_shell_def)
  have time: "5 \<le> w_now ?w2" "w_now ?w2 < w_now ?w + JWTService_RefreshTTL (d_jwt ref_deps)"
    using ttl by (simp_all add: now w5)
  have sent: "rw_sent new_rw = None" by (simp add: new_rw_def)
  have "status_of (sv_rw (protected_group ref_env ref_deps (UserHandler_GetMe ref_env (d_users ref_deps))
      (ref_signed ''user'') new_rw ?w2)) = 401"
    using cli_logout_closes_routes [OF reference.redis_server_axioms parts ttl in1 arr ref_files.file_system_axioms
        ref_yaml_roundtrip ref_token_checked ver out err run _ time in2 sent v refl b]
    by simp
  then show ?thesis using ref_logged_out_checks by blast
qed

end
