(* ===== verification/Cache_Staleness.thy ===== *)
theory Cache_Staleness
  imports User_Props
begin

text \<open>
  The user cache over runs of the user service in which everything may fail: the statements of PostgreSQL, before or after
  they took effect, and the commands of Redis, so that an invalidation is lost.  A run records its writes; what the
  cache can hold that is not the current row is bounded by them.
\<close>

section \<open>Runs\<close>

text \<open>
  A write: when it was made, to whom, whether it reported success, and whether it changed the tables while the
  cache still held the user afterwards.
\<close>

record user_write =
  wr_time :: int
  wr_user :: uuid
  wr_ok :: bool
  wr_left :: bool

definition wrote ::
    "('s, 'd) env \<Rightarrow> ('s \<Rightarrow> store) \<Rightarrow> ('d \<Rightarrow> tables) \<Rightarrow> uuid \<Rightarrow> bool \<Rightarrow> ('s, 'd) world \<Rightarrow> ('s, 'd) world \<Rightarrow>
     user_write" where
  "wrote E kv tabs i ok w w' = \<lparr>wr_time = w_now w, wr_user = i, wr_ok = ok,
     wr_left = (rows tabs w' \<noteq> rows tabs w \<and> cache_view E kv (User_decode E) w' (userCacheKey E i) \<noteq> None)\<rparr>"

text \<open>Any operation of the service, with any outcome, or the passing of time.\<close>

inductive user_run ::
    "('s, 'd) env \<Rightarrow> ('s \<Rightarrow> store) \<Rightarrow> ('d \<Rightarrow> tables) \<Rightarrow> ('s, 'd) world \<Rightarrow> user_write list \<Rightarrow> ('s, 'd) world \<Rightarrow> bool"
  for E kv tabs w0 where
  start: "user_run E kv tabs w0 [] w0"
| get: "user_run E kv tabs w0 tr w \<Longrightarrow> svc_GetByID (main_userSvc E) i w = (r, w') \<Longrightarrow>
    \<forall>u. user_by_id (rows tabs w) i = Some u \<longrightarrow> caches_well E u \<Longrightarrow> user_run E kv tabs w0 tr w'"
| email: "user_run E kv tabs w0 tr w \<Longrightarrow> svc_GetByEmail (main_userSvc E) m w = (r, w') \<Longrightarrow> user_run E kv tabs w0 tr w'"
| list_users: "user_run E kv tabs w0 tr w \<Longrightarrow> svc_List (main_userSvc E) l off w = (q, w') \<Longrightarrow> user_run E kv tabs w0 tr w'"
| create: "user_run E kv tabs w0 tr w \<Longrightarrow> svc_Create (main_userSvc E) m pw role w = (r, w') \<Longrightarrow> user_run E kv tabs w0 tr w'"
| update: "user_run E kv tabs w0 tr w \<Longrightarrow> svc_Update (main_userSvc E) i req role w = (r, w') \<Longrightarrow>
    user_run E kv tabs w0 (wrote E kv tabs i (\<not> isl r) w w' # tr) w'"
| delete: "user_run E kv tabs w0 tr w \<Longrightarrow> svc_Delete (main_userSvc E) i w = (e, w') \<Longrightarrow>
    user_run E kv tabs w0 (wrote E kv tabs i (e = None) w w' # tr) w'"
| password: "user_run E kv tabs w0 tr w \<Longrightarrow> svc_UpdatePassword (main_userSvc E) i h w = (e, w') \<Longrightarrow>
    user_run E kv tabs w0 (wrote E kv tabs i (e = None) w w' # tr) w'"
| tick: "user_run E kv tabs w0 tr w \<Longrightarrow> w_now w \<le> t \<Longrightarrow> user_run E kv tabs w0 tr (w\<lparr>w_now := t\<rparr>)"

section \<open>What an operation does to the entries\<close>

definition is_current :: "('d \<Rightarrow> tables) \<Rightarrow> ('s, 'd) world \<Rightarrow> uuid \<Rightarrow> user \<Rightarrow> bool" where
  "is_current tabs w i v \<longleftrightarrow> (\<exists>u. user_by_id (rows tabs w) i = Some u \<and> u_IsActive u \<and> v = strip_hash u)"

text \<open>A live entry under a user's key that decodes: its user and when it expires.\<close>

definition user_entry ::
    "('s, 'd) env \<Rightarrow> ('s \<Rightarrow> store) \<Rightarrow> ('s, 'd) world \<Rightarrow> uuid \<Rightarrow> user \<Rightarrow> int option \<Rightarrow> bool" where
  "user_entry E kv w i v x \<longleftrightarrow> (\<exists>s. live (w_now w) (kv (w_redis w)) (userCacheKey E i) = Some (VStr s, x) \<and>
     Option.bind (jsonParse E s) (User_decode E) = Some v)"

text \<open>Entries expire within the lifetime of the cache, and each is current or was left by a write.\<close>

definition bounded_entries ::
    "('s, 'd) env \<Rightarrow> ('s \<Rightarrow> store) \<Rightarrow> ('s, 'd) world \<Rightarrow> bool" where
  "bounded_entries E kv w \<longleftrightarrow> (\<forall>i v x. user_entry E kv w i v x \<longrightarrow> (\<exists>e. x = Some e \<and> e \<le> w_now w + userCacheTTL))"

definition entry_explained ::
    "('s, 'd) env \<Rightarrow> ('s \<Rightarrow> store) \<Rightarrow> ('d \<Rightarrow> tables) \<Rightarrow> user_write list \<Rightarrow> ('s, 'd) world \<Rightarrow> bool" where
  "entry_explained E kv tabs tr w \<longleftrightarrow> (\<forall>i v e. user_entry E kv w i v (Some e) \<longrightarrow>
     is_current tabs w i v \<or> (\<exists>c \<in> set tr. wr_user c = i \<and> wr_left c \<and> e \<le> wr_time c + userCacheTTL))"

lemma user_entry_cached:
  "cache_view E kv (User_decode E) w (userCacheKey E i) = Some v \<longleftrightarrow> (\<exists>x. user_entry E kv w i v x)"
  by (auto simp: cache_view_def user_entry_def live_str_def bind_eq_Some_conv split: option.splits rval.splits)

lemma user_entry_cong:
  "kv (w_redis w') (userCacheKey E i) = kv (w_redis w) (userCacheKey E i) \<Longrightarrow> w_now w' = w_now w \<Longrightarrow>
   user_entry E kv w' i v x = user_entry E kv w i v x"
  by (simp add: user_entry_def live_def)

context backend begin

lemma lookup_kv:
  assumes "cache_lookup (Some (user_cache_of E)) k w = (h, w1)"
  shows "kv (w_redis w1) = kv (w_redis w)" and "w_now w1 = w_now w" and "rows tabs w1 = rows tabs w"
proof -
  obtain r w2 where d: "redis_do E (GET k) w = (r, w2)" by fastforce
  have "kv (w_redis w2) = kv (w_redis w)" using do_effect [OF d] step_reads(1) by simp
  moreover note only_redis_simps [OF do_only [OF d]]
  moreover have "w_redis w1 = w_redis w2" "w_now w1 = w_now w2" "w_db w1 = w_db w2"
    using assms d by (auto simp: cache_lookup_def user_cache_of_def NewCacheRepo_def cacheRepo_GetJSON_def cache_op_def
        split: sum.splits rreply.splits option.splits if_splits)
  ultimately show "kv (w_redis w1) = kv (w_redis w)" "w_now w1 = w_now w" "rows tabs w1 = rows tabs w"
    by (simp_all add: rows_def)
qed

lemma fill_kv:
  shows "kv (w_redis (cache_fill (Some (user_cache_of E)) k u w)) = kv (w_redis w) \<or>
      (\<exists>s. jsonText E (User_json E u) = Some s \<and> kv (w_redis (cache_fill (Some (user_cache_of E)) k u w)) =
        (kv (w_redis w))(k \<mapsto> (VStr s, Some (w_now w + userCacheTTL))))"
    and "w_now (cache_fill (Some (user_cache_of E)) k u w) = w_now w"
    and "rows tabs (cache_fill (Some (user_cache_of E)) k u w) = rows tabs w"
proof -
  have ttl: "0 < userCacheTTL" by (simp add: userCacheTTL_def second_def)
  have *: "(kv (w_redis (cache_fill (Some (user_cache_of E)) k u w)) = kv (w_redis w) \<or>
      (\<exists>s. jsonText E (User_json E u) = Some s \<and> kv (w_redis (cache_fill (Some (user_cache_of E)) k u w)) =
        (kv (w_redis w))(k \<mapsto> (VStr s, Some (w_now w + userCacheTTL))))) \<and>
      w_now (cache_fill (Some (user_cache_of E)) k u w) = w_now w \<and>
      rows tabs (cache_fill (Some (user_cache_of E)) k u w) = rows tabs w"
  proof (cases "jsonText E (User_json E u)")
    case None
    then show ?thesis
      by (simp add: cache_fill_def user_cache_of_def NewCacheRepo_def cacheRepo_SetJSON_def cache_op_def rows_def)
  next
    case (Some s)
    obtain e w2 where d: "redis_err E (SET k s userCacheTTL) w = (e, w2)" by fastforce
    have "w_redis (cache_fill (Some (user_cache_of E)) k u w) = w_redis w2" "w_now (cache_fill (Some (user_cache_of E)) k u w) = w_now w2"
      "w_db (cache_fill (Some (user_cache_of E)) k u w) = w_db w2"
      using Some d by (auto simp: cache_fill_def user_cache_of_def NewCacheRepo_def cacheRepo_SetJSON_def cache_op_def
          split: option.splits)
    with err_effect [OF d] only_redis_simps [OF err_only [OF d]] Some ttl show ?thesis by (auto simp: rows_def)
  qed
  then show "kv (w_redis (cache_fill (Some (user_cache_of E)) k u w)) = kv (w_redis w) \<or>
      (\<exists>s. jsonText E (User_json E u) = Some s \<and> kv (w_redis (cache_fill (Some (user_cache_of E)) k u w)) =
        (kv (w_redis w))(k \<mapsto> (VStr s, Some (w_now w + userCacheTTL))))"
    and "w_now (cache_fill (Some (user_cache_of E)) k u w) = w_now w"
    and "rows tabs (cache_fill (Some (user_cache_of E)) k u w) = rows tabs w" by blast+
qed

lemma drop_kv:
  shows "kv (w_redis (cache_drop (Some (user_cache_of E)) msg k w)) \<in> {kv (w_redis w), (kv (w_redis w))(k := None)}"
    and "w_now (cache_drop (Some (user_cache_of E)) msg k w) = w_now w"
    and "rows tabs (cache_drop (Some (user_cache_of E)) msg k w) = rows tabs w"
    and "redis_up E \<Longrightarrow> kv (w_redis (cache_drop (Some (user_cache_of E)) msg k w)) k = None"
proof -
  obtain e w2 where d: "redis_err E (DEL [k]) w = (e, w2)" by fastforce
  have w2: "w_redis (cache_drop (Some (user_cache_of E)) msg k w) = w_redis w2" "w_now (cache_drop (Some (user_cache_of E)) msg k w) = w_now w2"
    "w_db (cache_drop (Some (user_cache_of E)) msg k w) = w_db w2"
    using d by (auto simp: cache_drop_def user_cache_of_def NewCacheRepo_def cacheRepo_Delete_def split: option.splits)
  have del: "snd (redis_step (w_now w) (DEL [k]) (kv (w_redis w))) = (kv (w_redis w))(k := None)"
    by (auto simp: fun_eq_iff)
  with err_effect [OF d] show "kv (w_redis (cache_drop (Some (user_cache_of E)) msg k w)) \<in> {kv (w_redis w), (kv (w_redis w))(k := None)}"
    by (simp add: w2)
  show "w_now (cache_drop (Some (user_cache_of E)) msg k w) = w_now w"
    "rows tabs (cache_drop (Some (user_cache_of E)) msg k w) = rows tabs w"
    using only_redis_simps [OF err_only [OF d]] by (simp_all add: w2 rows_def)
  show "kv (w_redis (cache_drop (Some (user_cache_of E)) msg k w)) k = None" if "redis_up E"
  proof -
    have "fst (cache_Delete (user_cache_of E) [k] w) = None"
      using deletes_up [OF that] by (simp add: deletes_work_def)
    then have "e = None" using d by (simp add: user_cache_of_def NewCacheRepo_def cacheRepo_Delete_def wrap_err_def split: option.splits)
    with err_none [of "DEL [k]" w w2] d del show ?thesis by (metis fun_upd_same snd_conv w2(1))
  qed
qed

text \<open>What a write does: at most its user's rows, at most its user's key, and the time stays.\<close>

definition write_moves :: "uuid \<Rightarrow> ('s, 'd) world \<Rightarrow> ('s, 'd) world \<Rightarrow> bool" where
  "write_moves i w w' \<longleftrightarrow> w_now w' = w_now w \<and>
     kv (w_redis w') \<in> {kv (w_redis w), (kv (w_redis w))(userCacheKey E i := None)} \<and>
     (rows tabs w' = rows tabs w \<or> (\<exists>f. (\<forall>v. u_ID (f v) = u_ID v) \<and> rows tabs w' = map_user i f (rows tabs w)))"

lemma quiet_moves [simp]:
  "write_moves i w (end_failed n as e w') = write_moves i w w'" "write_moves i w (end_ok n as w') = write_moves i w w'"
  "write_moves i w (log_at l m as w') = write_moves i w w'"
  "rows tabs (end_failed n as e w) = rows tabs w" "rows tabs (end_ok n as w) = rows tabs w"
  "rows tabs (end_unset n as w) = rows tabs w" "rows tabs (log_at l m as w) = rows tabs w"
  "w_redis (end_failed n as e w) = w_redis w" "w_redis (end_ok n as w) = w_redis w" "w_redis (end_unset n as w) = w_redis w"
  "w_now (end_failed n as e w) = w_now w" "w_now (end_ok n as w) = w_now w" "w_now (end_unset n as w) = w_now w"
  "w_redis (log_at l m as w) = w_redis w" "w_now (log_at l m as w) = w_now w"
  by (simp_all add: write_moves_def rows_def end_defs end_span_def log_at_def)

lemma moves_drop:
  assumes "w_now w1 = w_now w" and "w_redis w1 = w_redis w"
    and "rows tabs w1 = rows tabs w \<or> rows tabs w1 = map_user i f (rows tabs w)"
    and "\<And>v. u_ID (f v) = u_ID v"
  shows "write_moves i w w1" and "write_moves i w (cache_drop (Some (user_cache_of E)) msg (userCacheKey E i) w1)"
  using assms drop_kv(1-3) [of msg "userCacheKey E i" w1] by (auto simp: write_moves_def)

lemma frame_now: "db_frame w w1 \<Longrightarrow> w_now w1 = w_now w" "db_frame w w1 \<Longrightarrow> w_redis w1 = w_redis w"
  by (simp_all add: db_frame_def)

lemma frame_trans: "db_frame w w1 \<Longrightarrow> db_frame w1 w2 \<Longrightarrow> db_frame w w2"
  by (simp add: db_frame_def)

lemma update_moves:
  assumes "svc_Update (main_userSvc E) i req role w = (r, w')" and ok: "tables_ok (rows tabs w)"
  shows "write_moves i w w'" and "tables_ok (rows tabs w')"
    and "redis_up E \<Longrightarrow> \<not> isl r \<Longrightarrow> kv (w_redis w') (userCacheKey E i) = None"
proof -
  let ?R = "main_userRepo E"
  note upd = assms(1) [unfolded main_ops, unfolded userService_Update_def Let_def]
  obtain q w1 where f: "repo_FindByID ?R i w = (q, w1)" by fastforce
  have T1: "rows tabs w1 = rows tabs w" "db_frame w w1"
    using repo.find_view [of i w] repo.repo_frame(2) [of w i] f by (auto simp: rows_def)
  have all: "write_moves i w w' \<and> tables_ok (rows tabs w') \<and>
    (redis_up E \<longrightarrow> \<not> isl r \<longrightarrow> kv (w_redis w') (userCacheKey E i) = None)"
  proof (cases q)
    case (Inl e)
    with upd f T1 ok moves_drop(1) [OF frame_now [OF T1(2)], of i id] show ?thesis by auto
  next
    case (Inr u)
    let ?u = "patch_user req role u"
    have "user_by_id (rows tabs w) i = Some u"
      using repo.find_ok [of i w u w1] f Inr ok by (simp add: rows_def)
    then have id: "u_ID u = i" using user_by_id_Some by metis
    define w2 where "w2 = (if p_Role req \<noteq> None \<and> role \<noteq> ''admin''
        then log_at LDebug (''role change ignored '' @ em_dash @ '' caller is not admin'') [(''user_id'', uuidString E i)] w1
        else w1)"
    have w2: "rows tabs w2 = rows tabs w" using T1 by (simp add: w2_def)
    obtain e w3 where up: "repo_Update ?R ?u w2 = (e, w3)" by fastforce
    have ok3: "tables_ok (rows tabs w3)"
      using repo.update_ok_tables [OF up] ok w2 by (simp add: rows_def)
    have T3: "rows tabs w3 = rows tabs w \<or> rows tabs w3 = map_user i (updated_row (w_now w2) ?u) (rows tabs w)"
      using repo.update_ok [of ?u w2 w3] repo.update_fail [of ?u w2 _ w3] up w2 id
      by (cases e) (auto simp: rows_def)
    have now: "w_now w2 = w_now w" "w_redis w2 = w_redis w" using T1(2) by (auto simp: w2_def db_frame_def log_at_def)
    have fr: "w_now w3 = w_now w \<and> w_redis w3 = w_redis w"
      using repo.repo_frame(4) [of w2 ?u] up now by (simp add: db_frame_def)
    have m: "write_moves i w w3" "write_moves i w (cache_drop (Some (user_cache_of E)) msg (userCacheKey E i) w3)" for msg
      using moves_drop [OF conjunct1 [OF fr] conjunct2 [OF fr] T3] by simp_all
    show ?thesis
    proof (cases e)
      case (Some err)
      with upd f Inr up m(1) ok3 show ?thesis by (auto simp: w2_def)
    next
      case None
      with upd f Inr up have "w' = end_ok ''service/Update'' [(''user.id'', uuidString E i)]
          (cache_drop (Some (user_cache_of E)) ''cache delete failed'' (userCacheKey E i) w3)"
        by (auto simp: w2_def)
      with m(2) ok3 drop_kv(3,4) show ?thesis by simp
    qed
  qed
  then show "write_moves i w w'" "tables_ok (rows tabs w')" by blast+
  show "kv (w_redis w') (userCacheKey E i) = None" if "redis_up E" "\<not> isl r" using all that by blast
qed

lemma password_moves:
  assumes "svc_UpdatePassword (main_userSvc E) i h w = (e, w')" and ok: "tables_ok (rows tabs w)"
  shows "write_moves i w w'" and "tables_ok (rows tabs w')"
    and "redis_up E \<Longrightarrow> e = None \<Longrightarrow> kv (w_redis w') (userCacheKey E i) = None"
proof -
  obtain q w1 where p: "repo_UpdatePassword (main_userRepo E) i h w = (q, w1)" by fastforce
  have T1: "db_frame w w1" "rows tabs w1 = rows tabs w \<or> rows tabs w1 = map_user i (password_row (w_now w) h) (rows tabs w)"
    using repo.password_ok [of i h w w1] repo.password_fail [of i h w _ w1] repo.repo_frame(5) [of w i h] p
    by (cases q; auto simp: rows_def)+
  have ok1: "tables_ok (rows tabs w1)" using repo.password_ok_tables [OF p] ok by (simp add: rows_def)
  have m: "write_moves i w w1" "write_moves i w (cache_drop (Some (user_cache_of E)) msg (userCacheKey E i) w1)" for msg
    using moves_drop [OF frame_now [OF T1(1)] T1(2)] by simp_all
  have w': "w' = (case q of Some x \<Rightarrow> end_failed ''service/UpdatePassword'' [(''user.id'', uuidString E i)] x w1
      | None \<Rightarrow> end_ok ''service/UpdatePassword'' [(''user.id'', uuidString E i)]
          (cache_drop (Some (user_cache_of E)) ''cache delete failed after password update'' (userCacheKey E i) w1))" "e = q"
    using assms(1) p by (auto simp: main_ops userService_UpdatePassword_def Let_def split: option.splits)
  from m show "write_moves i w w'" by (simp add: w' split: option.splits)
  from ok1 show "tables_ok (rows tabs w')" by (simp add: w' drop_kv(3) split: option.splits)
  show "redis_up E \<Longrightarrow> e = None \<Longrightarrow> kv (w_redis w') (userCacheKey E i) = None"
    by (simp add: w' drop_kv(4))
qed

lemma delete_moves:
  assumes "svc_Delete (main_userSvc E) i w = (e, w')" and ok: "tables_ok (rows tabs w)"
  shows "write_moves i w w'" and "tables_ok (rows tabs w')"
    and "redis_up E \<Longrightarrow> e = None \<Longrightarrow> kv (w_redis w') (userCacheKey E i) = None"
proof -
  note del = assms(1) [unfolded main_ops, unfolded userService_Delete_def Let_def]
  obtain q w1 where f: "repo_FindByID (main_userRepo E) i w = (q, w1)" by fastforce
  have T1: "rows tabs w1 = rows tabs w" "db_frame w w1"
    using repo.find_view [of i w] repo.repo_frame(2) [of w i] f by (auto simp: rows_def)
  obtain d w2 where p: "repo_Delete (main_userRepo E) i w1 = (d, w2)" by fastforce
  have T2: "db_frame w w2" "rows tabs w2 = rows tabs w \<or> rows tabs w2 = map_user i (deleted_row (w_now w1)) (rows tabs w)"
    using repo.delete_ok [of i w1 w2] repo.delete_fail [of i w1 _ w2] frame_trans [OF T1(2)] repo.repo_frame(6) [of w1 i] p T1(1)
    by (cases d; auto simp: rows_def)+
  have ok2: "tables_ok (rows tabs w2)" using repo.delete_ok_tables [OF p] ok T1 by (simp add: rows_def)
  have m: "write_moves i w w2" "write_moves i w (cache_drop (Some (user_cache_of E)) msg (userCacheKey E i) w2)" for msg
    using moves_drop [OF frame_now [OF T2(1)] T2(2)] by simp_all
  have all: "write_moves i w w' \<and> tables_ok (rows tabs w') \<and>
    (redis_up E \<longrightarrow> e = None \<longrightarrow> kv (w_redis w') (userCacheKey E i) = None)"
  proof (cases q)
    case (Inl x)
    with del f T1 ok moves_drop(1) [OF frame_now [OF T1(2)], of i id] show ?thesis by auto
  next
    case (Inr u)
    with del f p m ok2 show ?thesis by (auto simp: drop_kv(3,4) split: option.splits)
  qed
  then show "write_moves i w w'" "tables_ok (rows tabs w')" by blast+
  show "redis_up E \<Longrightarrow> e = None \<Longrightarrow> kv (w_redis w') (userCacheKey E i) = None" using all by blast
qed

text \<open>Reads: at most a copy of the current row for the lifetime of the cache.\<close>

lemma get_moves:
  assumes "svc_GetByID (main_userSvc E) i w = (r, w')" and ok: "tables_ok (rows tabs w)"
  shows "w_now w' = w_now w" and "rows tabs w' = rows tabs w"
    and "kv (w_redis w') = kv (w_redis w) \<or> (\<exists>u s. user_by_id (rows tabs w) i = Some u \<and> u_IsActive u \<and>
      jsonText E (User_json E u) = Some s \<and>
      kv (w_redis w') = (kv (w_redis w))(userCacheKey E i \<mapsto> (VStr s, Some (w_now w + userCacheTTL))))"
proof -
  note g = assms(1) [unfolded main_ops, unfolded userService_GetByID_def Let_def]
  obtain h w1 where l: "cache_lookup (Some (user_cache_of E)) (userCacheKey E i) w = (h, w1)" by fastforce
  note lf = lookup_kv [OF l]
  obtain q w2 where f: "repo_FindByID (main_userRepo E) i w1 = (q, w2)" by fastforce
  have T2: "rows tabs w2 = rows tabs w" "w_now w2 = w_now w" "kv (w_redis w2) = kv (w_redis w)"
    using repo.find_view [of i w1] repo.repo_frame(2) [of w1 i] f lf by (auto simp: rows_def db_frame_def)
  have found: "user_by_id (rows tabs w) i = Some u \<and> u_IsActive u" if "q = Inr u" for u
    using repo.find_ok [of i w1 u w2] f that lf(3) ok by (simp add: rows_def)
  have "w_now w' = w_now w \<and> rows tabs w' = rows tabs w \<and> (kv (w_redis w') = kv (w_redis w) \<or>
      (\<exists>u s. user_by_id (rows tabs w) i = Some u \<and> u_IsActive u \<and> jsonText E (User_json E u) = Some s \<and>
      kv (w_redis w') = (kv (w_redis w))(userCacheKey E i \<mapsto> (VStr s, Some (w_now w + userCacheTTL)))))"
  proof (cases h)
    case None
    show ?thesis
    proof (cases q)
      case (Inl e)
      with None g l f T2 show ?thesis by auto
    next
      case (Inr u)
      with None g l f have "w' = end_ok ''service/GetByID'' [(''user.id'', uuidString E i)]
          (cache_fill (Some (user_cache_of E)) (userCacheKey E i) u w2)" by simp
      with fill_kv [of "userCacheKey E i" u w2] T2 found [OF Inr] show ?thesis by auto
    qed
  next
    case (Some u)
    with g l lf show ?thesis by auto
  qed
  then show "w_now w' = w_now w" and "rows tabs w' = rows tabs w"
    and "kv (w_redis w') = kv (w_redis w) \<or> (\<exists>u s. user_by_id (rows tabs w) i = Some u \<and> u_IsActive u \<and>
      jsonText E (User_json E u) = Some s \<and>
      kv (w_redis w') = (kv (w_redis w))(userCacheKey E i \<mapsto> (VStr s, Some (w_now w + userCacheTTL))))"
    by blast+
qed

lemma email_moves:
  assumes "svc_GetByEmail (main_userSvc E) m w = (r, w')"
  shows "w_now w' = w_now w \<and> rows tabs w' = rows tabs w \<and> w_redis w' = w_redis w"
  using assms repo.email_view [of m w] repo.repo_frame(3) [of w m]
  by (auto simp: main_ops userService_GetByEmail_def rows_def db_frame_def)

lemma list_moves:
  assumes "svc_List (main_userSvc E) l off w = (q, w')"
  shows "w_now w' = w_now w \<and> rows tabs w' = rows tabs w \<and> w_redis w' = w_redis w"
proof -
  obtain p w1 where p: "repo_List (main_userRepo E) l off w = (p, w1)" by fastforce
  have "w_now w1 = w_now w \<and> rows tabs w1 = rows tabs w \<and> w_redis w1 = w_redis w"
    using p repo.list_view [of l off w] repo.repo_frame(7) [of w l off] by (auto simp: rows_def db_frame_def)
  with assms p show ?thesis by (auto simp: main_ops userService_List_def Let_def split: sum.splits)
qed

lemma create_moves:
  assumes "svc_Create (main_userSvc E) m pw role w = (r, w')" and "tables_ok (rows tabs w)"
  shows "w_now w' = w_now w \<and> w_redis w' = w_redis w \<and> tables_ok (rows tabs w') \<and>
    (\<forall>i u. user_by_id (rows tabs w) i = Some u \<longrightarrow> user_by_id (rows tabs w') i = Some u)"
proof -
  obtain n w1 where d1: "draw w = (n, w1)" by fastforce
  obtain k w2 where d2: "draw w1 = (k, w2)" by fastforce
  have w2: "w_now w2 = w_now w" "w_redis w2 = w_redis w" "rows tabs w2 = rows tabs w"
      "w_now w1 = w_now w" "w_redis w1 = w_redis w" "rows tabs w1 = rows tabs w"
    using d1 d2 by (auto simp: draw_def rows_def)
  note c = assms(1) [unfolded main_ops, unfolded userService_Create_def Let_def]
  show ?thesis
  proof (cases "bcryptGenerate E pw 12 n")
    case (Inl e)
    with c d1 w2 assms(2) show ?thesis by auto
  next
    case (Inr hash)
    let ?u = "new_user (uuidNew E k) m hash role"
    obtain e w3 where cr: "repo_Create (main_userRepo E) ?u w2 = (e, w3)" by fastforce
    have ok3: "tables_ok (rows tabs w3)" using repo.create_ok_tables [OF cr] assms(2) w2 by (simp add: rows_def)
    have fr: "w_now w3 = w_now w" "w_redis w3 = w_redis w"
      using repo.repo_frame(1) [of w2 ?u] cr w2 by (auto simp: db_frame_def)
    have T3: "rows tabs w3 = rows tabs w \<or> (insert_violation (rows tabs w) ?u = None \<and>
        rows tabs w3 = (rows tabs w)\<lparr>users := users (rows tabs w) @ [stored_user ?u]\<rparr>)"
      using repo.create_ok [of ?u w2 w3] repo.create_fail [of ?u w2 _ w3] cr w2 by (cases e) (auto simp: rows_def)
    have keep: "user_by_id (rows tabs w3) i = Some u" if "user_by_id (rows tabs w) i = Some u" for i u
      using T3
    proof
      assume *: "insert_violation (rows tabs w) ?u = None \<and>
        rows tabs w3 = (rows tabs w)\<lparr>users := users (rows tabs w) @ [stored_user ?u]\<rparr>"
      then have new: "u_ID (stored_user ?u) \<notin> u_ID ` set (users (rows tabs w))"
        by (auto simp: insert_violation_def stored_user_def split: if_splits)
      then have "i \<noteq> u_ID (stored_user ?u)" using user_by_id_Some [OF that] by (metis image_eqI)
      with users.user_by_id_insert [OF new] * that show ?thesis by simp
    qed (use that in simp)
    have "rows tabs w' = rows tabs w3" "w_now w' = w_now w3" "w_redis w' = w_redis w3"
      using c d1 d2 Inr cr by (auto split: option.splits)
    with fr ok3 keep show ?thesis by simp
  qed
qed

section \<open>The invariant of a run\<close>

definition entries_inv :: "user_write list \<Rightarrow> ('s, 'd) world \<Rightarrow> bool" where
  "entries_inv tr w \<longleftrightarrow> tables_ok (rows tabs w) \<and> bounded_entries E kv w \<and> entry_explained E kv tabs tr w"

lemma inv_less:
  assumes "entries_inv tr w" and "tables_ok (rows tabs w')" and "w_now w' = w_now w"
    and less: "\<And>i v x. user_entry E kv w' i v x \<Longrightarrow> user_entry E kv w i v x"
    and current: "\<And>i v e. user_entry E kv w' i v (Some e) \<Longrightarrow> is_current tabs w i v \<Longrightarrow> is_current tabs w' i v \<or>
      (\<exists>c \<in> set tr'. wr_user c = i \<and> wr_left c \<and> e \<le> wr_time c + userCacheTTL)"
    and "set tr \<subseteq> set tr'"
  shows "entries_inv tr' w'"
proof -
  have "bounded_entries E kv w'" using assms(1) less unfolding entries_inv_def bounded_entries_def assms(3) by blast
  moreover have "entry_explained E kv tabs tr' w'"
    using assms(1,6) less current unfolding entries_inv_def entry_explained_def by (meson subsetD)
  ultimately show ?thesis using assms(2) by (simp add: entries_inv_def)
qed

lemma inv_write:
  assumes inv: "entries_inv tr w" and m: "write_moves i w w'" and ok: "tables_ok (rows tabs w')"
  shows "entries_inv (wrote E kv tabs i ok' w w' # tr) w'"
proof (rule inv_less [OF inv ok])
  show now: "w_now w' = w_now w" using m by (simp add: write_moves_def)
  show less: "user_entry E kv w j v x" if "user_entry E kv w' j v x" for j v x
  proof -
    have *: "live t st' k = Some y \<Longrightarrow> st' \<in> {st, st(k' := None)} \<Longrightarrow> live t st k = Some y" for t st st' k k' y
      by (auto simp: live_def split: if_splits)
    from m have "w_now w' = w_now w" "kv (w_redis w') \<in> {kv (w_redis w), (kv (w_redis w))(userCacheKey E i := None)}"
      unfolding write_moves_def by blast+
    with that * show ?thesis unfolding user_entry_def by metis
  qed
  fix j v e
  assume e: "user_entry E kv w' j v (Some e)" and c: "is_current tabs w j v"
  show "is_current tabs w' j v \<or>
      (\<exists>c \<in> set (wrote E kv tabs i ok' w w' # tr). wr_user c = j \<and> wr_left c \<and> e \<le> wr_time c + userCacheTTL)"
  proof (cases "rows tabs w' = rows tabs w")
    case True
    with c show ?thesis by (simp add: is_current_def)
  next
    case False
    with m obtain f where f: "\<forall>v. u_ID (f v) = u_ID v" "rows tabs w' = map_user i f (rows tabs w)"
      by (auto simp: write_moves_def)
    show ?thesis
    proof (cases "j = i")
      case True
      have "e \<le> w_now w + userCacheTTL" using less [OF e] inv by (auto simp: entries_inv_def bounded_entries_def)
      moreover have "cache_view E kv (User_decode E) w' (userCacheKey E i) \<noteq> None"
        using e True user_entry_cached [of E kv w' i v] by auto
      ultimately show ?thesis using False True by (simp add: wrote_def)
    next
      case ne: False
      from c obtain u where "user_by_id (rows tabs w) j = Some u" "u_IsActive u" "v = strip_hash u"
        unfolding is_current_def by blast
      then show ?thesis
        using user_by_id_map_user [of f i "rows tabs w" j] f ne user_by_id_Some [of "rows tabs w" j u]
        by (simp add: is_current_def)
    qed
  qed
qed auto

lemma inv_quiet:
  assumes "entries_inv tr w" and "tables_ok (rows tabs w')" and "w_now w' = w_now w" and "kv (w_redis w') = kv (w_redis w)"
    and "\<And>i u. user_by_id (rows tabs w) i = Some u \<Longrightarrow> user_by_id (rows tabs w') i = Some u"
  shows "entries_inv tr w'"
proof (rule inv_less [OF assms(1-3)])
  show "user_entry E kv w i v x" if "user_entry E kv w' i v x" for i v x
    using that by (simp only: user_entry_cong [of kv w' E i w, OF fun_cong [OF assms(4)] assms(3)])
qed (use assms(5) in \<open>auto simp: is_current_def\<close>)

lemma inv_fill:
  assumes inv: "entries_inv tr w" and "w_now w' = w_now w" and rows: "rows tabs w' = rows tabs w"
    and kv: "kv (w_redis w') = (kv (w_redis w))(userCacheKey E i \<mapsto> (VStr s, Some (w_now w + userCacheTTL)))"
    and u: "user_by_id (rows tabs w) i = Some u" "u_IsActive u" "jsonText E (User_json E u) = Some s" "caches_well E u"
  shows "entries_inv tr w'"
proof -
  have key: "userCacheKey E j = userCacheKey E i \<longleftrightarrow> j = i" for j
    using users.userCacheKey_inj u(4) by (auto simp: caches_well_def)
  have dec: "Option.bind (jsonParse E s) (User_decode E) = Some (strip_hash u)"
    using u(3,4) User_decode_json by (auto simp: caches_well_def)
  have new: "user_entry E kv w' i v x \<Longrightarrow> v = strip_hash u \<and> x = Some (w_now w + userCacheTTL)" for v x
    using dec by (auto simp: user_entry_def kv live_def split: option.splits if_splits)
  have old: "user_entry E kv w' j v x = user_entry E kv w j v x" if "j \<noteq> i" for j v x
    by (rule user_entry_cong) (use that key assms(2) in \<open>auto simp: kv\<close>)
  have "bounded_entries E kv w'"
    unfolding bounded_entries_def
  proof (intro allI impI)
    fix j v x
    assume "user_entry E kv w' j v x"
    with new old inv show "\<exists>e. x = Some e \<and> e \<le> w_now w' + userCacheTTL"
      by (cases "j = i") (auto simp: assms(2) entries_inv_def bounded_entries_def)
  qed
  moreover have "entry_explained E kv tabs tr w'"
    unfolding entry_explained_def
  proof (intro allI impI)
    fix j v e
    assume "user_entry E kv w' j v (Some e)"
    with new old inv u show "is_current tabs w' j v \<or> (\<exists>c \<in> set tr. wr_user c = j \<and> wr_left c \<and> e \<le> wr_time c + userCacheTTL)"
      by (cases "j = i") (auto simp: rows is_current_def entries_inv_def entry_explained_def)
  qed
  ultimately show ?thesis using inv by (simp add: entries_inv_def rows)
qed

lemma inv_tick:
  assumes inv: "entries_inv tr w" and "w_now w \<le> t"
  shows "entries_inv tr (w\<lparr>w_now := t\<rparr>)"
proof -
  have less: "user_entry E kv w i v x" if "user_entry E kv (w\<lparr>w_now := t\<rparr>) i v x" for i v x
    using that assms(2) by (auto simp: user_entry_def live_def split: option.splits if_splits prod.splits)
  have r: "rows tabs (w\<lparr>w_now := t\<rparr>) = rows tabs w" by (simp add: rows_def)
  have "bounded_entries E kv (w\<lparr>w_now := t\<rparr>)"
    using inv less assms(2) unfolding entries_inv_def bounded_entries_def by fastforce
  with inv less r show ?thesis unfolding entries_inv_def entry_explained_def is_current_def by simp
qed

lemma inv_start:
  "coherent E kv tabs w \<Longrightarrow> bounded_entries E kv w \<Longrightarrow> tables_ok (rows tabs w) \<Longrightarrow> entries_inv tr w"
  unfolding entries_inv_def entry_explained_def coherent_def cache_coherent_def is_current_def
  using user_entry_cached by blast

lemma run_entries:
  assumes "user_run E kv tabs w0 tr w" and "entries_inv [] w0"
  shows "entries_inv tr w"
  using assms(1)
proof induction
  case start
  then show ?case by (rule assms(2))
next
  case (get tr w i r w')
  then have ok: "tables_ok (rows tabs w)" by (simp add: entries_inv_def)
  note m = get_moves [OF get.hyps(2) ok]
  from m(3) show ?case
  proof
    assume "kv (w_redis w') = kv (w_redis w)"
    from inv_quiet [OF get.IH _ m(1) this] m(2) ok show ?thesis by simp
  next
    assume "\<exists>u s. user_by_id (rows tabs w) i = Some u \<and> u_IsActive u \<and> jsonText E (User_json E u) = Some s \<and>
      kv (w_redis w') = (kv (w_redis w))(userCacheKey E i \<mapsto> (VStr s, Some (w_now w + userCacheTTL)))"
    with inv_fill [OF get.IH m(1,2)] get.hyps(3) show ?thesis by blast
  qed
next
  case (email tr w m r w')
  then have "tables_ok (rows tabs w)" by (simp add: entries_inv_def)
  with inv_quiet [OF email.IH] email_moves [OF email.hyps(2)] show ?case by simp
next
  case (list_users tr w l off q w')
  then have "tables_ok (rows tabs w)" by (simp add: entries_inv_def)
  with inv_quiet [OF list_users.IH] list_moves [OF list_users.hyps(2)] show ?case by simp
next
  case (create tr w m pw role r w')
  then have "tables_ok (rows tabs w)" by (simp add: entries_inv_def)
  from create_moves [OF create.hyps(2) this] inv_quiet [OF create.IH, of w'] show ?case by simp
next
  case (update tr w i req role r w')
  then have "tables_ok (rows tabs w)" by (simp add: entries_inv_def)
  from update_moves(1,2) [OF update.hyps(2) this] show ?case by (rule inv_write [OF update.IH])
next
  case (delete tr w i e w')
  then have "tables_ok (rows tabs w)" by (simp add: entries_inv_def)
  from delete_moves(1,2) [OF delete.hyps(2) this] show ?case by (rule inv_write [OF delete.IH])
next
  case (password tr w i h e w')
  then have "tables_ok (rows tabs w)" by (simp add: entries_inv_def)
  from password_moves(1,2) [OF password.hyps(2) this] show ?case by (rule inv_write [OF password.IH])
next
  case (tick tr w t)
  from inv_tick [OF tick.IH tick.hyps(2)] show ?case .
qed

lemma dropped_not_left:
  "kv (w_redis w') (userCacheKey E i) = None \<Longrightarrow> \<not> wr_left (wrote E kv tabs i ok w w')"
  by (simp add: wrote_def cache_view_def live_str_def live_def)

lemma run_success_drops:
  assumes "user_run E kv tabs w0 tr w" and "entries_inv [] w0" and up: "redis_up E"
  shows "\<forall>c \<in> set tr. wr_ok c \<longrightarrow> \<not> wr_left c"
  using assms(1)
proof induction
  case (update tr w i req role r w')
  have ok: "tables_ok (rows tabs w)" using run_entries [OF update.hyps(1) assms(2)] by (simp add: entries_inv_def)
  from update_moves(3) [OF update.hyps(2) ok up] dropped_not_left [of w' i] update.IH show ?case
    by (auto simp: wrote_def)
next
  case (delete tr w i e w')
  have ok: "tables_ok (rows tabs w)" using run_entries [OF delete.hyps(1) assms(2)] by (simp add: entries_inv_def)
  from delete_moves(3) [OF delete.hyps(2) ok up] dropped_not_left [of w' i] delete.IH show ?case
    by (auto simp: wrote_def)
next
  case (password tr w i h e w')
  have ok: "tables_ok (rows tabs w)" using run_entries [OF password.hyps(1) assms(2)] by (simp add: entries_inv_def)
  from password_moves(3) [OF password.hyps(2) ok up] dropped_not_left [of w' i] password.IH show ?case
    by (auto simp: wrote_def)
qed simp_all

lemma run_staleness:
  assumes "user_run E kv tabs w0 tr w" and "entries_inv [] w0"
    and "cache_view E kv (User_decode E) w (userCacheKey E i) = Some v"
  shows "is_current tabs w i v \<or> (\<exists>c \<in> set tr. wr_user c = i \<and> wr_left c \<and> w_now w < wr_time c + userCacheTTL)"
proof -
  obtain x where e: "user_entry E kv w i v x" using assms(3) user_entry_cached by blast
  note inv = run_entries [OF assms(1,2)]
  with e obtain t where t: "x = Some t" unfolding entries_inv_def bounded_entries_def by blast
  have "w_now w < t" using e t by (auto simp: user_entry_def live_def split: option.splits if_splits prod.splits)
  with inv e t show ?thesis unfolding entries_inv_def entry_explained_def by fastforce
qed

end

section \<open>How long a cached user can be out of date\<close>

text \<open>
  C10.  What the user cache can tell that is not so, with every failure of both servers allowed.  Run the user
  service from a cache that agrees with the database: any reads, searches, lists, creations, updates, deletions and
  password changes, with any outcome (a statement may fail before or after it took effect, a Redis command may be lost,
  so the invalidation too), and any time between them.  Then the keys and the role check of the schema hold, and every
  cached user, and every user that \<open>GetByID\<close> returns, is the current active row but for the password hash, unless a
  write to that very user changed the tables and left its entry in the cache less than the cache's five minutes ago.
  A write that leaves an entry is one that reported a failure, or one whose invalidation was lost: while Redis answers,
  no write that reports success leaves one.  Rows that a read copies into the cache are assumed to survive JSON (an
  invalid UTF-8 string or a year beyond 9999 does not).
\<close>

theorem cache_staleness_bounded:
  assumes "backend E kv tabs" and "coherent E kv tabs w" and "bounded_entries E kv w" and "tables_ok (rows tabs w)"
    and "user_run E kv tabs w tr w'"
  shows "tables_ok (rows tabs w') \<and>
    (cache_view E kv (User_decode E) w' (userCacheKey E i) = Some v \<longrightarrow>
      (\<exists>u. user_by_id (rows tabs w') i = Some u \<and> u_IsActive u \<and> v = strip_hash u) \<or>
      (\<exists>c \<in> set tr. wr_user c = i \<and> wr_left c \<and> w_now w' < wr_time c + userCacheTTL)) \<and>
    (svc_GetByID (main_userSvc E) i w' = (Inr v, w'') \<longrightarrow>
      (\<exists>u. user_by_id (rows tabs w') i = Some u \<and> u_IsActive u \<and> strip_hash v = strip_hash u) \<or>
      (\<exists>c \<in> set tr. wr_user c = i \<and> wr_left c \<and> w_now w' < wr_time c + userCacheTTL)) \<and>
    (redis_up E \<longrightarrow> (\<forall>c \<in> set tr. wr_ok c \<longrightarrow> \<not> wr_left c))"
proof -
  note inv = backend.inv_start [OF assms(1-4)]
  have ok: "tables_ok (rows tabs w')"
    using backend.run_entries [OF assms(1,5) inv] by (simp add: backend.entries_inv_def [OF assms(1)])
  note stale = backend.run_staleness [OF assms(1,5) inv, of i, unfolded is_current_def]
  have c2: "cache_view E kv (User_decode E) w' (userCacheKey E i) = Some v \<longrightarrow>
      (\<exists>u. user_by_id (rows tabs w') i = Some u \<and> u_IsActive u \<and> v = strip_hash u) \<or>
      (\<exists>c \<in> set tr. wr_user c = i \<and> wr_left c \<and> w_now w' < wr_time c + userCacheTTL)"
    using stale by blast
  have c3: "svc_GetByID (main_userSvc E) i w' = (Inr v, w'') \<longrightarrow>
      (\<exists>u. user_by_id (rows tabs w') i = Some u \<and> u_IsActive u \<and> strip_hash v = strip_hash u) \<or>
      (\<exists>c \<in> set tr. wr_user c = i \<and> wr_left c \<and> w_now w' < wr_time c + userCacheTTL)"
    using backend.answer_source [OF assms(1) _ ok] stale strip_hash_idem by metis
  have c4: "redis_up E \<longrightarrow> (\<forall>c \<in> set tr. wr_ok c \<longrightarrow> \<not> wr_left c)"
    using backend.run_success_drops [OF assms(1,5) inv] by blast
  show ?thesis using ok c2 c3 c4 by blast
qed

text \<open>A read fills the cache, and an update of that user empties it.\<close>

theorem cache_staleness_bounded_witness:
  "let (r1, w1) = svc_GetByID (main_userSvc ref_up_env) 5 (ref_world 0 ref_tables [] []);
       (r2, w2) = svc_Update (main_userSvc ref_up_env) 5 \<lparr>p_Email = Some ''n@b.c'', p_Role = None, p_IsActive = None\<rparr> ''user'' w1
   in cache_view ref_up_env fst (User_decode ref_up_env) w1 ''cache:user:5'' \<noteq> None \<and> \<not> isl r2 \<and>
     tables_ok (rows fst w2) \<and> \<not> wr_left (wrote ref_up_env fst fst 5 (\<not> isl r2) w1 w2)"
proof -
  define w where "w = ref_world 0 ref_tables [] []"
  define req where "req = \<lparr>p_Email = Some ''n@b.c'', p_Role = None, p_IsActive = None\<rparr>"
  obtain r1 w1 where g: "svc_GetByID (main_userSvc ref_up_env) 5 w = (r1, w1)" by fastforce
  obtain r2 w2 where u: "svc_Update (main_userSvc ref_up_env) 5 req ''user'' w1 = (r2, w2)" by fastforce
  let ?c = "wrote ref_up_env fst fst 5 (\<not> isl r2) w1 w2"
  have ok: "\<not> isl (fst (svc_Update (main_userSvc ref_up_env) 5 req ''user'' (snd (svc_GetByID (main_userSvc ref_up_env) 5 w))))"
    unfolding w_def req_def by code_simp
  have hit: "cache_view ref_up_env fst (User_decode ref_up_env) (snd (svc_GetByID (main_userSvc ref_up_env) 5 w)) ''cache:user:5'' \<noteq> None"
    unfolding w_def by code_simp
  have start: "coherent ref_up_env fst fst w" "bounded_entries ref_up_env fst w" "tables_ok (rows fst w)"
    unfolding w_def using ref_empty_cache ref_tables_ok
    by (simp, simp add: bounded_entries_def user_entry_def live_def ref_world_def, simp)
  have "user_run ref_up_env fst fst w [] w1"
    using user_run.get [OF user_run.start g] ref_caches_well user_by_id_Some by (fastforce simp: w_def)
  from user_run.update [OF this u] have run: "user_run ref_up_env fst fst w [?c] w2" .
  from cache_staleness_bounded [OF reference_up.backend_axioms start run] ref_redis_up
  have "tables_ok (rows fst w2)" "wr_ok ?c \<Longrightarrow> \<not> wr_left ?c" by simp_all
  with ok hit g u show ?thesis unfolding w_def [symmetric] req_def [symmetric] Let_def by (simp add: wrote_def)
qed

end
