(* ===== verification/Listing.thy ===== *)
theory Listing
  imports Docs_Props Auth_Liveness Cache_Staleness
begin

text \<open>
  The list of users from the query of a request to the rows of the database: the bounds of a page, the 64-bit offset and
  where it overflows.
\<close>

lemma page_bounds:
  assumes "list_page q = (page, n)"
  shows "page = max 1 (parseIntQuery q ''page'' 1)" and "n = min 100 (max 1 (parseIntQuery q ''per_page'' 20))"
    and "1 \<le> page" and "1 \<le> n" and "n \<le> 100"
  using assms by (auto simp: list_page_def Let_def)

lemma offset_exact:
  assumes "1 \<le> page" and "page \<le> 92233720368547758" and "1 \<le> n" and "n \<le> 100"
  shows "wrap64 (wrap64 (page - 1) * n) = (page - 1) * n" and "0 \<le> (page - 1) * n"
proof -
  have "in_int64 (page - 1)" using assms by (simp add: in_int64_def)
  moreover have "(page - 1) * n \<le> 92233720368547757 * 100" using assms by (intro mult_mono) auto
  then have "in_int64 ((page - 1) * n)" using assms by (auto simp: in_int64_def intro: order_trans [of _ 0])
  ultimately show "wrap64 (wrap64 (page - 1) * n) = (page - 1) * n" by simp
  show "0 \<le> (page - 1) * n" using assms by simp
qed

context backend begin

lemma list_up:
  assumes "pg_up E" and "0 \<le> l" and "0 \<le> off"
  shows "\<exists>us cnt w'. svc_List (main_userSvc E) l off w = (Inr (us, cnt), w')"
proof -
  obtain q w1 where q: "pg_query E CountUsers w = (q, w1)" by fastforce
  have c: "q = SqlCount (int (length (users (tabs (w_db w)))))"
    using up_scan [OF assms(1) q] by simp
  obtain p w2 where p: "pg_query E (ListUsers l off) w1 = (p, w2)" by fastforce
  have "\<forall>m. p \<noteq> SqlFail m" using assms(1) p by (auto simp: pg_query_def pg_up_def split: prod.splits) (metis fst_conv)
  with query_cases [OF p] assms(2,3) obtain us where us: "p = SqlUsers us" by auto
  have "fst (repo_List (main_userRepo E) l off w) = Inr (us, int (length (users (tabs (w_db w)))))"
    by (simp add: main_repo_same userRepository_List_def q c p us)
  then show ?thesis
    by (cases "repo_List (main_userRepo E) l off w") (simp add: main_ops userService_List_def Let_def)
qed

text \<open>The rows of a page, as responses.\<close>

lemma list_rows:
  assumes "svc_List (main_userSvc E) l off w = (Inr (rs, cnt), w')"
  shows "cnt = int (length (users (rows tabs w)))" and "0 \<le> l \<and> 0 \<le> off"
    and "\<exists>ys. mset ys = mset (users (rows tabs w)) \<and> sorted_wrt (\<lambda>a b. u_CreatedAt b \<le> u_CreatedAt a) ys \<and>
      rs = map User_ToResponse (take (nat l) (drop (nat off) ys))"
  using users.list_effect(1-3) [of l off w rs cnt w'] assms by (simp_all add: main_ops rows_def)

text \<open>What the handler makes of the service's answer, and the page as the handler computes it.\<close>

lemma list_answer:
  assumes "ctx_string (c_role (q_ctx q)) = ''admin''" and "rw_sent r = None" and "encodes_all E" and "list_page q = (page, n)"
    and "UserHandler_ListUsers E (main_userSvc E) q r w = s"
    and "svc_List (main_userSvc E) n (wrap64 (wrap64 (page - 1) * n)) w = (res, w1)"
  shows "rows tabs (sv_world s) = rows tabs w"
    and "res = Inl e \<Longrightarrow> status_of (sv_rw s) = 500"
    and "res = Inr (us, cnt) \<Longrightarrow> status_of (sv_rw s) = 200 \<and>
      rw_body (sv_rw s) = rw_body r @ [BJson (ListUsersResponse_json E us cnt page n)]"
proof -
  note run = assms(5) [unfolded UserHandler_ListUsers_def, simplified assms(1,4) Let_def, simplified]
  have bad: "status_of (sv_rw s) = 500 \<and> rows tabs (sv_world s) = rows tabs w1" if "res = Inl e" for e
    using run assms(6) that sent_status(1) [OF assms(2)] user_svc_codes_eq(3) [of E n _ w e w1]
    by (auto simp: send_error_def reply_def end_defs end_span_def rows_def)
  have good: "status_of (sv_rw s) = 200 \<and> rows tabs (sv_world s) = rows tabs w1 \<and>
      rw_body (sv_rw s) = rw_body r @ [BJson (ListUsersResponse_json E us cnt page n)]" if "res = Inr (us, cnt)" for us cnt
  proof -
    obtain y where "jsonText E (ListUsersResponse_json E us cnt page n) = Some y" using assms(3) by (auto simp: encodes_all_def)
    with run assms(6) that sent_status(2) [OF assms(2)] assms(2) show ?thesis
      by (auto simp: send_json_def encodeJSON_def reply_def rw_defs status_of_def end_defs end_span_def rows_def)
  qed
  show "rows tabs (sv_world s) = rows tabs w" using bad good list_moves [OF assms(6)] by (cases res) auto
  show "res = Inl e \<Longrightarrow> status_of (sv_rw s) = 500" using bad by blast
  show "res = Inr (us, cnt) \<Longrightarrow> status_of (sv_rw s) = 200 \<and>
      rw_body (sv_rw s) = rw_body r @ [BJson (ListUsersResponse_json E us cnt page n)]" using good by blast
qed

end

text \<open>
  C37.  A list of users is the page that was asked for: for an administrator, the page is the query's, at least 1, and its
  size the query's, between 1 and 100, with defaults 1 and 20.  The answer is 200 or 500 and changes no row.  For pages
  up to 92233720368547758 an answer of 200 carries exactly the rows from \<open>(page - 1) * size\<close> on, newest first and without
  their hashes, with the page, the size and the number of all users; and while the database answers, it is a 200.  Beyond
  that the 64-bit offset can overflow: the largest page that parses, with 100 rows per page, gives the database an offset
  of -200, and the answer is always a 500.
\<close>

theorem list_page_bounds:
  assumes "backend E kv tabs" and "ctx_string (c_role (q_ctx q)) = ''admin''" and "rw_sent r = None" and "encodes_all E"
    and "page = max 1 (parseIntQuery q ''page'' 1)" and "n = min 100 (max 1 (parseIntQuery q ''per_page'' 20))"
    and "UserHandler_ListUsers E (main_userSvc E) q r w = s"
  shows "status_of (sv_rw s) \<in> {200, 500} \<and> rows tabs (sv_world s) = rows tabs w \<and>
    (page \<le> 92233720368547758 \<longrightarrow> status_of (sv_rw s) = 200 \<longrightarrow>
      (\<exists>ys. mset ys = mset (users (rows tabs w)) \<and> sorted_wrt (\<lambda>a b. u_CreatedAt b \<le> u_CreatedAt a) ys \<and>
        rw_body (sv_rw s) = rw_body r @ [BJson (ListUsersResponse_json E
          (map User_ToResponse (take (nat n) (drop (nat ((page - 1) * n)) ys))) (int (length (users (rows tabs w)))) page n)])) \<and>
    (page \<le> 92233720368547758 \<longrightarrow> pg_up E \<longrightarrow> status_of (sv_rw s) = 200) \<and>
    (page = 9223372036854775807 \<longrightarrow> n = 100 \<longrightarrow> status_of (sv_rw s) = 500)"
proof -
  let ?off = "wrap64 (wrap64 (page - 1) * n)"
  obtain pg k where lp: "list_page q = (pg, k)" by fastforce
  note pb = page_bounds [OF lp]
  have lp: "list_page q = (page, n)" and b: "1 \<le> page" "1 \<le> n" "n \<le> 100" using lp pb assms(5,6) by simp_all
  obtain res w1 where l: "svc_List (main_userSvc E) n ?off w = (res, w1)" by fastforce
  note ans = backend.list_answer [OF assms(1-4) lp assms(7) l]
  have cases: "(\<exists>e. res = Inl e) \<or> (\<exists>us cnt. res = Inr (us, cnt))" by (cases res) auto
  with ans have c1: "status_of (sv_rw s) \<in> {200, 500} \<and> rows tabs (sv_world s) = rows tabs w" by auto
  have page: "cnt = int (length (users (rows tabs w)))" "0 \<le> ?off"
      "\<exists>ys. mset ys = mset (users (rows tabs w)) \<and> sorted_wrt (\<lambda>a b. u_CreatedAt b \<le> u_CreatedAt a) ys \<and>
        us = map User_ToResponse (take (nat n) (drop (nat ?off) ys))" if "res = Inr (us, cnt)" for us cnt
    using backend.list_rows [OF assms(1) l [unfolded that]] by auto
  have c2: "page \<le> 92233720368547758 \<longrightarrow> status_of (sv_rw s) = 200 \<longrightarrow>
      (\<exists>ys. mset ys = mset (users (rows tabs w)) \<and> sorted_wrt (\<lambda>a b. u_CreatedAt b \<le> u_CreatedAt a) ys \<and>
        rw_body (sv_rw s) = rw_body r @ [BJson (ListUsersResponse_json E
          (map User_ToResponse (take (nat n) (drop (nat ((page - 1) * n)) ys))) (int (length (users (rows tabs w)))) page n)])"
    using cases ans page offset_exact(1) [OF b(1) _ b(2,3)] by (elim disjE exE) auto
  have c3: "page \<le> 92233720368547758 \<longrightarrow> pg_up E \<longrightarrow> status_of (sv_rw s) = 200"
    using backend.list_up [OF assms(1), of n ?off w] offset_exact [OF b(1) _ b(2,3)] b l ans(3) by fastforce
  have c4: "page = 9223372036854775807 \<longrightarrow> n = 100 \<longrightarrow> status_of (sv_rw s) = 500"
  proof (intro impI)
    assume "page = 9223372036854775807" "n = 100"
    then have "?off = - 200" by (simp add: wrap64_signed_take_bit)
    with page(2) cases ans(2) show "status_of (sv_rw s) = 500" by fastforce
  qed
  show ?thesis using c1 c2 c3 c4 by blast
qed

definition ref_admin_list :: request where
  "ref_admin_list = ref_request\<lparr>q_ctx := (q_ctx ref_request)\<lparr>c_role := Some ''admin''\<rparr>,
     q_query := [(''page'', ''2''), (''per_page'', ''1'')]\<rparr>"

theorem list_page_bounds_witness:
  "status_of (sv_rw (UserHandler_ListUsers ref_live_env (main_userSvc ref_live_env) ref_admin_list new_rw
     (ref_world 0 ref_tables [] []))) = 200"
proof -
  have side: "ctx_string (c_role (q_ctx ref_admin_list)) = ''admin''" "rw_sent new_rw = None" "encodes_all ref_live_env"
    "2 = max 1 (parseIntQuery ref_admin_list ''page'' 1)" "1 = min 100 (max 1 (parseIntQuery ref_admin_list ''per_page'' 20))"
    by (simp add: ref_admin_list_def ctx_string_def, simp add: new_rw_def, simp add: encodes_all_def ref_live_env_def ref_up_env_def, code_simp, code_simp)
  have "pg_up ref_live_env" by (rule ref_live(2))
  with list_page_bounds [OF reference_live.backend_axioms side refl] show ?thesis by simp
qed

end
