(* ===== verification/Spec2Isabelle.thy ===== *)
theory Spec2Isabelle
  imports Session_Props Rate_Limit Repo_Decorators Tenant_Repo User_Props User_Writes Reqctx Auth_Props Auth_Limits
    Auth_Liveness Access_Control Authority_Server Admin Config Server Seed_Props Metrics Startup Client_Props Configstore
    Cli Interleaving Races Overlap Logout_Routes Api_Docs Docs_Props Logging
    Lost_Updates Account_Flows Cli_Session Cli_Logout Cache_Staleness Listing
begin

text \<open>
  A verification library for kleido: a Go authentication server (users and tenants in PostgreSQL, a Redis cache of the
  users, sessions in Redis, JSON Web Tokens, an HTTP API behind a middleware chain, an admin panel) and its command
  line.  Paths below are those of the repository.

  \<^bold>\<open>How the program is put together.\<close>  \<open>cmd/api/main.go\<close> loads the configuration, opens telemetry, PostgreSQL and Redis,
  loads the keys, stacks the user repository (tracing over metrics over pgx), builds the services over repositories,
  session store and cache, seeds the first administrator and tenant, and serves the router of \<open>cmd/api/routes.go\<close>.  A
  request runs through the middleware (tracing, request identifier, panic counter, security headers, metrics, log, and
  per route rate limits, token check and role check), reaches a handler of \<open>internal/handler\<close>, which calls one service
  method of \<open>internal/service\<close>; the services call the repositories through interfaces.  The command line
  (\<open>internal/cli\<close>) calls the API through the typed client (\<open>internal/client\<close>) with a session it keeps in a file
  (\<open>pkg/configstore\<close>).

  \<^bold>\<open>Conventions.\<close>  A Go function that can fail returns \<open>goerr + 'a\<close>, or \<open>goerr option\<close> when it returns an error only; state
  is passed explicitly.  A Go interface is a record of functions over the type \<open>'w\<close> of worlds, so a service is modelled
  against the interface and instantiated with the implementation, as the code does.  \<open>int\<close> and \<open>int64\<close> arithmetic is
  wrapped where it can overflow (\<open>wrap64\<close>), times and durations are nanoseconds, strings are byte lists, a JSON document
  is its value.  No definition uses fuel: every loop of the code goes over a list, and a run of concurrent calls is a
  sequence of steps of a relation whose length is bounded (\<open>concurrent_calls_finish\<close>).
\<close>

section \<open>Theories and sources\<close>

text \<open>
  \<^item> \<open>Go_Base\<close>, \<open>Go_Strings\<close>, \<open>Http\<close>: what the code uses of Go: 64-bit arithmetic, formatting, \<open>strings\<close>, JSON values and
    struct decoding, requests and response writers (headers are frozen when the status is sent).  \<open>Go_Base\<close> is also
    the prelude: it declares the collections \<open>unfolds\<close> and \<open>frames\<close> that all theories fill.
  \<^item> \<open>Apperror\<close> (\<open>pkg/apperror\<close>), \<open>Domain\<close> (\<open>internal/model\<close>): errors with their wrapping chain and HTTP form, users and tenants.
  \<^item> \<open>Redis_Api\<close>, \<open>Postgres_Api\<close>: the commands and statements the code sends, as data, with their documented meaning.
  \<^item> \<open>Runtime\<close>: the environment \<open>env\<close> (servers, digests, bcrypt, identifiers, random source, token library: parameters of
    every definition) and the world (state of the servers, clock, log, metrics, spans).
  \<^item> \<open>Session_Repo\<close> (\<open>repository/redis/session.go\<close>), \<open>Session_Contract\<close>, \<open>Session_Props\<close>, \<open>Rate_Limit\<close>: the session store, its
    abstract state \<open>sess\<close> and the laws of each operation on it, rotation, lockout and single use over time, and the
    sorted-set limiter against a limiter that keeps every request time.
  \<^item> \<open>Interleaving\<close>, \<open>Races\<close>, \<open>Overlap\<close>: the same operations as clients that send one command after the other, the step relation
    \<open>client_step\<close> that lets any client be served next, and what holds of every interleaving: the locale \<open>shared_key\<close> carries
    an invariant of one key through all of them, and is interpreted for the window of the limiter, the counter of
    failures, a reset token and a blocklist entry.
  \<^item> \<open>Cache_Repo\<close> (\<open>repository/redis/cache.go\<close>), \<open>User_Repo\<close> (\<open>repository/postgres/user.go\<close>), \<open>Tenant_Repo\<close> (\<open>tenant.go\<close> and the
    tenant service), \<open>Repo_Decorators\<close> (\<open>instrumented_user.go\<close>, \<open>traced_user.go\<close>).
  \<^item> \<open>Reference_Env\<close>: one concrete environment with a script of faults; the witnesses compute in it.
  \<^item> \<open>Jwt\<close> (\<open>internal/auth\<close>): issuing and verifying tokens, loading keys.
  \<^item> \<open>User_Service\<close> (\<open>service/user.go\<close>), \<open>User_Service_Props\<close>, \<open>User_Props\<close>, \<open>User_Writes\<close>: the service with its read-through
    cache, where its answers come from, effect of every write on the tables, and the race of a read with an update as the
    step relation \<open>race_step\<close>; \<open>Cache_Staleness\<close>: the entries of the cache as an invariant of \<open>user_run\<close>, the runs of the
    service in which everything may fail; \<open>Lost_Updates\<close>: updates in two steps that overlap (\<open>updates_step\<close>).
  \<^item> \<open>Reqctx\<close> (\<open>internal/reqctx\<close>, redaction of \<open>internal/logger\<close>), \<open>Logging\<close> (the handlers of \<open>internal/logger\<close> and
    \<open>telemetry/otel.go\<close>, the logger in the context), \<open>Auth_Service\<close> (\<open>service/auth.go\<close>, \<open>audit.go\<close>, \<open>email.go\<close>), \<open>Auth_Contract\<close>,
    \<open>Auth_Props\<close>, \<open>Auth_Limits\<close>, \<open>Auth_Liveness\<close>: registration, login, refresh, logout and password reset; what each
    does to the abstract sessions and the tables; what is not promised; and that the flows do return.
    \<open>Account_Flows\<close> follows an account through several of them.
  \<^item> \<open>Middleware\<close> (\<open>internal/middleware\<close>), \<open>Handlers\<close> (\<open>internal/handler\<close>), \<open>Admin\<close> (\<open>handler/admin.go\<close> and the generated templates
    of \<open>web/components\<close>), \<open>Router\<close> (\<open>cmd/api/routes.go\<close>, \<open>ui.go\<close>, \<open>swagger.go\<close>), \<open>Config\<close> (\<open>internal/config\<close>), \<open>Seed\<close> (\<open>cmd/api/seed.go\<close>), \<open>Server\<close> (the
    composition in \<open>cmd/api/main.go\<close>).
  \<^item> \<open>Response_Headers\<close>, \<open>Access_Control\<close>, \<open>Logout_Routes\<close>, \<open>Seed_Props\<close>, \<open>Metrics\<close> (\<open>internal/metrics\<close>): properties of the assembled
    server.
  \<^item> \<open>Api_Docs\<close> (\<open>docs/docs.go\<close>), \<open>Docs_Props\<close>: the API document as data and the server against it: its routes and their
    protection, its schemas and the answers of every documented route; \<open>Listing\<close>: the pages of the user list down to the
    rows.
  \<^item> \<open>Authority\<close>, \<open>Authority_Server\<close>: the changes of the tables that the authority of a request covers, from the repository
    calls up to the whole server, and over sequences of requests (the step relation \<open>server_step\<close>).
  \<^item> \<open>Startup\<close>: \<open>run\<close> and \<open>main\<close> with \<open>telemetry/otel.go\<close>, \<open>repository/postgres/db.go\<close> and \<open>repository/redis/client.go\<close>, as a trace
    of what is opened, deferred, closed and served, and the world it leaves (the migrations change the database).
  \<^item> \<open>Client\<close>, \<open>Client_Props\<close> (\<open>internal/client\<close>): the typed client, alone and against the handlers as its network.
  \<^item> \<open>Configstore\<close> (\<open>pkg/configstore\<close>), \<open>Cli\<close> (\<open>internal/cli\<close>, \<open>cmd/cli\<close>): the stored session, the commands over it,
    and the tree of commands as it is handed to cobra; \<open>Cli_Session\<close>, \<open>Cli_Logout\<close>: login and logout of the command line over
    the client and the routes of the server, down to its token check.
\<close>

section \<open>What is shown\<close>

text \<open>
  \<^item> Sessions: rotation replaces the old token and at no point of failure leaves two; revoked and reset tokens stay
    rejected; failures count up to the lockout; the limiter decides as its specification does.
  \<^item> Concurrent calls (each operation is its client run alone): whatever interleaves, the limiter keeps its bound, no failed
    login is lost, a spent reset token stays spent, a logout closes every guarded route, and every call is answered
    within four commands.
  \<^item> Users: after any run of operations with any failures a cached user is the current row, or a write to it that changed the
    tables left its entry less than five minutes ago, which none that reports success does while Redis answers; updates respect the caller's role, also when they overlap; a deleted user is not found; the decorators change nothing but metrics and spans.
  \<^item> Authentication: a login proves the password, a refresh is a rotation, a logout ends the session, a reset spends its
    token, unknown addresses and wrong passwords look alike; with servers that answer, login and refresh return,
    who registers can log in, and a forgotten password can be replaced with the link that is sent.
  \<^item> HTTP: protected routes need a valid token, admin routes the role, profiles the owner or an administrator; every
    response carries the security headers; no request changes more of the tables than its tokens entitle it to, so
    only administrators make administrators; the refresh token leaves in the cookie only; panics stay in the chain;
    every metric sample has its collector; the answers and the protection of the routes fit the API document; a page of
    users is the one asked for; no log line carries the value of a sensitive key (the stub mailer's line carries a reset link under another).
  \<^item> Process: a run closes what it opened, whatever fails, and before seeding changes the database by its migrations only;
    seeding is idempotent.
  \<^item> Command line: the client returns what the handlers computed, a patch arrives as it was sent, a saved session is
    loaded again, what a login stores passes the server's token check until it expires, a logout forgets it, and
    without a warning it has closed the server's routes to it, no user command runs without one.

  Several theorems state limits of the code: the lockout check fails open, overlapping refreshes with one token both succeed, two overlapping
  resets can spend one token, overlapping logins pass the lockout, a read that overlaps a
  demotion leaves the old role in the cache, an update that overlaps a demotion undoes it, a deactivated user can log in,
  a password of more than 72 bytes ends in an internal error (a reset has then spent its token), a listener that fails ends with exit code 0.
\<close>

section \<open>What is assumed\<close>

text \<open>
  The locales state what the code relies on, and each is interpreted.  \<open>redis_server\<close> and \<open>postgres\<close> (together \<open>backend\<close>): a call that
  succeeds acts as documented, a call that fails may have taken effect in part.  \<open>jwt_library\<close>: signing and parsing are
  inverse, and a signature is accepted for its key only.  \<open>file_system\<close>: a successful write replaces the file.  These four are
  instantiated by the reference implementations of \<open>Reference_Env\<close>, \<open>Jwt\<close> and \<open>Configstore\<close>.  The contracts between the
  code's own parts are \<open>session_contract\<close>, \<open>cache_contract\<close>, \<open>user_repo_contract\<close>, \<open>tenant_contract\<close>, \<open>user_backend\<close>,
  \<open>user_accounts\<close> and \<open>authentication\<close>, and \<open>shared_key\<close> is the rule for invariants under interleaving; the sublocale declarations prove them for the model of the code over any \<open>backend\<close>.
  Properties name further assumptions in their statements (\<open>chi_neutral\<close> and \<open>chi_polite\<close> for the router library, \<open>always_answers\<close> for a Redis
  whose pipelines succeed, \<open>encodes_all\<close> for JSON encoding that does not fail,
  \<open>redis_up\<close> and \<open>pg_up\<close> for calls that do not fail, \<open>bcrypt_documented\<close> for bcrypt's contract and its limit of 72 bytes, an injective digest, text forms that can be read back).
\<close>

section \<open>What is not modelled\<close>

text \<open>
  \<^item> Time inside one request: the clock stands still while a request runs.  Requests interleave where a theorem says so
    (\<open>client_step\<close>, \<open>race_step\<close>, \<open>updates_step\<close>, the overlapping refreshes): there the commands of the session store interleave on one key
    space whose clock advances, and a key's entry outlives the run considered (hypotheses on the times).  Other
    PostgreSQL statements of overlapping requests, contexts with deadlines and cancellation are left out.
  \<^item> Third-party code: chi's matching, the CORS, Swagger and Prometheus handlers, the otelhttp wrapper, viper's lookup and
    casts, cobra's \<open>Execute\<close> (parsing, dispatch, help and error texts) and its completion scripts, table, JSON and YAML
    layout, PEM parsing, drivers, migrations and the OpenTelemetry SDK are parameters.
  \<^item> Logging: the model's attributes are strings, and formatting a record as text or JSON is package slog's; records of
    the services are values in the world, and what \<open>run\<close> logs at the start and at the shutdown is left out.
  \<^item> Durations of metrics: an observation is counted, its value is not modelled.
  \<^item> \<open>web/embed.go\<close> and \<open>tools.go\<close> have no behaviour: an embedded directory, a parameter of the router, and blank imports.
\<close>

end
